(* ===== verification/HC_Prelude.thy ===== *)
theory HC_Prelude
  imports Main "HOL-Library.Word"
begin

text \<open>
  Shared vocabulary of the development. Rust's fixed-width integers are words, Rust's
  \<open>Result<T, E>\<close> is the sum type \<open>'e + 'a\<close> read through the abbreviations \<open>Ok\<close> and
  \<open>Err\<close>, a \<open>String\<close> is a list of characters, and a \<open>HashMap\<close> is a finite map. A function of
  the source that may panic returns an option, where \<open>None\<close> is the panic. The theory also
  holds the lemmas on results, maps and lists that several components share.
\<close>

unbundle bit_operations_syntax

section \<open>Machine integers and results\<close>

type_synonym u8 = "8 word"
type_synonym u16 = "16 word"
type_synonym u32 = "32 word"
type_synonym u64 = "64 word"
type_synonym i64 = "64 word"

abbreviation Ok :: "'a \<Rightarrow> 'e + 'a" where
  "Ok \<equiv> Inr"

abbreviation Err :: "'e \<Rightarrow> 'e + 'a" where
  "Err \<equiv> Inl"

definition is_ok :: "'e + 'a \<Rightarrow> bool" where
  "is_ok r = (case r of Ok _ \<Rightarrow> True | Err _ \<Rightarrow> False)"

definition and_then :: "'e + 'a \<Rightarrow> ('a \<Rightarrow> 'e + 'b) \<Rightarrow> 'e + 'b" where
  "and_then r f = (case r of Ok a \<Rightarrow> f a | Err e \<Rightarrow> Err e)"

definition map_ok :: "('a \<Rightarrow> 'b) \<Rightarrow> 'e + 'a \<Rightarrow> 'e + 'b" where
  "map_ok f r = (case r of Ok a \<Rightarrow> Ok (f a) | Err e \<Rightarrow> Err e)"

definition map_err :: "('e \<Rightarrow> 'f) \<Rightarrow> 'e + 'a \<Rightarrow> 'f + 'a" where
  "map_err f r = (case r of Ok a \<Rightarrow> Ok a | Err e \<Rightarrow> Err (f e))"

definition ok_or :: "'e \<Rightarrow> 'a option \<Rightarrow> 'e + 'a" where
  "ok_or e x = (case x of Some a \<Rightarrow> Ok a | None \<Rightarrow> Err e)"

definition to_ok :: "'e + 'a \<Rightarrow> 'a option" where
  "to_ok r = (case r of Ok a \<Rightarrow> Some a | Err _ \<Rightarrow> None)"

lemma is_ok_simps [simp]: "is_ok (Ok a)" "\<not> is_ok (Err e)"
  by (simp_all add: is_ok_def)

lemma and_then_simps [simp]: "and_then (Ok a) f = f a" "and_then (Err e) f = Err e"
  by (simp_all add: and_then_def)

lemma map_ok_simps [simp]: "map_ok f (Ok a) = Ok (f a)" "map_ok f (Err e) = Err e"
  by (simp_all add: map_ok_def)

lemma map_err_simps [simp]: "map_err f (Ok a) = Ok a" "map_err f (Err e) = Err (f e)"
  by (simp_all add: map_err_def)

lemma ok_or_simps [simp]: "ok_or e (Some a) = Ok a" "ok_or e None = Err e"
  by (simp_all add: ok_or_def)

lemma to_ok_simps [simp]: "to_ok (Ok a) = Some a" "to_ok (Err e) = None"
  by (simp_all add: to_ok_def)

lemma and_then_eq_Ok: "and_then r f = Ok b \<longleftrightarrow> (\<exists>a. r = Ok a \<and> f a = Ok b)"
  by (cases r) auto

lemma and_then_assoc: "and_then (and_then r f) g = and_then r (\<lambda>a. and_then (f a) g)"
  by (cases r) auto

lemma ok_or_eq_Ok [simp]: "ok_or e x = Ok a \<longleftrightarrow> x = Some a"
  by (cases x) auto

text \<open>Collecting a sequence of results stops at the first error, as
  \<open>collect::<Result<Vec<_>, _>>()\<close> does.\<close>

fun collect_results :: "('e + 'a) list \<Rightarrow> 'e + 'a list" where
  "collect_results [] = Ok []"
| "collect_results (Inr a # rs) = map_ok (Cons a) (collect_results rs)"
| "collect_results (Inl e # rs) = Err e"

lemma collect_results_Ok [simp]: "collect_results (map Inr xs) = Ok xs"
  by (induction xs) auto

lemma collect_results_length: "collect_results rs = Ok xs \<Longrightarrow> rs = map Inr xs"
  by (induction rs arbitrary: xs rule: collect_results.induct)
    (auto simp: map_ok_def split: sum.splits)

text \<open>A loop whose body may leave with \<open>?\<close> at the first error.\<close>

fun try_each :: "('a \<Rightarrow> 'e + unit) \<Rightarrow> 'a list \<Rightarrow> 'e + unit" where
  "try_each f [] = Ok ()"
| "try_each f (x # xs) = and_then (f x) (\<lambda>_. try_each f xs)"

lemma try_each_Ok [simp]: "try_each f xs = Ok () \<longleftrightarrow> (\<forall>x\<in>set xs. f x = Ok ())"
  by (induction xs) (auto simp: and_then_eq_Ok)

lemma map_ok_eq_Ok [simp]: "map_ok f r = Ok b \<longleftrightarrow> (\<exists>a. r = Ok a \<and> f a = b)"
  by (cases r) auto

lemma map_err_eq_Ok [simp]: "map_err f r = Ok b \<longleftrightarrow> r = Ok b"
  by (cases r) auto

text \<open>
  An operation on a state: \<open>None\<close> when it panics, otherwise its result and the state it leaves,
  also when the result is an error. \<open>op_then\<close> is the sequence with \<open>?\<close> after the first part.
\<close>

type_synonym ('s, 'e, 'a) op = "'s \<Rightarrow> (('e + 'a) \<times> 's) option"

definition op_then :: "('s, 'e, 'a) op \<Rightarrow> ('a \<Rightarrow> ('s, 'e, 'b) op) \<Rightarrow> ('s, 'e, 'b) op" where
  "op_then m f st =
     (case m st of
        None \<Rightarrow> None
      | Some (Err e, st) \<Rightarrow> Some (Err e, st)
      | Some (Ok a, st) \<Rightarrow> f a st)"

definition op_result :: "'e + 'a \<Rightarrow> ('s, 'e, 'a) op" where
  "op_result r st = Some (r, st)"

definition op_pure :: "('e + 'a) option \<Rightarrow> ('s, 'e, 'a) op" where
  "op_pure r st = map_option (\<lambda>r. (r, st)) r"

lemmas op_defs = op_then_def op_result_def op_pure_def

lemma op_then_eq_Some:
  "op_then m f st = Some (r, st') \<longleftrightarrow>
     (\<exists>a st1. m st = Some (Ok a, st1) \<and> f a st1 = Some (r, st')) \<or> (\<exists>e. m st = Some (Err e, st') \<and> r = Err e)"
  by (auto simp: op_then_def split: option.splits sum.splits)

section \<open>Options and lists\<close>

fun flatten_options :: "'a option list \<Rightarrow> 'a list" where
  "flatten_options [] = []"
| "flatten_options (Some a # xs) = a # flatten_options xs"
| "flatten_options (None # xs) = flatten_options xs"

lemma set_flatten_options [simp]: "a \<in> set (flatten_options xs) \<longleftrightarrow> Some a \<in> set xs"
  by (induction xs rule: flatten_options.induct) auto

definition last_opt :: "'a list \<Rightarrow> 'a option" where
  "last_opt xs = (if xs = [] then None else Some (last xs))"

lemma last_opt_simps [simp]:
  "last_opt [] = None" "last_opt (xs @ [x]) = Some x"
  by (simp_all add: last_opt_def)

lemma last_opt_SomeD: "last_opt xs = Some x \<Longrightarrow> x \<in> set xs"
  by (auto simp: last_opt_def split: if_splits)

fun comma_separated :: "string list \<Rightarrow> string" where
  "comma_separated [] = []"
| "comma_separated [t] = t"
| "comma_separated (t # ts) = t @ '', '' @ comma_separated ts"

text \<open>Decimal numbers, as \<open>{}\<close> prints them.\<close>

definition digit :: "nat \<Rightarrow> char" where
  "digit d = char_of (48 + d)"

fun show_nat :: "nat \<Rightarrow> string" where
  "show_nat n = (if n < 10 then [digit n] else show_nat (n div 10) @ [digit (n mod 10)])"

declare show_nat.simps [simp del]

lemma find_filter: "find P xs = (case filter P xs of [] \<Rightarrow> None | x # _ \<Rightarrow> Some x)"
  by (induction xs) auto

text \<open>The last element with a property \<open>Q\<close>: appending one more either is the last or changes nothing.\<close>

lemma last_such_snoc:
  assumes "Q z"
  shows "(\<exists>pre post. xs @ [y] = pre @ z # post \<and> \<not> list_ex Q post) \<longleftrightarrow>
    (if Q y then y = z else (\<exists>pre post. xs = pre @ z # post \<and> \<not> list_ex Q post))" (is "?L \<longleftrightarrow> ?R")
proof
  assume ?L
  then obtain pre post where "xs @ [y] = pre @ z # post" "\<not> list_ex Q post" by blast
  with assms show ?R by (cases post rule: rev_cases) auto
next
  assume R: ?R
  show ?L
  proof (cases "Q y")
    case True
    with R show ?thesis by (intro exI [of _ xs] exI [of _ "[]"]) simp
  next
    case False
    with R obtain pre post where "xs = pre @ z # post" "\<not> list_ex Q post" by auto
    with False show ?thesis by (intro exI [of _ pre] exI [of _ "post @ [y]"]) simp
  qed
qed

end
