(* ===== verification/Core_Errors.thy ===== *)
theory Core_Errors
  imports HC_Prelude
begin

text \<open>
  The error types every component returns and the ribosome's integer encoding of results:
  \<open>core_types/src/bits_n_pieces.rs\<close>, \<open>core_types/src/error/ribosome_error.rs\<close>,
  \<open>core_types/src/error/dna_error.rs\<close> and \<open>core_types/src/error/mod.rs\<close>. A value that
  crosses the WASM boundary is one 64-bit integer: 0 is success, low bits zero is an error code
  in the high bits, anything else is an allocation (offset high, length low).
\<close>

section \<open>Splitting and merging integers\<close>

definition U16_MAX :: u32 where
  "U16_MAX = 65535"

definition U32_MAX :: u64 where
  "U32_MAX = 4294967295"

definition u32_high_bits :: "u32 \<Rightarrow> u16" where
  "u32_high_bits i = ucast (drop_bit 16 i)"

definition u32_low_bits :: "u32 \<Rightarrow> u16" where
  "u32_low_bits i = ucast i"

definition u32_split_bits :: "u32 \<Rightarrow> u16 \<times> u16" where
  "u32_split_bits i = (u32_high_bits i, u32_low_bits i)"

definition u32_merge_bits :: "u16 \<Rightarrow> u16 \<Rightarrow> u32" where
  "u32_merge_bits high low = push_bit 16 (ucast high) OR ucast low"

definition u64_high_bits :: "u64 \<Rightarrow> u32" where
  "u64_high_bits i = ucast (drop_bit 32 i)"

definition u64_low_bits :: "u64 \<Rightarrow> u32" where
  "u64_low_bits i = ucast i"

definition u64_split_bits :: "u64 \<Rightarrow> u32 \<times> u32" where
  "u64_split_bits i = (u64_high_bits i, u64_low_bits i)"

definition u64_merge_bits :: "u32 \<Rightarrow> u32 \<Rightarrow> u64" where
  "u64_merge_bits high low = push_bit 32 (ucast high) OR ucast low"

lemmas bits_defs =
  u32_high_bits_def u32_low_bits_def u32_split_bits_def u32_merge_bits_def
  u64_high_bits_def u64_low_bits_def u64_split_bits_def u64_merge_bits_def

lemma u32_high_merge [simp]: "u32_high_bits (u32_merge_bits h l) = h"
  by (rule bit_word_eqI) (auto simp: bits_defs bit_simps dest: bit_imp_le_length)

lemma u32_low_merge [simp]: "u32_low_bits (u32_merge_bits h l) = l"
  by (rule bit_word_eqI) (auto simp: bits_defs bit_simps)

lemma u64_high_merge [simp]: "u64_high_bits (u64_merge_bits h l) = h"
  by (rule bit_word_eqI) (auto simp: bits_defs bit_simps dest: bit_imp_le_length)

lemma u64_low_merge [simp]: "u64_low_bits (u64_merge_bits h l) = l"
  by (rule bit_word_eqI) (auto simp: bits_defs bit_simps)

lemma u32_merge_split: "u32_merge_bits (u32_high_bits i) (u32_low_bits i) = i"
  by (rule bit_word_eqI) (auto simp: bits_defs bit_simps)

lemma u64_merge_split: "u64_merge_bits (u64_high_bits i) (u64_low_bits i) = i"
  by (rule bit_word_eqI) (auto simp: bits_defs bit_simps)

lemma u64_split_merge [simp]: "u64_split_bits (u64_merge_bits h l) = (h, l)"
  by (simp add: u64_split_bits_def)

lemma u64_merge_inject [simp]:
  "u64_merge_bits h l = u64_merge_bits h' l' \<longleftrightarrow> h = h' \<and> l = l'"
  by (metis u64_high_merge u64_low_merge)

lemma u64_merge_zero [simp]: "u64_merge_bits 0 0 = 0"
  by (simp add: u64_merge_bits_def)

lemma u64_high_low_zero: "u64_high_bits i = 0 \<Longrightarrow> u64_low_bits i = 0 \<Longrightarrow> i = 0"
  using u64_merge_split [of i] by simp

section \<open>Error types\<close>

datatype RibosomeErrorCode =
    Unspecified
  | ArgumentDeserializationFailed
  | OutOfMemory
  | ReceivedWrongActionResult
  | CallbackFailed
  | RecursiveCallForbidden
  | ResponseSerializationFailed
  | NotAnAllocation
  | ZeroSizedAllocation
  | UnknownEntryType
  | MismatchWasmCallDataType
  | EntryNotFound
  | WorkflowFailed

datatype DnaError =
    ZomeNotFound string
  | TraitNotFound string
  | ZomeFunctionNotFound string

type_synonym HashString = string

datatype HolochainError =
    ErrorGeneric string
  | NotImplemented string
  | LoggingError
  | DnaMissing
  | DnaErr DnaError
  | IoError string
  | SerializationError string
  | InvalidOperationOnSysEntry
  | CapabilityCheckFailed
  | ValidationFailed string
  | ValidationPending
  | Ribosome RibosomeErrorCode
  | RibosomeFailed string
  | ConfigError string
  | TimeoutErr
  | InitializationFailedErr string
  | DnaHashMismatch HashString HashString

type_synonym 'a HcResult = "HolochainError + 'a"

text \<open>The discriminants of \<open>RibosomeErrorCode\<close> are \<open>n << 32\<close>; \<open>code_int\<close> is that \<open>n\<close>.\<close>

fun error_code_int :: "RibosomeErrorCode \<Rightarrow> u32" where
  "error_code_int Unspecified = 1"
| "error_code_int ArgumentDeserializationFailed = 2"
| "error_code_int OutOfMemory = 3"
| "error_code_int ReceivedWrongActionResult = 4"
| "error_code_int CallbackFailed = 5"
| "error_code_int RecursiveCallForbidden = 6"
| "error_code_int ResponseSerializationFailed = 7"
| "error_code_int NotAnAllocation = 8"
| "error_code_int ZeroSizedAllocation = 9"
| "error_code_int UnknownEntryType = 10"
| "error_code_int MismatchWasmCallDataType = 11"
| "error_code_int EntryNotFound = 12"
| "error_code_int WorkflowFailed = 13"

definition error_code_discriminant :: "RibosomeErrorCode \<Rightarrow> u64" where
  "error_code_discriminant c = push_bit 32 (ucast (error_code_int c))"

fun error_code_as_str :: "RibosomeErrorCode \<Rightarrow> string" where
  "error_code_as_str Unspecified = ''Unspecified''"
| "error_code_as_str ArgumentDeserializationFailed = ''Argument deserialization failed''"
| "error_code_as_str OutOfMemory = ''Out of memory''"
| "error_code_as_str ReceivedWrongActionResult = ''Received wrong action result''"
| "error_code_as_str CallbackFailed = ''Callback failed''"
| "error_code_as_str RecursiveCallForbidden = ''Recursive call forbidden''"
| "error_code_as_str ResponseSerializationFailed = ''Response serialization failed''"
| "error_code_as_str NotAnAllocation = ''Not an allocation''"
| "error_code_as_str ZeroSizedAllocation = ''Zero-sized allocation''"
| "error_code_as_str UnknownEntryType = ''Unknown entry type''"
| "error_code_as_str MismatchWasmCallDataType = ''Mismatched WasmCallData type''"
| "error_code_as_str EntryNotFound = ''Entry Could Not Be Found''"
| "error_code_as_str WorkflowFailed = ''Workflow failed''"

definition error_code_from_str :: "string \<Rightarrow> RibosomeErrorCode HcResult" where
  "error_code_from_str s =
     (if s = ''Unspecified'' then Ok Unspecified
      else if s = ''Argument deserialization failed'' then Ok ArgumentDeserializationFailed
      else if s = ''Out of memory'' then Ok OutOfMemory
      else if s = ''Received wrong action result'' then Ok ReceivedWrongActionResult
      else if s = ''Callback failed'' then Ok CallbackFailed
      else if s = ''Recursive call forbidden'' then Ok RecursiveCallForbidden
      else if s = ''Response serialization failed'' then Ok ResponseSerializationFailed
      else if s = ''Not an allocation'' then Ok NotAnAllocation
      else if s = ''Zero-sized allocation'' then Ok ZeroSizedAllocation
      else if s = ''Unknown entry type'' then Ok UnknownEntryType
      else if s = ''Entry Could Not Be Found'' then Ok EntryNotFound
      else if s = ''Workflow failed'' then Ok WorkflowFailed
      else Err (ErrorGeneric ''Unknown RibosomeErrorCode''))"

text \<open>\<open>from_code_int\<close> panics on 0 (\<open>None\<close>); every unlisted code is \<open>Unspecified\<close>.\<close>

definition from_code_int :: "u32 \<Rightarrow> RibosomeErrorCode option" where
  "from_code_int code =
     (if code = 0 then None
      else if code = 2 then Some ArgumentDeserializationFailed
      else if code = 3 then Some OutOfMemory
      else if code = 4 then Some ReceivedWrongActionResult
      else if code = 5 then Some CallbackFailed
      else if code = 6 then Some RecursiveCallForbidden
      else if code = 7 then Some ResponseSerializationFailed
      else if code = 8 then Some NotAnAllocation
      else if code = 9 then Some ZeroSizedAllocation
      else if code = 10 then Some UnknownEntryType
      else if code = 12 then Some EntryNotFound
      else if code = 13 then Some WorkflowFailed
      else Some Unspecified)"

fun ribosome_error_of :: "HolochainError \<Rightarrow> RibosomeErrorCode" where
  "ribosome_error_of (ErrorGeneric _) = Unspecified"
| "ribosome_error_of (NotImplemented _) = CallbackFailed"
| "ribosome_error_of LoggingError = Unspecified"
| "ribosome_error_of DnaMissing = Unspecified"
| "ribosome_error_of (DnaErr _) = Unspecified"
| "ribosome_error_of (IoError _) = Unspecified"
| "ribosome_error_of (SerializationError _) = ArgumentDeserializationFailed"
| "ribosome_error_of InvalidOperationOnSysEntry = UnknownEntryType"
| "ribosome_error_of CapabilityCheckFailed = Unspecified"
| "ribosome_error_of (ValidationFailed _) = CallbackFailed"
| "ribosome_error_of ValidationPending = Unspecified"
| "ribosome_error_of (Ribosome e) = e"
| "ribosome_error_of (RibosomeFailed _) = CallbackFailed"
| "ribosome_error_of (ConfigError _) = Unspecified"
| "ribosome_error_of TimeoutErr = Unspecified"
| "ribosome_error_of (InitializationFailedErr _) = Unspecified"
| "ribosome_error_of (DnaHashMismatch _ _) = Unspecified"

fun dna_error_display :: "DnaError \<Rightarrow> string" where
  "dna_error_display (ZomeNotFound m) = m"
| "dna_error_display (TraitNotFound m) = m"
| "dna_error_display (ZomeFunctionNotFound m) = m"

fun error_display :: "HolochainError \<Rightarrow> string" where
  "error_display (ErrorGeneric m) = m"
| "error_display (NotImplemented d) = ''not implemented: '' @ d"
| "error_display LoggingError = ''logging failed''"
| "error_display DnaMissing = ''DNA is missing''"
| "error_display (DnaErr d) = dna_error_display d"
| "error_display (IoError m) = m"
| "error_display (SerializationError m) = m"
| "error_display InvalidOperationOnSysEntry =
     ''operation cannot be done on a system entry type''"
| "error_display CapabilityCheckFailed =
     ''Caller does not have Capability to make that call''"
| "error_display (ValidationFailed m) = m"
| "error_display ValidationPending = ''Entry validation could not be completed''"
| "error_display (Ribosome c) = error_code_as_str c"
| "error_display (RibosomeFailed m) = m"
| "error_display (ConfigError m) = m"
| "error_display TimeoutErr = ''timeout''"
| "error_display (InitializationFailedErr m) = m"
| "error_display (DnaHashMismatch h1 h2) =
     ''Provided DNA hash does not match actual DNA hash! '' @ h1 @ '' != '' @ h2"

text \<open>What \<open>{:?}\<close> prints for these types; the escapes of a quoted string are those of the
  printable characters, the line controls and NUL.\<close>

fun char_debug :: "char \<Rightarrow> string" where
  "char_debug c =
     (if c = CHR 0x22 then [CHR 0x5C, CHR 0x22]
      else if c = CHR 0x5C then [CHR 0x5C, CHR 0x5C]
      else if c = CHR 0x0A then [CHR 0x5C, CHR ''n'']
      else if c = CHR 0x0D then [CHR 0x5C, CHR ''r'']
      else if c = CHR 0x09 then [CHR 0x5C, CHR ''t'']
      else if c = CHR 0x00 then [CHR 0x5C, CHR ''0'']
      else [c])"

definition str_debug :: "string \<Rightarrow> string" where
  "str_debug s = [CHR 0x22] @ concat (map char_debug s) @ [CHR 0x22]"

definition variant_debug :: "string \<Rightarrow> string \<Rightarrow> string" where
  "variant_debug v arg = v @ ''('' @ arg @ '')''"

fun dna_error_debug :: "DnaError \<Rightarrow> string" where
  "dna_error_debug (ZomeNotFound m) = variant_debug ''ZomeNotFound'' (str_debug m)"
| "dna_error_debug (TraitNotFound m) = variant_debug ''TraitNotFound'' (str_debug m)"
| "dna_error_debug (ZomeFunctionNotFound m) = variant_debug ''ZomeFunctionNotFound'' (str_debug m)"

fun error_code_variant :: "RibosomeErrorCode \<Rightarrow> string" where
  "error_code_variant Unspecified = ''Unspecified''"
| "error_code_variant ArgumentDeserializationFailed = ''ArgumentDeserializationFailed''"
| "error_code_variant OutOfMemory = ''OutOfMemory''"
| "error_code_variant ReceivedWrongActionResult = ''ReceivedWrongActionResult''"
| "error_code_variant CallbackFailed = ''CallbackFailed''"
| "error_code_variant RecursiveCallForbidden = ''RecursiveCallForbidden''"
| "error_code_variant ResponseSerializationFailed = ''ResponseSerializationFailed''"
| "error_code_variant NotAnAllocation = ''NotAnAllocation''"
| "error_code_variant ZeroSizedAllocation = ''ZeroSizedAllocation''"
| "error_code_variant UnknownEntryType = ''UnknownEntryType''"
| "error_code_variant MismatchWasmCallDataType = ''MismatchWasmCallDataType''"
| "error_code_variant EntryNotFound = ''EntryNotFound''"
| "error_code_variant WorkflowFailed = ''WorkflowFailed''"

fun error_debug :: "HolochainError \<Rightarrow> string" where
  "error_debug (ErrorGeneric m) = variant_debug ''ErrorGeneric'' (str_debug m)"
| "error_debug (NotImplemented m) = variant_debug ''NotImplemented'' (str_debug m)"
| "error_debug LoggingError = ''LoggingError''"
| "error_debug DnaMissing = ''DnaMissing''"
| "error_debug (DnaErr d) = variant_debug ''Dna'' (dna_error_debug d)"
| "error_debug (IoError m) = variant_debug ''IoError'' (str_debug m)"
| "error_debug (SerializationError m) = variant_debug ''SerializationError'' (str_debug m)"
| "error_debug InvalidOperationOnSysEntry = ''InvalidOperationOnSysEntry''"
| "error_debug CapabilityCheckFailed = ''CapabilityCheckFailed''"
| "error_debug (ValidationFailed m) = variant_debug ''ValidationFailed'' (str_debug m)"
| "error_debug ValidationPending = ''ValidationPending''"
| "error_debug (Ribosome c) = variant_debug ''Ribosome'' (error_code_variant c)"
| "error_debug (RibosomeFailed m) = variant_debug ''RibosomeFailed'' (str_debug m)"
| "error_debug (ConfigError m) = variant_debug ''ConfigError'' (str_debug m)"
| "error_debug TimeoutErr = ''Timeout''"
| "error_debug (InitializationFailedErr m) = variant_debug ''InitializationFailed'' (str_debug m)"
| "error_debug (DnaHashMismatch h1 h2) =
     variant_debug ''DnaHashMismatch'' (variant_debug ''HashString'' (str_debug h1) @ '', ''
       @ variant_debug ''HashString'' (str_debug h2))"

section \<open>The ribosome's encoded values\<close>

datatype RibosomeEncodedValue =
    Success
  | Allocation u64
  | Failure RibosomeErrorCode

fun encoding_bits :: "RibosomeEncodedValue \<Rightarrow> u64" where
  "encoding_bits Success = 0"
| "encoding_bits (Allocation a) = a"
| "encoding_bits (Failure c) = error_code_discriminant c"

definition encoded_value_of :: "u64 \<Rightarrow> RibosomeEncodedValue option" where
  "encoded_value_of i =
     (if i = 0 then Some Success
      else let (code_int, maybe_allocation_length) = u64_split_bits i in
        if maybe_allocation_length = 0 then map_option Failure (from_code_int code_int)
        else Some (Allocation i))"

definition encoded_value_from_str :: "string \<Rightarrow> RibosomeEncodedValue HcResult" where
  "encoded_value_from_str s =
     (if s = ''Success'' then Ok Success else map_ok Failure (error_code_from_str s))"

definition from_return_code :: "RibosomeEncodedValue \<Rightarrow> RibosomeErrorCode option" where
  "from_return_code v = (case v of Failure e \<Rightarrow> Some e | _ \<Rightarrow> None)"

lemma error_code_discriminant_merge: "error_code_discriminant c = u64_merge_bits (error_code_int c) 0"
  by (simp add: error_code_discriminant_def u64_merge_bits_def)

lemma error_code_int_neq_0 [simp]: "error_code_int c \<noteq> 0"
  by (cases c) simp_all

lemma error_code_discriminant_neq_0 [simp]: "error_code_discriminant c \<noteq> 0"
  by (metis error_code_discriminant_merge error_code_int_neq_0 u64_high_merge u64_merge_zero)

lemma error_code_int_inject [simp]: "error_code_int c = error_code_int d \<longleftrightarrow> c = d"
  by (cases c; cases d) simp_all

lemma from_code_int_code:
  "from_code_int (error_code_int c) =
     Some (if c = MismatchWasmCallDataType then Unspecified else c)"
  by (cases c) (simp_all add: from_code_int_def)

lemma error_code_split: "u64_split_bits (error_code_discriminant c) = (error_code_int c, 0)"
  by (simp add: error_code_discriminant_merge)

lemma encoded_value_of_failure:
  "encoded_value_of (error_code_discriminant c) =
     Some (Failure (if c = MismatchWasmCallDataType then Unspecified else c))"
  unfolding encoded_value_of_def error_code_split by (simp add: from_code_int_code)

lemma encoded_value_of_alloc:
  "u64_low_bits a \<noteq> 0 \<Longrightarrow> encoded_value_of a = Some (Allocation a)"
  by (auto simp: encoded_value_of_def u64_split_bits_def u64_low_bits_def)

text \<open>The \<open>0\<close> branch of \<open>from_code_int\<close> is unreachable from a decoded integer: the
  encoding's own test for 0 catches it first.\<close>

lemma encoded_value_of_total: "\<exists>v. encoded_value_of i = Some v"
proof (cases "i = 0 \<or> u64_low_bits i \<noteq> 0")
  case True
  then show ?thesis by (auto simp: encoded_value_of_def u64_split_bits_def)
next
  case False
  then have "u64_high_bits i \<noteq> 0" by (auto dest: u64_high_low_zero)
  then have "\<exists>c. from_code_int (u64_high_bits i) = Some c"
    by (simp add: from_code_int_def)
  with False show ?thesis by (auto simp: encoded_value_of_def u64_split_bits_def)
qed

text \<open>decoding an encoded ribosome value gives the value back exactly when it is
  \<open>Success\<close>, an allocation of non-zero length, or a failure other than
  \<open>MismatchWasmCallDataType\<close>, whose code 11 has no branch in \<open>from_code_int\<close> and comes
  back as \<open>Unspecified\<close>.\<close>

theorem ribosome_encoding_roundtrip:
  "encoded_value_of (encoding_bits v) = Some v \<longleftrightarrow>
     (case v of Success \<Rightarrow> True
      | Allocation a \<Rightarrow> u64_low_bits a \<noteq> 0
      | Failure c \<Rightarrow> c \<noteq> MismatchWasmCallDataType)"
proof (cases v)
  case Success
  then show ?thesis by (simp add: encoded_value_of_def)
next
  case (Allocation a)
  then show ?thesis
    by (auto simp: encoded_value_of_alloc)
      (auto simp: encoded_value_of_def u64_split_bits_def split: if_splits)
next
  case (Failure c)
  then show ?thesis by (simp add: encoded_value_of_failure)
qed

text \<open>the textual form of an error code parses back to the code, except for
  \<open>MismatchWasmCallDataType\<close>, whose text \<open>FromStr\<close> rejects; and the integer decoder
  never reaches the panic of \<open>from_code_int\<close>.\<close>

theorem error_code_text_and_decoder:
  "error_code_from_str (error_code_as_str c) =
     (if c = MismatchWasmCallDataType then Err (ErrorGeneric ''Unknown RibosomeErrorCode'')
      else Ok c)
   \<and> (\<exists>v. encoded_value_of i = Some v)"
proof
  show "error_code_from_str (error_code_as_str c) =
     (if c = MismatchWasmCallDataType then Err (ErrorGeneric ''Unknown RibosomeErrorCode'')
      else Ok c)"
    by (cases c) (simp_all add: error_code_from_str_def)
  show "\<exists>v. encoded_value_of i = Some v" by (rule encoded_value_of_total)
qed

end
