(* ===== verification/Entry_Types.thy ===== *)
theory Entry_Types
  imports Core_Errors "HOL-Library.Char_ord" "HOL-Library.List_Lexorder" "HOL-Library.Product_Lexorder"
begin

text \<open>
  The small data types of \<open>core_types\<close>: entry types and their names
  (\<open>entry/entry_type.rs\<close>), CRUD statuses (\<open>crud_status.rs\<close>), links (\<open>link/*.rs\<close>),
  capability grants and claims (\<open>entry/cap_entries.rs\<close>), agents, signatures and deletion
  entries. A Rust string is the list of its UTF-8 bytes. A \<open>BTreeMap\<close> is the association
  list its iteration yields, sorted by key.
\<close>

type_synonym Address = HashString
type_synonym Content = string
type_synonym AppEntryType = string
type_synonym Iso8601 = string
type_synonym Signature = string
type_synonym Base32 = string

section \<open>Entry types\<close>

datatype EntryType =
    AppType AppEntryType
  | DnaType
  | AgentIdType
  | DeletionType
  | LinkAddType
  | LinkRemoveType
  | LinkListType
  | ChainHeaderType
  | ChainMigrateType
  | CapTokenGrantType
  | CapTokenClaimType

text \<open>The derived order compares the position of the variant first, then the name.\<close>

fun entry_type_key :: "EntryType \<Rightarrow> nat \<times> string" where
  "entry_type_key (AppType n) = (0, n)"
| "entry_type_key DnaType = (1, [])"
| "entry_type_key AgentIdType = (2, [])"
| "entry_type_key DeletionType = (3, [])"
| "entry_type_key LinkAddType = (4, [])"
| "entry_type_key LinkRemoveType = (5, [])"
| "entry_type_key LinkListType = (6, [])"
| "entry_type_key ChainHeaderType = (7, [])"
| "entry_type_key ChainMigrateType = (8, [])"
| "entry_type_key CapTokenGrantType = (9, [])"
| "entry_type_key CapTokenClaimType = (10, [])"

lemma entry_type_key_inject [simp]: "entry_type_key s = entry_type_key t \<longleftrightarrow> s = t"
  by (cases s; cases t) simp_all

instantiation EntryType :: linorder
begin

definition less_eq_EntryType :: "EntryType \<Rightarrow> EntryType \<Rightarrow> bool" where
  "s \<le> t \<longleftrightarrow> entry_type_key s \<le> entry_type_key t"

definition less_EntryType :: "EntryType \<Rightarrow> EntryType \<Rightarrow> bool" where
  "s < t \<longleftrightarrow> entry_type_key s < entry_type_key t"

instance
  by standard (auto simp: less_eq_EntryType_def less_EntryType_def order.strict_iff_order)

end

text \<open>The name of the variant, which is what \<open>{:?}\<close> prints for a unit variant.\<close>

fun entry_type_variant :: "EntryType \<Rightarrow> string" where
  "entry_type_variant (AppType _) = ''App''"
| "entry_type_variant DnaType = ''Dna''"
| "entry_type_variant AgentIdType = ''AgentId''"
| "entry_type_variant DeletionType = ''Deletion''"
| "entry_type_variant LinkAddType = ''LinkAdd''"
| "entry_type_variant LinkRemoveType = ''LinkRemove''"
| "entry_type_variant LinkListType = ''LinkList''"
| "entry_type_variant ChainHeaderType = ''ChainHeader''"
| "entry_type_variant ChainMigrateType = ''ChainMigrate''"
| "entry_type_variant CapTokenGrantType = ''CapTokenGrant''"
| "entry_type_variant CapTokenClaimType = ''CapTokenClaim''"

definition app_entry_type_try_from :: "EntryType \<Rightarrow> AppEntryType HcResult" where
  "app_entry_type_try_from t =
     (case t of AppType n \<Rightarrow> Ok n
      | _ \<Rightarrow> Err (ErrorGeneric (''Attempted to convert '' @ entry_type_variant t
               @ '' EntryType to an AppEntryType'')))"

definition is_app :: "EntryType \<Rightarrow> bool" where
  "is_app t = (case t of AppType _ \<Rightarrow> True | _ \<Rightarrow> False)"

definition is_sys :: "EntryType \<Rightarrow> bool" where
  "is_sys t \<longleftrightarrow> \<not> is_app t"

text \<open>The slice \<open>[0..1]\<close> panics when the first character takes more than one byte.\<close>

definition has_valid_app_name :: "string \<Rightarrow> bool option" where
  "has_valid_app_name n =
     (case n of [] \<Rightarrow> Some False
      | c # _ \<Rightarrow> if (of_char c :: nat) \<ge> 128 then None else Some (c \<noteq> CHR ''%''))"

definition entry_type_from_str :: "string \<Rightarrow> EntryType" where
  "entry_type_from_str s =
     (if s = ''%agent_id'' then AgentIdType
      else if s = ''%deletion'' then DeletionType
      else if s = ''%dna'' then DnaType
      else if s = ''%chain_header'' then ChainHeaderType
      else if s = ''%link_add'' then LinkAddType
      else if s = ''%link_remove'' then LinkRemoveType
      else if s = ''%link_list'' then LinkListType
      else if s = ''%chain_migrate'' then ChainMigrateType
      else if s = ''%cap_token_claim'' then CapTokenClaimType
      else if s = ''%cap_token_grant'' then CapTokenGrantType
      else AppType s)"

fun string_of_entry_type :: "EntryType \<Rightarrow> string" where
  "string_of_entry_type (AppType n) = n"
| "string_of_entry_type AgentIdType = ''%agent_id''"
| "string_of_entry_type DeletionType = ''%deletion''"
| "string_of_entry_type DnaType = ''%dna''"
| "string_of_entry_type ChainHeaderType = ''%chain_header''"
| "string_of_entry_type LinkAddType = ''%link_add''"
| "string_of_entry_type LinkRemoveType = ''%link_remove''"
| "string_of_entry_type LinkListType = ''%link_list''"
| "string_of_entry_type ChainMigrateType = ''%chain_migrate''"
| "string_of_entry_type CapTokenClaimType = ''%cap_token_claim''"
| "string_of_entry_type CapTokenGrantType = ''%cap_token_grant''"

section \<open>CRUD statuses\<close>

datatype CrudStatus = Live | Rejected | Deleted | Modified | Locked

definition default_crud_status :: CrudStatus where
  "default_crud_status = Live"

text \<open>\<open>String::from\<close> keeps the letters of the serialised lower-case variant name;
  \<open>from_str\<close> quotes its argument and deserialises it.\<close>

fun crud_status_string :: "CrudStatus \<Rightarrow> string" where
  "crud_status_string Live = ''live''"
| "crud_status_string Rejected = ''rejected''"
| "crud_status_string Deleted = ''deleted''"
| "crud_status_string Modified = ''modified''"
| "crud_status_string Locked = ''locked''"

definition crud_status_from_str :: "string \<Rightarrow> string + CrudStatus" where
  "crud_status_from_str s =
     (if s = ''live'' then Ok Live
      else if s = ''rejected'' then Ok Rejected
      else if s = ''deleted'' then Ok Deleted
      else if s = ''modified'' then Ok Modified
      else if s = ''locked'' then Ok Locked
      else Err ''failed to deserialize CrudStatus enum'')"

section \<open>Agents, provenances, deletions\<close>

record AgentId =
  nick :: string
  pub_sign_key :: Base32

definition agent_id_new :: "string \<Rightarrow> Base32 \<Rightarrow> AgentId" where
  "agent_id_new n key_b32 = \<lparr>nick = n, pub_sign_key = key_b32\<rparr>"

definition agent_address :: "AgentId \<Rightarrow> Address" where
  "agent_address a = pub_sign_key a"

record Provenance =
  prov_source :: Address
  prov_signature :: Signature

definition provenance_new :: "Address \<Rightarrow> Signature \<Rightarrow> Provenance" where
  "provenance_new src sig = \<lparr>prov_source = src, prov_signature = sig\<rparr>"

record DeletionEntry =
  deleted_entry_address :: Address

definition deletion_entry_new :: "Address \<Rightarrow> DeletionEntry" where
  "deletion_entry_new a = \<lparr>deleted_entry_address = a\<rparr>"

section \<open>Links\<close>

record Link =
  link_base :: Address
  link_target :: Address
  link_type :: string
  link_tag :: string

datatype LinkActionKind = ADD | REMOVE

record LinkData =
  ld_action_kind :: LinkActionKind
  ld_link :: Link

definition link_new :: "Address \<Rightarrow> Address \<Rightarrow> string \<Rightarrow> string \<Rightarrow> Link" where
  "link_new b t ty tg = \<lparr>link_base = b, link_target = t, link_type = ty, link_tag = tg\<rparr>"

definition link_data_new_add :: "Address \<Rightarrow> Address \<Rightarrow> string \<Rightarrow> string \<Rightarrow> LinkData" where
  "link_data_new_add b t ty tg = \<lparr>ld_action_kind = ADD, ld_link = link_new b t ty tg\<rparr>"

definition link_data_new_delete :: "Address \<Rightarrow> Address \<Rightarrow> string \<Rightarrow> string \<Rightarrow> LinkData" where
  "link_data_new_delete b t ty tg = \<lparr>ld_action_kind = REMOVE, ld_link = link_new b t ty tg\<rparr>"

definition link_data_from_link :: "Link \<Rightarrow> LinkActionKind \<Rightarrow> LinkData" where
  "link_data_from_link l k = \<lparr>ld_action_kind = k, ld_link = l\<rparr>"

definition add_from_link :: "Link \<Rightarrow> LinkData" where
  "add_from_link l = link_data_from_link l ADD"

definition remove_from_link :: "Link \<Rightarrow> LinkData" where
  "remove_from_link l = link_data_from_link l REMOVE"

record LinkList =
  ll_links :: "Link list"

section \<open>Capabilities\<close>

datatype CapabilityType = Public | Transferable | Assigned

definition default_capability_type :: CapabilityType where
  "default_capability_type = Assigned"

datatype ReservedCapabilityId = ReservedPublic

definition reserved_capability_from_str :: "string \<Rightarrow> string + ReservedCapabilityId" where
  "reserved_capability_from_str s =
     (if s = ''hc_public'' then Ok ReservedPublic
      else Err ''Cannot convert string to ReservedCapabilityId'')"

definition reserved_capability_str :: "ReservedCapabilityId \<Rightarrow> string" where
  "reserved_capability_str c = (case c of ReservedPublic \<Rightarrow> ''hc_public'')"

type_synonym CapTokenValue = Address
type_synonym CapFunctions = "(string \<times> string list) list"

record CapTokenClaim =
  claim_id :: string
  claim_grantor :: Address
  claim_token :: CapTokenValue

definition cap_token_claim_new :: "string \<Rightarrow> Address \<Rightarrow> CapTokenValue \<Rightarrow> CapTokenClaim" where
  "cap_token_claim_new i g t = \<lparr>claim_id = i, claim_grantor = g, claim_token = t\<rparr>"

record CapTokenGrant =
  grant_id :: string
  grant_assignees :: "Address list option"
  grant_functions :: CapFunctions

definition cap_token_grant_new ::
    "string \<Rightarrow> Address list option \<Rightarrow> CapFunctions \<Rightarrow> CapTokenGrant" where
  "cap_token_grant_new i as fs =
     \<lparr>grant_id = i, grant_assignees = as, grant_functions = fs\<rparr>"

definition grant_valid :: "CapabilityType \<Rightarrow> Address list option \<Rightarrow> Address list option HcResult" where
  "grant_valid ct as =
     (if (ct = Public \<or> ct = Transferable) \<and> as \<noteq> None \<and> the as \<noteq> []
      then Err (ErrorGeneric ''there must be no assignees for public or transferable grants'')
      else case ct of
        Assigned \<Rightarrow>
          if as = None \<or> the as = []
          then Err (ErrorGeneric ''Assigned grant must have 1 or more assignees'')
          else Ok as
      | Public \<Rightarrow> Ok None
      | Transferable \<Rightarrow> Ok (Some []))"

definition cap_token_grant_create ::
    "string \<Rightarrow> CapabilityType \<Rightarrow> Address list option \<Rightarrow> CapFunctions \<Rightarrow> CapTokenGrant HcResult" where
  "cap_token_grant_create i ct as fs =
     map_ok (\<lambda>as'. cap_token_grant_new i as' fs) (grant_valid ct as)"

definition cap_type :: "CapTokenGrant \<Rightarrow> CapabilityType" where
  "cap_type g =
     (case grant_assignees g of None \<Rightarrow> Public
      | Some v \<Rightarrow> if v = [] then Transferable else Assigned)"

section \<open>Names and statuses round trip\<close>

lemma crud_status_roundtrip [simp]: "crud_status_from_str (crud_status_string s) = Ok s"
  by (cases s) (simp_all add: crud_status_from_str_def)

lemma crud_status_from_str_Ok_iff:
  "crud_status_from_str s = Ok c \<longleftrightarrow> s = crud_status_string c"
  by (cases c) (auto simp: crud_status_from_str_def)

lemma crud_status_string_inject [simp]:
  "crud_status_string s = crud_status_string t \<longleftrightarrow> s = t"
  by (metis crud_status_from_str_Ok_iff sum.inject(2))

text \<open>
  Printing an entry type and reading the name back gives the type, for every system type
  and for every app type whose name \<open>has_valid_app_name\<close> accepts; distinct such types
  have distinct names, the name check panics exactly on a multi-byte first character, and
  no name it accepts is read as a system type.
\<close>

theorem entry_type_name_roundtrip:
  "(is_sys t \<or> has_valid_app_name (string_of_entry_type t) = Some True \<longrightarrow>
      entry_type_from_str (string_of_entry_type t) = t)
   \<and> string_of_entry_type (entry_type_from_str s) = s
   \<and> (has_valid_app_name s = Some True \<longrightarrow> is_app (entry_type_from_str s))
   \<and> (has_valid_app_name s = None \<longleftrightarrow> (\<exists>c cs. s = c # cs \<and> 128 \<le> (of_char c :: nat)))"
proof (intro conjI)
  show "is_sys t \<or> has_valid_app_name (string_of_entry_type t) = Some True \<longrightarrow>
      entry_type_from_str (string_of_entry_type t) = t"
    by (cases t) (auto simp: entry_type_from_str_def is_sys_def is_app_def has_valid_app_name_def)
  show "string_of_entry_type (entry_type_from_str s) = s"
    by (simp add: entry_type_from_str_def)
  show "has_valid_app_name s = Some True \<longrightarrow> is_app (entry_type_from_str s)"
    by (auto simp: entry_type_from_str_def is_app_def has_valid_app_name_def)
  show "has_valid_app_name s = None \<longleftrightarrow> (\<exists>c cs. s = c # cs \<and> 128 \<le> (of_char c :: nat))"
    by (cases s) (auto simp: has_valid_app_name_def)
qed

text \<open>
  A capability grant can be created exactly when its assignees fit the requested type
  (some for an assigned grant, none for a public or transferable one), and the grant then
  reports the type that was asked for, with the assignees and functions given.
\<close>

theorem cap_grant_create_type:
  "(\<exists>g. cap_token_grant_create i ct as fs = Ok g) =
     ((ct = Assigned) = (\<exists>a rest. as = Some (a # rest)))
   \<and> (cap_token_grant_create i ct as fs = Ok g \<longrightarrow>
        cap_type g = ct \<and> grant_id g = i \<and> grant_functions g = fs
        \<and> (ct = Assigned \<longrightarrow> grant_assignees g = as))"
proof -
  have "as = None \<or> as = Some [] \<or> (\<exists>a rest. as = Some (a # rest))"
    by (metis list.exhaust option.exhaust)
  then have "(\<exists>g. cap_token_grant_create i ct as fs = Ok g) =
      ((ct = Assigned) = (\<exists>a rest. as = Some (a # rest)))"
    by (cases ct) (auto simp: cap_token_grant_create_def grant_valid_def)
  moreover have "cap_token_grant_create i ct as fs = Ok g \<longrightarrow>
     cap_type g = ct \<and> grant_id g = i \<and> grant_functions g = fs
     \<and> (ct = Assigned \<longrightarrow> grant_assignees g = as)"
    by (cases ct)
      (auto simp: cap_token_grant_create_def grant_valid_def cap_type_def cap_token_grant_new_def
        split: if_splits)
  ultimately show ?thesis ..
qed

end
