(* ===== verification/Dna_Model.thy ===== *)
theory Dna_Model
  imports Entry_Types
begin

text \<open>
  The DNA of an application and the questions the core asks of it: \<open>core_types/src/dna/*.rs\<close>,
  the publishing policy of \<open>core/src/entry/mod.rs\<close>, the entry-type check of
  \<open>core/src/nucleus/ribosome/api/entry_address.rs\<close> and the search for link definitions of
  \<open>core/src/nucleus/ribosome/callback/links_utils.rs\<close>. A failed \<open>assert!\<close>, \<open>expect\<close> or
  slice is \<open>None\<close> of the outer option.
\<close>

section \<open>The DNA tree\<close>

datatype Sharing = SharingPublic | SharingPrivate | SharingEncrypted

definition sharing_can_publish :: "Sharing \<Rightarrow> bool" where
  "sharing_can_publish s =
     (case s of SharingPublic \<Rightarrow> True | SharingPrivate \<Rightarrow> False | SharingEncrypted \<Rightarrow> True)"

record LinksTo =
  lt_target_type :: string
  lt_link_type :: string

record LinkedFrom =
  lf_base_type :: string
  lf_link_type :: string

record EntryTypeDef =
  etd_description :: string
  sharing :: Sharing
  links_to :: "LinksTo list"
  linked_from :: "LinkedFrom list"

record FnParameter =
  parameter_type :: string
  parameter_name :: string

record FnDeclaration =
  fn_name :: string
  fn_inputs :: "FnParameter list"
  fn_outputs :: "FnParameter list"

type_synonym TraitFns = "string list"
type_synonym Trait = "FnDeclaration list"

datatype BridgePresence = Required | Optional

datatype BridgeReference = BridgeAddress Address | BridgeTrait "(string \<times> Trait) list"

record Bridge =
  presence :: BridgePresence
  bridge_handle :: string
  reference :: BridgeReference

type_synonym DnaWasm = "u8 list"
type_synonym ZomeEntryTypes = "(EntryType \<times> EntryTypeDef) list"
type_synonym ZomeTraits = "(string \<times> TraitFns) list"

record Zome =
  zome_description :: string
  entry_types :: ZomeEntryTypes
  zome_traits :: ZomeTraits
  fn_declarations :: "FnDeclaration list"
  zome_code :: DnaWasm
  zome_bridges :: "Bridge list"

record Dna =
  dna_name :: string
  dna_description :: string
  dna_version :: string
  dna_uuid :: string
  dna_spec_version :: string
  dna_properties :: string
  dna_zomes :: "(string \<times> Zome) list"

text \<open>\<open>properties\<close> is a JSON value; it is kept as its text.\<close>

definition zero_uuid :: string where
  "zero_uuid = ''00000000-0000-0000-0000-000000000000''"

definition default_dna :: Dna where
  "default_dna = \<lparr>dna_name = [], dna_description = [], dna_version = [], dna_uuid = zero_uuid,
     dna_spec_version = ''2.0'', dna_properties = ''{}'', dna_zomes = []\<rparr>"

definition default_zome :: Zome where
  "default_zome = \<lparr>zome_description = [], entry_types = [], zome_traits = [],
     fn_declarations = [], zome_code = [], zome_bridges = []\<rparr>"

section \<open>Lookups\<close>

definition get_zome :: "Dna \<Rightarrow> string \<Rightarrow> DnaError + Zome" where
  "get_zome dna z =
     ok_or (ZomeNotFound (''Zome '' @ [CHR 0x27] @ z @ [CHR 0x27] @ '' not found'')) (map_of (dna_zomes dna) z)"

definition get_trait :: "Zome \<Rightarrow> string \<Rightarrow> TraitFns option" where
  "get_trait zome t = map_of (zome_traits zome) t"

definition get_function :: "Zome \<Rightarrow> string \<Rightarrow> FnDeclaration option" where
  "get_function zome f = find (\<lambda>d. fn_name d = f) (fn_declarations zome)"

definition add_fn_declaration ::
    "Zome \<Rightarrow> string \<Rightarrow> FnParameter list \<Rightarrow> FnParameter list \<Rightarrow> Zome" where
  "add_fn_declaration zome n ins outs =
     zome\<lparr>fn_declarations := fn_declarations zome @ [\<lparr>fn_name = n, fn_inputs = ins, fn_outputs = outs\<rparr>]\<rparr>"

definition get_function_with_zome_name :: "Dna \<Rightarrow> string \<Rightarrow> string \<Rightarrow> DnaError + FnDeclaration" where
  "get_function_with_zome_name dna z f =
     and_then (get_zome dna z) (\<lambda>zome.
       ok_or (ZomeFunctionNotFound (''Zome function '' @ [CHR 0x27] @ f @ [CHR 0x27]
                @ '' not found in Zome '' @ [CHR 0x27] @ z @ [CHR 0x27]))
         (get_function zome f))"

definition get_trait_fns_with_zome_name :: "Dna \<Rightarrow> string \<Rightarrow> string \<Rightarrow> DnaError + TraitFns" where
  "get_trait_fns_with_zome_name dna z t =
     and_then (get_zome dna z) (\<lambda>zome.
       ok_or (TraitNotFound (''Trait '' @ [CHR 0x27] @ t @ [CHR 0x27]
                @ '' not found in Zome '' @ [CHR 0x27] @ z @ [CHR 0x27]))
         (get_trait zome t))"

definition get_wasm_from_zome_name :: "Dna \<Rightarrow> string \<Rightarrow> DnaWasm option" where
  "get_wasm_from_zome_name dna z = map_option zome_code (to_ok (get_zome dna z))"

definition is_fn_public :: "Zome \<Rightarrow> string \<Rightarrow> bool" where
  "is_fn_public zome f = list_ex (\<lambda>(t, fs). t = ''hc_public'' \<and> f \<in> set fs) (zome_traits zome)"

definition zome_required_bridges :: "Zome \<Rightarrow> Bridge list" where
  "zome_required_bridges zome = filter (\<lambda>b. presence b = Required) (zome_bridges zome)"

definition get_required_bridges :: "Dna \<Rightarrow> Bridge list" where
  "get_required_bridges dna = concat (map (\<lambda>(_, z). zome_required_bridges z) (dna_zomes dna))"

text \<open>The two nested loops over zomes and their entry types, with the first hit returned.\<close>

fun find_zome_for :: "EntryType \<Rightarrow> (string \<times> Zome) list \<Rightarrow> string option" where
  "find_zome_for t [] = None"
| "find_zome_for t ((n, z) # zs) =
     (if t \<in> set (map fst (entry_types z)) then Some n else find_zome_for t zs)"

fun find_def_for :: "EntryType \<Rightarrow> (string \<times> Zome) list \<Rightarrow> EntryTypeDef option" where
  "find_def_for t [] = None"
| "find_def_for t ((n, z) # zs) =
     (case map_of (entry_types z) t of Some d \<Rightarrow> Some d | None \<Rightarrow> find_def_for t zs)"

definition get_zome_name_for_app_entry_type :: "Dna \<Rightarrow> AppEntryType \<Rightarrow> string option option" where
  "get_zome_name_for_app_entry_type dna n =
     (case has_valid_app_name n of
        Some True \<Rightarrow> Some (find_zome_for (AppType n) (dna_zomes dna))
      | _ \<Rightarrow> None)"

definition get_entry_type_def :: "Dna \<Rightarrow> string \<Rightarrow> EntryTypeDef option option" where
  "get_entry_type_def dna n =
     (case has_valid_app_name n of
        Some True \<Rightarrow> Some (find_def_for (AppType n) (dna_zomes dna))
      | _ \<Rightarrow> None)"

section \<open>Publishing\<close>

definition can_publish :: "Dna option \<Rightarrow> EntryType \<Rightarrow> bool option" where
  "can_publish dna t =
     (if t = DnaType \<or> t = CapTokenGrantType \<or> t = CapTokenClaimType then Some False
      else if is_sys t then Some True
      else case dna of
        None \<Rightarrow> None
      | Some d \<Rightarrow>
          (case get_entry_type_def d (string_of_entry_type t) of
             None \<Rightarrow> None
           | Some None \<Rightarrow> Some False
           | Some (Some def) \<Rightarrow> Some (sharing_can_publish (sharing def))))"

definition get_entry_type :: "Dna \<Rightarrow> string \<Rightarrow> (u64 + EntryType) option" where
  "get_entry_type dna n =
     (let t = entry_type_from_str n in
      if is_app t then
        (case get_entry_type_def dna n of
           None \<Rightarrow> None
         | Some None \<Rightarrow> Some (Err (error_code_discriminant UnknownEntryType))
         | Some (Some _) \<Rightarrow> Some (Ok t))
      else Some (Ok t))"

section \<open>Link definitions\<close>

datatype LinkDirection = To | From

record LinkDefinitionPath =
  ldp_zome_name :: string
  ldp_entry_type_name :: string
  ldp_direction :: LinkDirection
  ldp_link_type :: string

text \<open>One side of the search. The outer option is the panic of the name assertion; the
  result is an error for an undeclared app type, and \<open>None\<close> when no definition matches.\<close>

definition find_links_to :: "Dna \<Rightarrow> EntryType \<Rightarrow> string \<Rightarrow> EntryType \<Rightarrow> LinkDefinitionPath option HcResult option" where
  "find_links_to dna base_type lt target_type =
     (case base_type of
        AppType n \<Rightarrow>
          (case get_entry_type_def dna n of
             None \<Rightarrow> None
           | Some None \<Rightarrow> Some (Err (ErrorGeneric ''Unknown entry type''))
           | Some (Some def) \<Rightarrow>
               (case find (\<lambda>l. lt_target_type l = string_of_entry_type target_type \<and> lt_link_type l = lt)
                       (links_to def) of
                  None \<Rightarrow> Some (Ok None)
                | Some l \<Rightarrow>
                    (case get_zome_name_for_app_entry_type dna n of
                       None \<Rightarrow> None
                     | Some z \<Rightarrow> Some (Ok (map_option (\<lambda>z. \<lparr>ldp_zome_name = z, ldp_entry_type_name = n,
                                   ldp_direction = To, ldp_link_type = lt_link_type l\<rparr>) z)))))
      | _ \<Rightarrow> Some (Ok None))"

definition find_linked_from :: "Dna \<Rightarrow> EntryType \<Rightarrow> string \<Rightarrow> EntryType \<Rightarrow> LinkDefinitionPath option HcResult option" where
  "find_linked_from dna base_type lt target_type =
     (case target_type of
        AppType n \<Rightarrow>
          (case get_entry_type_def dna n of
             None \<Rightarrow> None
           | Some None \<Rightarrow> Some (Err (ErrorGeneric ''Unknown entry type''))
           | Some (Some def) \<Rightarrow>
               (case find (\<lambda>l. lf_base_type l = string_of_entry_type base_type \<and> lf_link_type l = lt)
                       (linked_from def) of
                  None \<Rightarrow> Some (Ok None)
                | Some l \<Rightarrow>
                    (case get_zome_name_for_app_entry_type dna n of
                       None \<Rightarrow> None
                     | Some z \<Rightarrow> Some (Ok (map_option (\<lambda>z. \<lparr>ldp_zome_name = z, ldp_entry_type_name = n,
                                   ldp_direction = From, ldp_link_type = lf_link_type l\<rparr>) z)))))
      | _ \<Rightarrow> Some (Ok None))"

text \<open>The argument of \<open>or\<close> is evaluated before \<open>or\<close>: its early return wins.\<close>

definition find_link_definition_in_dna ::
    "Dna option \<Rightarrow> EntryType \<Rightarrow> string \<Rightarrow> EntryType \<Rightarrow> LinkDefinitionPath HcResult option" where
  "find_link_definition_in_dna dna base_type lt target_type =
     (case dna of
        None \<Rightarrow> None
      | Some d \<Rightarrow>
          (case find_links_to d base_type lt target_type of
             None \<Rightarrow> None
           | Some (Err e) \<Rightarrow> Some (Err e)
           | Some (Ok p) \<Rightarrow>
               (case find_linked_from d base_type lt target_type of
                  None \<Rightarrow> None
                | Some (Err e) \<Rightarrow> Some (Err e)
                | Some (Ok q) \<Rightarrow>
                    Some (ok_or (ErrorGeneric ''Unknown entry type'') (if p \<noteq> None then p else q)))))"

section \<open>What the lookups find\<close>

lemma find_def_for_member:
  assumes "find_def_for t zs = Some d"
  obtains n z where "(n, z) \<in> set zs" "find_zome_for t zs = Some n" "map_of (entry_types z) t = Some d"
  using assms
proof (induction t zs arbitrary: thesis rule: find_def_for.induct)
  case (2 t n z zs)
  show ?case
  proof (cases "map_of (entry_types z) t")
    case None
    then have "t \<notin> set (map fst (entry_types z))"
      by (simp add: map_of_eq_None_iff)
    with None 2(1) [OF None, of thesis] 2(2,3) show ?thesis by auto
  next
    case (Some e)
    then have "t \<in> set (map fst (entry_types z))"
      using map_of_SomeD by force
    with Some 2(2) [of n z] 2(3) show ?thesis by simp
  qed
qed simp

lemma find_zome_for_key: "find_zome_for t zs = Some n \<Longrightarrow> n \<in> fst ` set zs"
  by (induction t zs rule: find_zome_for.induct) (auto split: if_splits)

lemma find_def_via_zome:
  assumes "distinct (map fst zs)"
  shows "find_def_for t zs =
    (case find_zome_for t zs of None \<Rightarrow> None | Some n \<Rightarrow> map_of (entry_types (the (map_of zs n))) t)"
  using assms
proof (induction t zs rule: find_def_for.induct)
  case (2 t n z zs)
  show ?case
  proof (cases "map_of (entry_types z) t")
    case None
    then have "t \<notin> set (map fst (entry_types z))"
      by (simp add: map_of_eq_None_iff)
    with None 2 show ?thesis
      by (auto split: option.split dest: find_zome_for_key)
  next
    case (Some e)
    then have "t \<in> set (map fst (entry_types z))"
      using map_of_SomeD by force
    with Some show ?thesis by simp
  qed
qed simp

lemma get_entry_type_def_Some:
  assumes "get_entry_type_def dna n = Some (Some d)"
  obtains zn z where "(zn, z) \<in> set (dna_zomes dna)"
    "get_zome_name_for_app_entry_type dna n = Some (Some zn)"
    "map_of (entry_types z) (AppType n) = Some d"
  using assms find_def_for_member [of "AppType n" "dna_zomes dna" d]
  by (auto simp: get_entry_type_def_def get_zome_name_for_app_entry_type_def
      split: option.splits bool.splits)

lemma find_links_to_sound:
  assumes "find_links_to dna bt lt tt = Some (Ok (Some p))"
  shows "\<exists>z def l. (ldp_zome_name p, z) \<in> set (dna_zomes dna) \<and> ldp_direction p = To
    \<and> bt = AppType (ldp_entry_type_name p) \<and> map_of (entry_types z) bt = Some def
    \<and> l \<in> set (links_to def) \<and> lt_target_type l = string_of_entry_type tt \<and> lt_link_type l = lt
    \<and> ldp_link_type p = lt"
  using assms
  by (auto simp: find_links_to_def find_Some_iff set_conv_nth
      split: EntryType.splits option.splits elim!: get_entry_type_def_Some) metis

lemma find_linked_from_sound:
  assumes "find_linked_from dna bt lt tt = Some (Ok (Some p))"
  shows "\<exists>z def l. (ldp_zome_name p, z) \<in> set (dna_zomes dna) \<and> ldp_direction p = From
    \<and> tt = AppType (ldp_entry_type_name p) \<and> map_of (entry_types z) tt = Some def
    \<and> l \<in> set (linked_from def) \<and> lf_base_type l = string_of_entry_type bt \<and> lf_link_type l = lt
    \<and> ldp_link_type p = lt"
  using assms
  by (auto simp: find_linked_from_def find_Some_iff set_conv_nth
      split: EntryType.splits option.splits elim!: get_entry_type_def_Some) metis

text \<open>
  A link definition path returned for a link leads to a real definition of the DNA: the
  zome it names declares the entry type it names, which is the link's base type for
  \<open>To\<close> and its target type for \<open>From\<close>, and that entry type has a link definition with
  the requested link type and the other end of the link.
\<close>

theorem link_definition_path_sound:
  assumes "find_link_definition_in_dna dna bt lt tt = Some (Ok p)"
  shows "\<exists>d z def. dna = Some d \<and> (ldp_zome_name p, z) \<in> set (dna_zomes d)
    \<and> map_of (entry_types z) (AppType (ldp_entry_type_name p)) = Some def \<and> ldp_link_type p = lt
    \<and> (case ldp_direction p of
         To \<Rightarrow> bt = AppType (ldp_entry_type_name p)
            \<and> (\<exists>l. l \<in> set (links_to def) \<and> lt_target_type l = string_of_entry_type tt \<and> lt_link_type l = lt)
       | From \<Rightarrow> tt = AppType (ldp_entry_type_name p)
            \<and> (\<exists>l. l \<in> set (linked_from def) \<and> lf_base_type l = string_of_entry_type bt \<and> lf_link_type l = lt))"
proof -
  from assms obtain d where d: "dna = Some d"
    by (auto simp: find_link_definition_in_dna_def split: option.splits)
  with assms consider "find_links_to d bt lt tt = Some (Ok (Some p))"
    | "find_linked_from d bt lt tt = Some (Ok (Some p))"
    by (auto simp: find_link_definition_in_dna_def split: option.splits sum.splits if_splits)
  then show ?thesis
    using d find_links_to_sound find_linked_from_sound by cases fastforce+
qed

text \<open>
  What leaves the agent's own chain. The DNA entry and capability grants and claims are
  never published, every other system entry is, and an app entry is published exactly when
  its name is well-formed and the first zome that declares its type declares it public or
  encrypted: never when it is private, and never when no zome declares it.
\<close>

theorem can_publish_policy:
  assumes "distinct (map fst (dna_zomes d))"
  shows "can_publish (Some d) t = Some True \<longleftrightarrow>
     t \<notin> {DnaType, CapTokenGrantType, CapTokenClaimType}
     \<and> (is_sys t \<or> (\<exists>n zn z def. t = AppType n \<and> has_valid_app_name n = Some True
          \<and> get_zome_name_for_app_entry_type d n = Some (Some zn) \<and> get_zome d zn = Ok z
          \<and> map_of (entry_types z) t = Some def \<and> sharing def \<noteq> SharingPrivate))"
proof (cases t)
  case (AppType n)
  have pub: "sharing_can_publish s \<longleftrightarrow> s \<noteq> SharingPrivate" for s
    by (cases s) (simp_all add: sharing_can_publish_def)
  show ?thesis
  proof (cases "find_zome_for t (dna_zomes d)")
    case None
    with AppType assms show ?thesis
      by (auto simp: can_publish_def is_sys_def is_app_def get_entry_type_def_def
          get_zome_name_for_app_entry_type_def find_def_via_zome split: option.splits bool.splits)
  next
    case (Some zn)
    then obtain z where z: "map_of (dna_zomes d) zn = Some z"
      by (metis find_zome_for_key map_of_eq_None_iff option.exhaust)
    then have "get_zome d zn = Ok z' \<longleftrightarrow> z' = z" for z'
      by (auto simp: get_zome_def ok_or_eq_Ok simp del: map_of_eq_Some_iff)
    with z AppType assms Some pub show ?thesis
      by (auto simp: can_publish_def is_sys_def is_app_def get_entry_type_def_def
          get_zome_name_for_app_entry_type_def find_def_via_zome split: option.splits bool.splits)
  qed
qed (simp_all add: can_publish_def is_sys_def is_app_def)

end
