(* ===== verification/Entries.thy ===== *)
theory Entries
  imports Dna_Model
begin

text \<open>
  Entries, chain headers and their addresses: \<open>core_types/src/{entry/mod,chain_header,
  agent,validation}.rs\<close> and \<open>core_types/src/link/mod.rs\<close>. The JSON printer and parser
  (\<open>serde_json\<close>) and the multihash of a string (\<open>multihash\<close>, \<open>rust_base58\<close>) are
  third-party code: they are the fields of the record \<open>ext\<close>, an argument of every
  definition that uses them.
\<close>

section \<open>Headers and entries\<close>

record ChainHeader =
  h_entry_type :: EntryType
  h_entry_address :: Address
  h_provenances :: "Provenance list"
  h_link :: "Address option"
  h_link_same_type :: "Address option"
  h_link_update_delete :: "Address option"
  h_timestamp :: Iso8601

definition chain_header_new ::
    "EntryType \<Rightarrow> Address \<Rightarrow> Provenance list \<Rightarrow> Address option \<Rightarrow> Address option \<Rightarrow> Address option
     \<Rightarrow> Iso8601 \<Rightarrow> ChainHeader" where
  "chain_header_new et ea ps l lst lud ts =
     \<lparr>h_entry_type = et, h_entry_address = ea, h_provenances = ps, h_link = l,
      h_link_same_type = lst, h_link_update_delete = lud, h_timestamp = ts\<rparr>"

datatype Entry =
    AppEntry AppEntryType string
  | DnaEntry Dna
  | AgentIdEntry AgentId
  | DeletionEntry DeletionEntry
  | LinkAddEntry LinkData
  | LinkRemoveEntry LinkData
  | LinkListEntry LinkList
  | ChainHeaderEntry ChainHeader
  | ChainMigrateEntry
  | CapTokenClaimEntry CapTokenClaim
  | CapTokenGrantEntry CapTokenGrant

fun entry_type :: "Entry \<Rightarrow> EntryType" where
  "entry_type (AppEntry t _) = AppType t"
| "entry_type (DnaEntry _) = DnaType"
| "entry_type (AgentIdEntry _) = AgentIdType"
| "entry_type (DeletionEntry _) = DeletionType"
| "entry_type (LinkAddEntry _) = LinkAddType"
| "entry_type (LinkRemoveEntry _) = LinkRemoveType"
| "entry_type (LinkListEntry _) = LinkListType"
| "entry_type (ChainHeaderEntry _) = ChainHeaderType"
| "entry_type ChainMigrateEntry = ChainMigrateType"
| "entry_type (CapTokenClaimEntry _) = CapTokenClaimType"
| "entry_type (CapTokenGrantEntry _) = CapTokenGrantType"

section \<open>Third-party functions and addresses\<close>

record ext =
  encode_from_str :: "string \<Rightarrow> string"
  entry_json :: "Entry \<Rightarrow> string"
  entry_from_json :: "string \<Rightarrow> Entry HcResult"
  header_json :: "ChainHeader \<Rightarrow> string"
  header_from_json :: "string \<Rightarrow> ChainHeader HcResult"

definition content_address :: "ext \<Rightarrow> Content \<Rightarrow> Address" where
  "content_address x c = encode_from_str x c"

definition entry_content :: "ext \<Rightarrow> Entry \<Rightarrow> Content" where
  "entry_content x e = entry_json x e"

definition entry_address :: "ext \<Rightarrow> Entry \<Rightarrow> Address" where
  "entry_address x e =
     (case e of AgentIdEntry a \<Rightarrow> agent_address a | _ \<Rightarrow> content_address x (entry_content x e))"

definition entry_try_from_content :: "ext \<Rightarrow> Content \<Rightarrow> Entry HcResult" where
  "entry_try_from_content x c = entry_from_json x c"

definition entry_eq :: "ext \<Rightarrow> Entry \<Rightarrow> Entry \<Rightarrow> bool" where
  "entry_eq x a b \<longleftrightarrow> entry_address x a = entry_address x b"

definition header_content :: "ext \<Rightarrow> ChainHeader \<Rightarrow> Content" where
  "header_content x h = header_json x h"

definition header_address :: "ext \<Rightarrow> ChainHeader \<Rightarrow> Address" where
  "header_address x h = content_address x (header_content x h)"

definition header_try_from_content :: "ext \<Rightarrow> Content \<Rightarrow> ChainHeader HcResult" where
  "header_try_from_content x c = header_from_json x c"

definition header_eq :: "ext \<Rightarrow> ChainHeader \<Rightarrow> ChainHeader \<Rightarrow> bool" where
  "header_eq x a b \<longleftrightarrow> header_address x a = header_address x b"

definition agent_content :: "ext \<Rightarrow> AgentId \<Rightarrow> Content" where
  "agent_content x a = entry_content x (AgentIdEntry a)"

definition agent_try_from_content :: "ext \<Rightarrow> Content \<Rightarrow> AgentId HcResult" where
  "agent_try_from_content x c =
     and_then (entry_try_from_content x c) (\<lambda>e.
       case e of AgentIdEntry a \<Rightarrow> Ok a
       | _ \<Rightarrow> Err (SerializationError ''Attempted to load AgentId from non AgentID entry''))"

definition grant_token :: "ext \<Rightarrow> CapTokenGrant \<Rightarrow> CapTokenValue" where
  "grant_token x g = entry_address x (CapTokenGrantEntry g)"

definition link_add_entry :: "Link \<Rightarrow> Entry" where
  "link_add_entry l = LinkAddEntry (add_from_link l)"

definition link_remove_entry :: "Link \<Rightarrow> Entry" where
  "link_remove_entry l = LinkAddEntry (remove_from_link l)"

section \<open>Metadata and validation data\<close>

record EntryWithMeta =
  ewm_entry :: Entry
  ewm_crud_status :: CrudStatus
  ewm_maybe_link_update_delete :: "Address option"

record EntryWithMetaAndHeader =
  ewmh_entry_with_meta :: EntryWithMeta
  ewmh_headers :: "ChainHeader list"

record ValidationPackage =
  vp_chain_header :: ChainHeader
  vp_source_chain_entries :: "Entry list option"
  vp_source_chain_headers :: "ChainHeader list option"
  vp_custom :: "string option"

definition only_header :: "ChainHeader \<Rightarrow> ValidationPackage" where
  "only_header h = \<lparr>vp_chain_header = h, vp_source_chain_entries = None,
     vp_source_chain_headers = None, vp_custom = None\<rparr>"

datatype ValidationPackageDefinition =
    VPEntry | VPChainEntries | VPChainHeaders | VPChainFull | VPCustom string

datatype EntryLifecycle = LifecycleChain | LifecycleDht | LifecycleMeta

record ValidationData =
  vd_package :: ValidationPackage
  vd_lifecycle :: EntryLifecycle

definition validation_sources :: "ValidationData \<Rightarrow> Address list" where
  "validation_sources vd = map prov_source (h_provenances (vp_chain_header (vd_package vd)))"

datatype EntryValidationData =
    EvdCreate Entry ValidationData
  | EvdModify Entry Entry ChainHeader ValidationData
  | EvdDelete Entry ChainHeader ValidationData

datatype LinkValidationData =
    LvdLinkAdd LinkData ValidationData
  | LvdLinkRemove LinkData ValidationData

definition entry_type_of_validation :: "EntryValidationData \<Rightarrow> EntryType HcResult" where
  "entry_type_of_validation d =
     map_ok AppType (app_entry_type_try_from (entry_type
       (case d of EvdCreate e _ \<Rightarrow> e | EvdDelete e _ _ \<Rightarrow> e | EvdModify n _ _ _ \<Rightarrow> n)))"

section \<open>Addresses\<close>

lemma entry_address_simps:
  "entry_address x (AgentIdEntry a) = pub_sign_key a"
  "entry_type e \<noteq> AgentIdType \<Longrightarrow> entry_address x e = encode_from_str x (entry_json x e)"
  by (cases e; simp add: entry_address_def agent_address_def content_address_def entry_content_def)+

section \<open>Concrete instances\<close>

text \<open>
  An instance of the third-party functions given by tables of texts: what is not in a table
  prints as \<open>?\<close> and does not parse, and the multihash puts \<open>Qm\<close> in front of the text.
\<close>

definition table_ext :: "(Entry \<times> string) list \<Rightarrow> (ChainHeader \<times> string) list \<Rightarrow> ext" where
  "table_ext es hs =
     \<lparr>encode_from_str = (\<lambda>s. ''Qm'' @ s),
      entry_json = (\<lambda>e. case map_of es e of Some j \<Rightarrow> j | None \<Rightarrow> ''?''),
      entry_from_json = (\<lambda>j. case find (\<lambda>p. snd p = j) es of Some p \<Rightarrow> Ok (fst p) | None \<Rightarrow> Err (SerializationError j)),
      header_json = (\<lambda>h. case map_of hs h of Some j \<Rightarrow> j | None \<Rightarrow> ''?''),
      header_from_json = (\<lambda>j. case find (\<lambda>p. snd p = j) hs of Some p \<Rightarrow> Ok (fst p) | None \<Rightarrow> Err (SerializationError j))\<rparr>"

end
