(* ===== verification/CAS.thy ===== *)
theory CAS
  imports Entries
begin

text \<open>
  Content-addressable storage: the trait of \<open>core_types/src/cas/storage.rs\<close> with its example
  implementation, and \<open>MemoryStorage\<close> and \<open>FilesystemStorage\<close> of \<open>cas_implementations\<close>.
  A trait object is a record of operations on the storage's state; the locale
  \<open>content_store\<close> is the contract its clients rely on, and each implementation is an
  interpretation of it. Lock poisoning is not modelled. The file system of
  \<open>FilesystemStorage\<close> is a map from paths to contents with a set of paths on which writing
  fails.
\<close>

section \<open>The trait\<close>

record 's cas_ops =
  cas_add :: "'s \<Rightarrow> Address \<times> Content \<Rightarrow> unit HcResult \<times> 's"
  cas_contains :: "'s \<Rightarrow> Address \<Rightarrow> bool HcResult"
  cas_fetch :: "'s \<Rightarrow> Address \<Rightarrow> Content option HcResult"

definition entry_addressable :: "ext \<Rightarrow> Entry \<Rightarrow> Address \<times> Content" where
  "entry_addressable x e = (entry_address x e, entry_content x e)"

definition header_addressable :: "ext \<Rightarrow> ChainHeader \<Rightarrow> Address \<times> Content" where
  "header_addressable x h = (header_address x h, header_content x h)"

section \<open>The example storage\<close>

record ExampleContentAddressableStorage =
  example_storage :: "(Address, Content) map"

definition example_cas_new :: ExampleContentAddressableStorage where
  "example_cas_new = \<lparr>example_storage = Map.empty\<rparr>"

definition unthreadable_add ::
    "ExampleContentAddressableStorage \<Rightarrow> Address \<Rightarrow> Content \<Rightarrow> unit HcResult \<times> ExampleContentAddressableStorage" where
  "unthreadable_add s a c = (Ok (), s\<lparr>example_storage := (example_storage s)(a \<mapsto> c)\<rparr>)"

definition unthreadable_contains :: "ExampleContentAddressableStorage \<Rightarrow> Address \<Rightarrow> bool HcResult" where
  "unthreadable_contains s a = Ok (example_storage s a \<noteq> None)"

definition unthreadable_fetch :: "ExampleContentAddressableStorage \<Rightarrow> Address \<Rightarrow> Content option HcResult" where
  "unthreadable_fetch s a = Ok (example_storage s a)"

definition example_cas :: "ExampleContentAddressableStorage cas_ops" where
  "example_cas = \<lparr>cas_add = (\<lambda>s (a, c). unthreadable_add s a c),
     cas_contains = unthreadable_contains, cas_fetch = unthreadable_fetch\<rparr>"

section \<open>The memory storage\<close>

record MemoryStorage =
  storage :: "(Address, Content) map"

definition memory_new :: MemoryStorage where
  "memory_new = \<lparr>storage = Map.empty\<rparr>"

definition memory_add :: "MemoryStorage \<Rightarrow> Address \<times> Content \<Rightarrow> unit HcResult \<times> MemoryStorage" where
  "memory_add s ac = (Ok (), s\<lparr>storage := (storage s)(fst ac \<mapsto> snd ac)\<rparr>)"

definition memory_contains :: "MemoryStorage \<Rightarrow> Address \<Rightarrow> bool HcResult" where
  "memory_contains s a = Ok (storage s a \<noteq> None)"

definition memory_fetch :: "MemoryStorage \<Rightarrow> Address \<Rightarrow> Content option HcResult" where
  "memory_fetch s a = Ok (storage s a)"

definition memory_cas :: "MemoryStorage cas_ops" where
  "memory_cas = \<lparr>cas_add = memory_add, cas_contains = memory_contains, cas_fetch = memory_fetch\<rparr>"

section \<open>The file system storage\<close>

record FilesystemStorage =
  dir_path :: string
  files :: "(string, string) map"
  write_error :: "string \<Rightarrow> string option"

definition filesystem_new :: "string \<Rightarrow> (string, string) map \<Rightarrow> (string \<Rightarrow> string option) \<Rightarrow> FilesystemStorage HcResult" where
  "filesystem_new d fs we = Ok \<lparr>dir_path = d, files = fs, write_error = we\<rparr>"

text \<open>\<open>Path::with_extension\<close> on a single component: what follows the last dot is replaced,
  unless that dot is the first character; the component \<open>..\<close> has no file name.\<close>

fun before_last_dot :: "string \<Rightarrow> string option" where
  "before_last_dot [] = None"
| "before_last_dot (c # cs) =
     (case before_last_dot cs of Some b \<Rightarrow> Some (c # b)
      | None \<Rightarrow> if c = CHR ''.'' then Some [] else None)"

definition with_extension_txt :: "string \<Rightarrow> string" where
  "with_extension_txt n =
     (if n = ''..'' then n
      else (case before_last_dot n of
              None \<Rightarrow> n
            | Some b \<Rightarrow> if b = [] then n else b) @ ''.txt'')"

definition address_to_path :: "FilesystemStorage \<Rightarrow> Address \<Rightarrow> string" where
  "address_to_path s a = dir_path s @ ''/'' @ with_extension_txt a"

definition filesystem_add :: "FilesystemStorage \<Rightarrow> Address \<times> Content \<Rightarrow> unit HcResult \<times> FilesystemStorage" where
  "filesystem_add s ac =
     (let p = address_to_path s (fst ac) in
      case write_error s p of
        Some m \<Rightarrow> (Err (IoError m), s)
      | None \<Rightarrow> (Ok (), s\<lparr>files := (files s)(p \<mapsto> snd ac)\<rparr>))"

definition filesystem_contains :: "FilesystemStorage \<Rightarrow> Address \<Rightarrow> bool HcResult" where
  "filesystem_contains s a = Ok (files s (address_to_path s a) \<noteq> None)"

definition filesystem_fetch :: "FilesystemStorage \<Rightarrow> Address \<Rightarrow> Content option HcResult" where
  "filesystem_fetch s a =
     and_then (filesystem_contains s a) (\<lambda>b.
       if b then Ok (files s (address_to_path s a)) else Ok None)"

definition filesystem_cas :: "FilesystemStorage cas_ops" where
  "filesystem_cas = \<lparr>cas_add = filesystem_add, cas_contains = filesystem_contains,
     cas_fetch = filesystem_fetch\<rparr>"

text \<open>The addresses the contract covers on disk: one path component without dots, which
  base58 hashes and base32 keys are.\<close>

definition plain_address :: "Address \<Rightarrow> bool" where
  "plain_address a \<longleftrightarrow> a \<noteq> [] \<and> CHR ''/'' \<notin> set a \<and> CHR ''.'' \<notin> set a"

definition writable :: "FilesystemStorage \<Rightarrow> bool" where
  "writable s \<longleftrightarrow> (\<forall>p. write_error s p = None)"

section \<open>The contract\<close>

text \<open>
  A storage behaves as a map from addresses to contents: adding never fails and is seen by
  the next fetch of that address alone, and \<open>contains\<close> agrees with \<open>fetch\<close>.
\<close>

locale content_store =
  fixes ops :: "'s cas_ops"
    and lookup :: "'s \<Rightarrow> Address \<Rightarrow> Content option"
    and inv :: "'s \<Rightarrow> bool"
    and valid :: "Address \<Rightarrow> bool"
  assumes fetch_lookup: "inv s \<Longrightarrow> valid a \<Longrightarrow> cas_fetch ops s a = Ok (lookup s a)"
    and contains_lookup: "inv s \<Longrightarrow> valid a \<Longrightarrow> cas_contains ops s a = Ok (lookup s a \<noteq> None)"
    and add_ok: "inv s \<Longrightarrow> valid a \<Longrightarrow> fst (cas_add ops s (a, c)) = Ok ()"
    and add_inv: "inv s \<Longrightarrow> valid a \<Longrightarrow> inv (snd (cas_add ops s (a, c)))"
    and add_lookup: "inv s \<Longrightarrow> valid a \<Longrightarrow> valid b \<Longrightarrow>
      lookup (snd (cas_add ops s (a, c))) b = (if b = a then Some c else lookup s b)"
begin

lemma fetch_added: "inv s \<Longrightarrow> valid a \<Longrightarrow> cas_fetch ops (snd (cas_add ops s (a, c))) a = Ok (Some c)"
  by (simp add: fetch_lookup add_inv add_lookup)

lemma add_cases:
  assumes "inv s" "valid a"
  obtains s' where "cas_add ops s (a, c) = (Ok (), s')" "inv s'"
    "\<And>b. valid b \<Longrightarrow> lookup s' b = (if b = a then Some c else lookup s b)"
  using assms add_ok add_inv add_lookup by (metis prod.collapse)

definition add_all :: "(Address \<times> Content) list \<Rightarrow> 's \<Rightarrow> 's" where
  "add_all acs s = fold (\<lambda>ac s. snd (cas_add ops s ac)) acs s"

lemma add_all_inv: "inv s \<Longrightarrow> \<forall>ac\<in>set acs. valid (fst ac) \<Longrightarrow> inv (add_all acs s)"
  unfolding add_all_def
  by (induction acs arbitrary: s) (auto simp: add_inv)

lemma add_all_lookup:
  "inv s \<Longrightarrow> \<forall>ac\<in>set acs. valid (fst ac) \<Longrightarrow> valid b \<Longrightarrow>
   lookup (add_all acs s) b = (case map_of (rev acs) b of Some c \<Rightarrow> Some c | None \<Rightarrow> lookup s b)"
proof (induction acs arbitrary: s)
  case (Cons ac acs)
  have "lookup (add_all (ac # acs) s) b = lookup (add_all acs (snd (cas_add ops s ac))) b"
    by (simp add: add_all_def)
  with Cons show ?case
    by (cases ac) (auto simp: add_inv add_lookup map_add_def split: option.split)
qed (simp add: add_all_def)

text \<open>Content written once is never lost: later additions keep an address that holds the
  same content whenever they do not write another content to it.\<close>

lemma add_all_keeps:
  assumes "inv s" "\<forall>ac\<in>set acs. valid (fst ac)" "valid a" "lookup s a = Some c"
    and "\<forall>ac\<in>set acs. fst ac = a \<longrightarrow> snd ac = c"
  shows "cas_fetch ops (add_all acs s) a = Ok (Some c)"
proof -
  have "map_of (rev acs) a = Some d \<Longrightarrow> d = c" for d
    using assms(5) by (metis fst_conv map_of_SomeD set_rev snd_conv)
  then show ?thesis
    using assms by (auto simp: fetch_lookup add_all_inv add_all_lookup split: option.split)
qed

end

lemma before_last_dot_None: "CHR ''.'' \<notin> set n \<Longrightarrow> before_last_dot n = None"
  by (induction n) auto

lemma address_to_path_inject:
  "plain_address a \<Longrightarrow> plain_address b \<Longrightarrow> address_to_path s a = address_to_path s b \<longleftrightarrow> a = b"
  by (auto simp: address_to_path_def with_extension_txt_def plain_address_def before_last_dot_None)

lemmas filesystem_defs =
  filesystem_cas_def filesystem_add_def filesystem_contains_def filesystem_fetch_def

interpretation mem: content_store memory_cas storage "\<lambda>_. True" "\<lambda>_. True"
  by unfold_locales
    (auto simp: memory_cas_def memory_add_def memory_contains_def memory_fetch_def)

interpretation exc: content_store example_cas example_storage "\<lambda>_. True" "\<lambda>_. True"
  by unfold_locales
    (auto simp: example_cas_def unthreadable_add_def unthreadable_contains_def unthreadable_fetch_def)

interpretation fsc: content_store filesystem_cas "\<lambda>s a. files s (address_to_path s a)" writable plain_address
proof
  fix s a b c
  assume s: "writable s" and a: "plain_address a"
  then have we: "write_error s p = None" for p
    by (simp add: writable_def)
  show "cas_fetch filesystem_cas s a = Ok (files s (address_to_path s a))"
    "cas_contains filesystem_cas s a = Ok (files s (address_to_path s a) \<noteq> None)"
    by (auto simp: filesystem_defs)
  show "fst (cas_add filesystem_cas s (a, c)) = Ok ()"
    "writable (snd (cas_add filesystem_cas s (a, c)))"
    using we by (simp_all add: filesystem_defs writable_def)
  have path: "address_to_path (s\<lparr>files := f\<rparr>) d = address_to_path s d" for f d
    by (simp add: address_to_path_def)
  assume "plain_address b"
  with a show "files (snd (cas_add filesystem_cas s (a, c)))
      (address_to_path (snd (cas_add filesystem_cas s (a, c))) b)
      = (if b = a then Some c else files s (address_to_path s b))"
    using we by (simp add: filesystem_defs path address_to_path_inject)
qed

section \<open>Properties\<close>

text \<open>
  C14: The disk and the memory storage are interchangeable: after the same additions at plain
  addresses to a writable empty directory and to a new memory storage, every plain address
  gives the same answer to \<open>fetch\<close> and to \<open>contains\<close>, which is the last content added there.
\<close>

theorem storages_agree:
  assumes "writable s" and "\<forall>p. files s p = None"
    and "\<forall>ac\<in>set acs. plain_address (fst ac)" and "plain_address a"
  defines "disk \<equiv> fold (\<lambda>ac s. snd (cas_add filesystem_cas s ac)) acs s"
    and "mem \<equiv> fold (\<lambda>ac s. snd (cas_add memory_cas s ac)) acs memory_new"
  shows "cas_fetch filesystem_cas disk a = cas_fetch memory_cas mem a
    \<and> cas_contains filesystem_cas disk a = cas_contains memory_cas mem a
    \<and> cas_fetch memory_cas mem a = Ok (map_of (rev acs) a)"
proof -
  have d: "disk = fsc.add_all acs s" and m: "mem = mem.add_all acs memory_new"
    by (simp_all add: disk_def mem_def fsc.add_all_def mem.add_all_def)
  have "writable (fsc.add_all acs s)"
    using assms by (simp add: fsc.add_all_inv)
  moreover have "files (fsc.add_all acs s) (address_to_path (fsc.add_all acs s) a) = map_of (rev acs) a"
    using assms by (simp add: fsc.add_all_lookup split: option.split)
  moreover have "storage (mem.add_all acs memory_new) a = map_of (rev acs) a"
    by (simp add: mem.add_all_lookup memory_new_def split: option.split)
  ultimately show ?thesis
    using assms(4)
    by (simp add: d m fsc.fetch_lookup fsc.contains_lookup mem.fetch_lookup mem.contains_lookup)
qed

theorem storages_agree_witness:
  "let s = \<lparr>dir_path = ''cas'', files = Map.empty, write_error = (\<lambda>_. None)\<rparr>;
       acs = [(''QmA'', ''one''), (''QmB'', ''two'')];
       disk = fold (\<lambda>ac s. snd (cas_add filesystem_cas s ac)) acs s
   in cas_fetch filesystem_cas disk ''QmB'' = Ok (Some ''two'')"
proof -
  let ?s = "\<lparr>dir_path = ''cas'', files = Map.empty, write_error = (\<lambda>_. None)\<rparr>"
  let ?acs = "[(''QmA'', ''one''), (''QmB'', ''two'')]"
  have "writable ?s" "\<forall>p. files ?s p = None" "\<forall>ac\<in>set ?acs. plain_address (fst ac)" "plain_address ''QmB''"
    by (simp_all add: writable_def plain_address_def)
  from storages_agree [OF this] show ?thesis
    by (simp add: Let_def)
qed

text \<open>
  On disk, addresses that differ only after a dot are one file: content added at one of
  them is fetched at the other.
\<close>

theorem filesystem_dotted_addresses_collide:
  assumes "writable s" and "plain_address p" and "CHR ''.'' \<notin> set u" and "CHR ''.'' \<notin> set v"
  shows "cas_fetch filesystem_cas (snd (cas_add filesystem_cas s (p @ ''.'' @ u, c))) (p @ ''.'' @ v) = Ok (Some c)"
proof -
  have dot: "before_last_dot (q @ CHR ''.'' # w) = Some q" if "CHR ''.'' \<notin> set w" for q w
    using that by (induction q) (simp_all add: before_last_dot_None)
  have "with_extension_txt (p @ ''.'' @ w) = p @ ''.txt''" if "CHR ''.'' \<notin> set w" for w
  proof -
    have "p @ ''.'' @ w \<noteq> ''..''"
      using assms(2) by (cases p) (auto simp: plain_address_def)
    with dot [OF that, of p] assms(2) show ?thesis
      by (simp add: with_extension_txt_def plain_address_def)
  qed
  with assms show ?thesis
    by (simp add: filesystem_defs address_to_path_def writable_def)
qed

end
