(* ===== verification/Chain_Store.thy ===== *)
theory Chain_Store
  imports CAS
begin

text \<open>
  Walking the source chain: \<open>core/src/agent/chain_store.rs\<close>. An iterator holds the header it
  will yield next; \<open>next\<close> fetches that header's successor before it yields, so a broken
  link panics one step early. The adapters \<open>filter\<close>, \<open>skip\<close>, \<open>take\<close> and \<open>find\<close> are one
  lazy consumer. \<open>None\<close> is a panic, or a walk that does not end. The glob matcher
  (\<open>globset\<close>) is a parameter.
\<close>

section \<open>Iterators\<close>

text \<open>The body of \<open>next\<close>, for \<open>ChainStoreIterator\<close> with \<open>follow = h_link\<close> and for
  \<open>ChainStoreTypeIterator\<close> with \<open>follow = h_link_same_type\<close>.\<close>

definition chain_next ::
    "(ChainHeader \<Rightarrow> Address option) \<Rightarrow> 's cas_ops \<Rightarrow> ext \<Rightarrow> 's \<Rightarrow> ChainHeader \<Rightarrow> ChainHeader option option" where
  "chain_next follow C x s h =
     (case follow h of
        None \<Rightarrow> Some None
      | Some a \<Rightarrow>
          (case cas_fetch C s a of
             Err _ \<Rightarrow> None
           | Ok None \<Rightarrow> Some None
           | Ok (Some c) \<Rightarrow>
               (case header_try_from_content x c of Err _ \<Rightarrow> None | Ok h' \<Rightarrow> Some (Some h'))))"

definition iter_next :: "'s cas_ops \<Rightarrow> ext \<Rightarrow> 's \<Rightarrow> ChainHeader \<Rightarrow> ChainHeader option option" where
  "iter_next = chain_next h_link"

definition iter_type_next :: "'s cas_ops \<Rightarrow> ext \<Rightarrow> 's \<Rightarrow> ChainHeader \<Rightarrow> ChainHeader option option" where
  "iter_type_next = chain_next h_link_same_type"

text \<open>\<open>filter(P).skip(n).take(m)\<close>, collected.\<close>

partial_function (option) consume ::
    "(ChainHeader \<Rightarrow> ChainHeader option option) \<Rightarrow> (ChainHeader \<Rightarrow> bool) \<Rightarrow> u64 \<Rightarrow> u64
     \<Rightarrow> ChainHeader option \<Rightarrow> ChainHeader list option" where
  "consume nxt P skip limit cur =
     (if limit = 0 then Some []
      else case cur of
        None \<Rightarrow> Some []
      | Some h \<Rightarrow>
          (case nxt h of
             None \<Rightarrow> None
           | Some cur' \<Rightarrow>
               if \<not> P h then consume nxt P skip limit cur'
               else if skip \<noteq> 0 then consume nxt P (skip - 1) limit cur'
               else Option.bind (consume nxt P 0 (limit - 1) cur') (\<lambda>hs. Some (h # hs))))"

declare consume.simps [code]

definition iter_find :: "(ChainHeader \<Rightarrow> ChainHeader option option) \<Rightarrow> (ChainHeader \<Rightarrow> bool) \<Rightarrow> ChainHeader option
     \<Rightarrow> ChainHeader option option" where
  "iter_find nxt P cur = map_option (\<lambda>hs. case hs of [] \<Rightarrow> None | h # _ \<Rightarrow> Some h) (consume nxt P 0 1 cur)"

definition usize_max :: u64 where
  "usize_max = 0xFFFFFFFFFFFFFFFF"

definition iter_all :: "(ChainHeader \<Rightarrow> ChainHeader option option) \<Rightarrow> ChainHeader option \<Rightarrow> ChainHeader list option" where
  "iter_all nxt cur = consume nxt (\<lambda>_. True) 0 usize_max cur"

section \<open>The chain store\<close>

definition iter_type_start :: "'s cas_ops \<Rightarrow> ext \<Rightarrow> 's \<Rightarrow> ChainHeader option \<Rightarrow> EntryType \<Rightarrow> ChainHeader option option" where
  "iter_type_start C x s start t = iter_find (iter_next C x s) (\<lambda>h. h_entry_type h = t) start"

text \<open>\<open>iter_type(start, t)\<close>, consumed with \<open>filter(P).skip(n).take(m)\<close>.\<close>

definition iter_type ::
    "'s cas_ops \<Rightarrow> ext \<Rightarrow> 's \<Rightarrow> ChainHeader option \<Rightarrow> EntryType \<Rightarrow> (ChainHeader \<Rightarrow> bool) \<Rightarrow> u64 \<Rightarrow> u64
     \<Rightarrow> ChainHeader list option" where
  "iter_type C x s start t P skip limit =
     (case iter_type_start C x s start t of
        None \<Rightarrow> None
      | Some first \<Rightarrow> consume (iter_type_next C x s) P skip limit first)"

record ChainStoreQueryOptions =
  opt_start :: u64
  opt_limit :: u64
  opt_headers :: bool

datatype ChainStoreQueryResult = Addresses "Address list" | Headers "ChainHeader list"

definition is_glob_str :: "string \<Rightarrow> bool" where
  "is_glob_str s = list_ex (\<lambda>c. c \<in> set ''./*[]{}'') s"

definition query_result :: "bool \<Rightarrow> ChainHeader list \<Rightarrow> ChainStoreQueryResult" where
  "query_result headers hs = (if headers then Headers hs else Addresses (map h_entry_address hs))"

text \<open>The page of a result that the options select.\<close>

definition query_page :: "ChainStoreQueryOptions \<Rightarrow> 'a list \<Rightarrow> 'a list" where
  "query_page opts gs =
     (let r = drop (unat (opt_start opts)) gs in
      if opt_limit opts = 0 then r else take (unat (opt_limit opts)) r)"

text \<open>\<open>glob\<close> stands for \<open>globset\<close>: given the patterns, the matcher, or \<open>None\<close> when one of
  them does not compile.\<close>

definition chain_query ::
    "(string list \<Rightarrow> (string \<Rightarrow> bool) option) \<Rightarrow> 's cas_ops \<Rightarrow> ext \<Rightarrow> 's \<Rightarrow> ChainHeader option \<Rightarrow> string list
     \<Rightarrow> ChainStoreQueryOptions \<Rightarrow> (RibosomeErrorCode + ChainStoreQueryResult) option" where
  "chain_query glob C x s start names opts =
     (let skip = opt_start opts;
          limit = (if opt_limit opts = 0 then usize_max else opt_limit opts) in
      if names = [] \<or> names = [''''] \<or> names = [''**''] then
        map_option (\<lambda>hs. Ok (query_result (opt_headers opts) hs))
          (consume (iter_next C x s) (\<lambda>_. True) skip limit start)
      else if length names = 1 \<and> \<not> is_glob_str (hd names) then
        map_option (\<lambda>hs. Ok (query_result (opt_headers opts) hs))
          (iter_type C x s start (entry_type_from_str (hd names)) (\<lambda>_. True) skip limit)
      else
        (case glob names of
           None \<Rightarrow> Some (Err UnknownEntryType)
         | Some matches \<Rightarrow>
             map_option (\<lambda>hs. Ok (query_result (opt_headers opts) hs))
               (consume (iter_next C x s) (\<lambda>h. matches (string_of_entry_type (h_entry_type h))) skip limit start)))"

section \<open>Consuming a finite chain\<close>

fun linked :: "(ChainHeader \<Rightarrow> ChainHeader option option) \<Rightarrow> ChainHeader option \<Rightarrow> ChainHeader list \<Rightarrow> bool" where
  "linked nxt cur [] \<longleftrightarrow> cur = None"
| "linked nxt cur (h # hs) \<longleftrightarrow> cur = Some h \<and> (\<exists>c. nxt h = Some c \<and> linked nxt c hs)"

lemma word_pred_unat: "(w :: u64) \<noteq> 0 \<Longrightarrow> unat w = Suc (unat (w - 1))"
  by (simp add: unat_minus_one unat_gt_0)

lemma consume_linked:
  assumes "linked nxt cur hs"
  shows "consume nxt P skip limit cur = Some (take (unat limit) (drop (unat skip) (filter P hs)))"
  using assms
proof (induction hs arbitrary: cur skip limit)
  case Nil
  then show ?case by (simp add: consume.simps)
next
  case (Cons h hs)
  then obtain c where c: "cur = Some h" "nxt h = Some c" "linked nxt c hs" by auto
  show ?case
  proof (cases "limit = 0")
    case False
    then have lim: "unat limit = Suc (unat (limit - 1))"
      by (rule word_pred_unat)
    show ?thesis
    proof (cases "P h \<and> skip \<noteq> 0")
      case True
      then have "unat skip = Suc (unat (skip - 1))"
        by (intro word_pred_unat) simp
      with True False c Cons.IH [OF c(3)] show ?thesis
        by (subst consume.simps) simp
    next
      case other: False
      with False c Cons.IH [OF c(3)] lim show ?thesis
        by (subst consume.simps) auto
    qed
  qed (simp add: consume.simps)
qed

lemma iter_find_linked: "linked nxt cur hs \<Longrightarrow> iter_find nxt P cur = Some (find P hs)"
  by (simp add: iter_find_def consume_linked find_filter split: list.split)

lemma iter_all_linked:
  "linked nxt cur hs \<Longrightarrow> length hs < 2 ^ 64 \<Longrightarrow> iter_all nxt cur = Some hs"
  by (simp add: iter_all_def consume_linked usize_max_def)

section \<open>Well-formed chains\<close>

text \<open>
  \<open>chain_wf x lk hs\<close>: the headers \<open>hs\<close>, newest first, form a source chain in a storage with
  lookup \<open>lk\<close>. Every header is stored under its address and parses back, links to the
  address of its predecessor, and links to the address of the last earlier header of its
  type.
\<close>

fun chain_wf :: "ext \<Rightarrow> (Address \<Rightarrow> Content option) \<Rightarrow> ChainHeader list \<Rightarrow> bool" where
  "chain_wf x lk [] \<longleftrightarrow> True"
| "chain_wf x lk (h # hs) \<longleftrightarrow>
     lk (header_address x h) = Some (header_content x h)
     \<and> header_try_from_content x (header_content x h) = Ok h
     \<and> h_link h = map_option (header_address x) (case hs of [] \<Rightarrow> None | g # _ \<Rightarrow> Some g)
     \<and> h_link_same_type h = map_option (header_address x) (find (\<lambda>g. h_entry_type g = h_entry_type h) hs)
     \<and> chain_wf x lk hs"

definition chain_top :: "ChainHeader list \<Rightarrow> ChainHeader option" where
  "chain_top hs = (case hs of [] \<Rightarrow> None | h # _ \<Rightarrow> Some h)"

lemma chain_top_simps [simp]: "chain_top [] = None" "chain_top (h # hs) = Some h"
  by (simp_all add: chain_top_def)

lemma chain_wf_stored:
  "chain_wf x lk hs \<Longrightarrow> h \<in> set hs \<Longrightarrow>
   lk (header_address x h) = Some (header_content x h) \<and> header_try_from_content x (header_content x h) = Ok h"
  by (induction hs) auto

lemma chain_wf_mono:
  assumes "chain_wf x lk hs"
    and "\<And>h. h \<in> set hs \<Longrightarrow> lk (header_address x h) = lk' (header_address x h)"
  shows "chain_wf x lk' hs"
  using assms by (induction hs) auto

lemma find_first_tail:
  "find (\<lambda>g. h_entry_type g = t) hs = Some h \<Longrightarrow>
   \<exists>pre suf. hs = pre @ h # suf \<and> filter (\<lambda>g. h_entry_type g = t) hs = h # filter (\<lambda>g. h_entry_type g = t) suf
     \<and> h_entry_type h = t"
proof (induction hs)
  case (Cons g hs)
  then show ?case
    by (cases "h_entry_type g = t") (auto, metis append_Cons)
qed simp

lemma chain_wf_suffix: "chain_wf x lk (pre @ hs) \<Longrightarrow> chain_wf x lk hs"
  by (induction pre) auto

context content_store
begin

lemma chain_next_stored:
  assumes "inv s" "valid (header_address x g)" "follow h = Some (header_address x g)"
    and "lookup s (header_address x g) = Some (header_content x g)"
    and "header_try_from_content x (header_content x g) = Ok g"
  shows "chain_next follow ops x s h = Some (Some g)"
  using assms by (simp add: chain_next_def fetch_lookup)

lemma iter_linked:
  assumes "inv s" "chain_wf x (lookup s) hs" "\<forall>h\<in>set hs. valid (header_address x h)"
  shows "linked (iter_next ops x s) (chain_top hs) hs"
  using assms
proof (induction hs)
  case (Cons h hs)
  show ?case
  proof (cases hs)
    case Nil
    with Cons show ?thesis
      by (simp add: iter_next_def chain_next_def)
  next
    case (Cons g gs)
    with Cons.prems Cons.IH chain_next_stored [of s x g h_link h] show ?thesis
      by (simp add: iter_next_def)
  qed
qed simp

lemma iter_type_linked:
  assumes "inv s" "chain_wf x (lookup s) hs" "\<forall>h\<in>set hs. valid (header_address x h)"
  shows "linked (iter_type_next ops x s) (find (\<lambda>h. h_entry_type h = t) hs)
    (filter (\<lambda>h. h_entry_type h = t) hs)"
  using assms
proof (induction "length hs" arbitrary: hs rule: less_induct)
  case less
  show ?case
  proof (cases "find (\<lambda>h. h_entry_type h = t) hs")
    case None
    then show ?thesis by (simp add: find_None_iff)
  next
    case (Some h)
    then obtain pre suf where hs: "hs = pre @ h # suf" "h_entry_type h = t"
        "filter (\<lambda>g. h_entry_type g = t) hs = h # filter (\<lambda>g. h_entry_type g = t) suf"
      using find_first_tail by blast
    have wf: "chain_wf x (lookup s) (h # suf)"
      using less.prems(2) hs(1) chain_wf_suffix by blast
    have IH: "linked (iter_type_next ops x s) (find (\<lambda>h. h_entry_type h = t) suf)
        (filter (\<lambda>h. h_entry_type h = t) suf)"
      using less hs(1) wf by simp
    have "iter_type_next ops x s h = Some (find (\<lambda>h. h_entry_type h = t) suf)"
    proof (cases "find (\<lambda>h. h_entry_type h = t) suf")
      case None
      with wf hs(2) show ?thesis
        by (simp add: iter_type_next_def chain_next_def)
    next
      case (Some g)
      then have g: "g \<in> set suf"
        by (metis find_Some_iff nth_mem)
      with wf have "lookup s (header_address x g) = Some (header_content x g)"
          "header_try_from_content x (header_content x g) = Ok g"
        using chain_wf_stored [of x "lookup s" suf g] by auto
      with Some g wf hs less.prems chain_next_stored [of s x g h_link_same_type h] show ?thesis
        by (simp add: iter_type_next_def)
    qed
    with IH Some hs show ?thesis by simp
  qed
qed

text \<open>The single-type index and the scan of the whole chain agree.\<close>

lemma iter_type_eq:
  assumes "inv s" "chain_wf x (lookup s) hs" "\<forall>h\<in>set hs. valid (header_address x h)"
  shows "iter_type ops x s (chain_top hs) t P skip limit
    = Some (take (unat limit) (drop (unat skip) (filter P (filter (\<lambda>h. h_entry_type h = t) hs))))"
  by (simp add: iter_type_def iter_type_start_def iter_find_linked [OF iter_linked [OF assms]]
      consume_linked [OF iter_type_linked [OF assms]])

lemma chain_query_eq:
  assumes "inv s" "chain_wf x (lookup s) hs" "\<forall>h\<in>set hs. valid (header_address x h)"
    and "length hs < 2 ^ 64"
  shows "chain_query glob ops x s (chain_top hs) names opts =
    Some (if names = [] \<or> names = [''''] \<or> names = [''**'']
      then Ok (query_result (opt_headers opts) (query_page opts hs))
      else if length names = 1 \<and> \<not> is_glob_str (hd names)
      then Ok (query_result (opt_headers opts)
            (query_page opts (filter (\<lambda>h. h_entry_type h = entry_type_from_str (hd names)) hs)))
      else case glob names of
        None \<Rightarrow> Err UnknownEntryType
      | Some m \<Rightarrow> Ok (query_result (opt_headers opts)
            (query_page opts (filter (\<lambda>h. m (string_of_entry_type (h_entry_type h))) hs))))"
proof -
  let ?lim = "if opt_limit opts = 0 then usize_max else opt_limit opts"
  have pg: "take (unat ?lim) (drop (unat (opt_start opts)) (filter P hs)) = query_page opts (filter P hs)" for P
    using le_less_trans [OF length_filter_le assms(4), of P] by (simp add: query_page_def usize_max_def)
  have all: "query_page opts hs = query_page opts (filter (\<lambda>_. True) hs)"
    by simp
  show ?thesis
    unfolding all pg [symmetric]
    using iter_type_eq [OF assms(1-3)] consume_linked [OF iter_linked [OF assms(1-3)]]
    by (simp add: chain_query_def Let_def split: option.split)
qed

end

section \<open>Properties\<close>

text \<open>
  C10: Querying the source chain on disk. On a well-formed chain the query never panics and
  returns the page that \<open>start\<close> and \<open>limit\<close> select of the headers, newest first, that have
  the asked entry type: all of them for no name, the empty name or \<open>**\<close>, those of one plain
  type found through the same-type links, and those a glob set matches otherwise, where a
  pattern that does not compile is the error \<open>UnknownEntryType\<close>.
\<close>

theorem chain_query_pages:
  assumes "writable s" and "chain_wf x (\<lambda>a. files s (address_to_path s a)) hs"
    and "\<forall>h\<in>set hs. plain_address (header_address x h)" and "length hs < 2 ^ 64"
  shows "chain_query glob filesystem_cas x s (chain_top hs) names opts =
    Some (if names = [] \<or> names = [''''] \<or> names = [''**'']
      then Ok (query_result (opt_headers opts) (query_page opts hs))
      else if length names = 1 \<and> \<not> is_glob_str (hd names)
      then Ok (query_result (opt_headers opts)
            (query_page opts (filter (\<lambda>h. h_entry_type h = entry_type_from_str (hd names)) hs)))
      else case glob names of
        None \<Rightarrow> Err UnknownEntryType
      | Some m \<Rightarrow> Ok (query_result (opt_headers opts)
            (query_page opts (filter (\<lambda>h. m (string_of_entry_type (h_entry_type h))) hs))))"
  by (rule fsc.chain_query_eq [OF assms])

theorem chain_query_pages_witness:
  "let h1 = chain_header_new DnaType ''d'' [] None None None ''t1'';
       h2 = chain_header_new (AppType ''post'') ''p'' [] (Some ''QmH1'') None None ''t2'';
       x = table_ext [] [(h1, ''H1''), (h2, ''H2'')];
       s = \<lparr>dir_path = ''c'', files = [''c/QmH1.txt'' \<mapsto> ''H1'', ''c/QmH2.txt'' \<mapsto> ''H2''], write_error = (\<lambda>_. None)\<rparr>
   in chain_query (\<lambda>_. None) filesystem_cas x s (Some h2) [''%dna''] \<lparr>opt_start = 0, opt_limit = 0, opt_headers = False\<rparr>
        = Some (Ok (Addresses [''d'']))"
proof -
  let ?h1 = "chain_header_new DnaType ''d'' [] None None None ''t1''"
  let ?h2 = "chain_header_new (AppType ''post'') ''p'' [] (Some ''QmH1'') None None ''t2''"
  let ?x = "table_ext [] [(?h1, ''H1''), (?h2, ''H2'')]"
  let ?s = "\<lparr>dir_path = ''c'', files = [''c/QmH1.txt'' \<mapsto> ''H1'', ''c/QmH2.txt'' \<mapsto> ''H2''], write_error = (\<lambda>_. None)\<rparr>"
  let ?o = "\<lparr>opt_start = 0, opt_limit = 0, opt_headers = False\<rparr> :: ChainStoreQueryOptions"
  have "writable ?s" by (simp add: writable_def)
  moreover have "chain_wf ?x (\<lambda>a. files ?s (address_to_path ?s a)) [?h2, ?h1]" by code_simp
  moreover have "\<forall>h\<in>set [?h2, ?h1]. plain_address (header_address ?x h)" by code_simp
  moreover have "length [?h2, ?h1] < 2 ^ 64" by simp
  ultimately have "chain_query (\<lambda>_. None) filesystem_cas ?x ?s (chain_top [?h2, ?h1]) [''%dna''] ?o
      = Some (Ok (query_result False (query_page ?o (filter (\<lambda>h. h_entry_type h = entry_type_from_str ''%dna'') [?h2, ?h1]))))"
    by (subst chain_query_pages) (auto simp: is_glob_str_def)
  moreover have "query_result False (query_page ?o (filter (\<lambda>h. h_entry_type h = entry_type_from_str ''%dna'') [?h2, ?h1]))
      = Addresses [''d'']"
    by code_simp
  ultimately show ?thesis by (simp add: Let_def)
qed

end
