(* ===== verification/Json_Protocol.thy ===== *)
theory Json_Protocol
  imports Entry_Types
begin

text \<open>
  The messages between the core and the network module:
  \<open>net/src/connection/json_protocol.rs\<close>. A \<open>serde_json::Value\<close> is kept as its text.
\<close>

type_synonym JsonValue = string
type_synonym MetaTuple = "Address \<times> string \<times> JsonValue"
type_synonym MetaKey = "Address \<times> string"

record StateData =
  st_state :: string
  st_id :: string
  st_bindings :: "string list"

record ConfigData =
  cd_config :: string

record ConnectData =
  cn_peer_address :: string

record PeerData =
  pd_agent_id :: string

record MessageData =
  md_dna_address :: Address
  md_request_id :: string
  md_to_agent_id :: string
  md_from_agent_id :: string
  md_content :: JsonValue

record TrackDnaData =
  td_dna_address :: Address
  td_agent_id :: string

record SuccessResultData =
  sr_dna_address :: Address
  sr_request_id :: string
  sr_to_agent_id :: string
  sr_success_info :: JsonValue

record FailureResultData =
  fr_dna_address :: Address
  fr_request_id :: string
  fr_to_agent_id :: string
  fr_error_info :: JsonValue

record DropEntryData =
  de_dna_address :: Address
  de_request_id :: string
  de_entry_address :: Address

record FetchEntryData =
  fe_dna_address :: Address
  fe_request_id :: string
  fe_requester_agent_id :: string
  fe_entry_address :: Address

record EntryData =
  ed_dna_address :: Address
  ed_provider_agent_id :: string
  ed_entry_address :: Address
  ed_entry_content :: JsonValue

record FetchEntryResultData =
  fer_dna_address :: Address
  fer_request_id :: string
  fer_requester_agent_id :: string
  fer_provider_agent_id :: string
  fer_entry_address :: Address
  fer_entry_content :: JsonValue

record FetchMetaData =
  fm_dna_address :: Address
  fm_request_id :: string
  fm_requester_agent_id :: string
  fm_entry_address :: Address
  fm_attribute :: string

record DhtMetaData =
  dm_dna_address :: Address
  dm_provider_agent_id :: string
  dm_entry_address :: Address
  dm_attribute :: string
  dm_content_list :: "JsonValue list"

record FetchMetaResultData =
  fmr_dna_address :: Address
  fmr_request_id :: string
  fmr_requester_agent_id :: string
  fmr_provider_agent_id :: string
  fmr_entry_address :: Address
  fmr_attribute :: string
  fmr_content_list :: "JsonValue list"

record DropMetaData =
  dmd_dna_address :: Address
  dmd_request_id :: string
  dmd_entry_address :: Address
  dmd_attribute :: string

record GetListData =
  gl_dna_address :: Address
  gl_request_id :: string

record EntryListData =
  el_dna_address :: Address
  el_request_id :: string
  el_entry_address_list :: "Address list"

record MetaListData =
  ml_dna_address :: Address
  ml_request_id :: string
  ml_meta_list :: "MetaTuple list"

datatype JsonProtocol =
    SuccessResult SuccessResultData
  | FailureResult FailureResultData
  | TrackDna TrackDnaData
  | UntrackDna TrackDnaData
  | Connect ConnectData
  | PeerConnected PeerData
  | GetState
  | GetStateResult StateData
  | GetDefaultConfig
  | GetDefaultConfigResult ConfigData
  | SetConfig ConfigData
  | SendMessage MessageData
  | SendMessageResult MessageData
  | HandleSendMessage MessageData
  | HandleSendMessageResult MessageData
  | JpFetchEntry FetchEntryData
  | FetchEntryResult FetchEntryResultData
  | HandleFetchEntry FetchEntryData
  | HandleFetchEntryResult FetchEntryResultData
  | PublishEntry EntryData
  | HandleStoreEntry EntryData
  | HandleDropEntry DropEntryData
  | FetchMeta FetchMetaData
  | FetchMetaResult FetchMetaResultData
  | HandleFetchMeta FetchMetaData
  | HandleFetchMetaResult FetchMetaResultData
  | PublishMeta DhtMetaData
  | HandleStoreMeta DhtMetaData
  | HandleDropMeta DropMetaData
  | HandleGetPublishingEntryList GetListData
  | HandleGetPublishingEntryListResult EntryListData
  | HandleGetHoldingEntryList GetListData
  | HandleGetHoldingEntryListResult EntryListData
  | HandleGetPublishingMetaList GetListData
  | HandleGetPublishingMetaListResult MetaListData
  | HandleGetHoldingMetaList GetListData
  | HandleGetHoldingMetaListResult MetaListData

end
