(* ===== verification/Actions.thy ===== *)
theory Actions
  imports Entries Json_Protocol
begin

text \<open>
  The actions of the Redux store and the data they carry: \<open>core/src/action.rs\<close>,
  \<open>core/src/nucleus/{mod,actions/initialize,actions/call_zome_function,validation/mod}.rs\<close>,
  \<open>core/src/network/{direct_message,entry_with_header}.rs\<close>,
  \<open>core/src/scheduled_jobs/pending_validations.rs\<close> and
  \<open>core_types/src/dna/capabilities.rs\<close>. A process-unique id is a natural number. Two action
  wrappers are equal when their ids are.
\<close>

type_synonym ProcessUniqueId = nat

section \<open>Zome calls\<close>

record CapabilityRequest =
  cap_token :: Address
  cap_provenance :: Provenance

definition capability_request_new :: "Address \<Rightarrow> Address \<Rightarrow> Signature \<Rightarrow> CapabilityRequest" where
  "capability_request_new token requester sig =
     \<lparr>cap_token = token, cap_provenance = provenance_new requester sig\<rparr>"

record ZomeFnCall =
  call_id :: ProcessUniqueId
  call_zome_name :: string
  call_cap :: CapabilityRequest
  call_fn_name :: string
  call_parameters :: string

definition zome_fn_call_new ::
    "ProcessUniqueId \<Rightarrow> string \<Rightarrow> CapabilityRequest \<Rightarrow> string \<Rightarrow> string \<Rightarrow> ZomeFnCall" where
  "zome_fn_call_new i z c f p =
     \<lparr>call_id = i, call_zome_name = z, call_cap = c, call_fn_name = f, call_parameters = p\<rparr>"

definition same_fn_as :: "ZomeFnCall \<Rightarrow> ZomeFnCall \<Rightarrow> bool" where
  "same_fn_as a b \<longleftrightarrow> call_zome_name a = call_zome_name b \<and> call_cap a = call_cap b
     \<and> call_fn_name a = call_fn_name b"

definition call_cap_token :: "ZomeFnCall \<Rightarrow> Address" where
  "call_cap_token c = cap_token (call_cap c)"

type_synonym ZomeFnResult = "string HcResult"

record ExecuteZomeFnResponse =
  resp_call :: ZomeFnCall
  resp_result :: ZomeFnResult

record Initialization =
  public_token :: "Address option"
  init_payload :: "string option"

definition initialization_new :: Initialization where
  "initialization_new = \<lparr>public_token = None, init_payload = None\<rparr>"

section \<open>Validation\<close>

datatype ValidationError =
    Fail string
  | UnresolvedDependencies "Address list"
  | ValidationNotImplemented
  | ValidationErrorMsg string

type_synonym ValidationResult = "ValidationError + unit"

fun holochain_error_of_validation :: "ValidationError \<Rightarrow> HolochainError" where
  "holochain_error_of_validation (Fail reason) = ValidationFailed reason"
| "holochain_error_of_validation (UnresolvedDependencies _) = ValidationFailed ''Missing dependencies''"
| "holochain_error_of_validation ValidationNotImplemented = NotImplemented ''Validation not implemented''"
| "holochain_error_of_validation (ValidationErrorMsg e) = ErrorGeneric e"

record EntryWithHeader =
  ewh_entry :: Entry
  ewh_header :: ChainHeader

datatype ValidatingWorkflow = HoldEntry | HoldLink

fun workflow_display :: "ValidatingWorkflow \<Rightarrow> string" where
  "workflow_display HoldEntry = ''HoldEntryWorkflow''"
| "workflow_display HoldLink = ''HoldLinkWorkflow''"

record PendingValidation =
  pv_entry_with_header :: EntryWithHeader
  pv_dependencies :: "Address list"
  pv_workflow :: ValidatingWorkflow

section \<open>Network requests\<close>

record CustomDirectMessage =
  cdm_zome :: string
  cdm_payload :: "string + string"

datatype DirectMessage =
    Custom CustomDirectMessage
  | RequestValidationPackage Address
  | ValidationPackageMessage "ValidationPackage option"

record GetLinksKey =
  glk_base_address :: Address
  glk_link_type :: "string option"
  glk_tag :: "string option"
  glk_id :: string

record GetEntryKey =
  gek_address :: Address
  gek_id :: string

record DirectMessageData =
  dmsg_address :: Address
  dmsg_message :: DirectMessage
  dmsg_msg_id :: string
  dmsg_is_response :: bool

record NetworkSettings =
  ns_p2p_config :: string
  ns_dna_address :: Address
  ns_agent_id :: string

section \<open>Actions\<close>

datatype Action =
    Commit Entry "Address option" "Provenance list"
  | Hold EntryWithHeader
  | AddLink Link
  | CrudStatusAction EntryWithHeader CrudStatus
  | RemoveLink Link
  | InitNetwork NetworkSettings
  | Publish Address
  | FetchEntry GetEntryKey
  | RespondFetch FetchEntryData "EntryWithMetaAndHeader option"
  | HandleFetchResult FetchEntryResultData
  | UpdateEntry Address Address
  | RemoveEntry Address Address
  | GetEntryTimeout GetEntryKey
  | GetLinks GetLinksKey
  | GetLinksTimeout GetLinksKey
  | RespondGetLinks FetchMetaData "Address list"
  | HandleGetLinksResult FetchMetaResultData string string
  | SendDirectMessage DirectMessageData
  | SendDirectMessageTimeout string
  | ResolveDirectConnection string
  | GetValidationPackage ChainHeader
  | HandleGetValidationPackage Address "ValidationPackage option"
  | HandleCustomSendResponse string "string + string"
  | InitializeChain Dna
  | ReturnInitializationResult "string + Initialization"
  | SignalZomeFunctionCall ZomeFnCall
  | ReturnZomeFunctionResult ExecuteZomeFnResponse
  | ReturnValidationResult "ProcessUniqueId \<times> Address" ValidationResult
  | ReturnValidationPackage ProcessUniqueId "ValidationPackage HcResult"
  | AddPendingValidation PendingValidation
  | RemovePendingValidation Address ValidatingWorkflow

record ActionWrapper =
  aw_action :: Action
  aw_id :: ProcessUniqueId

definition action_wrapper_new :: "ProcessUniqueId \<Rightarrow> Action \<Rightarrow> ActionWrapper" where
  "action_wrapper_new i a = \<lparr>aw_action = a, aw_id = i\<rparr>"

definition action_wrapper_eq :: "ActionWrapper \<Rightarrow> ActionWrapper \<Rightarrow> bool" where
  "action_wrapper_eq v w \<longleftrightarrow> aw_id v = aw_id w"

text \<open>
  A \<open>HashMap\<close> or \<open>HashSet\<close> keyed by wrappers is keyed by their ids: the wrapper is kept with
  its value. Inserting under a key that is present replaces the value of a map and keeps
  its key; in a set it changes nothing.
\<close>

type_synonym 'r action_map = "ProcessUniqueId \<rightharpoonup> ActionWrapper \<times> 'r"

definition actions_insert :: "ActionWrapper \<Rightarrow> 'r \<Rightarrow> 'r action_map \<Rightarrow> 'r action_map" where
  "actions_insert w r m =
     m(aw_id w \<mapsto> ((case m (aw_id w) of Some (v, _) \<Rightarrow> v | None \<Rightarrow> w), r))"

definition actions_get :: "ActionWrapper \<Rightarrow> 'r action_map \<Rightarrow> 'r option" where
  "actions_get w m = map_option snd (m (aw_id w))"

lemma actions_get_insert [simp]:
  "actions_get v (actions_insert w r m) = (if aw_id v = aw_id w then Some r else actions_get v m)"
  by (simp add: actions_get_def actions_insert_def)

end
