(* ===== verification/Agent_State.thy ===== *)
theory Agent_State
  imports Chain_Store Actions
begin

text \<open>
  The agent's state slice and the commit reducer: \<open>core/src/agent/{state,mod}.rs\<close>. The chain
  store is a handle on the shared content storage: the storage is an argument, and what a
  reducer wrote to it stays written whatever it returns. Signing (the conductor's API) and
  the clock are arguments. \<open>None\<close> is a panic.
\<close>

section \<open>The state slice\<close>

datatype AgentActionResponse =
    CommitResponse "Address HcResult"
  | FetchEntryResponse "Entry option"
  | GetLinksResponse "Address list HcResult"
  | LinkEntriesResponse "Entry HcResult"

record AgentState =
  ag_actions :: "AgentActionResponse action_map"
  ag_top_chain_header :: "ChainHeader option"
  ag_initial_agent_address :: Address

definition agent_state_new :: "Address \<Rightarrow> AgentState" where
  "agent_state_new a = \<lparr>ag_actions = Map.empty, ag_top_chain_header = None, ag_initial_agent_address = a\<rparr>"

definition agent_state_new_with_top_chain_header :: "ChainHeader option \<Rightarrow> Address \<Rightarrow> AgentState" where
  "agent_state_new_with_top_chain_header h a =
     \<lparr>ag_actions = Map.empty, ag_top_chain_header = h, ag_initial_agent_address = a\<rparr>"

definition iter_chain :: "'s cas_ops \<Rightarrow> ext \<Rightarrow> 's \<Rightarrow> AgentState \<Rightarrow> (ChainHeader \<Rightarrow> bool) \<Rightarrow> u64 \<Rightarrow> u64 \<Rightarrow> ChainHeader list option" where
  "iter_chain C x s ag P skip limit = consume (iter_next C x s) P skip limit (ag_top_chain_header ag)"

definition get_agent_address :: "'s cas_ops \<Rightarrow> ext \<Rightarrow> 's \<Rightarrow> AgentState \<Rightarrow> Address HcResult option" where
  "get_agent_address C x s ag =
     map_option (\<lambda>hs. Ok (case hs of h # _ \<Rightarrow> h_entry_address h | [] \<Rightarrow> ag_initial_agent_address ag))
       (iter_type C x s (ag_top_chain_header ag) AgentIdType (\<lambda>_. True) 0 1)"

definition get_agent :: "'s cas_ops \<Rightarrow> ext \<Rightarrow> 's \<Rightarrow> AgentState \<Rightarrow> AgentId HcResult option" where
  "get_agent C x s ag =
     (case get_agent_address C x s ag of
        None \<Rightarrow> None
      | Some (Err e) \<Rightarrow> Some (Err e)
      | Some (Ok a) \<Rightarrow>
          (case cas_fetch C s a of
             Err e \<Rightarrow> Some (Err e)
           | Ok None \<Rightarrow> Some (Err (ErrorGeneric ''Agent entry not found''))
           | Ok (Some c) \<Rightarrow>
               (case entry_try_from_content x c of
                  Err e \<Rightarrow> Some (Err e)
                | Ok (AgentIdEntry agent_id) \<Rightarrow> Some (Ok agent_id)
                | Ok _ \<Rightarrow> None)))"

definition get_most_recent_header_for_entry ::
    "'s cas_ops \<Rightarrow> ext \<Rightarrow> 's \<Rightarrow> AgentState \<Rightarrow> Entry \<Rightarrow> ChainHeader option option" where
  "get_most_recent_header_for_entry C x s ag e =
     map_option (\<lambda>hs. case hs of [] \<Rightarrow> None | h # _ \<Rightarrow> Some h)
       (iter_type C x s (ag_top_chain_header ag) (entry_type e) (\<lambda>h. h_entry_address h = entry_address x e) 0 1)"

definition find_chain_header :: "'s cas_ops \<Rightarrow> ext \<Rightarrow> 's \<Rightarrow> AgentState \<Rightarrow> Entry \<Rightarrow> ChainHeader option option" where
  "find_chain_header C x s ag e =
     iter_find (iter_next C x s) (\<lambda>h. h_entry_address h = entry_address x e) (ag_top_chain_header ag)"

section \<open>Snapshots\<close>

record AgentStateSnapshot =
  snap_top_chain_header :: "ChainHeader option"

definition agent_snapshot_of :: "AgentState \<Rightarrow> AgentStateSnapshot" where
  "agent_snapshot_of ag = \<lparr>snap_top_chain_header = ag_top_chain_header ag\<rparr>"

definition AGENT_SNAPSHOT_ADDRESS :: Address where
  "AGENT_SNAPSHOT_ADDRESS = ''AgentState''"

section \<open>Committing\<close>

definition create_new_chain_header ::
    "'s cas_ops \<Rightarrow> ext \<Rightarrow> (string \<Rightarrow> string HcResult) \<Rightarrow> Iso8601 \<Rightarrow> 's \<Rightarrow> AgentState \<Rightarrow> Entry
     \<Rightarrow> Address option \<Rightarrow> Provenance list \<Rightarrow> ChainHeader HcResult option" where
  "create_new_chain_header C x sign now s ag e crud_link provs =
     (case get_agent_address C x s ag of
        None \<Rightarrow> None
      | Some (Err er) \<Rightarrow> Some (Err er)
      | Some (Ok addr) \<Rightarrow>
          (case sign (entry_address x e) of
             Err er \<Rightarrow> Some (Err er)
           | Ok sig \<Rightarrow>
               map_option (\<lambda>hs. Ok (chain_header_new (entry_type e) (entry_address x e)
                   (provs @ [provenance_new addr sig])
                   (map_option (header_address x) (ag_top_chain_header ag))
                   (case hs of [] \<Rightarrow> None | h # _ \<Rightarrow> Some (header_address x h))
                   crud_link now))
                 (iter_type C x s (ag_top_chain_header ag) (entry_type e) (\<lambda>_. True) 0 1)))"

definition agent_reduce_commit_entry ::
    "'s cas_ops \<Rightarrow> ext \<Rightarrow> (string \<Rightarrow> string HcResult) \<Rightarrow> Iso8601 \<Rightarrow> 's \<Rightarrow> AgentState \<Rightarrow> ActionWrapper
     \<Rightarrow> Entry \<Rightarrow> Address option \<Rightarrow> Provenance list \<Rightarrow> (AgentState \<times> 's) option" where
  "agent_reduce_commit_entry C x sign now s ag w e lud provs =
     (let respond = (\<lambda>r ag'. ag'\<lparr>ag_actions := actions_insert w (CommitResponse r) (ag_actions ag')\<rparr>) in
      case create_new_chain_header C x sign now s ag e lud provs of
        None \<Rightarrow> None
      | Some (Err er) \<Rightarrow> Some (respond (Err er) ag, s)
      | Some (Ok h) \<Rightarrow>
          (case cas_add C s (entry_addressable x e) of
             (Err er, s1) \<Rightarrow> Some (respond (Err er) ag, s1)
           | (Ok _, s1) \<Rightarrow>
               (case cas_add C s1 (header_addressable x h) of
                  (Err er, s2) \<Rightarrow> Some (respond (Err er) ag, s2)
                | (Ok _, s2) \<Rightarrow>
                    Some (respond (Ok (entry_address x e)) (ag\<lparr>ag_top_chain_header := Some h\<rparr>), s2))))"

definition agent_reduce ::
    "'s cas_ops \<Rightarrow> ext \<Rightarrow> (string \<Rightarrow> string HcResult) \<Rightarrow> Iso8601 \<Rightarrow> 's \<Rightarrow> AgentState \<Rightarrow> ActionWrapper
     \<Rightarrow> (AgentState \<times> 's) option" where
  "agent_reduce C x sign now s ag w =
     (case aw_action w of
        Commit e lud provs \<Rightarrow> agent_reduce_commit_entry C x sign now s ag w e lud provs
      | _ \<Rightarrow> Some (ag, s))"

section \<open>What a commit does\<close>

text \<open>Additions that meet a storage without overwriting: every address is free or already
  holds the same content.\<close>

definition no_clash :: "(Address \<Rightarrow> Content option) \<Rightarrow> (Address \<times> Content) list \<Rightarrow> bool" where
  "no_clash lk acs \<longleftrightarrow>
     (\<forall>(a, c)\<in>set acs. (lk a = None \<or> lk a = Some c) \<and> (\<forall>(b, d)\<in>set acs. a = b \<longrightarrow> c = d))"

definition agent_address_of :: "AgentState \<Rightarrow> ChainHeader list \<Rightarrow> Address" where
  "agent_address_of ag hs =
     (case find (\<lambda>h. h_entry_type h = AgentIdType) hs of
        Some h \<Rightarrow> h_entry_address h | None \<Rightarrow> ag_initial_agent_address ag)"

definition next_header ::
    "ext \<Rightarrow> AgentState \<Rightarrow> ChainHeader list \<Rightarrow> Entry \<Rightarrow> Address option \<Rightarrow> Provenance list \<Rightarrow> Signature \<Rightarrow> Iso8601 \<Rightarrow> ChainHeader" where
  "next_header x ag hs e lud provs sig now =
     chain_header_new (entry_type e) (entry_address x e)
       (provs @ [provenance_new (agent_address_of ag hs) sig])
       (map_option (header_address x) (chain_top hs))
       (map_option (header_address x) (find (\<lambda>h. h_entry_type h = entry_type e) hs)) lud now"

lemma no_clash_two:
  "no_clash lk [(a, c), (b, d)] \<longleftrightarrow>
     (lk a = None \<or> lk a = Some c) \<and> (lk b = None \<or> lk b = Some d) \<and> (a = b \<longrightarrow> c = d)"
  by (auto simp: no_clash_def)

lemma take_1_filter: "take (Suc 0) (filter P xs) = (case find P xs of None \<Rightarrow> [] | Some y \<Rightarrow> [y])"
  by (induction xs) auto

context content_store
begin

lemma agent_address_wf:
  assumes "inv s" "chain_wf x (lookup s) hs" "\<forall>h\<in>set hs. valid (header_address x h)"
    and "ag_top_chain_header ag = chain_top hs"
  shows "get_agent_address ops x s ag = Some (Ok (agent_address_of ag hs))"
  using assms
  by (simp add: get_agent_address_def iter_type_eq take_1_filter agent_address_of_def split: option.split)

lemma create_header_wf:
  assumes "inv s" "chain_wf x (lookup s) hs" "\<forall>h\<in>set hs. valid (header_address x h)"
    and "ag_top_chain_header ag = chain_top hs" and "sign (entry_address x e) = Ok sig"
  shows "create_new_chain_header ops x sign now s ag e lud provs
    = Some (Ok (next_header x ag hs e lud provs sig now))"
  using assms
  by (auto simp: create_new_chain_header_def agent_address_wf iter_type_eq take_1_filter next_header_def
      split: option.split)

lemma add_no_clash:
  assumes "inv s" "valid a" "valid b" "lookup s a = None \<or> lookup s a = Some c" "lookup s b = Some d"
  shows "lookup (snd (cas_add ops s (a, c))) b = Some d"
  using assms by (auto simp: add_lookup)

lemma commit_wf:
  fixes h :: ChainHeader
  assumes s: "inv s" and wf: "chain_wf x (lookup s) hs" and v: "\<forall>h\<in>set hs. valid (header_address x h)"
    and top: "ag_top_chain_header ag = chain_top hs" and sign: "sign (entry_address x e) = Ok sig"
    and h: "h = next_header x ag hs e lud provs sig now"
    and va: "valid (entry_address x e)" "valid (header_address x h)"
    and parse: "header_try_from_content x (header_content x h) = Ok h"
    and free: "no_clash (lookup s) [entry_addressable x e, header_addressable x h]"
  obtains ag' s' where "agent_reduce_commit_entry ops x sign now s ag w e lud provs = Some (ag', s')"
    "ag_top_chain_header ag' = Some h" "chain_wf x (lookup s') (h # hs)" "inv s'"
    "ag_initial_agent_address ag' = ag_initial_agent_address ag"
    "ag_actions ag' = actions_insert w (CommitResponse (Ok (entry_address x e))) (ag_actions ag)"
    "lookup s' (entry_address x e) = Some (entry_content x e)"
    "\<And>a c. valid a \<Longrightarrow> lookup s a = Some c \<Longrightarrow> lookup s' a = Some c"
proof -
  let ?ea = "entry_address x e" and ?ha = "header_address x h"
  obtain s1 where s1: "cas_add ops s (entry_addressable x e) = (Ok (), s1)" "inv s1"
      "\<And>b. valid b \<Longrightarrow> lookup s1 b = (if b = ?ea then Some (entry_content x e) else lookup s b)"
    using add_cases [OF s va(1)] unfolding entry_addressable_def by blast
  obtain s2 where s2: "cas_add ops s1 (header_addressable x h) = (Ok (), s2)" "inv s2"
      "\<And>b. valid b \<Longrightarrow> lookup s2 b = (if b = ?ha then Some (header_content x h) else lookup s1 b)"
    using add_cases [OF s1(2) va(2)] unfolding header_addressable_def by blast
  have lk: "lookup s2 b = (if b = ?ha then Some (header_content x h)
      else if b = ?ea then Some (entry_content x e) else lookup s b)" if "valid b" for b
    using s1(3) s2(3) that by simp
  have same: "?ea = ?ha \<Longrightarrow> entry_content x e = header_content x h"
    and fe: "lookup s ?ea = None \<or> lookup s ?ea = Some (entry_content x e)"
    and fh: "lookup s ?ha = None \<or> lookup s ?ha = Some (header_content x h)"
    using free unfolding entry_addressable_def header_addressable_def no_clash_two by blast+
  have keep: "lookup s2 a = Some c" if "valid a" "lookup s a = Some c" for a c
    using that fe fh by (auto simp: lk)
  have "chain_wf x (lookup s2) hs"
  proof (rule chain_wf_mono [OF wf])
    fix g assume "g \<in> set hs"
    then show "lookup s (header_address x g) = lookup s2 (header_address x g)"
      using keep [of "header_address x g"] v chain_wf_stored [OF wf] by metis
  qed
  moreover have "h_link h = map_option (header_address x) (chain_top hs)"
      "h_link_same_type h = map_option (header_address x) (find (\<lambda>g. h_entry_type g = h_entry_type h) hs)"
    by (simp_all add: h next_header_def chain_header_new_def)
  ultimately have wf': "chain_wf x (lookup s2) (h # hs)"
    using va parse by (simp add: lk chain_top_def)
  have red: "agent_reduce_commit_entry ops x sign now s ag w e lud provs = Some
      (ag\<lparr>ag_top_chain_header := Some h, ag_actions := actions_insert w (CommitResponse (Ok ?ea)) (ag_actions ag)\<rparr>, s2)"
    using create_header_wf [where sign = sign, OF s wf v top sign]
      s1(1) s2(1) h
    by (simp add: agent_reduce_commit_entry_def Let_def)
  have "lookup s2 ?ea = Some (entry_content x e)"
    using lk [OF va(1)] same by simp
  then show thesis
    by (intro that [OF red _ wf' s2(2)]) (simp_all add: keep)
qed

end

section \<open>Properties\<close>

text \<open>
  C5: Committing an entry extends the source chain by one header. On a well-formed chain, when
  signing works, the new header parses back from its JSON and neither the entry nor the
  header meets another content at its address, the commit reducer stores both, makes the new
  header the top, records the entry's address as the answer to the action, keeps everything
  that was stored, and leaves a well-formed chain: the walk from the new top yields the new
  header and then the old chain, and the header carries the agent's own signature last.
\<close>

theorem commit_extends_chain:
  assumes "chain_wf x (storage s) hs" and "ag_top_chain_header ag = chain_top hs"
    and "length hs < 2 ^ 64 - 1" and "sign (entry_address x e) = Ok sig"
    and "h = next_header x ag hs e lud provs sig now"
    and "header_try_from_content x (header_content x h) = Ok h"
    and "no_clash (storage s) [entry_addressable x e, header_addressable x h]"
  shows "\<exists>ag' s'. agent_reduce memory_cas x sign now s ag \<lparr>aw_action = Commit e lud provs, aw_id = i\<rparr> = Some (ag', s')
    \<and> ag_top_chain_header ag' = Some h
    \<and> chain_wf x (storage s') (h # hs)
    \<and> iter_chain memory_cas x s' ag' (\<lambda>_. True) 0 usize_max = Some (h # hs)
    \<and> actions_get \<lparr>aw_action = Commit e lud provs, aw_id = i\<rparr> (ag_actions ag') = Some (CommitResponse (Ok (entry_address x e)))
    \<and> memory_fetch s' (entry_address x e) = Ok (Some (entry_content x e))
    \<and> (\<forall>a c. storage s a = Some c \<longrightarrow> storage s' a = Some c)"
proof -
  let ?w = "\<lparr>aw_action = Commit e lud provs, aw_id = i\<rparr>"
  obtain ag' s' where c: "agent_reduce_commit_entry memory_cas x sign now s ag ?w e lud provs = Some (ag', s')"
      "ag_top_chain_header ag' = Some h" "chain_wf x (storage s') (h # hs)"
      "ag_actions ag' = actions_insert ?w (CommitResponse (Ok (entry_address x e))) (ag_actions ag)"
      "storage s' (entry_address x e) = Some (entry_content x e)"
      "\<And>a c. storage s a = Some c \<Longrightarrow> storage s' a = Some c"
    by (rule mem.commit_wf [where sign = sign and w = ?w, OF _ assms(1) _ assms(2,4,5) _ _ assms(6,7)]) simp_all
  have "linked (iter_next memory_cas x s') (Some h) (h # hs)"
    using mem.iter_linked [where s = s' and x = x and hs = "h # hs"] c(3) by simp
  then have "iter_chain memory_cas x s' ag' (\<lambda>_. True) 0 usize_max = Some (h # hs)"
    using assms(3) c(2) unfolding iter_chain_def
    by (subst consume_linked [of _ _ "h # hs"]) (simp_all add: usize_max_def)
  with c show ?thesis
    by (simp add: agent_reduce_def memory_fetch_def)
qed

theorem commit_extends_chain_witness:
  "let e = AppEntry ''post'' ''hi'';
       h1 = chain_header_new AgentIdType ''alice'' [] None None None ''t1'';
       h2 = chain_header_new (AppType ''post'') ''QmE'' [provenance_new ''alice'' ''sig''] (Some ''QmH1'') None None ''t2'';
       x = table_ext [(e, ''E'')] [(h1, ''H1''), (h2, ''H2'')];
       s = \<lparr>storage = [''QmH1'' \<mapsto> ''H1'']\<rparr>;
       ag = agent_state_new_with_top_chain_header (Some h1) ''init''
   in \<exists>ag' s'. agent_reduce memory_cas x (\<lambda>_. Ok ''sig'') ''t2'' s ag \<lparr>aw_action = Commit e None [], aw_id = 1\<rparr> = Some (ag', s')
        \<and> iter_chain memory_cas x s' ag' (\<lambda>_. True) 0 usize_max = Some [h2, h1]"
proof -
  let ?e = "AppEntry ''post'' ''hi''"
  let ?h1 = "chain_header_new AgentIdType ''alice'' [] None None None ''t1''"
  let ?h2 = "chain_header_new (AppType ''post'') ''QmE'' [provenance_new ''alice'' ''sig''] (Some ''QmH1'') None None ''t2''"
  let ?x = "table_ext [(?e, ''E'')] [(?h1, ''H1''), (?h2, ''H2'')]"
  let ?s = "\<lparr>storage = [''QmH1'' \<mapsto> ''H1'']\<rparr>"
  let ?ag = "agent_state_new_with_top_chain_header (Some ?h1) ''init''"
  have "chain_wf ?x (storage ?s) [?h1]" by code_simp
  moreover have "ag_top_chain_header ?ag = chain_top [?h1]" by code_simp
  moreover have "length [?h1] < 2 ^ 64 - 1" by simp
  moreover have "?h2 = next_header ?x ?ag [?h1] ?e None [] ''sig'' ''t2''" by code_simp
  moreover have "header_try_from_content ?x (header_content ?x ?h2) = Ok ?h2" by code_simp
  moreover have "no_clash (storage ?s) [entry_addressable ?x ?e, header_addressable ?x ?h2]" by code_simp
  ultimately show ?thesis
    using commit_extends_chain [of ?x ?s "[?h1]" ?ag "\<lambda>_. Ok ''sig''" ?e "''sig''" ?h2 None "[]" "''t2''" 1]
    unfolding Let_def by blast
qed

end
