(* ===== verification/EAV_Store.thy ===== *)
theory EAV_Store
  imports Entries
begin

text \<open>
  Entity-attribute-value-index metadata: \<open>core_types/src/eav/{eavi,query,storage}.rs\<close> and
  \<open>cas_implementations/src/eav/memory.rs\<close>, with the two EAV constructors of
  \<open>crud_status.rs\<close>. An index is a 64-bit signed integer. EAVIs are ordered by their index
  alone, so a \<open>BTreeSet\<close> of them is a list strictly sorted by index, and inserting an
  element whose index is taken changes nothing. Clock readings are arguments.
\<close>

section \<open>Attributes\<close>

type_synonym Entity = Address
type_synonym Value = Address
type_synonym Index = i64

datatype Attribute =
    CrudStatusAttr
  | CrudLinkAttr
  | EntryHeaderAttr
  | LinkAttr
  | LinkRemoveAttr
  | LinkTag string string
  | RemovedLink string string
  | PendingEntry

datatype AttributeError = Unrecognized string | ParseError

fun holochain_error_of_attribute :: "AttributeError \<Rightarrow> HolochainError" where
  "holochain_error_of_attribute (Unrecognized a) = ErrorGeneric (''Unknown attribute: '' @ a)"
| "holochain_error_of_attribute ParseError = ErrorGeneric ''Could not parse attribute, bad regex match''"

fun attribute_string :: "Attribute \<Rightarrow> string" where
  "attribute_string CrudStatusAttr = ''crud-status''"
| "attribute_string CrudLinkAttr = ''crud-link''"
| "attribute_string EntryHeaderAttr = ''entry-header''"
| "attribute_string LinkAttr = ''link''"
| "attribute_string LinkRemoveAttr = ''link_remove''"
| "attribute_string (LinkTag ty tg) = ''link__'' @ ty @ ''__'' @ tg"
| "attribute_string (RemovedLink ty tg) = ''removed_link__'' @ ty @ ''__'' @ tg"
| "attribute_string PendingEntry = ''pending-entry''"

text \<open>The greedy groups of \<open>(.*)__(.*)\<close> split at the last double underscore; the dot
  matches everything but a line feed.\<close>

fun split_last_uu :: "string \<Rightarrow> (string \<times> string) option" where
  "split_last_uu [] = None"
| "split_last_uu (c # cs) =
     (case split_last_uu cs of
        Some (a, b) \<Rightarrow> Some (c # a, b)
      | None \<Rightarrow> if c = CHR ''_'' \<and> take 1 cs = ''_'' then Some ([], drop 1 cs) else None)"

definition tag_regex :: "string \<Rightarrow> string \<Rightarrow> (string \<times> string) option" where
  "tag_regex prefix s =
     (if take (length prefix) s = prefix \<and> CHR 0x0A \<notin> set s then split_last_uu (drop (length prefix) s)
      else None)"

definition attribute_try_from :: "string \<Rightarrow> AttributeError + Attribute" where
  "attribute_try_from s =
     (case tag_regex ''link__'' s of
        Some (ty, tg) \<Rightarrow> Ok (LinkTag ty tg)
      | None \<Rightarrow>
          (case tag_regex ''removed_link__'' s of
             Some (ty, tg) \<Rightarrow> Ok (RemovedLink ty tg)
           | None \<Rightarrow>
               if s = ''crud-status'' then Ok CrudStatusAttr
               else if s = ''crud-link'' then Ok CrudLinkAttr
               else if s = ''entry-header'' then Ok EntryHeaderAttr
               else if s = ''link'' then Ok LinkAttr
               else if s = ''link_remove'' then Ok LinkRemoveAttr
               else if s = ''pending-entry'' then Ok PendingEntry
               else Err (Unrecognized s)))"

definition forbidden_in_link_type :: "char set" where
  "forbidden_in_link_type = set ''/:*?<>'' \<union> {CHR 0x22, CHR 0x27, CHR 0x5C} \<union> set ''|+''"

definition validate_attribute :: "Attribute \<Rightarrow> unit HcResult" where
  "validate_attribute a =
     (case a of
        LinkTag n _ \<Rightarrow>
          if set n \<inter> forbidden_in_link_type = {} then Ok ()
          else Err (ErrorGeneric ''Attribute name invalid'')
      | RemovedLink n _ \<Rightarrow>
          if set n \<inter> forbidden_in_link_type = {} then Ok ()
          else Err (ErrorGeneric ''Attribute name invalid'')
      | _ \<Rightarrow> Ok ())"

section \<open>EAVIs\<close>

record EntityAttributeValueIndex =
  entity :: Entity
  attribute :: Attribute
  val :: Value
  index :: Index

type_synonym EAVI = EntityAttributeValueIndex

definition eavi_new_with_index :: "Entity \<Rightarrow> Attribute \<Rightarrow> Value \<Rightarrow> i64 \<Rightarrow> EAVI HcResult" where
  "eavi_new_with_index e a v t =
     map_ok (\<lambda>_. \<lparr>entity = e, attribute = a, val = v, index = t\<rparr>) (validate_attribute a)"

text \<open>\<open>now\<close> is the reading of \<open>Utc::now().timestamp_nanos()\<close>.\<close>

definition eavi_new :: "i64 \<Rightarrow> Entity \<Rightarrow> Attribute \<Rightarrow> Value \<Rightarrow> EAVI HcResult" where
  "eavi_new now e a v =
     map_ok (\<lambda>_. \<lparr>entity = e, attribute = a, val = v, index = now\<rparr>) (validate_attribute a)"

definition create_crud_status_eav :: "i64 \<Rightarrow> Address \<Rightarrow> CrudStatus \<Rightarrow> EAVI HcResult" where
  "create_crud_status_eav now a s = eavi_new now a CrudStatusAttr (crud_status_string s)"

definition create_crud_link_eav :: "i64 \<Rightarrow> Address \<Rightarrow> Address \<Rightarrow> EAVI HcResult" where
  "create_crud_link_eav now from to = eavi_new now from CrudLinkAttr to"

text \<open>\<open>BTreeSet::insert\<close> and \<open>collect\<close> under the order on indices.\<close>

fun eavi_insert :: "EAVI \<Rightarrow> EAVI list \<Rightarrow> EAVI list" where
  "eavi_insert x [] = [x]"
| "eavi_insert x (y # ys) =
     (if sint (index x) < sint (index y) then x # y # ys
      else if index x = index y then y # ys
      else y # eavi_insert x ys)"

definition eavi_collect :: "EAVI list \<Rightarrow> EAVI list" where
  "eavi_collect xs = fold eavi_insert xs []"

section \<open>Queries\<close>

type_synonym 'a EavFilter = "'a \<Rightarrow> bool"

definition filter_single :: "'a \<Rightarrow> 'a EavFilter" where
  "filter_single v = (\<lambda>w. w = v)"

definition filter_multiple :: "'a list \<Rightarrow> 'a EavFilter" where
  "filter_multiple vs = (\<lambda>w. list_ex (\<lambda>v. v = w) vs)"

definition filter_any :: "'a EavFilter" where
  "filter_any = (\<lambda>_. True)"

definition filter_from_option :: "'a option \<Rightarrow> 'a EavFilter" where
  "filter_from_option o' = (case o' of Some v \<Rightarrow> filter_single v | None \<Rightarrow> filter_any)"

datatype IndexFilter = LatestByAttribute | Range "i64 option" "i64 option"

record EaviQuery =
  q_entity :: "Entity EavFilter"
  q_attribute :: "Attribute EavFilter"
  q_value :: "Value EavFilter"
  q_index :: IndexFilter

definition eavi_query_new ::
    "Entity EavFilter \<Rightarrow> Attribute EavFilter \<Rightarrow> Value EavFilter \<Rightarrow> IndexFilter \<Rightarrow> EaviQuery" where
  "eavi_query_new e a v i = \<lparr>q_entity = e, q_attribute = a, q_value = v, q_index = i\<rparr>"

definition default_eavi_query :: EaviQuery where
  "default_eavi_query = eavi_query_new filter_any filter_any filter_any LatestByAttribute"

definition eav_check :: "EAVI \<Rightarrow> Entity EavFilter \<Rightarrow> Attribute EavFilter \<Rightarrow> Value EavFilter \<Rightarrow> bool" where
  "eav_check x e a v \<longleftrightarrow> e (entity x) \<and> a (attribute x) \<and> v (val x)"

definition query_run :: "EaviQuery \<Rightarrow> EAVI list \<Rightarrow> EAVI list" where
  "query_run q iter =
     (let filtered = filter (\<lambda>x. eav_check x (q_entity q) (q_attribute q) (q_value q)) iter in
      case q_index q of
        LatestByAttribute \<Rightarrow>
          eavi_collect (filter (\<lambda>x.
            case last_opt (filter (\<lambda>y. eav_check y (filter_single (entity x)) (q_attribute q)
                                         (filter_single (val x))) iter) of
              Some latest \<Rightarrow> index latest = index x
            | None \<Rightarrow> False) filtered)
      | Range start end \<Rightarrow>
          eavi_collect (filter (\<lambda>x.
            (case start of Some lo \<Rightarrow> sint lo \<le> sint (index x) | None \<Rightarrow> True)
            \<and> (case end of Some hi \<Rightarrow> sint (index x) \<le> sint hi | None \<Rightarrow> True)) filtered))"

section \<open>Storages\<close>

text \<open>The recursion bumps the index, wrapping, until it is free; with every index taken it
  would not end. The fuel of one more than the size of the map is enough, as shown below;
  \<open>None\<close> is a call that does not return.\<close>

fun increment_key_fuel :: "nat \<Rightarrow> EAVI \<Rightarrow> EAVI list \<Rightarrow> EAVI option" where
  "increment_key_fuel 0 x m = None"
| "increment_key_fuel (Suc n) x m =
     (if list_ex (\<lambda>y. index y = index x) m then increment_key_fuel n (x\<lparr>index := index x + 1\<rparr>) m
      else Some x)"

definition increment_key_till_no_collision :: "EAVI \<Rightarrow> EAVI list \<Rightarrow> EAVI HcResult option" where
  "increment_key_till_no_collision x m = map_option Ok (increment_key_fuel (Suc (length m)) x m)"

record 'e eav_ops =
  add_eavi :: "'e \<Rightarrow> EAVI \<Rightarrow> (EAVI option HcResult \<times> 'e) option"
  fetch_eavi :: "'e \<Rightarrow> EaviQuery \<Rightarrow> EAVI list HcResult"

record EavMemoryStorage =
  eav_storage :: "EAVI list"

definition eav_memory_new :: EavMemoryStorage where
  "eav_memory_new = \<lparr>eav_storage = []\<rparr>"

definition memory_add_eavi :: "EavMemoryStorage \<Rightarrow> EAVI \<Rightarrow> (EAVI option HcResult \<times> EavMemoryStorage) option" where
  "memory_add_eavi s x =
     (case increment_key_till_no_collision x (eav_storage s) of
        None \<Rightarrow> None
      | Some (Err e) \<Rightarrow> Some (Err e, s)
      | Some (Ok new_eav) \<Rightarrow>
          Some (Ok (Some new_eav), s\<lparr>eav_storage := eavi_insert new_eav (eav_storage s)\<rparr>))"

definition memory_fetch_eavi :: "EavMemoryStorage \<Rightarrow> EaviQuery \<Rightarrow> EAVI list HcResult" where
  "memory_fetch_eavi s q = Ok (query_run q (eav_storage s))"

definition memory_eav :: "EavMemoryStorage eav_ops" where
  "memory_eav = \<lparr>add_eavi = memory_add_eavi, fetch_eavi = memory_fetch_eavi\<rparr>"

record ExampleEntityAttributeValueStorage =
  example_eav_storage :: "EAVI list"

definition example_eav_new :: ExampleEntityAttributeValueStorage where
  "example_eav_new = \<lparr>example_eav_storage = []\<rparr>"

definition example_add_eavi ::
    "ExampleEntityAttributeValueStorage \<Rightarrow> EAVI \<Rightarrow> (EAVI option HcResult \<times> ExampleEntityAttributeValueStorage) option" where
  "example_add_eavi s x =
     (case increment_key_till_no_collision x (example_eav_storage s) of
        None \<Rightarrow> None
      | Some (Err e) \<Rightarrow> Some (Err e, s)
      | Some (Ok new_eav) \<Rightarrow>
          Some (Ok (Some new_eav), s\<lparr>example_eav_storage := eavi_insert new_eav (example_eav_storage s)\<rparr>))"

definition example_fetch_eavi :: "ExampleEntityAttributeValueStorage \<Rightarrow> EaviQuery \<Rightarrow> EAVI list HcResult" where
  "example_fetch_eavi s q = Ok (query_run q (example_eav_storage s))"

definition example_eav :: "ExampleEntityAttributeValueStorage eav_ops" where
  "example_eav = \<lparr>add_eavi = example_add_eavi, fetch_eavi = example_fetch_eavi\<rparr>"

definition eav_storage_eq :: "'e eav_ops \<Rightarrow> 'f eav_ops \<Rightarrow> 'e \<Rightarrow> 'f \<Rightarrow> bool" where
  "eav_storage_eq o1 o2 s t \<longleftrightarrow> fetch_eavi o1 s default_eavi_query = fetch_eavi o2 t default_eavi_query"

section \<open>Ordered sets of EAVIs\<close>

fun eavi_set :: "EAVI list \<Rightarrow> bool" where
  "eavi_set [] = True"
| "eavi_set (x # xs) \<longleftrightarrow> (\<forall>y\<in>set xs. sint (index x) < sint (index y)) \<and> eavi_set xs"

lemma sint_eq_iff: "sint (v :: i64) = sint w \<longleftrightarrow> v = w"
  by (auto intro: signed_word_eqI)

lemma set_eavi_insert:
  "set (eavi_insert x xs) = (if index x \<in> index ` set xs then set xs else insert x (set xs))" if "eavi_set xs"
  using that
proof (induction xs)
  case (Cons y ys)
  show ?case
  proof (cases "sint (index x) < sint (index y)")
    case True
    with Cons.prems have "index x \<notin> index ` set (y # ys)"
      by fastforce
    with True show ?thesis by simp
  next
    case False
    with Cons show ?thesis by auto
  qed
qed simp

lemma eavi_set_insert: "eavi_set xs \<Longrightarrow> eavi_set (eavi_insert x xs)"
proof (induction xs)
  case (Cons y ys)
  then show ?case
    by (auto simp: set_eavi_insert split: if_splits)
      (metis linorder_neqE_linordered_idom sint_eq_iff)
qed simp

lemma eavi_insert_append:
  "\<forall>y\<in>set xs. sint (index y) < sint (index x) \<Longrightarrow> eavi_insert x xs = xs @ [x]"
  by (induction xs) auto

lemma eavi_set_append:
  "eavi_set (xs @ ys) \<longleftrightarrow> eavi_set xs \<and> eavi_set ys \<and> (\<forall>x\<in>set xs. \<forall>y\<in>set ys. sint (index x) < sint (index y))"
  by (induction xs) auto

lemma eavi_set_filter: "eavi_set xs \<Longrightarrow> eavi_set (filter P xs)"
  by (induction xs) auto

lemma eavi_collect_id: "eavi_set xs \<Longrightarrow> eavi_collect xs = xs"
proof (induction xs rule: rev_induct)
  case (snoc x xs)
  then show ?case
    by (auto simp: eavi_collect_def eavi_set_append eavi_insert_append)
qed (simp add: eavi_collect_def)

lemma eavi_set_inj: "eavi_set xs \<Longrightarrow> x \<in> set xs \<Longrightarrow> y \<in> set xs \<Longrightarrow> index x = index y \<Longrightarrow> x = y"
  by (induction xs) auto

lemma eavi_set_last:
  assumes "eavi_set xs" "last_opt xs = Some l"
  shows "l \<in> set xs" and "x \<in> set xs \<Longrightarrow> sint (index x) \<le> sint (index l)"
proof -
  from assms(2) have "xs \<noteq> []" "last xs = l"
    by (auto simp: last_opt_def split: if_splits)
  then have xs: "xs = butlast xs @ [l]"
    by (metis append_butlast_last_id)
  show "l \<in> set xs" by (subst xs) simp
  assume "x \<in> set xs"
  with assms(1) show "sint (index x) \<le> sint (index l)"
    by (subst (asm) xs, subst (asm) xs) (auto simp: eavi_set_append)
qed

section \<open>What a query returns\<close>

definition latest_in :: "EaviQuery \<Rightarrow> EAVI list \<Rightarrow> EAVI \<Rightarrow> bool" where
  "latest_in q xs x \<longleftrightarrow>
     (\<forall>y\<in>set xs. entity y = entity x \<and> val y = val x \<and> q_attribute q (attribute y)
        \<longrightarrow> sint (index y) \<le> sint (index x))"

lemma latest_filter_iff:
  assumes "eavi_set xs" "x \<in> set xs" "q_attribute q (attribute x)"
  shows "(case last_opt (filter (\<lambda>y. eav_check y (filter_single (entity x)) (q_attribute q)
              (filter_single (val x))) xs) of
            Some latest \<Rightarrow> index latest = index x | None \<Rightarrow> False) \<longleftrightarrow> latest_in q xs x"
    (is "(case last_opt (filter ?P xs) of Some _ \<Rightarrow> _ | None \<Rightarrow> _) \<longleftrightarrow> _")
proof -
  have x: "x \<in> set (filter ?P xs)"
    using assms by (simp add: eav_check_def filter_single_def)
  then obtain l where l: "last_opt (filter ?P xs) = Some l"
    by (cases "last_opt (filter ?P xs)") (auto simp: last_opt_def filter_empty_conv split: if_splits)
  note mx = eavi_set_last [OF eavi_set_filter [OF assms(1), of ?P] l]
  have "index l = index x \<longleftrightarrow> latest_in q xs x"
  proof
    assume "index l = index x"
    then show "latest_in q xs x"
      using mx(2) by (auto simp: latest_in_def eav_check_def filter_single_def)
  next
    assume "latest_in q xs x"
    with mx(1) have "sint (index l) \<le> sint (index x)"
      by (auto simp: latest_in_def eav_check_def filter_single_def)
    with mx(2) [OF x] show "index l = index x"
      using sint_eq_iff by force
  qed
  with l show ?thesis by simp
qed

lemma query_run_latest:
  assumes "eavi_set xs" "q_index q = LatestByAttribute"
  shows "query_run q xs =
    filter (\<lambda>x. eav_check x (q_entity q) (q_attribute q) (q_value q) \<and> latest_in q xs x) xs"
proof -
  let ?c = "\<lambda>x. eav_check x (q_entity q) (q_attribute q) (q_value q)"
  let ?l = "\<lambda>x. case last_opt (filter (\<lambda>y. eav_check y (filter_single (entity x)) (q_attribute q)
              (filter_single (val x))) xs) of Some latest \<Rightarrow> index latest = index x | None \<Rightarrow> False"
  have "?l x \<longleftrightarrow> latest_in q xs x" if "x \<in> set xs" "?c x" for x
    by (rule latest_filter_iff) (use that assms in \<open>auto simp: eav_check_def\<close>)
  then have "filter ?l (filter ?c xs) = filter (\<lambda>x. ?c x \<and> latest_in q xs x) xs"
    by (auto intro: filter_cong)
  then show ?thesis
    using assms by (simp add: query_run_def eavi_collect_id eavi_set_filter Let_def)
qed

lemma query_run_range:
  assumes "eavi_set xs" "q_index q = Range None None"
  shows "query_run q xs = filter (\<lambda>x. eav_check x (q_entity q) (q_attribute q) (q_value q)) xs"
  using assms by (simp add: query_run_def eavi_collect_id eavi_set_filter Let_def)

section \<open>Free indices\<close>

lemma increment_key_fuel_steps:
  assumes "\<forall>j<k. index x + of_nat j \<in> index ` set m" "index x + of_nat k \<notin> index ` set m" "k < n"
  shows "increment_key_fuel n x m = Some (x\<lparr>index := index x + of_nat k\<rparr>)"
  using assms
proof (induction k arbitrary: n x)
  case 0
  then have "\<not> list_ex (\<lambda>y. index y = index x) m"
    by (auto simp: list_ex_iff image_iff)
  with 0 show ?case by (cases n) simp_all
next
  case (Suc k)
  then obtain n' where n: "n = Suc n'" by (cases n) auto
  have "list_ex (\<lambda>y. index y = index x) m"
    using Suc.prems(1) by (force simp: list_ex_iff)
  moreover have "\<forall>j<k. index x + 1 + of_nat j \<in> index ` set m"
    using Suc.prems(1) by (auto simp: add.assoc)
  ultimately show ?case
    using Suc.IH [of "x\<lparr>index := index x + 1\<rparr>" n'] Suc.prems n
    by (simp add: add.assoc)
qed

lemma free_index_exists:
  assumes "length m < 2 ^ 64"
  obtains k where "k \<le> length m" "\<forall>j<k. i + of_nat j \<in> index ` set m" "i + of_nat k \<notin> index ` set m"
proof -
  have "\<exists>k\<le>length m. i + of_nat k \<notin> index ` set m"
  proof (rule ccontr)
    assume "\<not> ?thesis"
    then have sub: "(\<lambda>k. i + of_nat k) ` {..length m} \<subseteq> index ` set m" by auto
    have "inj_on (\<lambda>k. i + of_nat k :: i64) {..length m}"
      using assms
      by (intro inj_onI) (simp add: word_of_nat_eq_iff take_bit_nat_eq_self)
    then have "card ((\<lambda>k. i + of_nat k :: i64) ` {..length m}) = Suc (length m)"
      by (simp add: card_image)
    moreover have "card (index ` set m) \<le> length m"
      using card_image_le [of "set m" index] card_length [of m] by simp
    ultimately show False
      using card_mono [OF _ sub] by simp
  qed
  then obtain k where k: "k \<le> length m" "i + of_nat k \<notin> index ` set m" by auto
  define l where "l = (LEAST k. i + of_nat k \<notin> index ` set m)"
  have "i + of_nat l \<notin> index ` set m"
    unfolding l_def by (rule LeastI [of _ k]) (rule k(2))
  moreover have "l \<le> k"
    unfolding l_def by (rule Least_le) (rule k(2))
  moreover have "\<forall>j<l. i + of_nat j \<in> index ` set m"
    unfolding l_def using not_less_Least by blast
  ultimately show thesis using that [of l] k(1) by simp
qed

lemma increment_key_total:
  assumes "length m < 2 ^ 64"
  obtains k where "k \<le> length m" "index x + of_nat k \<notin> index ` set m"
    "\<forall>j<k. index x + of_nat j \<in> index ` set m"
    "increment_key_till_no_collision x m = Some (Ok (x\<lparr>index := index x + of_nat k\<rparr>))"
proof -
  obtain k where "k \<le> length m" "\<forall>j<k. index x + of_nat j \<in> index ` set m"
      "index x + of_nat k \<notin> index ` set m"
    using free_index_exists [OF assms] .
  then show thesis
    using that increment_key_fuel_steps [of k x m "Suc (length m)"]
    by (simp add: increment_key_till_no_collision_def)
qed

section \<open>The contract\<close>

text \<open>
  A storage holds an ordered set of EAVIs. Adding one never fails: it is stored under its
  own index or the next free one after it, and everything else is kept. Fetching runs the
  query on the set.
\<close>

locale eavi_store =
  fixes ops :: "'e eav_ops"
    and contents :: "'e \<Rightarrow> EAVI list"
  assumes add_fresh: "eavi_set (contents s) \<Longrightarrow> length (contents s) < 2 ^ 64 \<Longrightarrow>
      \<exists>k s'. index x + of_nat k \<notin> index ` set (contents s)
        \<and> (\<forall>j<k. index x + of_nat j \<in> index ` set (contents s))
        \<and> add_eavi ops s x = Some (Ok (Some (x\<lparr>index := index x + of_nat k\<rparr>)), s')
        \<and> contents s' = eavi_insert (x\<lparr>index := index x + of_nat k\<rparr>) (contents s)"
    and fetch_run: "fetch_eavi ops s q = Ok (query_run q (contents s))"
begin

lemma add_inv:
  assumes "eavi_set (contents s)" "length (contents s) < 2 ^ 64" "add_eavi ops s x = Some (r, s')"
  shows "eavi_set (contents s')" "set (contents s) \<subseteq> set (contents s')"
  using add_fresh [OF assms(1,2), of x] assms(1,3)
  by (auto simp: eavi_set_insert set_eavi_insert)

text \<open>When the clock is ahead of every stored index, the EAVI goes to the end as it is.\<close>

lemma add_append:
  assumes s: "eavi_set (contents s)" "length (contents s) < 2 ^ 64"
    and ahead: "\<forall>y\<in>set (contents s). sint (index y) < sint (index x)"
  obtains s' where "add_eavi ops s x = Some (Ok (Some x), s')" "contents s' = contents s @ [x]"
proof -
  obtain k s' where k: "index x + of_nat k \<notin> index ` set (contents s)"
      "\<forall>j<k. index x + of_nat j \<in> index ` set (contents s)"
      "add_eavi ops s x = Some (Ok (Some (x\<lparr>index := index x + of_nat k\<rparr>)), s')"
      "contents s' = eavi_insert (x\<lparr>index := index x + of_nat k\<rparr>) (contents s)"
    using add_fresh [OF s] by blast
  have "index x \<notin> index ` set (contents s)" using ahead by auto
  with k(2) have "k = 0" by (cases k) auto
  with k ahead that show thesis by (simp add: eavi_insert_append)
qed

end

interpretation eavm: eavi_store memory_eav eav_storage
proof
  fix s :: EavMemoryStorage and x
  assume "length (eav_storage s) < 2 ^ 64"
  then show "\<exists>k s'. index x + of_nat k \<notin> index ` set (eav_storage s)
        \<and> (\<forall>j<k. index x + of_nat j \<in> index ` set (eav_storage s))
        \<and> add_eavi memory_eav s x = Some (Ok (Some (x\<lparr>index := index x + of_nat k\<rparr>)), s')
        \<and> eav_storage s' = eavi_insert (x\<lparr>index := index x + of_nat k\<rparr>) (eav_storage s)"
    by (rule increment_key_total [of _ x]) (auto simp: memory_eav_def memory_add_eavi_def)
qed (simp add: memory_eav_def memory_fetch_eavi_def)

interpretation eavx: eavi_store example_eav example_eav_storage
proof
  fix s :: ExampleEntityAttributeValueStorage and x
  assume "length (example_eav_storage s) < 2 ^ 64"
  then show "\<exists>k s'. index x + of_nat k \<notin> index ` set (example_eav_storage s)
        \<and> (\<forall>j<k. index x + of_nat j \<in> index ` set (example_eav_storage s))
        \<and> add_eavi example_eav s x = Some (Ok (Some (x\<lparr>index := index x + of_nat k\<rparr>)), s')
        \<and> example_eav_storage s' = eavi_insert (x\<lparr>index := index x + of_nat k\<rparr>) (example_eav_storage s)"
    by (rule increment_key_total [of _ x]) (auto simp: example_eav_def example_add_eavi_def)
qed (simp add: example_eav_def example_fetch_eavi_def)

section \<open>Properties\<close>

text \<open>
  C12: Adding an EAVI to the memory storage always returns and never loses data: as long as
  fewer than \<open>2\<^sup>6\<^sup>4\<close> EAVIs are stored, the new one is stored under the first free index at or
  after its own, counted with wrap-around, the set stays strictly ordered, and every EAVI
  stored before is kept.
\<close>

theorem add_eavi_fresh:
  assumes "eavi_set (eav_storage s)" and "length (eav_storage s) < 2 ^ 64"
  shows "\<exists>k s' x'. add_eavi memory_eav s x = Some (Ok (Some x'), s')
    \<and> x' = x\<lparr>index := index x + of_nat k\<rparr> \<and> index x' \<notin> index ` set (eav_storage s)
    \<and> (\<forall>j. j < k \<longrightarrow> index x + of_nat j \<in> index ` set (eav_storage s))
    \<and> eavi_set (eav_storage s') \<and> set (eav_storage s') = insert x' (set (eav_storage s))"
  using eavm.add_fresh [OF assms, of x] assms(1)
  by (auto simp: eavi_set_insert set_eavi_insert)

theorem add_eavi_fresh_witness:
  "let e = \<lparr>entity = ''e'', attribute = LinkAttr, val = ''v'', index = 7\<rparr>;
       s = \<lparr>eav_storage = [e, e\<lparr>index := 8\<rparr>]\<rparr>
   in \<exists>s' x'. add_eavi memory_eav s e = Some (Ok (Some x'), s') \<and> index x' \<noteq> 7 \<and> index x' \<noteq> 8
        \<and> e \<in> set (eav_storage s')"
proof -
  let ?e = "\<lparr>entity = ''e'', attribute = LinkAttr, val = ''v'', index = 7\<rparr> :: EAVI"
  let ?s = "\<lparr>eav_storage = [?e, ?e\<lparr>index := 8\<rparr>]\<rparr> :: EavMemoryStorage"
  have "eavi_set (eav_storage ?s)" "length (eav_storage ?s) < 2 ^ 64" by simp_all
  from add_eavi_fresh [OF this, of ?e] obtain s' x' where
      "add_eavi memory_eav ?s ?e = Some (Ok (Some x'), s')" "index x' \<notin> {7, 8}"
      "?e \<in> set (eav_storage s')"
    by auto
  then show ?thesis by (auto simp: Let_def)
qed

text \<open>
  C11: \<open>LatestByAttribute\<close> returns exactly the stored EAVIs that pass the three filters and
  have the highest index among those with the same entity and value and an attribute that
  passes the attribute filter; so for each pair of entity and value at most one.
\<close>

theorem latest_by_attribute:
  assumes "eavi_set (eav_storage s)" and "q_index q = LatestByAttribute"
  shows "\<exists>r. fetch_eavi memory_eav s q = Ok r
    \<and> (\<forall>x. x \<in> set r \<longleftrightarrow> x \<in> set (eav_storage s) \<and> eav_check x (q_entity q) (q_attribute q) (q_value q)
          \<and> (\<forall>y. y \<in> set (eav_storage s) \<and> entity y = entity x \<and> val y = val x \<and> q_attribute q (attribute y)
                \<longrightarrow> sint (index y) \<le> sint (index x)))
    \<and> (\<forall>x y. x \<in> set r \<and> y \<in> set r \<and> entity x = entity y \<and> val x = val y \<longrightarrow> x = y)
    \<and> eavi_set r"
proof -
  let ?r = "query_run q (eav_storage s)"
  have r: "x \<in> set ?r \<longleftrightarrow> x \<in> set (eav_storage s) \<and> eav_check x (q_entity q) (q_attribute q) (q_value q)
          \<and> latest_in q (eav_storage s) x" for x
    using query_run_latest [OF assms] by auto
  have "x = y" if "x \<in> set ?r" "y \<in> set ?r" "entity x = entity y" "val x = val y" for x y
  proof -
    from that have "sint (index x) \<le> sint (index y)" "sint (index y) \<le> sint (index x)"
      by (auto simp: r latest_in_def eav_check_def)
    with that assms(1) show ?thesis
      by (metis antisym eavi_set_inj r sint_eq_iff)
  qed
  with r show ?thesis
    using eavm.fetch_run [of s q] query_run_latest [OF assms] eavi_set_filter [OF assms(1)]
    by (auto simp: latest_in_def)
qed

theorem latest_by_attribute_witness:
  "let e = \<lparr>entity = ''e'', attribute = LinkTag ''t'' ''a'', val = ''v'', index = 7\<rparr>;
       f = e\<lparr>attribute := RemovedLink ''t'' ''a'', index := 9\<rparr>
   in \<exists>r. fetch_eavi memory_eav \<lparr>eav_storage = [e, f]\<rparr> default_eavi_query = Ok r \<and> f \<in> set r \<and> e \<notin> set r"
proof -
  let ?e = "\<lparr>entity = ''e'', attribute = LinkTag ''t'' ''a'', val = ''v'', index = 7\<rparr> :: EAVI"
  let ?f = "?e\<lparr>attribute := RemovedLink ''t'' ''a'', index := 9\<rparr>"
  let ?s = "\<lparr>eav_storage = [?e, ?f]\<rparr> :: EavMemoryStorage"
  have "eavi_set (eav_storage ?s)" "q_index default_eavi_query = LatestByAttribute"
    by (simp_all add: default_eavi_query_def eavi_query_new_def)
  from latest_by_attribute [OF this] obtain r where r: "fetch_eavi memory_eav ?s default_eavi_query = Ok r"
    and mem: "\<And>x. x \<in> set r \<longleftrightarrow> x \<in> set (eav_storage ?s)
          \<and> eav_check x (q_entity default_eavi_query) (q_attribute default_eavi_query) (q_value default_eavi_query)
          \<and> (\<forall>y. y \<in> set (eav_storage ?s) \<and> entity y = entity x \<and> val y = val x
                \<and> q_attribute default_eavi_query (attribute y) \<longrightarrow> sint (index y) \<le> sint (index x))"
    by blast
  note q = default_eavi_query_def eavi_query_new_def eav_check_def filter_any_def
  have "?f \<in> set r"
    unfolding mem by (simp add: q) (intro allI impI, elim conjE disjE, simp_all)
  moreover have False if "?e \<in> set r"
    using that [unfolded mem, THEN conjunct2, THEN conjunct2, THEN spec, of ?f] by (simp add: q)
  ultimately show ?thesis using r by (auto simp: Let_def)
qed

lemma split_last_uu_SomeD: "split_last_uu s = Some (a, b) \<Longrightarrow> s = a @ ''__'' @ b"
proof (induction s arbitrary: a)
  case (Cons c s)
  show ?case
  proof (cases "split_last_uu s")
    case None
    with Cons.prems show ?thesis
      by (cases s) (auto split: if_splits)
  next
    case (Some p)
    with Cons show ?thesis by (cases p) auto
  qed
qed simp

lemma split_last_uu_append:
  "split_last_uu (ty @ ''__'' @ tg) =
     (case split_last_uu (CHR ''_'' # tg) of
        None \<Rightarrow> Some (ty, tg) | Some (a, b) \<Rightarrow> Some (ty @ CHR ''_'' # a, b))"
proof -
  have "split_last_uu (CHR ''_'' # CHR ''_'' # tg) =
     (case split_last_uu (CHR ''_'' # tg) of
        None \<Rightarrow> Some ([], tg) | Some (a, b) \<Rightarrow> Some (CHR ''_'' # a, b))"
    by (subst split_last_uu.simps) (auto split: option.splits)
  then show ?thesis
    by (induction ty) (auto split: option.splits simp del: split_last_uu.simps(2)
        simp: split_last_uu.simps(2) [of _ "_ @ _"])
qed

text \<open>
  An attribute is read back from its text, which names its directory in the file storage,
  unless it is a link or removed-link attribute whose type or tag has a line feed or whose
  tag starts with an underscore or contains two in a row.
\<close>

theorem attribute_text_roundtrip:
  "attribute_try_from (attribute_string a) = Ok a \<longleftrightarrow>
     (case a of
        LinkTag ty tg \<Rightarrow> CHR 0x0A \<notin> set ty \<union> set tg \<and> split_last_uu (CHR ''_'' # tg) = None
      | RemovedLink ty tg \<Rightarrow> CHR 0x0A \<notin> set ty \<union> set tg \<and> split_last_uu (CHR ''_'' # tg) = None
      | _ \<Rightarrow> True)"
proof -
  have shorter: "b \<noteq> tg" if "split_last_uu (CHR ''_'' # tg) = Some (c, b)" for c b tg
    using split_last_uu_SomeD [OF that] by (auto dest: arg_cong [where f = length])
  note uu = split_last_uu_append [unfolded append_Cons append_Nil]
  show ?thesis
    by (cases a)
      (auto simp: attribute_try_from_def tag_regex_def uu dest: shorter simp del: split_last_uu.simps(2)
        split: option.splits)
qed

end
