(* ===== verification/DHT_Shard.thy ===== *)
theory DHT_Shard
  imports Agent_State EAV_Store
begin

text \<open>
  The agent's shard of the DHT: \<open>core/src/dht/dht_store.rs\<close>, its reducers
  (\<open>dht_reducers.rs\<close>, \<open>dht_inner_reducers.rs\<close>) and the lookups of
  \<open>core/src/nucleus/actions/get_entry.rs\<close>.

  The shard works on two shared storages, the content storage \<open>s\<close> and the EAV storage \<open>m\<close>,
  reached through locks; they are explicit arguments and results, and what a reducer wrote
  stays written when it returns the old slice. The slice itself holds the answers to
  actions. A reading of the clock is taken for every new EAVI: \<open>clk i\<close> is the \<open>i\<close>-th reading
  within a step. \<open>None\<close> is a panic or a call that does not return.
\<close>

section \<open>The store\<close>

record DhtStore =
  dht_actions :: "Address HcResult action_map"

definition dht_store_new :: DhtStore where
  "dht_store_new = \<lparr>dht_actions = Map.empty\<rparr>"

definition link_attribute_filter :: "string option \<Rightarrow> string option \<Rightarrow> Attribute \<Rightarrow> bool" where
  "link_attribute_filter lt tg attr =
     (let matches = (\<lambda>ty tag.
        case (lt, tg) of
          (Some l, Some t) \<Rightarrow> l = ty \<and> t = tag
        | (Some l, None) \<Rightarrow> l = ty
        | (None, Some t) \<Rightarrow> t = tag
        | (None, None) \<Rightarrow> True) in
      case attr of
        LinkTag ty tag \<Rightarrow> matches ty tag
      | RemovedLink ty tag \<Rightarrow> matches ty tag
      | _ \<Rightarrow> False)"

definition is_link_tag :: "Attribute \<Rightarrow> bool" where
  "is_link_tag a = (case a of LinkTag _ _ \<Rightarrow> True | _ \<Rightarrow> False)"

definition get_links :: "'e eav_ops \<Rightarrow> 'e \<Rightarrow> Address \<Rightarrow> string option \<Rightarrow> string option \<Rightarrow> EAVI list HcResult" where
  "get_links E m a lt tg =
     map_ok (\<lambda>filtered. eavi_collect (filter (\<lambda>v. is_link_tag (attribute v)) filtered))
       (fetch_eavi E m (eavi_query_new (filter_from_option (Some a)) (link_attribute_filter lt tg)
          (filter_from_option None) LatestByAttribute))"

definition meta_query :: "Address \<Rightarrow> Attribute \<Rightarrow> EaviQuery" where
  "meta_query a attr = eavi_query_new (filter_from_option (Some a)) (filter_from_option (Some attr))
     (filter_from_option None) LatestByAttribute"

definition dht_get_headers :: "'s cas_ops \<Rightarrow> 'e eav_ops \<Rightarrow> ext \<Rightarrow> 's \<Rightarrow> 'e \<Rightarrow> Address \<Rightarrow> ChainHeader list HcResult" where
  "dht_get_headers C E x s m a =
     and_then (fetch_eavi E m (meta_query a EntryHeaderAttr)) (\<lambda>vs.
     and_then (collect_results (map (\<lambda>v. cas_fetch C s (val v)) vs)) (\<lambda>cs.
       collect_results (map (header_try_from_content x) (flatten_options cs))))"

text \<open>\<open>add_eavi(&eavi?)?\<close>, the common tail of the operations that record metadata.\<close>

definition put_eavi :: "'e eav_ops \<Rightarrow> 'e \<Rightarrow> EAVI HcResult \<Rightarrow> (unit HcResult \<times> 'e) option" where
  "put_eavi E m r =
     (case r of
        Err er \<Rightarrow> Some (Err er, m)
      | Ok v \<Rightarrow> map_option (\<lambda>(r, m'). (map_ok (\<lambda>_. ()) r, m')) (add_eavi E m v))"

definition add_header_for_entry ::
    "'s cas_ops \<Rightarrow> 'e eav_ops \<Rightarrow> ext \<Rightarrow> i64 \<Rightarrow> 's \<Rightarrow> 'e \<Rightarrow> Entry \<Rightarrow> ChainHeader \<Rightarrow> (unit HcResult \<times> 's \<times> 'e) option" where
  "add_header_for_entry C E x now s m e h =
     (case eavi_new now (entry_address x e) EntryHeaderAttr (header_address x h) of
        Err er \<Rightarrow> Some (Err er, s, m)
      | Ok v \<Rightarrow>
          (case cas_add C s (header_addressable x h) of
             (Err er, s1) \<Rightarrow> Some (Err er, s1, m)
           | (Ok _, s1) \<Rightarrow> map_option (\<lambda>(r, m'). (r, s1, m')) (put_eavi E m (Ok v))))"

section \<open>Inner reducers\<close>

datatype LinkModification = LmAdd | LmRemove

definition store_failed :: "HolochainError \<Rightarrow> HolochainError" where
  "store_failed er = ErrorGeneric (''err/dht: dht::reduce_store_entry_inner() FAILED '' @ error_debug er)"

definition reduce_store_entry_inner ::
    "'s cas_ops \<Rightarrow> 'e eav_ops \<Rightarrow> ext \<Rightarrow> i64 \<Rightarrow> 's \<Rightarrow> 'e \<Rightarrow> Entry \<Rightarrow> (unit HcResult \<times> 's \<times> 'e) option" where
  "reduce_store_entry_inner C E x now s m e =
     (case cas_add C s (entry_addressable x e) of
        (Err er, s1) \<Rightarrow> Some (Err (store_failed er), s1, m)
      | (Ok _, s1) \<Rightarrow>
          (case create_crud_status_eav now (entry_address x e) Live of
             Err er \<Rightarrow> Some (Err er, s1, m)
           | Ok status_eav \<Rightarrow>
               map_option (\<lambda>(r, m'). (map_err store_failed (map_ok (\<lambda>_. ()) r), s1, m'))
                 (add_eavi E m status_eav)))"

definition link_attribute :: "LinkModification \<Rightarrow> Link \<Rightarrow> Attribute" where
  "link_attribute lm l =
     (case lm of LmAdd \<Rightarrow> LinkTag (link_type l) (link_tag l)
      | LmRemove \<Rightarrow> RemovedLink (link_type l) (link_tag l))"

definition reduce_add_remove_link_inner ::
    "'s cas_ops \<Rightarrow> 'e eav_ops \<Rightarrow> ext \<Rightarrow> i64 \<Rightarrow> 's \<Rightarrow> 'e \<Rightarrow> Link \<Rightarrow> LinkModification \<Rightarrow> (Address HcResult \<times> 'e) option" where
  "reduce_add_remove_link_inner C E x now s m l lm =
     (case cas_contains C s (link_base l) of
        Err er \<Rightarrow> Some (Err er, m)
      | Ok False \<Rightarrow> Some (Err (ErrorGeneric ''Base for link not found''), m)
      | Ok True \<Rightarrow>
          map_option (\<lambda>(r, m'). (map_ok (\<lambda>_. link_base l) r, m'))
            (put_eavi E m (eavi_new now (link_base l) (link_attribute lm l)
               (entry_address x (link_add_entry l)))))"

text \<open>The common end of updates and removals: the new status, then the crud-link.\<close>

definition record_crud ::
    "'e eav_ops \<Rightarrow> 'e \<Rightarrow> EAVI HcResult \<Rightarrow> EAVI HcResult \<Rightarrow> Address \<Rightarrow> (Address HcResult \<times> 'e) option" where
  "record_crud E m status_eav crud_link_eav answer =
     (case put_eavi E m status_eav of
        None \<Rightarrow> None
      | Some (Err er, m1) \<Rightarrow> Some (Err er, m1)
      | Some (Ok _, m1) \<Rightarrow>
          map_option (\<lambda>(r, m'). (map_ok (\<lambda>_. answer) r, m')) (put_eavi E m1 crud_link_eav))"

definition reduce_update_entry_inner ::
    "'e eav_ops \<Rightarrow> (nat \<Rightarrow> i64) \<Rightarrow> 'e \<Rightarrow> Address \<Rightarrow> Address \<Rightarrow> (Address HcResult \<times> 'e) option" where
  "reduce_update_entry_inner E clk m old_address new_address =
     record_crud E m (create_crud_status_eav (clk 0) old_address Modified)
       (create_crud_link_eav (clk 1) old_address new_address) new_address"

definition not_live :: "EAVI \<Rightarrow> bool" where
  "not_live v \<longleftrightarrow> crud_status_from_str (val v) \<noteq> Ok Live"

definition could_not_create :: "EAVI HcResult \<Rightarrow> EAVI HcResult" where
  "could_not_create = map_err (\<lambda>_. ErrorGeneric ''Could not create eav'')"

definition reduce_remove_entry_inner ::
    "'s cas_ops \<Rightarrow> 'e eav_ops \<Rightarrow> ext \<Rightarrow> (nat \<Rightarrow> i64) \<Rightarrow> 's \<Rightarrow> 'e \<Rightarrow> Address \<Rightarrow> Address
     \<Rightarrow> (Address HcResult \<times> 'e) option" where
  "reduce_remove_entry_inner C E x clk s m a deletion =
     (case cas_fetch C s a of
        Err er \<Rightarrow> Some (Err er, m)
      | Ok None \<Rightarrow> Some (Err (ErrorGeneric ''trying to remove a missing entry''), m)
      | Ok (Some c) \<Rightarrow>
     (case entry_try_from_content x c of
        Err _ \<Rightarrow> Some (Err (ErrorGeneric ''Stored content should be a valid entry''), m)
      | Ok e \<Rightarrow>
     if is_sys (entry_type e) then Some (Err (ErrorGeneric ''trying to remove a system entry type''), m)
     else
     (case fetch_eavi E m (meta_query a CrudStatusAttr) of
        Err er \<Rightarrow> Some (Err er, m)
      | Ok status_eavs \<Rightarrow>
     if eavi_collect (filter not_live status_eavs) \<noteq> []
     then Some (Err (ErrorGeneric ''entry_status != CrudStatus::Live''), m)
     else record_crud E m (could_not_create (create_crud_status_eav (clk 0) a Deleted))
            (could_not_create (create_crud_link_eav (clk 1) a deletion)) a)))"

section \<open>Reducers\<close>

definition dht_reduce_commit_entry ::
    "'s cas_ops \<Rightarrow> 'e eav_ops \<Rightarrow> ext \<Rightarrow> (nat \<Rightarrow> i64) \<Rightarrow> 's \<Rightarrow> 'e \<Rightarrow> DhtStore \<Rightarrow> Entry \<Rightarrow> (DhtStore \<times> 's \<times> 'e) option" where
  "dht_reduce_commit_entry C E x clk s m dht e =
     map_option (\<lambda>(_, s', m'). (dht, s', m')) (reduce_store_entry_inner C E x (clk 0) s m e)"

definition reduce_hold_entry ::
    "'s cas_ops \<Rightarrow> 'e eav_ops \<Rightarrow> ext \<Rightarrow> (nat \<Rightarrow> i64) \<Rightarrow> 's \<Rightarrow> 'e \<Rightarrow> DhtStore \<Rightarrow> EntryWithHeader \<Rightarrow> (DhtStore \<times> 's \<times> 'e) option" where
  "reduce_hold_entry C E x clk s m dht eh =
     (case reduce_store_entry_inner C E x (clk 0) s m (ewh_entry eh) of
        None \<Rightarrow> None
      | Some (Err _, s', m') \<Rightarrow> Some (dht, s', m')
      | Some (Ok _, s', m') \<Rightarrow>
          map_option (\<lambda>(_, s', m'). (dht, s', m'))
            (add_header_for_entry C E x (clk 1) s' m' (ewh_entry eh) (ewh_header eh)))"

definition record_answer :: "ActionWrapper \<Rightarrow> DhtStore \<Rightarrow> 's \<Rightarrow> (Address HcResult \<times> 'e) option \<Rightarrow> (DhtStore \<times> 's \<times> 'e) option" where
  "record_answer w dht s =
     map_option (\<lambda>(r, m'). (dht\<lparr>dht_actions := actions_insert w r (dht_actions dht)\<rparr>, s, m'))"

definition dht_reduce ::
    "'s cas_ops \<Rightarrow> 'e eav_ops \<Rightarrow> ext \<Rightarrow> (nat \<Rightarrow> i64) \<Rightarrow> 's \<Rightarrow> 'e \<Rightarrow> DhtStore \<Rightarrow> ActionWrapper
     \<Rightarrow> (DhtStore \<times> 's \<times> 'e) option" where
  "dht_reduce C E x clk s m dht w =
     (case aw_action w of
        Commit e _ _ \<Rightarrow> dht_reduce_commit_entry C E x clk s m dht e
      | Hold eh \<Rightarrow> reduce_hold_entry C E x clk s m dht eh
      | UpdateEntry old new \<Rightarrow> record_answer w dht s (reduce_update_entry_inner E clk m old new)
      | RemoveEntry a del \<Rightarrow> record_answer w dht s (reduce_remove_entry_inner C E x clk s m a del)
      | AddLink l \<Rightarrow> record_answer w dht s (reduce_add_remove_link_inner C E x (clk 0) s m l LmAdd)
      | RemoveLink l \<Rightarrow> record_answer w dht s (reduce_add_remove_link_inner C E x (clk 0) s m l LmRemove)
      | _ \<Rightarrow> Some (dht, s, m))"

section \<open>Lookups\<close>

definition get_entry_from_cas :: "'s cas_ops \<Rightarrow> ext \<Rightarrow> 's \<Rightarrow> Address \<Rightarrow> Entry option HcResult" where
  "get_entry_from_cas C x s a =
     map_ok (\<lambda>json. Option.bind json (\<lambda>js. to_ok (entry_try_from_content x js))) (cas_fetch C s a)"

definition get_entry_from_agent_chain ::
    "'s cas_ops \<Rightarrow> ext \<Rightarrow> 's \<Rightarrow> AgentState \<Rightarrow> Address \<Rightarrow> Entry option HcResult option" where
  "get_entry_from_agent_chain C x s ag a =
     map_option (\<lambda>maybe_header.
         case maybe_header of None \<Rightarrow> Ok None | Some _ \<Rightarrow> get_entry_from_cas C x s a)
       (iter_find (iter_next C x s) (\<lambda>h. h_entry_address h = a) (ag_top_chain_header ag))"

definition has_status :: "CrudStatus \<Rightarrow> EAVI list \<Rightarrow> bool" where
  "has_status st vs \<longleftrightarrow> eavi_collect (filter (\<lambda>v. crud_status_from_str (val v) = Ok st) vs) \<noteq> []"

definition get_entry_crud_meta_from_dht ::
    "'e eav_ops \<Rightarrow> 'e \<Rightarrow> Address \<Rightarrow> (CrudStatus \<times> Address option) option HcResult option" where
  "get_entry_crud_meta_from_dht E m a =
     (case fetch_eavi E m (meta_query a CrudStatusAttr) of
        Err er \<Rightarrow> Some (Err er)
      | Ok status_eavs \<Rightarrow>
          if status_eavs = [] then Some (Ok None)
          else
            (let crud_status = (if has_status Deleted status_eavs then Deleted
                else if has_status Modified status_eavs then Modified else Live) in
             case fetch_eavi E m (meta_query a CrudLinkAttr) of
               Err er \<Rightarrow> Some (Err er)
             | Ok [] \<Rightarrow> Some (Ok (Some (crud_status, None)))
             | Ok [v] \<Rightarrow> Some (Ok (Some (crud_status, Some (val v))))
             | Ok _ \<Rightarrow> None))"

definition get_entry_with_meta ::
    "'s cas_ops \<Rightarrow> 'e eav_ops \<Rightarrow> ext \<Rightarrow> 's \<Rightarrow> 'e \<Rightarrow> Address \<Rightarrow> EntryWithMeta option HcResult option" where
  "get_entry_with_meta C E x s m a =
     (case get_entry_from_cas C x s a of
        Err er \<Rightarrow> Some (Err er)
      | Ok None \<Rightarrow> Some (Ok None)
      | Ok (Some e) \<Rightarrow>
          (case get_entry_crud_meta_from_dht E m a of
             None \<Rightarrow> None
           | Some (Err er) \<Rightarrow> Some (Err er)
           | Some (Ok None) \<Rightarrow> Some (Ok None)
           | Some (Ok (Some (st, l))) \<Rightarrow>
               Some (Ok (Some \<lparr>ewm_entry = e, ewm_crud_status = st, ewm_maybe_link_update_delete = l\<rparr>))))"

section \<open>What the metadata says\<close>

text \<open>The values recorded for an address under an attribute, over the whole history.\<close>

definition recorded :: "EAVI list \<Rightarrow> Address \<Rightarrow> Attribute \<Rightarrow> Value set" where
  "recorded xs a attr = {val y |y. y \<in> set xs \<and> entity y = a \<and> attribute y = attr}"

lemma recorded_mono: "set xs \<subseteq> set ys \<Longrightarrow> recorded xs a attr \<subseteq> recorded ys a attr"
  by (auto simp: recorded_def)

lemma distinct_singleton: "distinct xs \<Longrightarrow> set xs = {a} \<Longrightarrow> xs = [a]"
  by (cases xs; cases "tl xs") auto

lemma eavi_set_distinct: "eavi_set xs \<Longrightarrow> distinct xs"
  by (induction xs) auto

lemma latest_exists:
  assumes "y \<in> set xs" "q_attribute q (attribute y)"
  obtains v where "v \<in> set xs" "entity v = entity y" "val v = val y" "q_attribute q (attribute v)"
    "latest_in q xs v"
proof -
  let ?S = "{v \<in> set xs. entity v = entity y \<and> val v = val y \<and> q_attribute q (attribute v)}"
  have "finite ?S" "?S \<noteq> {}" using assms by auto
  then have "Max ((\<lambda>v. sint (index v)) ` ?S) \<in> (\<lambda>v. sint (index v)) ` ?S"
    by (intro Max_in) auto
  then obtain v where v: "sint (index v) = Max ((\<lambda>v. sint (index v)) ` ?S)" "v \<in> ?S"
    by (metis (no_types, lifting) imageE)
  have "sint (index w) \<le> sint (index v)" if "w \<in> ?S" for w
    unfolding v(1) using that by (intro Max_ge) auto
  with v(2) show thesis by (intro that [of v]) (auto simp: latest_in_def)
qed

lemma meta_query_simps [simp]:
  "q_entity (meta_query a attr) = (\<lambda>w. w = a)" "q_attribute (meta_query a attr) = (\<lambda>w. w = attr)"
  "q_value (meta_query a attr) = (\<lambda>_. True)" "q_index (meta_query a attr) = LatestByAttribute"
  by (simp_all add: meta_query_def eavi_query_new_def filter_from_option_def filter_single_def filter_any_def)

lemma meta_query_vals:
  assumes "eavi_set xs"
  shows "val ` set (query_run (meta_query a attr) xs) = recorded xs a attr"
    and "distinct (map val (query_run (meta_query a attr) xs))"
proof -
  let ?r = "query_run (meta_query a attr) xs"
  have r: "?r = filter (\<lambda>v. entity v = a \<and> attribute v = attr \<and> latest_in (meta_query a attr) xs v) xs"
    using assms by (simp add: query_run_latest eav_check_def)
  show "val ` set ?r = recorded xs a attr"
  proof
    show "recorded xs a attr \<subseteq> val ` set ?r"
    proof
      fix v assume "v \<in> recorded xs a attr"
      then obtain y where y: "y \<in> set xs" "entity y = a" "attribute y = attr" "v = val y"
        by (auto simp: recorded_def)
      then obtain w where "w \<in> set xs" "entity w = a" "val w = v" "attribute w = attr"
          "latest_in (meta_query a attr) xs w"
        using latest_exists [OF y(1), of "meta_query a attr"] by auto
      then show "v \<in> val ` set ?r" by (auto simp: r)
    qed
  qed (auto simp: r recorded_def)
  have "sint (index v) \<le> sint (index w)" if "v \<in> set ?r" "w \<in> set ?r" "val v = val w" for v w
    using that by (simp add: r latest_in_def)
  then have "index v = index w" if "v \<in> set ?r" "w \<in> set ?r" "val v = val w" for v w
    using that by (simp add: order_antisym flip: sint_eq_iff)
  then have "inj_on val (set ?r)"
    using eavi_set_inj [OF eavi_set_filter [OF assms]] unfolding r inj_on_def by blast
  moreover have "distinct ?r"
    using assms by (simp add: r eavi_set_distinct)
  ultimately show "distinct (map val ?r)" by (simp add: distinct_map)
qed

text \<open>The status an entry has is the furthest of its life cycle that was ever recorded.\<close>

definition current_status :: "Value set \<Rightarrow> CrudStatus" where
  "current_status S = (if ''deleted'' \<in> S then Deleted else if ''modified'' \<in> S then Modified else Live)"

text \<open>Sets of EAVIs that only grow, by at most \<open>n\<close>.\<close>

definition extends :: "nat \<Rightarrow> EAVI list \<Rightarrow> EAVI list \<Rightarrow> bool" where
  "extends n xs ys \<longleftrightarrow> eavi_set ys \<and> set xs \<subseteq> set ys \<and> length ys \<le> length xs + n"

lemma extends_refl: "eavi_set xs \<Longrightarrow> extends n xs xs"
  by (simp add: extends_def)

lemma extends_trans: "extends n xs ys \<Longrightarrow> extends k ys zs \<Longrightarrow> n + k \<le> l \<Longrightarrow> extends l xs zs"
  by (auto simp: extends_def)

lemma extends_weaken: "extends n xs ys \<Longrightarrow> n \<le> l \<Longrightarrow> extends l xs ys"
  by (auto simp: extends_def)

lemma length_eavi_insert: "length (eavi_insert v xs) \<le> Suc (length xs)"
  by (induction xs) auto

context eavi_store
begin

lemma add_extends:
  assumes "eavi_set (contents m)" "length (contents m) < 2 ^ 64"
  obtains v' m' where "add_eavi ops m v = Some (Ok (Some v'), m')" "extends 1 (contents m) (contents m')"
    "entity v' = entity v" "attribute v' = attribute v" "val v' = val v"
    "set (contents m') = insert v' (set (contents m))"
proof -
  obtain k m' where k: "index v + of_nat k \<notin> index ` set (contents m)"
      "add_eavi ops m v = Some (Ok (Some (v\<lparr>index := index v + of_nat k\<rparr>)), m')"
      "contents m' = eavi_insert (v\<lparr>index := index v + of_nat k\<rparr>) (contents m)"
    using add_fresh [OF assms, of v] by blast
  have "set (contents m') = insert (v\<lparr>index := index v + of_nat k\<rparr>) (set (contents m))"
    using assms(1) k by (simp add: set_eavi_insert)
  moreover have "eavi_set (contents m')" "length (contents m') \<le> Suc (length (contents m))"
    using assms(1) length_eavi_insert by (simp_all add: k(3) eavi_set_insert)
  ultimately show thesis
    using that [OF k(2)] by (auto simp: extends_def)
qed

lemma put_extends:
  assumes "eavi_set (contents m)" "length (contents m) < 2 ^ 64"
  obtains r' m' where "put_eavi ops m r = Some (r', m')" "extends 1 (contents m) (contents m')"
proof (cases r)
  case (Inl e)
  with assms show thesis by (intro that [of _ m]) (simp_all add: put_eavi_def extends_refl)
next
  case (Inr v)
  with assms show thesis
    by (elim add_extends [of m v]) (auto intro: that simp: put_eavi_def)
qed

lemma store_entry_extends:
  assumes "eavi_set (contents m)" "length (contents m) < 2 ^ 64"
  obtains r s' m' where "reduce_store_entry_inner C ops x now s m e = Some (r, s', m')"
    "extends 1 (contents m) (contents m')"
proof (cases "cas_add C s (entry_addressable x e)")
  case (Pair r s1)
  show thesis
  proof (cases r)
    case (Inl er)
    with Pair assms show thesis
      by (intro that [of _ s1 m]) (simp_all add: reduce_store_entry_inner_def extends_refl)
  next
    case (Inr u)
    show thesis
      using Pair Inr assms
      by (elim add_extends [of m "\<lparr>entity = entry_address x e, attribute = CrudStatusAttr,
            val = crud_status_string Live, index = now\<rparr>"])
        (auto intro: that simp: reduce_store_entry_inner_def create_crud_status_eav_def eavi_new_def
          validate_attribute_def)
  qed
qed

lemma add_header_extends:
  assumes "eavi_set (contents m)" "length (contents m) < 2 ^ 64"
  obtains r s' m' where "add_header_for_entry C ops x now s m e h = Some (r, s', m')"
    "extends 1 (contents m) (contents m')"
proof (cases "cas_add C s (header_addressable x h)")
  case (Pair r s1)
  show thesis
  proof (cases r)
    case (Inl er)
    with Pair assms show thesis
      by (intro that [of _ s1 m])
        (simp_all add: add_header_for_entry_def eavi_new_def validate_attribute_def extends_refl)
  next
    case (Inr u)
    show thesis
      using Pair Inr assms
      by (elim put_extends [of m "Ok \<lparr>entity = entry_address x e, attribute = EntryHeaderAttr,
            val = header_address x h, index = now\<rparr>"])
        (auto intro: that simp: add_header_for_entry_def eavi_new_def validate_attribute_def)
  qed
qed

text \<open>Two EAVIs one after the other, as updates and removals record them.\<close>

lemma record_crud_extends:
  assumes "eavi_set (contents m)" "length (contents m) + 2 \<le> 2 ^ 64"
  obtains r' m' where "record_crud ops m r1 r2 b = Some (r', m')" "extends 2 (contents m) (contents m')"
proof -
  obtain r m1 where 1: "put_eavi ops m r1 = Some (r, m1)" "extends 1 (contents m) (contents m1)"
    using assms by (auto elim: put_extends [of m r1])
  obtain r' m2 where 2: "put_eavi ops m1 r2 = Some (r', m2)" "extends 1 (contents m1) (contents m2)"
    using assms(2) 1(2) by (auto simp: extends_def elim: put_extends [of m1 r2])
  show thesis
  proof (cases r)
    case (Inl er)
    with 1 show thesis by (intro that [of _ m1]) (auto simp: record_crud_def intro: extends_weaken)
  next
    case (Inr u)
    with 1 2 show thesis by (intro that [of _ m2]) (auto simp: record_crud_def intro: extends_trans)
  qed
qed

end

text \<open>A sequence of actions reduced one after the other, each with its clock readings.\<close>

fun dht_run ::
    "'s cas_ops \<Rightarrow> 'e eav_ops \<Rightarrow> ext \<Rightarrow> (ActionWrapper \<times> (nat \<Rightarrow> i64)) list \<Rightarrow> 's \<Rightarrow> 'e \<Rightarrow> DhtStore
     \<Rightarrow> (DhtStore \<times> 's \<times> 'e) option" where
  "dht_run C E x [] s m dht = Some (dht, s, m)"
| "dht_run C E x ((w, clk) # ws) s m dht =
     (case dht_reduce C E x clk s m dht w of
        None \<Rightarrow> None
      | Some (dht', s', m') \<Rightarrow> dht_run C E x ws s' m' dht')"

context eavi_store
begin

lemma record_answer_extends:
  assumes "f = Some (r, m')" "extends n (contents m) (contents m')"
  shows "\<exists>dht' s' m'. record_answer w dht s f = Some (dht', s', m') \<and> extends n (contents m) (contents m')"
  using assms by (simp add: record_answer_def)

lemma hold_extends:
  assumes "eavi_set (contents m)" "length (contents m) + 2 \<le> 2 ^ 64"
  shows "\<exists>dht' s' m'. reduce_hold_entry C ops x clk s m dht eh = Some (dht', s', m')
    \<and> extends 2 (contents m) (contents m')"
proof -
  obtain r s1 m1 where 1: "reduce_store_entry_inner C ops x (clk 0) s m (ewh_entry eh) = Some (r, s1, m1)"
      "extends 1 (contents m) (contents m1)"
    using assms by (auto elim: store_entry_extends [of m C x "clk 0" s "ewh_entry eh"])
  obtain r' s2 m2 where 2: "add_header_for_entry C ops x (clk 1) s1 m1 (ewh_entry eh) (ewh_header eh)
        = Some (r', s2, m2)" "extends 1 (contents m1) (contents m2)"
    using assms(2) 1(2)
    by (auto simp: extends_def elim: add_header_extends [of m1 C x "clk 1" s1 "ewh_entry eh" "ewh_header eh"])
  show ?thesis
    by (cases r) (use 1 2 in \<open>auto simp: reduce_hold_entry_def intro: extends_weaken extends_trans\<close>)
qed

lemma remove_entry_extends:
  assumes "eavi_set (contents m)" "length (contents m) + 2 \<le> 2 ^ 64"
  shows "\<exists>r m'. reduce_remove_entry_inner C ops x clk s m a d = Some (r, m') \<and> extends 2 (contents m) (contents m')"
proof -
  obtain r m' where "record_crud ops m (could_not_create (create_crud_status_eav (clk 0) a Deleted))
      (could_not_create (create_crud_link_eav (clk 1) a d)) a = Some (r, m')"
    "extends 2 (contents m) (contents m')"
    using record_crud_extends [OF assms] .
  moreover have "extends 2 (contents m) (contents m)"
    using assms by (simp add: extends_refl)
  ultimately show ?thesis
    unfolding reduce_remove_entry_inner_def fetch_run
    by (simp split: sum.split option.split)
qed

lemma link_extends:
  assumes "eavi_set (contents m)" "length (contents m) + 2 \<le> 2 ^ 64"
  shows "\<exists>r m'. reduce_add_remove_link_inner C ops x now s m l lm = Some (r, m') \<and> extends 2 (contents m) (contents m')"
proof -
  obtain r m' where "put_eavi ops m (eavi_new now (link_base l) (link_attribute lm l)
      (entry_address x (link_add_entry l))) = Some (r, m')" "extends 1 (contents m) (contents m')"
    by (rule put_extends) (use assms in auto)
  moreover have "extends 2 (contents m) (contents m)"
    using assms by (simp add: extends_refl)
  ultimately show ?thesis
    by (auto simp: reduce_add_remove_link_inner_def intro: extends_weaken split: sum.split bool.split)
qed

theorem dht_reduce_extends:
  assumes "eavi_set (contents m)" "length (contents m) + 2 \<le> 2 ^ 64"
  shows "\<exists>dht' s' m'. dht_reduce C ops x clk s m dht w = Some (dht', s', m')
    \<and> extends 2 (contents m) (contents m')"
proof -
  have up: "\<exists>r m'. reduce_update_entry_inner ops clk m a b = Some (r, m') \<and> extends 2 (contents m) (contents m')" for a b
    unfolding reduce_update_entry_inner_def by (rule record_crud_extends [OF assms]) blast
  have co: "\<exists>dht' s' m'. dht_reduce_commit_entry C ops x clk s m dht e = Some (dht', s', m')
    \<and> extends 2 (contents m) (contents m')" for e
    by (rule store_entry_extends [of m C x "clk 0" s e])
      (use assms in \<open>auto simp: dht_reduce_commit_entry_def intro: extends_weaken\<close>)
  note ra = record_answer_extends [of _ _ _ 2 m w dht s]
  show ?thesis
    using co hold_extends [OF assms, of C x clk s dht] up [THEN exE] remove_entry_extends [OF assms, of C x clk s]
      link_extends [OF assms, of C x "clk 0" s] extends_refl [OF assms(1), of 2]
    by (cases "aw_action w") (simp_all add: dht_reduce_def, (metis ra up)+)
qed

lemma dht_run_extends:
  assumes "eavi_set (contents m)" "length (contents m) + 2 * length ws \<le> 2 ^ 64"
  shows "\<exists>dht' s' m'. dht_run C ops x ws s m dht = Some (dht', s', m')
    \<and> extends (2 * length ws) (contents m) (contents m')"
  using assms
proof (induction ws arbitrary: s m dht)
  case (Cons wc ws)
  obtain w clk where wc: "wc = (w, clk)" by (cases wc)
  obtain dht1 s1 m1 where 1: "dht_reduce C ops x clk s m dht w = Some (dht1, s1, m1)"
      "extends 2 (contents m) (contents m1)"
    using dht_reduce_extends [where C = C and x = x and clk = clk and s = s and dht = dht and w = w]
      Cons.prems by fastforce
  obtain dht2 s2 m2 where "dht_run C ops x ws s1 m1 dht1 = Some (dht2, s2, m2)"
      "extends (2 * length ws) (contents m1) (contents m2)"
    using Cons.IH [of m1 s1 dht1] Cons.prems(2) 1(2) by (auto simp: extends_def)
  with 1 wc show ?case by (auto intro: extends_trans)
qed (simp add: extends_refl)

end

text \<open>The answer of the metadata lookup as a function of what is recorded.\<close>

definition crud_meta_of :: "Value set \<Rightarrow> Value set \<Rightarrow> (CrudStatus \<times> Address option) option HcResult option" where
  "crud_meta_of S L =
     (if S = {} then Some (Ok None)
      else if \<not> (\<exists>l. L \<subseteq> {l}) then None
      else Some (Ok (Some (current_status S, if L = {} then None else Some (the_elem L)))))"

lemma has_status_vals: "eavi_set vs \<Longrightarrow> has_status st vs \<longleftrightarrow> crud_status_string st \<in> val ` set vs"
  by (force simp: has_status_def eavi_collect_id eavi_set_filter filter_empty_conv crud_status_from_str_Ok_iff)

lemma distinct_vals_cases:
  assumes "distinct (map val vs)" "val ` set vs = L"
  shows "(case vs of [] \<Rightarrow> f None | [v] \<Rightarrow> f (Some (val v)) | _ \<Rightarrow> d) =
    (if \<not> (\<exists>l. L \<subseteq> {l}) then d else f (if L = {} then None else Some (the_elem L)))"
proof (cases vs rule: remdups_adj.cases)
  case 1
  with assms(2) have "L = {}" by simp
  with 1 show ?thesis by simp
next
  case (2 v)
  with assms(2) have "L = {val v}" by simp
  with 2 show ?thesis by simp
next
  case (3 v w ws)
  with assms have "val v \<in> L" "val w \<in> L" "val v \<noteq> val w" by auto
  then have "\<not> (\<exists>l. L \<subseteq> {l})" by blast
  with 3 show ?thesis by simp
qed

context eavi_store
begin

lemma crud_meta_eq:
  assumes "eavi_set (contents m)"
  shows "get_entry_crud_meta_from_dht ops m a =
    crud_meta_of (recorded (contents m) a CrudStatusAttr) (recorded (contents m) a CrudLinkAttr)"
proof -
  let ?q = "\<lambda>attr. query_run (meta_query a attr) (contents m)"
  have S: "val ` set (?q attr) = recorded (contents m) a attr" "distinct (map val (?q attr))"
      "eavi_set (?q attr)" for attr
    using assms meta_query_vals [OF assms] by (simp_all add: query_run_latest eavi_set_filter)
  have st: "(if has_status Deleted (?q CrudStatusAttr) then Deleted
      else if has_status Modified (?q CrudStatusAttr) then Modified else Live)
      = current_status (recorded (contents m) a CrudStatusAttr)"
    by (simp add: has_status_vals S current_status_def)
  have "?q CrudStatusAttr = [] \<longleftrightarrow> recorded (contents m) a CrudStatusAttr = {}"
    by (simp flip: S(1))
  moreover note distinct_vals_cases [OF S(2,1), where d = None
      and f = "\<lambda>l. Some (Ok (Some (current_status (recorded (contents m) a CrudStatusAttr), l)) :: _ HcResult)"]
  ultimately show ?thesis
    unfolding get_entry_crud_meta_from_dht_def crud_meta_of_def fetch_run Let_def st sum.case
    by simp
qed

end

text \<open>The position of a status in the life cycle of an entry.\<close>

fun status_rank :: "CrudStatus \<Rightarrow> nat" where
  "status_rank Deleted = 2"
| "status_rank Modified = 1"
| "status_rank _ = 0"

lemma current_status_mono: "S \<subseteq> T \<Longrightarrow> status_rank (current_status S) \<le> status_rank (current_status T)"
  by (auto simp: current_status_def)

lemma crud_meta_of_mono:
  assumes "crud_meta_of S L = Some (Ok (Some (st, l)))" "S \<subseteq> T" "L \<subseteq> M"
  shows "crud_meta_of T M = None \<or>
    (\<exists>st' l'. crud_meta_of T M = Some (Ok (Some (st', l'))) \<and> status_rank st \<le> status_rank st'
       \<and> (l \<noteq> None \<longrightarrow> l' = l))"
proof -
  from assms(1) have S: "S \<noteq> {}" and st: "st = current_status S"
    and l: "l = (if L = {} then None else Some (the_elem L))"
    by (auto simp: crud_meta_of_def split: if_splits)
  show ?thesis
  proof (cases "\<exists>k. M \<subseteq> {k}")
    case True
    then obtain k where "M = {} \<or> M = {k}" by blast
    with assms(3) have "l \<noteq> None \<longrightarrow> (if M = {} then None else Some (the_elem M)) = l"
      by (auto simp: l subset_singleton_iff)
    with True S assms(2) current_status_mono [OF assms(2)] show ?thesis
      by (auto simp: crud_meta_of_def st)
  next
    case False
    with S assms(2) show ?thesis by (auto simp: crud_meta_of_def)
  qed
qed

lemma not_live_vals:
  assumes "eavi_set vs"
  shows "eavi_collect (filter not_live vs) \<noteq> [] \<longleftrightarrow> \<not> val ` set vs \<subseteq> {''live''}"
proof -
  have "not_live v \<longleftrightarrow> val v \<noteq> ''live''" for v
    using crud_status_from_str_Ok_iff [of "val v" Live] by (simp add: not_live_def)
  then show ?thesis
    using assms by (auto simp: eavi_collect_id eavi_set_filter filter_empty_conv)
qed

context eavi_store
begin

lemma put_ok:
  assumes "eavi_set (contents m)" "length (contents m) < 2 ^ 64"
  obtains m' where "put_eavi ops m (Ok v) = Some (Ok (), m')" "extends 1 (contents m) (contents m')"
    "\<And>a attr. recorded (contents m') a attr =
       (if entity v = a \<and> attribute v = attr then insert (val v) (recorded (contents m) a attr)
        else recorded (contents m) a attr)"
proof -
  obtain v' m' where v': "add_eavi ops m v = Some (Ok (Some v'), m')" "extends 1 (contents m) (contents m')"
      "entity v' = entity v" "attribute v' = attribute v" "val v' = val v"
      "set (contents m') = insert v' (set (contents m))"
    using add_extends [OF assms] .
  then have "recorded (contents m') a attr =
       (if entity v = a \<and> attribute v = attr then insert (val v) (recorded (contents m) a attr)
        else recorded (contents m) a attr)" for a attr
    unfolding recorded_def by (auto intro: exI [of _ v'])
  with v'(1,2) show thesis by (intro that [of m']) (simp_all add: put_eavi_def)
qed

lemma record_crud_ok:
  assumes "eavi_set (contents m)" "length (contents m) + 2 \<le> 2 ^ 64"
  obtains m' where "record_crud ops m (create_crud_status_eav t a st) (create_crud_link_eav t' a b) c = Some (Ok c, m')"
    "extends 2 (contents m) (contents m')"
    "recorded (contents m') a CrudStatusAttr = insert (crud_status_string st) (recorded (contents m) a CrudStatusAttr)"
    "recorded (contents m') a CrudLinkAttr = insert b (recorded (contents m) a CrudLinkAttr)"
    "\<And>d attr. d \<noteq> a \<or> attr \<notin> {CrudStatusAttr, CrudLinkAttr} \<Longrightarrow> recorded (contents m') d attr = recorded (contents m) d attr"
proof -
  let ?v = "\<lparr>entity = a, attribute = CrudStatusAttr, val = crud_status_string st, index = t\<rparr>"
  let ?w = "\<lparr>entity = a, attribute = CrudLinkAttr, val = b, index = t'\<rparr>"
  obtain m1 where 1: "put_eavi ops m (Ok ?v) = Some (Ok (), m1)" "extends 1 (contents m) (contents m1)"
      "\<And>a attr. recorded (contents m1) a attr =
       (if entity ?v = a \<and> attribute ?v = attr then insert (val ?v) (recorded (contents m) a attr)
        else recorded (contents m) a attr)"
    by (rule put_ok [of m ?v]) (use assms in auto)
  obtain m2 where 2: "put_eavi ops m1 (Ok ?w) = Some (Ok (), m2)" "extends 1 (contents m1) (contents m2)"
      "\<And>a attr. recorded (contents m2) a attr =
       (if entity ?w = a \<and> attribute ?w = attr then insert (val ?w) (recorded (contents m1) a attr)
        else recorded (contents m1) a attr)"
    by (rule put_ok [of m1 ?w]) (use assms(2) 1(2) in \<open>auto simp: extends_def\<close>)
  show thesis
    by (rule that [of m2])
      (use 1 2 in \<open>auto simp: record_crud_def create_crud_status_eav_def create_crud_link_eav_def
        eavi_new_def validate_attribute_def intro: extends_trans\<close>)
qed

lemma status_refused:
  assumes "eavi_set (contents m)"
  shows "eavi_collect (filter not_live (query_run (meta_query a CrudStatusAttr) (contents m))) \<noteq> []
    \<longleftrightarrow> \<not> recorded (contents m) a CrudStatusAttr \<subseteq> {''live''}"
  using assms meta_query_vals(1) [OF assms]
  by (simp only: not_live_vals query_run_latest meta_query_simps eavi_set_filter)

end

section \<open>The shard over its two contracts\<close>

text \<open>What the shard does when its storages keep their contracts; interpreted on the memory
  storages and on the disk content storage.\<close>

locale shard =
  cas: content_store cops lookup inv valid + eav: eavi_store eops contents
  for cops :: "'s cas_ops" and lookup inv valid and eops :: "'e eav_ops" and contents
begin

lemma remove_entry_eq:
  assumes "inv s" "valid a" "eavi_set (contents m)"
  shows "reduce_remove_entry_inner cops eops x clk s m a d =
    (case lookup s a of
       None \<Rightarrow> Some (Err (ErrorGeneric ''trying to remove a missing entry''), m)
     | Some c \<Rightarrow>
        (case entry_try_from_content x c of
           Err _ \<Rightarrow> Some (Err (ErrorGeneric ''Stored content should be a valid entry''), m)
         | Ok e \<Rightarrow>
             if is_sys (entry_type e) then Some (Err (ErrorGeneric ''trying to remove a system entry type''), m)
             else if \<not> recorded (contents m) a CrudStatusAttr \<subseteq> {''live''}
             then Some (Err (ErrorGeneric ''entry_status != CrudStatus::Live''), m)
             else record_crud eops m (create_crud_status_eav (clk 0) a Deleted) (create_crud_link_eav (clk 1) a d) a))"
proof -
  have "could_not_create (create_crud_status_eav t a st) = create_crud_status_eav t a st"
      "could_not_create (create_crud_link_eav t a b) = create_crud_link_eav t a b" for t st b
    by (simp_all add: could_not_create_def create_crud_status_eav_def create_crud_link_eav_def
        eavi_new_def validate_attribute_def)
  with assms show ?thesis
    unfolding reduce_remove_entry_inner_def
    by (simp add: cas.fetch_lookup eav.fetch_run eav.status_refused split: option.split sum.split)
qed

lemma with_meta_eq:
  assumes "inv s" "valid a" "eavi_set (contents m)"
  shows "get_entry_with_meta cops eops x s m a =
    (case Option.bind (lookup s a) (\<lambda>c. to_ok (entry_try_from_content x c)) of
       None \<Rightarrow> Some (Ok None)
     | Some e \<Rightarrow> map_option (map_ok (map_option (\<lambda>(st, l).
           \<lparr>ewm_entry = e, ewm_crud_status = st, ewm_maybe_link_update_delete = l\<rparr>)))
         (crud_meta_of (recorded (contents m) a CrudStatusAttr) (recorded (contents m) a CrudLinkAttr)))"
  using assms
  by (auto simp: get_entry_with_meta_def get_entry_from_cas_def cas.fetch_lookup eav.crud_meta_eq
      crud_meta_of_def split: option.split)

end

interpretation msh: shard memory_cas storage "\<lambda>_. True" "\<lambda>_. True" memory_eav eav_storage
  by unfold_locales

interpretation fsh: shard filesystem_cas "\<lambda>s a. files s (address_to_path s a)" writable plain_address
    memory_eav eav_storage
  by unfold_locales

section \<open>Links as a set\<close>

text \<open>The abstract view of links: a set, into which an addition inserts and from which a
  removal deletes. A history is a list of modifications with their clock readings.\<close>

type_synonym link_event = "LinkModification \<times> Link \<times> i64"

fun link_spec :: "link_event list \<Rightarrow> Link set \<Rightarrow> Link set" where
  "link_spec [] L = L"
| "link_spec ((LmAdd, l, _) # evs) L = link_spec evs (insert l L)"
| "link_spec ((LmRemove, l, _) # evs) L = link_spec evs (L - {l})"

fun link_run :: "'s cas_ops \<Rightarrow> 'e eav_ops \<Rightarrow> ext \<Rightarrow> 's \<Rightarrow> link_event list \<Rightarrow> 'e \<Rightarrow> 'e option" where
  "link_run C E x s [] m = Some m"
| "link_run C E x s ((lm, l, t) # evs) m =
     Option.bind (reduce_add_remove_link_inner C E x t s m l lm) (\<lambda>(_, m'). link_run C E x s evs m')"

definition link_eavi :: "ext \<Rightarrow> link_event \<Rightarrow> EAVI" where
  "link_eavi x = (\<lambda>(lm, l, t). \<lparr>entity = link_base l, attribute = link_attribute lm l,
     val = entry_address x (link_add_entry l), index = t\<rparr>)"

definition selects :: "Address \<Rightarrow> string option \<Rightarrow> string option \<Rightarrow> Link \<Rightarrow> bool" where
  "selects a lt tg l \<longleftrightarrow> link_base l = a \<and> (\<forall>t. lt = Some t \<longrightarrow> link_type l = t) \<and> (\<forall>t. tg = Some t \<longrightarrow> link_tag l = t)"

lemma link_spec_snoc: "link_spec (evs @ [(lm, l, t)]) L =
    (case lm of LmAdd \<Rightarrow> insert l (link_spec evs L) | LmRemove \<Rightarrow> link_spec evs L - {l})"
  by (induction evs L rule: link_spec.induct) (auto split: LinkModification.split)

lemma link_filter_attribute:
  "link_attribute_filter lt tg (link_attribute lm l) \<longleftrightarrow> selects (link_base l) lt tg l"
  by (auto simp: link_attribute_filter_def link_attribute_def selects_def Let_def
      split: LinkModification.split option.split)

lemma is_link_tag_attribute [simp]: "is_link_tag (link_attribute lm l) \<longleftrightarrow> lm = LmAdd"
  by (cases lm) (simp_all add: is_link_tag_def link_attribute_def)

text \<open>A link is in the set exactly when its last event is an addition.\<close>

lemma link_spec_last:
  "l \<in> link_spec evs {} \<longleftrightarrow>
     (\<exists>t pre post. evs = pre @ (LmAdd, l, t) # post \<and> (\<forall>ev\<in>set post. fst (snd ev) \<noteq> l))"
proof (induction evs rule: rev_induct)
  case (snoc ev evs)
  obtain lm k u where ev: "ev = (lm, k, u)" by (cases ev)
  let ?last = "\<lambda>evs t. \<exists>pre post. evs = pre @ (LmAdd, l, t) # post \<and> (\<forall>ev\<in>set post. fst (snd ev) \<noteq> l)"
  have "?last (evs @ [ev]) t \<longleftrightarrow> (if k = l then ev = (LmAdd, l, t) else ?last evs t)" for t
    using last_such_snoc [of "\<lambda>ev. fst (snd ev) = l" "(LmAdd, l, t)" evs ev]
    by (simp add: ev list_ex_iff)
  then have "(\<exists>t. ?last (evs @ [ev]) t) \<longleftrightarrow> (if k = l then lm = LmAdd else (\<exists>t. ?last evs t))"
    by (simp add: ev)
  with snoc show ?case by (cases lm) (simp_all add: ev link_spec_snoc)
qed simp

text \<open>A history as the metadata holds it: link attributes only from the events, in the order
  of their clock readings.\<close>

definition link_free :: "EAVI list \<Rightarrow> bool" where
  "link_free xs \<longleftrightarrow> (\<forall>v\<in>set xs. \<not> link_attribute_filter None None (attribute v))"

definition links_query :: "Address \<Rightarrow> string option \<Rightarrow> string option \<Rightarrow> EaviQuery" where
  "links_query a lt tg = eavi_query_new (filter_from_option (Some a)) (link_attribute_filter lt tg)
     (filter_from_option None) LatestByAttribute"

lemma links_query_simps [simp]:
  "q_entity (links_query a lt tg) = (\<lambda>w. w = a)" "q_attribute (links_query a lt tg) = link_attribute_filter lt tg"
  "q_value (links_query a lt tg) = (\<lambda>_. True)" "q_index (links_query a lt tg) = LatestByAttribute"
  by (simp_all add: links_query_def eavi_query_new_def filter_from_option_def filter_single_def filter_any_def)

lemma link_free_filter: "link_free xs \<Longrightarrow> v \<in> set xs \<Longrightarrow> \<not> link_attribute_filter lt tg (attribute v)"
  by (auto simp: link_free_def link_attribute_filter_def Let_def split: Attribute.splits)

lemma eavi_set_middle:
  assumes "eavi_set (us @ v # ws)"
  shows "u \<in> set us \<Longrightarrow> sint (index u) < sint (index v)" "w \<in> set ws \<Longrightarrow> sint (index v) < sint (index w)"
  using assms by (simp_all add: eavi_set_append)

text \<open>The last event of a link is the one no other event of the link comes after.\<close>

lemma latest_link_event:
  assumes xs: "xs = xs0 @ map (link_eavi x) evs" and "eavi_set xs" and "link_free xs0"
    and inj: "inj_on (\<lambda>l. entry_address x (link_add_entry l)) (fst ` snd ` set evs)"
    and ev: "evs = pre @ (lm, l, t) # post" and sel: "selects a lt tg l"
  shows "latest_in (links_query a lt tg) xs (link_eavi x (lm, l, t)) \<longleftrightarrow> (\<forall>e\<in>set post. fst (snd e) \<noteq> l)"
proof -
  have "eavi_set ((xs0 @ map (link_eavi x) pre) @ link_eavi x (lm, l, t) # map (link_eavi x) post)"
    using assms(2) by (simp add: xs ev)
  note mid = eavi_set_middle [OF this]
  have idx: "index (link_eavi x (lm', k, t')) = t'" for lm' k t'
    by (simp add: link_eavi_def)
  have before: "sint t' < sint t" if "(lm', k, t') \<in> set pre" for lm' k t'
    using mid(1) [of "link_eavi x (lm', k, t')"] imageI [OF that, of "link_eavi x"]
    by (simp add: idx)
  have after: "sint t < sint t'" if "(lm', k, t') \<in> set post" for lm' k t'
    using mid(2) [of "link_eavi x (lm', k, t')"] imageI [OF that, of "link_eavi x"]
    by (simp add: idx)
  show ?thesis
proof
  assume L: "latest_in (links_query a lt tg) xs (link_eavi x (lm, l, t))"
  show "\<forall>e\<in>set post. fst (snd e) \<noteq> l"
  proof (intro ballI notI)
    fix e assume e: "e \<in> set post" "fst (snd e) = l"
    obtain lm' t' where e': "e = (lm', l, t')" using e(2) by (cases e) auto
    have "link_eavi x e \<in> set xs" using e by (simp add: xs ev)
    moreover have "link_attribute_filter lt tg (link_attribute lm' l)"
      using sel by (simp add: link_filter_attribute selects_def)
    ultimately have "sint t' \<le> sint t"
      using L by (auto simp: latest_in_def link_eavi_def e')
    moreover have "sint t < sint t'"
      using e(1) unfolding e' by (rule after)
    ultimately show False by simp
  qed
next
  assume P: "\<forall>e\<in>set post. fst (snd e) \<noteq> l"
  have "sint (index v) \<le> sint t" if v: "v \<in> set xs" "val v = entry_address x (link_add_entry l)"
      "link_attribute_filter lt tg (attribute v)" for v
  proof -
    have "v \<in> link_eavi x ` set evs"
      using v link_free_filter [OF assms(3)] by (auto simp: xs)
    then obtain lm' k t' where k: "(lm', k, t') \<in> set evs" "v = link_eavi x (lm', k, t')" by auto
    have "k \<in> fst ` snd ` set evs"
      using imageI [OF imageI [OF k(1), of snd], of fst] by simp
    moreover have "l \<in> fst ` snd ` set evs"
      by (simp add: ev)
    moreover have "entry_address x (link_add_entry k) = entry_address x (link_add_entry l)"
      using v(2) k(2) by (simp add: link_eavi_def)
    ultimately have "k = l" using inj_onD [OF inj] by blast
    with P k(1) have "(lm', l, t') \<in> set pre \<or> (lm', l, t') = (lm, l, t)" by (auto simp: ev)
    then show ?thesis
      using before [of lm' l t'] by (auto simp: k(2) link_eavi_def)
  qed
  then show "latest_in (links_query a lt tg) xs (link_eavi x (lm, l, t))"
    by (auto simp: latest_in_def link_eavi_def)
qed
qed

lemma links_of_history:
  assumes xs: "xs = xs0 @ map (link_eavi x) evs" and wf: "eavi_set xs" "link_free xs0"
    and inj: "inj_on (\<lambda>l. entry_address x (link_add_entry l)) (fst ` snd ` set evs)"
  shows "val ` {v \<in> set (query_run (links_query a lt tg) xs). is_link_tag (attribute v)}
    = (\<lambda>l. entry_address x (link_add_entry l)) ` {l \<in> link_spec evs {}. selects a lt tg l}" (is "?V = ?L")
proof -
  have r: "v \<in> set (query_run (links_query a lt tg) xs) \<longleftrightarrow>
      v \<in> set xs \<and> entity v = a \<and> link_attribute_filter lt tg (attribute v) \<and> latest_in (links_query a lt tg) xs v" for v
    using wf(1) by (auto simp: query_run_latest eav_check_def)
  show ?thesis
  proof (intro equalityI subsetI)
    fix u assume "u \<in> ?V"
    then obtain v where v: "v \<in> set xs" "entity v = a" "link_attribute_filter lt tg (attribute v)"
        "latest_in (links_query a lt tg) xs v" "is_link_tag (attribute v)" "u = val v"
      by (auto simp: r)
    then have "v \<in> link_eavi x ` set evs"
      using link_free_filter [OF wf(2)] by (auto simp: xs)
    then obtain lm l t where l: "(lm, l, t) \<in> set evs" "v = link_eavi x (lm, l, t)" by auto
    from l(1) obtain pre post where ev: "evs = pre @ (lm, l, t) # post"
      by (meson split_list)
    have s: "selects a lt tg l" "lm = LmAdd"
      using v l(2) by (auto simp: link_eavi_def link_filter_attribute)
    with v(4) l(2) have "\<forall>e\<in>set post. fst (snd e) \<noteq> l"
      using latest_link_event [OF xs wf inj ev] by simp
    with ev s have "l \<in> link_spec evs {}" by (auto simp: link_spec_last)
    with s v(6) l(2) show "u \<in> ?L" by (auto simp: link_eavi_def)
  next
    fix u assume "u \<in> ?L"
    then obtain l where l: "l \<in> link_spec evs {}" "selects a lt tg l" "u = entry_address x (link_add_entry l)" by auto
    then obtain t pre post where ev: "evs = pre @ (LmAdd, l, t) # post" "\<forall>e\<in>set post. fst (snd e) \<noteq> l"
      by (auto simp: link_spec_last)
    have "latest_in (links_query a lt tg) xs (link_eavi x (LmAdd, l, t))"
      using latest_link_event [OF xs wf inj ev(1) l(2)] ev(2) by simp
    moreover have "link_eavi x (LmAdd, l, t) \<in> set xs" by (simp add: xs ev(1))
    ultimately have "link_eavi x (LmAdd, l, t) \<in> {v \<in> set (query_run (links_query a lt tg) xs). is_link_tag (attribute v)}"
      using l(2) by (auto simp: r link_eavi_def link_filter_attribute selects_def)
    then show "u \<in> ?V" using l(3) by (force simp: link_eavi_def)
  qed
qed

context shard
begin

lemma link_run_appends:
  assumes "inv s" "eavi_set (contents m)" "length (contents m) + length evs \<le> 2 ^ 64"
    and "\<forall>(lm, l, t)\<in>set evs. valid (link_base l) \<and> lookup s (link_base l) \<noteq> None
      \<and> set (link_type l) \<inter> forbidden_in_link_type = {}"
    and "eavi_set (contents m @ map (link_eavi x) evs)"
  shows "\<exists>m'. link_run cops eops x s evs m = Some m' \<and> contents m' = contents m @ map (link_eavi x) evs"
  using assms
proof (induction evs arbitrary: m)
  case (Cons ev evs)
  obtain lm l t where ev: "ev = (lm, l, t)" by (cases ev)
  have "\<forall>y\<in>set (contents m). sint (index y) < sint (index (link_eavi x ev))"
    using Cons.prems(5) by (auto simp: eavi_set_append)
  then obtain m1 where m1: "add_eavi eops m (link_eavi x ev) = Some (Ok (Some (link_eavi x ev)), m1)"
      "contents m1 = contents m @ [link_eavi x ev]"
    using eav.add_append [of m "link_eavi x ev"] Cons.prems(2,3) by auto
  have "eavi_new t (link_base l) (link_attribute lm l) (entry_address x (link_add_entry l)) = Ok (link_eavi x ev)"
    using Cons.prems(4)
    by (cases lm) (auto simp: ev eavi_new_def validate_attribute_def link_attribute_def link_eavi_def)
  then have "reduce_add_remove_link_inner cops eops x t s m l lm = Some (Ok (link_base l), m1)"
    using Cons.prems(1,4) m1(1)
    by (simp add: ev reduce_add_remove_link_inner_def cas.contains_lookup put_eavi_def)
  moreover have "\<exists>m'. link_run cops eops x s evs m1 = Some m'
      \<and> contents m' = contents m1 @ map (link_eavi x) evs"
  proof (rule Cons.IH)
    show "eavi_set (contents m1 @ map (link_eavi x) evs)"
      using Cons.prems(5) by (simp add: m1(2))
    then show "eavi_set (contents m1)"
      by (simp add: eavi_set_append)
    show "length (contents m1) + length evs \<le> 2 ^ 64"
      using Cons.prems(3) by (simp add: m1(2))
  qed (use Cons.prems(1,4) in simp_all)
  ultimately show ?case using m1(2) by (simp add: ev)
qed simp

lemma get_links_eq:
  assumes "eavi_set (contents m)"
  shows "get_links eops m a lt tg =
    Ok (filter (\<lambda>v. is_link_tag (attribute v)) (query_run (links_query a lt tg) (contents m)))"
  using assms
  by (simp add: get_links_def eav.fetch_run eavi_collect_id eavi_set_filter query_run_latest
      flip: links_query_def)

end

section \<open>Properties\<close>

text \<open>
  C7: The life cycle of a held entry only moves forward. Whatever actions the shard reduces,
  in any number and with any clock readings, on any content storage, it answers each of them,
  and the status it reports for an address never goes back (from live to modified to deleted)
  and a reported replacement or deletion never changes; at worst the lookup panics.
\<close>

theorem crud_status_monotone:
  assumes "eavi_set (eav_storage m)" and "length (eav_storage m) + 2 * length ws \<le> 2 ^ 64"
    and "get_entry_crud_meta_from_dht memory_eav m a = Some (Ok (Some (st, l)))"
  shows "\<exists>dht' s' m'. dht_run C memory_eav x ws s m dht = Some (dht', s', m')
    \<and> (get_entry_crud_meta_from_dht memory_eav m' a = None
       \<or> (\<exists>st' l'. get_entry_crud_meta_from_dht memory_eav m' a = Some (Ok (Some (st', l')))
            \<and> status_rank st \<le> status_rank st' \<and> (l \<noteq> None \<longrightarrow> l' = l)))"
proof -
  obtain dht' s' m' where run: "dht_run C memory_eav x ws s m dht = Some (dht', s', m')"
      and ext: "extends (2 * length ws) (eav_storage m) (eav_storage m')"
    using eavm.dht_run_extends [where C = C and x = x and s = s and dht = dht, OF assms(1,2)] by blast
  then have m': "eavi_set (eav_storage m')" "set (eav_storage m) \<subseteq> set (eav_storage m')"
    by (simp_all add: extends_def)
  show ?thesis
    using run crud_meta_of_mono [OF _ recorded_mono [OF m'(2)] recorded_mono [OF m'(2)]] assms(3)
    by (simp add: eavm.crud_meta_eq assms(1) m'(1))
qed

text \<open>
  C8: Removing an entry. The remove reducer succeeds exactly when the address holds a stored
  app entry with no recorded status but live; it then records the deletion. It changes
  nothing otherwise, and once it has succeeded it refuses every later removal of the same
  address, whatever actions were reduced in between.
\<close>

theorem remove_entry_once:
  assumes "writable s" and "plain_address a" and "eavi_set (eav_storage m)"
    and "length (eav_storage m) + 2 \<le> 2 ^ 64"
  shows "\<exists>r m'. reduce_remove_entry_inner filesystem_cas memory_eav x clk s m a d = Some (r, m')
    \<and> (r = Ok a \<longleftrightarrow> (\<exists>c e. files s (address_to_path s a) = Some c \<and> entry_try_from_content x c = Ok e
          \<and> is_app (entry_type e) \<and> recorded (eav_storage m) a CrudStatusAttr \<subseteq> {''live''}))
    \<and> (r \<noteq> Ok a \<longrightarrow> m' = m)
    \<and> (r = Ok a \<longrightarrow> recorded (eav_storage m') a CrudLinkAttr = insert d (recorded (eav_storage m) a CrudLinkAttr)
        \<and> (\<forall>ws s2 m2 dht dht2 y s3 clk2 d2.
             length (eav_storage m') + 2 * length ws \<le> 2 ^ 64
             \<and> dht_run filesystem_cas memory_eav x ws s m' dht = Some (dht2, s2, m2) \<and> writable s3 \<longrightarrow>
             (\<exists>er. reduce_remove_entry_inner filesystem_cas memory_eav y clk2 s3 m2 a d2 = Some (Err er, m2))))"
proof -
  obtain m1 where 1: "record_crud memory_eav m (create_crud_status_eav (clk 0) a Deleted)
        (create_crud_link_eav (clk 1) a d) a = Some (Ok a, m1)" "extends 2 (eav_storage m) (eav_storage m1)"
      "recorded (eav_storage m1) a CrudStatusAttr = insert ''deleted'' (recorded (eav_storage m) a CrudStatusAttr)"
      "recorded (eav_storage m1) a CrudLinkAttr = insert d (recorded (eav_storage m) a CrudLinkAttr)"
    by (rule eavm.record_crud_ok [OF assms(3,4), of "clk 0" a Deleted "clk 1" d a]) simp
  have later: "\<exists>er. reduce_remove_entry_inner filesystem_cas memory_eav y clk2 s3 m2 a d2 = Some (Err er, m2)"
    if len: "length (eav_storage m1) + 2 * length ws \<le> 2 ^ 64" and s3: "writable s3"
      and run: "dht_run filesystem_cas memory_eav x ws s m1 dht = Some (dht2, s2, m2)"
    for ws s2 m2 dht dht2 y s3 clk2 d2
  proof -
    have "extends (2 * length ws) (eav_storage m1) (eav_storage m2)"
      using eavm.dht_run_extends [where C = filesystem_cas and x = x and s = s and dht = dht, OF _ len] 1(2) run
      by (auto simp: extends_def)
    then have m2: "eavi_set (eav_storage m2)" "''deleted'' \<in> recorded (eav_storage m2) a CrudStatusAttr"
      using 1(3) recorded_mono [of "eav_storage m1" "eav_storage m2"] by (auto simp: extends_def)
    then have "\<not> recorded (eav_storage m2) a CrudStatusAttr \<subseteq> {''live''}" by auto
    then show ?thesis
      using fsh.remove_entry_eq [OF s3 assms(2) m2(1)]
      by (simp split: option.split sum.split)
  qed
  note eq = fsh.remove_entry_eq [OF assms(1-3), of x clk d]
  show ?thesis
    using 1(1,4) later unfolding eq is_sys_def
    by (auto split: option.split sum.split)
qed

text \<open>
  C6: The links of a base refine a set of links. Starting from metadata without links, reduce
  any history of link additions and removals whose bases are stored, whose link types are
  allowed and whose clock readings increase; then \<open>get_links\<close> answers, for any base and any
  choice of type and tag, exactly the addresses of the links that are in the set to which
  every addition inserts and from which every removal deletes.
\<close>

theorem links_refine_set:
  assumes "writable s" and "eavi_set (eav_storage m @ map (link_eavi x) evs)"
    and "link_free (eav_storage m)" and "length (eav_storage m) + length evs \<le> 2 ^ 64"
    and "\<forall>(lm, l, t)\<in>set evs. plain_address (link_base l) \<and> files s (address_to_path s (link_base l)) \<noteq> None
      \<and> set (link_type l) \<inter> forbidden_in_link_type = {}"
    and "inj_on (\<lambda>l. entry_address x (link_add_entry l)) (fst ` snd ` set evs)"
  shows "\<exists>m' r. link_run filesystem_cas memory_eav x s evs m = Some m'
    \<and> get_links memory_eav m' a lt tg = Ok r
    \<and> val ` set r = (\<lambda>l. entry_address x (link_add_entry l)) ` {l \<in> link_spec evs {}. selects a lt tg l}"
proof -
  have "eavi_set (eav_storage m)"
    using assms(2) by (simp add: eavi_set_append)
  then obtain m' where m': "link_run filesystem_cas memory_eav x s evs m = Some m'"
      "eav_storage m' = eav_storage m @ map (link_eavi x) evs"
    using fsh.link_run_appends [OF assms(1) _ assms(4,5,2)] by blast
  have wf: "eavi_set (eav_storage m')" using assms(2) m'(2) by simp
  show ?thesis
    using m'(1) fsh.get_links_eq [OF wf] links_of_history [OF m'(2) wf assms(3,6)] by auto
qed


text \<open>
  A held entry can be read. When the shard holds an entry it knows nothing about yet, the
  entry is found live with no replacement, with exactly the header it came with.
\<close>

theorem held_entry_readable:
  assumes "eavi_set (eav_storage m)" and "length (eav_storage m) + 2 \<le> 2 ^ 64"
    and "\<forall>attr. recorded (eav_storage m) (entry_address x e) attr = {}"
    and "entry_try_from_content x (entry_content x e) = Ok e"
    and "header_try_from_content x (header_content x h) = Ok h"
    and "header_address x h \<noteq> entry_address x e"
  shows "\<exists>s' m'. dht_reduce memory_cas memory_eav x clk s m dht
        \<lparr>aw_action = Hold \<lparr>ewh_entry = e, ewh_header = h\<rparr>, aw_id = i\<rparr> = Some (dht, s', m')
    \<and> get_entry_with_meta memory_cas memory_eav x s' m' (entry_address x e) =
        Some (Ok (Some \<lparr>ewm_entry = e, ewm_crud_status = Live, ewm_maybe_link_update_delete = None\<rparr>))
    \<and> dht_get_headers memory_cas memory_eav x s' m' (entry_address x e) = Ok [h]"
proof -
  let ?a = "entry_address x e" and ?ha = "header_address x h"
  let ?v = "\<lparr>entity = ?a, attribute = CrudStatusAttr, val = ''live'', index = clk 0\<rparr>"
  let ?w = "\<lparr>entity = ?a, attribute = EntryHeaderAttr, val = ?ha, index = clk 1\<rparr>"
  obtain m1 where 1: "put_eavi memory_eav m (Ok ?v) = Some (Ok (), m1)" "extends 1 (eav_storage m) (eav_storage m1)"
      "\<And>a attr. recorded (eav_storage m1) a attr =
       (if entity ?v = a \<and> attribute ?v = attr then insert (val ?v) (recorded (eav_storage m) a attr)
        else recorded (eav_storage m) a attr)"
    by (rule eavm.put_ok [of m ?v]) (use assms(1,2) in auto)
  obtain m2 where 2: "put_eavi memory_eav m1 (Ok ?w) = Some (Ok (), m2)" "extends 1 (eav_storage m1) (eav_storage m2)"
      "\<And>a attr. recorded (eav_storage m2) a attr =
       (if entity ?w = a \<and> attribute ?w = attr then insert (val ?w) (recorded (eav_storage m1) a attr)
        else recorded (eav_storage m1) a attr)"
    by (rule eavm.put_ok [of m1 ?w]) (use assms(1,2) 1(2) in \<open>auto simp: extends_def\<close>)
  have wf: "eavi_set (eav_storage m2)" using 2(2) by (simp add: extends_def)
  define s2 where "s2 = s\<lparr>storage := (storage s)(?a \<mapsto> entry_content x e, ?ha \<mapsto> header_content x h)\<rparr>"
  have "reduce_store_entry_inner memory_cas memory_eav x (clk 0) s m e =
      Some (Ok (), s\<lparr>storage := (storage s)(?a \<mapsto> entry_content x e)\<rparr>, m1)"
    using 1(1)
    by (auto simp: reduce_store_entry_inner_def put_eavi_def memory_cas_def memory_add_def entry_addressable_def
        create_crud_status_eav_def eavi_new_def validate_attribute_def split: prod.splits)
  moreover have "add_header_for_entry memory_cas memory_eav x (clk 1)
      (s\<lparr>storage := (storage s)(?a \<mapsto> entry_content x e)\<rparr>) m1 e h = Some (Ok (), s2, m2)"
    using 2(1)
    by (simp add: add_header_for_entry_def memory_cas_def memory_add_def header_addressable_def
        eavi_new_def validate_attribute_def s2_def)
  moreover have "get_entry_with_meta memory_cas memory_eav x s2 m2 ?a =
      Some (Ok (Some \<lparr>ewm_entry = e, ewm_crud_status = Live, ewm_maybe_link_update_delete = None\<rparr>))"
    using assms(3,4,6) wf
    by (simp add: msh.with_meta_eq s2_def 2(3) 1(3) crud_meta_of_def current_status_def)
  moreover have "dht_get_headers memory_cas memory_eav x s2 m2 ?a = Ok [h]"
  proof -
    let ?r = "query_run (meta_query ?a EntryHeaderAttr) (eav_storage m2)"
    have "val ` set ?r = {?ha}" "distinct (map val ?r)"
      using meta_query_vals [OF wf] assms(3) by (simp_all add: 2(3) 1(3))
    then have "map val ?r = [?ha]"
      by (intro distinct_singleton) simp_all
    then obtain v where "?r = [v]" "val v = ?ha" by auto
    then show ?thesis
      using assms(5) by (simp add: dht_get_headers_def eavm.fetch_run mem.fetch_lookup s2_def)
  qed
  ultimately show ?thesis
    by (simp add: dht_reduce_def reduce_hold_entry_def)
qed

theorem crud_status_monotone_witness:
  "let m = \<lparr>eav_storage = [\<lparr>entity = ''QmA'', attribute = CrudStatusAttr, val = ''live'', index = 5\<rparr>]\<rparr>;
       ws = [(\<lparr>aw_action = UpdateEntry ''QmA'' ''QmB'', aw_id = 1\<rparr>, \<lambda>i. 7 + of_nat i)]
   in \<exists>dht' s' m'. dht_run memory_cas memory_eav (table_ext [] []) ws memory_new m dht_store_new = Some (dht', s', m')
      \<and> (get_entry_crud_meta_from_dht memory_eav m' ''QmA'' = None
       \<or> (\<exists>st' l'. get_entry_crud_meta_from_dht memory_eav m' ''QmA'' = Some (Ok (Some (st', l')))
            \<and> status_rank Live \<le> status_rank st'))"
proof -
  let ?m = "\<lparr>eav_storage = [\<lparr>entity = ''QmA'', attribute = CrudStatusAttr, val = ''live'', index = 5\<rparr>]\<rparr>"
  have "get_entry_crud_meta_from_dht memory_eav ?m ''QmA'' = Some (Ok (Some (Live, None)))"
    by code_simp
  then show ?thesis
    using crud_status_monotone [of ?m "[(\<lparr>aw_action = UpdateEntry ''QmA'' ''QmB'', aw_id = 1\<rparr>, \<lambda>i. 7 + of_nat i)]"
        "''QmA''" Live None memory_cas "table_ext [] []" memory_new dht_store_new]
    by (simp add: Let_def)
qed

theorem remove_entry_once_witness:
  "let x = table_ext [(AppEntry ''post'' ''hi'', ''hi'')] [];
       s = \<lparr>dir_path = ''cas'', files = (\<lambda>p. if p = address_to_path \<lparr>dir_path = ''cas'', files = Map.empty, write_error = (\<lambda>_. None)\<rparr> ''Qmhi''
              then Some ''hi'' else None), write_error = (\<lambda>_. None)\<rparr>;
       m = \<lparr>eav_storage = [\<lparr>entity = ''Qmhi'', attribute = CrudStatusAttr, val = ''live'', index = 5\<rparr>]\<rparr>
   in \<exists>m'. reduce_remove_entry_inner filesystem_cas memory_eav x (\<lambda>i. 7 + of_nat i) s m ''Qmhi'' ''QmD'' = Some (Ok ''Qmhi'', m')"
proof -
  let ?x = "table_ext [(AppEntry ''post'' ''hi'', ''hi'')] []"
  let ?s = "\<lparr>dir_path = ''cas'', files = (\<lambda>p. if p = address_to_path \<lparr>dir_path = ''cas'', files = Map.empty, write_error = (\<lambda>_. None)\<rparr> ''Qmhi''
              then Some ''hi'' else None), write_error = (\<lambda>_. None)\<rparr>"
  let ?m = "\<lparr>eav_storage = [\<lparr>entity = ''Qmhi'', attribute = CrudStatusAttr, val = ''live'', index = 5\<rparr>]\<rparr>"
  have h: "writable ?s" "plain_address ''Qmhi''" "eavi_set (eav_storage ?m)" "length (eav_storage ?m) + 2 \<le> 2 ^ 64"
    by (simp_all add: writable_def plain_address_def)
  have "files ?s (address_to_path ?s ''Qmhi'') = Some ''hi''"
    by (simp add: address_to_path_def)
  moreover have "entry_try_from_content ?x ''hi'' = Ok (AppEntry ''post'' ''hi'')"
    by (simp add: entry_try_from_content_def table_ext_def)
  moreover have "is_app (entry_type (AppEntry ''post'' ''hi''))" by (simp add: is_app_def)
  moreover have "recorded (eav_storage ?m) ''Qmhi'' CrudStatusAttr \<subseteq> {''live''}" by (auto simp: recorded_def)
  ultimately show ?thesis
    using remove_entry_once [OF h, of ?x "\<lambda>i. 7 + of_nat i" "''QmD''"] unfolding Let_def by metis
qed

theorem links_refine_set_witness:
  "let l = link_new ''QmB'' ''QmT'' ''likes'' ''x'';
       x = table_ext [(link_add_entry l, ''l'')] [];
       s = \<lparr>dir_path = ''cas'', files = (\<lambda>_. Some ''hi''), write_error = (\<lambda>_. None)\<rparr>;
       evs = [(LmAdd, l, 3), (LmRemove, l, 4), (LmAdd, l, 9)]
   in \<exists>m' r. link_run filesystem_cas memory_eav x s evs eav_memory_new = Some m'
      \<and> get_links memory_eav m' ''QmB'' (Some ''likes'') None = Ok r \<and> val ` set r = {''Qml''}"
proof -
  let ?l = "link_new ''QmB'' ''QmT'' ''likes'' ''x''"
  let ?x = "table_ext [(link_add_entry ?l, ''l'')] []"
  let ?s = "\<lparr>dir_path = ''cas'', files = (\<lambda>_. Some ''hi''), write_error = (\<lambda>_. None)\<rparr>"
  let ?evs = "[(LmAdd, ?l, 3), (LmRemove, ?l, 4), (LmAdd, ?l, 9)]"
  have a: "entry_address ?x (link_add_entry ?l) = ''Qml''"
    by (simp add: entry_address_def link_add_entry_def content_address_def entry_content_def table_ext_def)
  have h: "writable ?s" "eavi_set (eav_storage eav_memory_new @ map (link_eavi ?x) ?evs)"
      "link_free (eav_storage eav_memory_new)" "length (eav_storage eav_memory_new) + length ?evs \<le> 2 ^ 64"
      "\<forall>(lm, l, t)\<in>set ?evs. plain_address (link_base l) \<and> files ?s (address_to_path ?s (link_base l)) \<noteq> None
        \<and> set (link_type l) \<inter> forbidden_in_link_type = {}"
      "inj_on (\<lambda>l. entry_address ?x (link_add_entry l)) (fst ` snd ` set ?evs)"
    by (simp_all add: writable_def eav_memory_new_def link_free_def link_eavi_def plain_address_def
        link_new_def forbidden_in_link_type_def)
  have "{l \<in> link_spec ?evs {}. selects ''QmB'' (Some ''likes'') None l} = {?l}"
    by (auto simp: selects_def link_new_def)
  then show ?thesis
    using links_refine_set [OF h, of "''QmB''" "Some ''likes''" None] a unfolding Let_def by simp
qed


end
