(* ===== verification/Nucleus.thy ===== *)
theory Nucleus
  imports Actions
begin

text \<open>
  The nucleus slice of the state: \<open>core/src/nucleus/state.rs\<close> and the reducers of
  \<open>core/src/nucleus/reducers/\<close>. The initialisation status is a small state machine that the
  reducers drive; the other fields are tables that actions fill and clear. \<open>x\<close> gives the
  addresses of entries.
\<close>

section \<open>The state\<close>

datatype NucleusStatus =
    StatusNew
  | Initializing
  | Initialized Initialization
  | InitializationFailed string

definition pending_validation_key :: "Address \<Rightarrow> ValidatingWorkflow \<Rightarrow> string" where
  "pending_validation_key a w = workflow_display w @ '':'' @ a"

record NucleusState =
  nuc_status :: NucleusStatus
  pending_validations :: "string \<rightharpoonup> PendingValidation"
  nuc_dna :: "Dna option"
  zome_calls :: "ZomeFnCall \<rightharpoonup> ZomeFnResult option"
  validation_results :: "ProcessUniqueId \<times> Address \<rightharpoonup> ValidationResult"
  validation_packages :: "ProcessUniqueId \<rightharpoonup> ValidationPackage HcResult"

definition nucleus_state_new :: NucleusState where
  "nucleus_state_new = \<lparr>nuc_status = StatusNew, pending_validations = Map.empty, nuc_dna = None,
     zome_calls = Map.empty, validation_results = Map.empty, validation_packages = Map.empty\<rparr>"

definition zome_call_result :: "NucleusState \<Rightarrow> ZomeFnCall \<Rightarrow> ZomeFnResult option" where
  "zome_call_result n c = Option.bind (zome_calls n c) (\<lambda>v. v)"

definition has_initialized :: "NucleusState \<Rightarrow> bool" where
  "has_initialized n = (case nuc_status n of Initialized _ \<Rightarrow> True | _ \<Rightarrow> False)"

definition initialization :: "NucleusState \<Rightarrow> Initialization option" where
  "initialization n = (case nuc_status n of Initialized init \<Rightarrow> Some init | _ \<Rightarrow> None)"

definition has_initialization_failed :: "NucleusState \<Rightarrow> bool" where
  "has_initialization_failed n = (case nuc_status n of InitializationFailed _ \<Rightarrow> True | _ \<Rightarrow> False)"

record NucleusStateSnapshot =
  nsnap_status :: NucleusStatus
  nsnap_pending_validations :: "string \<rightharpoonup> PendingValidation"

definition nucleus_snapshot_of :: "NucleusState \<Rightarrow> NucleusStateSnapshot" where
  "nucleus_snapshot_of n = \<lparr>nsnap_status = nuc_status n, nsnap_pending_validations = pending_validations n\<rparr>"

definition nucleus_of_snapshot :: "NucleusStateSnapshot \<Rightarrow> NucleusState" where
  "nucleus_of_snapshot sn = \<lparr>nuc_status = nsnap_status sn, pending_validations = nsnap_pending_validations sn,
     nuc_dna = None, zome_calls = Map.empty, validation_results = Map.empty, validation_packages = Map.empty\<rparr>"

definition NUCLEUS_SNAPSHOT_ADDRESS :: Address where
  "NUCLEUS_SNAPSHOT_ADDRESS = ''NucleusState''"

section \<open>Reducers\<close>

definition reduce_initialize_chain :: "NucleusState \<Rightarrow> Dna \<Rightarrow> NucleusState" where
  "reduce_initialize_chain n dna =
     (case nuc_status n of
        Initializing \<Rightarrow> n\<lparr>nuc_status := InitializationFailed ''Nucleus already initializing''\<rparr>
      | Initialized _ \<Rightarrow> n\<lparr>nuc_status := InitializationFailed ''Nucleus already initialized''\<rparr>
      | _ \<Rightarrow> n\<lparr>nuc_status := Initializing, nuc_dna := Some dna\<rparr>)"

definition reduce_return_initialization_result :: "NucleusState \<Rightarrow> string + Initialization \<Rightarrow> NucleusState" where
  "reduce_return_initialization_result n result =
     (if nuc_status n \<noteq> Initializing
      then n\<lparr>nuc_status := InitializationFailed
             ''reduce of ReturnInitializationResult attempted when status != Initializing''\<rparr>
      else case result of
        Ok init \<Rightarrow> n\<lparr>nuc_status := Initialized init\<rparr>
      | Err err \<Rightarrow> n\<lparr>nuc_status := InitializationFailed err\<rparr>)"

definition reduce_add_pending_validation :: "ext \<Rightarrow> NucleusState \<Rightarrow> PendingValidation \<Rightarrow> NucleusState" where
  "reduce_add_pending_validation x n p =
     n\<lparr>pending_validations := (pending_validations n)
         (pending_validation_key (entry_address x (ewh_entry (pv_entry_with_header p))) (pv_workflow p) \<mapsto> p)\<rparr>"

definition reduce_remove_pending_validation :: "NucleusState \<Rightarrow> Address \<Rightarrow> ValidatingWorkflow \<Rightarrow> NucleusState" where
  "reduce_remove_pending_validation n a w =
     n\<lparr>pending_validations := (pending_validations n)(pending_validation_key a w := None)\<rparr>"

definition reduce_return_zome_function_result :: "NucleusState \<Rightarrow> ExecuteZomeFnResponse \<Rightarrow> NucleusState" where
  "reduce_return_zome_function_result n fr =
     n\<lparr>zome_calls := (zome_calls n)(resp_call fr \<mapsto> Some (resp_result fr))\<rparr>"

definition reduce_return_validation_result ::
    "NucleusState \<Rightarrow> ProcessUniqueId \<times> Address \<Rightarrow> ValidationResult \<Rightarrow> NucleusState" where
  "reduce_return_validation_result n k r =
     n\<lparr>validation_results := (validation_results n)(k \<mapsto> r)\<rparr>"

definition reduce_return_validation_package ::
    "NucleusState \<Rightarrow> ProcessUniqueId \<Rightarrow> ValidationPackage HcResult \<Rightarrow> NucleusState" where
  "reduce_return_validation_package n i p =
     n\<lparr>validation_packages := (validation_packages n)(i \<mapsto> p)\<rparr>"

definition nucleus_reduce :: "ext \<Rightarrow> NucleusState \<Rightarrow> ActionWrapper \<Rightarrow> NucleusState" where
  "nucleus_reduce x n w =
     (case aw_action w of
        AddPendingValidation p \<Rightarrow> reduce_add_pending_validation x n p
      | RemovePendingValidation a workflow \<Rightarrow> reduce_remove_pending_validation n a workflow
      | ReturnInitializationResult r \<Rightarrow> reduce_return_initialization_result n r
      | InitializeChain dna \<Rightarrow> reduce_initialize_chain n dna
      | ReturnZomeFunctionResult fr \<Rightarrow> reduce_return_zome_function_result n fr
      | ReturnValidationResult k r \<Rightarrow> reduce_return_validation_result n k r
      | ReturnValidationPackage i p \<Rightarrow> reduce_return_validation_package n i p
      | _ \<Rightarrow> n)"

section \<open>The initialisation machine\<close>



definition init_action :: "Action \<Rightarrow> bool" where
  "init_action a = (case a of InitializeChain _ \<Rightarrow> True | ReturnInitializationResult _ \<Rightarrow> True | _ \<Rightarrow> False)"



definition nucleus_run :: "ext \<Rightarrow> ActionWrapper list \<Rightarrow> NucleusState \<Rightarrow> NucleusState" where
  "nucleus_run x ws n = fold (\<lambda>w n. nucleus_reduce x n w) ws n"

lemma nucleus_run_snoc [simp]:
  "nucleus_run x [] n = n" "nucleus_run x (ws @ [w]) n = nucleus_reduce x (nucleus_run x ws n) w"
  by (simp_all add: nucleus_run_def)

text \<open>The initialisation actions of a run, in order.\<close>

definition init_trace :: "ActionWrapper list \<Rightarrow> Action list" where
  "init_trace ws = filter init_action (map aw_action ws)"

lemma init_trace_snoc [simp]:
  "init_trace [] = []"
  "init_trace (ws @ [w]) = (if init_action (aw_action w) then init_trace ws @ [aw_action w] else init_trace ws)"
  by (simp_all add: init_trace_def)



section \<open>Pending validations\<close>

lemma pending_validation_key_inject:
  "pending_validation_key a v = pending_validation_key b w \<longleftrightarrow> a = b \<and> v = w"
  by (cases v; cases w) (auto simp: pending_validation_key_def)

definition pending_for :: "NucleusState \<Rightarrow> Address \<Rightarrow> ValidatingWorkflow \<Rightarrow> PendingValidation option" where
  "pending_for n a w = pending_validations n (pending_validation_key a w)"

lemma pending_for_reduce:
  "pending_for (nucleus_reduce x n w) a v =
     (case aw_action w of
        AddPendingValidation p \<Rightarrow>
          if entry_address x (ewh_entry (pv_entry_with_header p)) = a \<and> pv_workflow p = v then Some p
          else pending_for n a v
      | RemovePendingValidation b u \<Rightarrow> if b = a \<and> u = v then None else pending_for n a v
      | _ \<Rightarrow> pending_for n a v)"
  by (cases "aw_action w")
    (auto simp: pending_for_def nucleus_reduce_def pending_validation_key_inject
      reduce_initialize_chain_def reduce_return_initialization_result_def reduce_add_pending_validation_def
      reduce_remove_pending_validation_def reduce_return_zome_function_result_def
      reduce_return_validation_result_def reduce_return_validation_package_def
      split: NucleusStatus.split sum.split)

text \<open>The additions and removals of one entry and workflow, in order.\<close>

definition concerns :: "ext \<Rightarrow> Address \<Rightarrow> ValidatingWorkflow \<Rightarrow> Action \<Rightarrow> bool" where
  "concerns x a v act =
     (case act of
        AddPendingValidation p \<Rightarrow> entry_address x (ewh_entry (pv_entry_with_header p)) = a \<and> pv_workflow p = v
      | RemovePendingValidation b u \<Rightarrow> b = a \<and> u = v
      | _ \<Rightarrow> False)"

lemma pending_for_unconcerned:
  "\<not> concerns x a v (aw_action w) \<Longrightarrow> pending_for (nucleus_reduce x n w) a v = pending_for n a v"
  by (cases "aw_action w") (simp_all add: pending_for_reduce concerns_def del: de_Morgan_conj)

lemma pending_for_concerned:
  assumes "concerns x a v (aw_action w)"
  shows "pending_for (nucleus_reduce x n w) a v = Some p \<longleftrightarrow> (\<exists>i. w = \<lparr>aw_action = AddPendingValidation p, aw_id = i\<rparr>)"
proof -
  have "(\<exists>i. w = \<lparr>aw_action = AddPendingValidation p, aw_id = i\<rparr>) \<longleftrightarrow> aw_action w = AddPendingValidation p"
    by (cases w) auto
  then show ?thesis
    using assms by (simp add: pending_for_reduce concerns_def split: Action.splits)
qed

section \<open>Properties\<close>


text \<open>
  The pending validations are a queue keyed by entry and workflow that loses nothing. A
  validation is pending after a run exactly when the last action that concerns its entry and
  workflow added it; removing one entry's validation never drops that of another entry or of
  the other workflow, although the keys are joined texts.
\<close>

theorem pending_validations_last_action:
  "pending_for (nucleus_run x ws nucleus_state_new) a v = Some p \<longleftrightarrow>
     entry_address x (ewh_entry (pv_entry_with_header p)) = a \<and> pv_workflow p = v
     \<and> (\<exists>i pre post. ws = pre @ \<lparr>aw_action = AddPendingValidation p, aw_id = i\<rparr> # post
          \<and> \<not> list_ex (\<lambda>w. concerns x a v (aw_action w)) post)"
proof (cases "entry_address x (ewh_entry (pv_entry_with_header p)) = a \<and> pv_workflow p = v")
  case True
  let ?Q = "\<lambda>w. concerns x a v (aw_action w)" and ?z = "\<lambda>i. \<lparr>aw_action = AddPendingValidation p, aw_id = i\<rparr>"
  have Q: "?Q (?z i)" for i using True by (simp add: concerns_def)
  have "pending_for (nucleus_run x ws nucleus_state_new) a v = Some p \<longleftrightarrow>
      (\<exists>i pre post. ws = pre @ ?z i # post \<and> \<not> list_ex ?Q post)"
  proof (induction ws rule: rev_induct)
    case (snoc w ws)
    have "(\<exists>i pre post. ws @ [w] = pre @ ?z i # post \<and> \<not> list_ex ?Q post) \<longleftrightarrow>
        (if ?Q w then \<exists>i. w = ?z i else (\<exists>i pre post. ws = pre @ ?z i # post \<and> \<not> list_ex ?Q post))"
      unfolding last_such_snoc [of ?Q, OF Q] by simp
    then show ?case
      using snoc pending_for_concerned pending_for_unconcerned by simp
  qed (simp add: pending_for_def nucleus_state_new_def)
  with True show ?thesis by simp
next
  case False
  have "pending_for (nucleus_run x ws nucleus_state_new) a v \<noteq> Some p"
  proof (induction ws rule: rev_induct)
    case (snoc w ws)
    show ?case
    proof (cases "concerns x a v (aw_action w)")
      case True
      with False show ?thesis
        by (simp add: pending_for_concerned) (auto simp: concerns_def)
    qed (use snoc in \<open>simp add: pending_for_unconcerned\<close>)
  qed (simp add: pending_for_def nucleus_state_new_def)
  with False show ?thesis by (simp del: de_Morgan_conj) blast
qed

end
