(* ===== verification/Capabilities.thy ===== *)
theory Capabilities
  imports DHT_Shard Nucleus
begin

text \<open>
  Who may call a zome function: \<open>core/src/nucleus/actions/call_zome_function.rs\<close>, with the
  signature check of \<open>dpki/src/utils.rs\<close> it rests on. Base64, the HCID codec of public keys
  and libsodium's signature check are third-party code: the record \<open>crypto\<close> holds them.
  Signing is done by the conductor's agent key and is an argument. \<open>None\<close> is a panic.
\<close>

section \<open>Signatures\<close>

record crypto =
  b64_encode :: "string \<Rightarrow> string"
  b64_decode :: "string \<Rightarrow> u8 list option"
  hcid_decode :: "string \<Rightarrow> u8 list HcResult"
  verify_detached :: "u8 list \<Rightarrow> u8 list \<Rightarrow> u8 list \<Rightarrow> bool"

definition PUBLICKEYBYTES :: nat where
  "PUBLICKEYBYTES = 32"

definition string_bytes :: "string \<Rightarrow> u8 list" where
  "string_bytes s = map of_char s"

definition decode_pub_key :: "crypto \<Rightarrow> Base32 \<Rightarrow> u8 list HcResult" where
  "decode_pub_key K pub_key_b32 =
     and_then (hcid_decode K pub_key_b32) (\<lambda>pub_key.
       if length pub_key \<noteq> PUBLICKEYBYTES
       then Err (ErrorGeneric ''Input does not have same size as SecBuf'') else Ok pub_key)"

definition verify_bufs :: "crypto \<Rightarrow> Base32 \<Rightarrow> u8 list \<Rightarrow> u8 list \<Rightarrow> bool HcResult" where
  "verify_bufs K pub_sign_key_b32 data sig =
     map_ok (\<lambda>pub_key. verify_detached K sig data pub_key) (decode_pub_key K pub_sign_key_b32)"

definition dpki_verify :: "crypto \<Rightarrow> Address \<Rightarrow> string \<Rightarrow> Signature \<Rightarrow> bool HcResult" where
  "dpki_verify K src data sig =
     and_then (ok_or (ErrorGeneric ''Signature syntactically invalid'') (b64_decode K sig)) (\<lambda>signature_bytes.
       verify_bufs K src (string_bytes data) signature_bytes)"

definition provenance_verify :: "crypto \<Rightarrow> Provenance \<Rightarrow> string \<Rightarrow> bool HcResult" where
  "provenance_verify K p data = dpki_verify K (prov_source p) data (prov_signature p)"

section \<open>Call signatures\<close>

definition encode_call_data_for_signing :: "crypto \<Rightarrow> string \<Rightarrow> string \<Rightarrow> string" where
  "encode_call_data_for_signing K function parameters = b64_encode K (function @ '':'' @ parameters)"

definition make_call_sig :: "crypto \<Rightarrow> (string \<Rightarrow> string HcResult) \<Rightarrow> string \<Rightarrow> string \<Rightarrow> Signature option" where
  "make_call_sig K sign function parameters = to_ok (sign (encode_call_data_for_signing K function parameters))"

definition verify_call_sig :: "crypto \<Rightarrow> Provenance \<Rightarrow> string \<Rightarrow> string \<Rightarrow> bool option" where
  "verify_call_sig K p function parameters =
     to_ok (provenance_verify K p (encode_call_data_for_signing K function parameters))"

definition make_cap_request_for_call ::
    "crypto \<Rightarrow> (string \<Rightarrow> string HcResult) \<Rightarrow> AgentId \<Rightarrow> Address \<Rightarrow> string \<Rightarrow> string \<Rightarrow> CapabilityRequest option" where
  "make_cap_request_for_call K sign agent token function parameters =
     map_option (capability_request_new token (agent_address agent)) (make_call_sig K sign function parameters)"

definition zome_fn_call_create ::
    "crypto \<Rightarrow> (string \<Rightarrow> string HcResult) \<Rightarrow> AgentId \<Rightarrow> ProcessUniqueId \<Rightarrow> string \<Rightarrow> Address \<Rightarrow> string \<Rightarrow> string
     \<Rightarrow> ZomeFnCall option" where
  "zome_fn_call_create K sign agent i zome token function parameters =
     map_option (\<lambda>cap. zome_fn_call_new i zome cap function parameters)
       (make_cap_request_for_call K sign agent token function parameters)"

section \<open>Grants\<close>

definition get_grant :: "'s cas_ops \<Rightarrow> ext \<Rightarrow> 's \<Rightarrow> AgentState \<Rightarrow> Address \<Rightarrow> CapTokenGrant option option" where
  "get_grant C x s ag a =
     map_option (\<lambda>r. case Option.bind (to_ok r) (\<lambda>e. e) of
         Some (CapTokenGrantEntry grant) \<Rightarrow> Some grant
       | _ \<Rightarrow> None)
       (get_entry_from_agent_chain C x s ag a)"

definition verify_grant :: "crypto \<Rightarrow> ext \<Rightarrow> CapTokenGrant \<Rightarrow> ZomeFnCall \<Rightarrow> bool option" where
  "verify_grant K x grant c =
     (case map_of (grant_functions grant) (call_zome_name c) of
        None \<Rightarrow> Some False
      | Some zome_grants \<Rightarrow>
          if call_fn_name c \<notin> set zome_grants then Some False
          else if grant_token x grant \<noteq> call_cap_token c then Some False
          else
            (case verify_call_sig K (cap_provenance (call_cap c)) (call_fn_name c) (call_parameters c) of
               None \<Rightarrow> None
             | Some False \<Rightarrow> Some False
             | Some True \<Rightarrow>
                 (case cap_type grant of
                    Public \<Rightarrow> Some True
                  | Transferable \<Rightarrow> Some True
                  | Assigned \<Rightarrow>
                      map_option (\<lambda>assignees. prov_source (cap_provenance (call_cap c)) \<in> set assignees)
                        (grant_assignees grant))))"

definition check_capability :: "'s cas_ops \<Rightarrow> crypto \<Rightarrow> ext \<Rightarrow> 's \<Rightarrow> AgentState \<Rightarrow> ZomeFnCall \<Rightarrow> bool option" where
  "check_capability C K x s ag c =
     (case get_grant C x s ag (call_cap_token c) of
        None \<Rightarrow> None
      | Some None \<Rightarrow> Some False
      | Some (Some grant) \<Rightarrow> verify_grant K x grant c)"

definition is_token_the_agent :: "AgentId \<Rightarrow> CapabilityRequest \<Rightarrow> bool" where
  "is_token_the_agent agent request \<longleftrightarrow> pub_sign_key agent = cap_token request"

text \<open>The context has no state until the instance runs; \<open>st\<close> is its nucleus and agent slice.\<close>

definition validate_call ::
    "'s cas_ops \<Rightarrow> crypto \<Rightarrow> ext \<Rightarrow> 's \<Rightarrow> (NucleusState \<times> AgentState) option \<Rightarrow> AgentId \<Rightarrow> ZomeFnCall
     \<Rightarrow> (string \<times> DnaWasm) HcResult option" where
  "validate_call C K x s st agent c =
     (case st of
        None \<Rightarrow> Some (Err (ErrorGeneric ''Context not initialized''))
      | Some (nuc, ag) \<Rightarrow>
     (case nuc_dna nuc of
        None \<Rightarrow> Some (Err DnaMissing)
      | Some dna \<Rightarrow>
     (case and_then (get_zome dna (call_zome_name c)) (\<lambda>zome.
             map_ok (\<lambda>_. zome) (get_function_with_zome_name dna (call_zome_name c) (call_fn_name c))) of
        Err e \<Rightarrow> Some (Err (DnaErr e))
      | Ok zome \<Rightarrow>
     (case check_capability C K x s ag c of
        None \<Rightarrow> None
      | Some True \<Rightarrow> Some (Ok (dna_name dna, zome_code zome))
      | Some False \<Rightarrow>
          if \<not> is_token_the_agent agent (call_cap c) then Some (Err CapabilityCheckFailed)
          else
            (case verify_call_sig K (cap_provenance (call_cap c)) (call_fn_name c) (call_parameters c) of
               None \<Rightarrow> None
             | Some True \<Rightarrow> Some (Ok (dna_name dna, zome_code zome))
             | Some False \<Rightarrow> Some (Err CapabilityCheckFailed))))))"

text \<open>\<open>CallResultFuture::poll\<close>: the result once the nucleus has it; \<open>None\<close> is pending.\<close>

definition call_result_poll :: "NucleusState option \<Rightarrow> ZomeFnCall \<Rightarrow> ZomeFnResult option" where
  "call_result_poll st c =
     (case st of
        Some n \<Rightarrow> zome_call_result n c
      | None \<Rightarrow> Some (Err (ErrorGeneric ''State not initialized'')))"

section \<open>What a grant allows\<close>

text \<open>The calls a grant is meant for: a function it lists, under its own token, from one of
  its assignees when it has any.\<close>

definition grants :: "ext \<Rightarrow> CapTokenGrant \<Rightarrow> ZomeFnCall \<Rightarrow> bool" where
  "grants x g c \<longleftrightarrow>
     (\<exists>fs. map_of (grant_functions g) (call_zome_name c) = Some fs \<and> call_fn_name c \<in> set fs)
     \<and> grant_token x g = call_cap_token c
     \<and> (\<forall>as. grant_assignees g = Some as \<and> as \<noteq> [] \<longrightarrow> prov_source (cap_provenance (call_cap c)) \<in> set as)"

lemma verify_grant_grants:
  assumes "verify_call_sig K (cap_provenance (call_cap c)) (call_fn_name c) (call_parameters c) = Some b"
  shows "verify_grant K x g c = Some (grants x g c \<and> b)"
  using assms
  by (cases "grant_assignees g"; cases b)
    (auto simp: verify_grant_def grants_def cap_type_def split: option.split)

text \<open>A grant whose function list and token fit a call; the assignees are looked at last.\<close>

definition lists_call :: "ext \<Rightarrow> CapTokenGrant \<Rightarrow> ZomeFnCall \<Rightarrow> bool" where
  "lists_call x g c \<longleftrightarrow>
     (\<exists>fs. map_of (grant_functions g) (call_zome_name c) = Some fs \<and> call_fn_name c \<in> set fs)
     \<and> grant_token x g = call_cap_token c"

lemma verify_grant_panics:
  assumes "verify_call_sig K (cap_provenance (call_cap c)) (call_fn_name c) (call_parameters c) = None"
  shows "verify_grant K x g c = (if lists_call x g c then None else Some False)"
  using assms by (auto simp: verify_grant_def lists_call_def split: option.split)

text \<open>The grant a token names: committed to the chain under that address, and readable.\<close>

definition chain_grant ::
    "ext \<Rightarrow> (Address \<Rightarrow> Content option) \<Rightarrow> ChainHeader list \<Rightarrow> Address \<Rightarrow> CapTokenGrant \<Rightarrow> bool" where
  "chain_grant x lk hs a g \<longleftrightarrow> a \<in> h_entry_address ` set hs
     \<and> (\<exists>c. lk a = Some c \<and> entry_try_from_content x c = Ok (CapTokenGrantEntry g))"

text \<open>What remains of \<open>validate_call\<close> once the zome and the function are found.\<close>

lemma validate_call_found:
  assumes "nuc_dna nuc = Some dna" "get_zome dna (call_zome_name c) = Ok zome"
    and "get_function zome (call_fn_name c) = Some f"
  shows "validate_call C K x s (Some (nuc, ag)) agent c =
    (case check_capability C K x s ag c of
        None \<Rightarrow> None
      | Some True \<Rightarrow> Some (Ok (dna_name dna, zome_code zome))
      | Some False \<Rightarrow>
          if \<not> is_token_the_agent agent (call_cap c) then Some (Err CapabilityCheckFailed)
          else
            (case verify_call_sig K (cap_provenance (call_cap c)) (call_fn_name c) (call_parameters c) of
               None \<Rightarrow> None
             | Some True \<Rightarrow> Some (Ok (dna_name dna, zome_code zome))
             | Some False \<Rightarrow> Some (Err CapabilityCheckFailed)))"
  using assms by (simp add: validate_call_def get_function_with_zome_name_def)

context content_store
begin

lemma get_grant_eq:
  assumes "inv s" "chain_wf x (lookup s) hs" "\<forall>h\<in>set hs. valid (header_address x h)"
    and "ag_top_chain_header ag = chain_top hs" and "valid a"
  shows "get_grant ops x s ag a =
    Some (if a \<in> h_entry_address ` set hs then
        (case Option.bind (lookup s a) (\<lambda>c. to_ok (entry_try_from_content x c)) of
           Some (CapTokenGrantEntry g) \<Rightarrow> Some g | _ \<Rightarrow> None)
      else None)"
proof -
  have "linked (iter_next ops x s) (ag_top_chain_header ag) hs"
    using iter_linked [OF assms(1-3)] assms(4) by simp
  then have "iter_find (iter_next ops x s) (\<lambda>h. h_entry_address h = a) (ag_top_chain_header ag)
      = Some (find (\<lambda>h. h_entry_address h = a) hs)"
    by (rule iter_find_linked)
  moreover have "find (\<lambda>h. h_entry_address h = a) hs = None \<longleftrightarrow> a \<notin> h_entry_address ` set hs"
    by (auto simp: find_None_iff)
  ultimately show ?thesis
    using assms(1,5)
    by (auto simp: get_grant_def get_entry_from_agent_chain_def get_entry_from_cas_def fetch_lookup
        split: option.split)
qed

lemma get_grant_chain:
  assumes "inv s" "chain_wf x (lookup s) hs" "\<forall>h\<in>set hs. valid (header_address x h)"
    and "ag_top_chain_header ag = chain_top hs" and "valid a"
  obtains r where "get_grant ops x s ag a = Some r" "\<And>g. r = Some g \<longleftrightarrow> chain_grant x (lookup s) hs a g"
proof -
  let ?r = "if a \<in> h_entry_address ` set hs then
        (case Option.bind (lookup s a) (\<lambda>c. to_ok (entry_try_from_content x c)) of
           Some (CapTokenGrantEntry g) \<Rightarrow> Some g | _ \<Rightarrow> None)
      else None"
  have "?r = Some g \<longleftrightarrow> chain_grant x (lookup s) hs a g" for g
    by (cases "lookup s a")
      (auto simp: chain_grant_def to_ok_def split: Entry.splits sum.splits)
  with get_grant_eq [OF assms] show thesis by (rule that)
qed

lemma validate_call_eq:
  assumes "inv s" "chain_wf x (lookup s) hs" "\<forall>h\<in>set hs. valid (header_address x h)"
    and "ag_top_chain_header ag = chain_top hs" and "valid (call_cap_token c)"
    and dna: "nuc_dna nuc = Some dna" "get_zome dna (call_zome_name c) = Ok zome"
      "get_function zome (call_fn_name c) = Some f"
    and b: "verify_call_sig K (cap_provenance (call_cap c)) (call_fn_name c) (call_parameters c) = Some b"
  shows "validate_call ops K x s (Some (nuc, ag)) agent c = Some
    (if b \<and> (call_cap_token c = pub_sign_key agent
             \<or> (\<exists>g. chain_grant x (lookup s) hs (call_cap_token c) g \<and> grants x g c))
     then Ok (dna_name dna, zome_code zome) else Err CapabilityCheckFailed)"
proof -
  obtain r where r: "get_grant ops x s ag (call_cap_token c) = Some r"
      "\<And>g. r = Some g \<longleftrightarrow> chain_grant x (lookup s) hs (call_cap_token c) g"
    using get_grant_chain [OF assms(1-5)] by blast
  have "check_capability ops K x s ag c =
      Some (b \<and> (\<exists>g. chain_grant x (lookup s) hs (call_cap_token c) g \<and> grants x g c))"
    unfolding r(2) [symmetric]
    by (cases r) (auto simp: check_capability_def r(1) verify_grant_grants [OF b])
  moreover have "is_token_the_agent agent (call_cap c) \<longleftrightarrow> call_cap_token c = pub_sign_key agent"
    by (auto simp: is_token_the_agent_def call_cap_token_def)
  ultimately show ?thesis
    by (cases b) (auto simp: validate_call_found [OF dna] b split: bool.split)
qed

end

section \<open>Properties\<close>


text \<open>
  A signature that cannot be decoded crashes the check. When the signature of a call is not
  valid base64, or its caller is not a valid public key, \<open>validate_call\<close> panics instead of
  refusing the call, exactly when the token is the agent's public key or a committed grant
  that lists the function.
\<close>

theorem undecodable_signature_panics:
  assumes "chain_wf x (storage s) hs" and "ag_top_chain_header ag = chain_top hs"
    and "nuc_dna nuc = Some dna" and "get_zome dna (call_zome_name c) = Ok zome"
    and "get_function zome (call_fn_name c) = Some f"
    and "b64_decode K (prov_signature (cap_provenance (call_cap c))) = None
      \<or> \<not> is_ok (hcid_decode K (prov_source (cap_provenance (call_cap c))))"
  shows "validate_call memory_cas K x s (Some (nuc, ag)) agent c =
    (if call_cap_token c = pub_sign_key agent
        \<or> (\<exists>g. chain_grant x (storage s) hs (call_cap_token c) g \<and> lists_call x g c)
     then None else Some (Err CapabilityCheckFailed))"
proof -
  have v: "verify_call_sig K (cap_provenance (call_cap c)) (call_fn_name c) (call_parameters c) = None"
    using assms(6)
    by (auto simp: verify_call_sig_def provenance_verify_def dpki_verify_def verify_bufs_def decode_pub_key_def
        is_ok_def split: sum.splits option.split)
      (auto simp: ok_or_def split: option.splits)
  obtain r where r: "get_grant memory_cas x s ag (call_cap_token c) = Some r"
      "\<And>g. r = Some g \<longleftrightarrow> chain_grant x (storage s) hs (call_cap_token c) g"
    using mem.get_grant_chain [OF _ assms(1) _ assms(2)] by blast
  have "check_capability memory_cas K x s ag c =
      (if \<exists>g. chain_grant x (storage s) hs (call_cap_token c) g \<and> lists_call x g c then None else Some False)"
    unfolding r(2) [symmetric]
    by (cases r) (auto simp: check_capability_def r(1) verify_grant_panics [OF v])
  moreover have "is_token_the_agent agent (call_cap c) \<longleftrightarrow> call_cap_token c = pub_sign_key agent"
    by (auto simp: is_token_the_agent_def call_cap_token_def)
  ultimately show ?thesis
    by (simp add: validate_call_found [OF assms(3-5)] v)
qed

text \<open>
  C17: Knowing an agent's public key is enough to call any of its functions. Any agent at all
  that signs with its own key, under the agent's public key as token, is let through for every
  function the DNA declares, whatever grants were committed: the caller named by the call is
  never compared with the agent.
\<close>

theorem agent_key_is_a_universal_token:
  assumes "chain_wf x (storage s) hs" and "ag_top_chain_header ag = chain_top hs"
    and "nuc_dna nuc = Some dna" and "get_zome dna zn = Ok zome" and "get_function zome fn = Some f"
    and "sign (encode_call_data_for_signing K fn params) = Ok sig"
    and "dpki_verify K (agent_address caller) (encode_call_data_for_signing K fn params) sig = Ok True"
  shows "\<exists>c. zome_fn_call_create K sign caller i zn (pub_sign_key agent) fn params = Some c
    \<and> validate_call memory_cas K x s (Some (nuc, ag)) agent c = Some (Ok (dna_name dna, zome_code zome))"
proof -
  let ?c = "zome_fn_call_new i zn (capability_request_new (pub_sign_key agent) (agent_address caller) sig) fn params"
  have "zome_fn_call_create K sign caller i zn (pub_sign_key agent) fn params = Some ?c"
    using assms(6) by (simp add: zome_fn_call_create_def make_cap_request_for_call_def make_call_sig_def)
  moreover
  have "verify_call_sig K (cap_provenance (call_cap ?c)) (call_fn_name ?c) (call_parameters ?c) = Some True"
    using assms(7)
    by (simp add: verify_call_sig_def provenance_verify_def zome_fn_call_new_def capability_request_new_def
        provenance_new_def)
  then have "validate_call memory_cas K x s (Some (nuc, ag)) agent ?c = Some
      (if True \<and> (call_cap_token ?c = pub_sign_key agent
             \<or> (\<exists>g. chain_grant x (storage s) hs (call_cap_token ?c) g \<and> grants x g ?c))
     then Ok (dna_name dna, zome_code zome) else Err CapabilityCheckFailed)"
    by (intro mem.validate_call_eq [OF _ assms(1) _ assms(2) _ assms(3)])
      (simp_all add: zome_fn_call_new_def assms(4,5))
  moreover have "call_cap_token ?c = pub_sign_key agent"
    by (simp add: call_cap_token_def zome_fn_call_new_def capability_request_new_def)
  ultimately show ?thesis by simp
qed

text \<open>A concrete setting for the witnesses: a keyring in which a signature is the signer's key
  in front of the data, and a chain holding one assigned grant.\<close>

definition sample_crypto :: crypto where
  "sample_crypto = \<lparr>b64_encode = (\<lambda>s. s),
     b64_decode = (\<lambda>s. if s = ''%'' then None else Some (string_bytes s)),
     hcid_decode = (\<lambda>k. Ok (take 32 (string_bytes k @ replicate 32 0))),
     verify_detached = (\<lambda>sig data key. sig = takeWhile (\<lambda>b. b \<noteq> 0) key @ data)\<rparr>"

definition sample_grant :: CapTokenGrant where
  "sample_grant = \<lparr>grant_id = ''g'', grant_assignees = Some [''bob''], grant_functions = [(''blog'', [''post''])]\<rparr>"

definition sample_header :: ChainHeader where
  "sample_header = chain_header_new CapTokenGrantType ''Qmg'' [] None None None ''t''"

definition sample_ext :: ext where
  "sample_ext = table_ext [(CapTokenGrantEntry sample_grant, ''g'')] [(sample_header, ''h'')]"

definition sample_cas :: MemoryStorage where
  "sample_cas = memory_new\<lparr>storage := [''Qmg'' \<mapsto> ''g'', ''Qmh'' \<mapsto> ''h'']\<rparr>"

definition sample_zome :: Zome where
  "sample_zome = default_zome\<lparr>fn_declarations := [\<lparr>fn_name = ''post'', fn_inputs = [], fn_outputs = []\<rparr>]\<rparr>"

definition sample_dna :: Dna where
  "sample_dna = default_dna\<lparr>dna_name := ''app'', dna_zomes := [(''blog'', sample_zome)]\<rparr>"

definition sample_call :: "Address \<Rightarrow> Signature \<Rightarrow> Address \<Rightarrow> ZomeFnCall" where
  "sample_call src sig token = zome_fn_call_new 7 ''blog'' (capability_request_new token src sig) ''post'' ''{}''"

lemmas sample_defs = sample_crypto_def sample_grant_def sample_header_def sample_ext_def sample_cas_def sample_zome_def sample_dna_def
  sample_call_def

lemma sample_chain: "chain_wf sample_ext (storage sample_cas) [sample_header]"
  by (simp add: sample_defs table_ext_def header_address_def header_content_def content_address_def
      header_try_from_content_def chain_header_new_def)



theorem agent_key_is_a_universal_token_witness:
  "let ag = agent_state_new_with_top_chain_header (Some sample_header) ''alice'';
       mallory = agent_id_new ''Mallory'' ''mallory''; alice = agent_id_new ''Alice'' ''alice''
   in \<exists>c. zome_fn_call_create sample_crypto (\<lambda>d. Ok (''mallory'' @ d)) mallory 7 ''blog'' ''alice'' ''post'' ''{}'' = Some c
     \<and> validate_call memory_cas sample_crypto sample_ext sample_cas (Some (nucleus_state_new\<lparr>nuc_dna := Some sample_dna\<rparr>, ag))
         alice c = Some (Ok (''app'', zome_code sample_zome))"
proof -
  let ?ag = "agent_state_new_with_top_chain_header (Some sample_header) ''alice''"
  have "dpki_verify sample_crypto ''mallory'' (encode_call_data_for_signing sample_crypto ''post'' ''{}'')
      (''mallory'' @ encode_call_data_for_signing sample_crypto ''post'' ''{}'') = Ok True"
    by code_simp
  moreover have "get_zome sample_dna ''blog'' = Ok sample_zome" "dna_name sample_dna = ''app''"
      "get_function sample_zome ''post'' = Some \<lparr>fn_name = ''post'', fn_inputs = [], fn_outputs = []\<rparr>"
    by (simp_all add: sample_defs get_zome_def get_function_def)
  ultimately show ?thesis
    using agent_key_is_a_universal_token [where nuc = "nucleus_state_new\<lparr>nuc_dna := Some sample_dna\<rparr>" and dna = sample_dna
        and agent = "agent_id_new ''Alice'' ''alice''" and ag = ?ag and caller = "agent_id_new ''Mallory'' ''mallory''"
        and K = sample_crypto and fn = "''post''" and zn = "''blog''" and params = "''{}''" and i = 7
        and sign = "\<lambda>d. Ok (''mallory'' @ d)", OF sample_chain]
    by (simp add: agent_state_new_with_top_chain_header_def agent_id_new_def agent_address_def Let_def)
qed

end
