(* ===== verification/Network.thy ===== *)
theory Network
  imports Agent_State EAV_Store
begin

text \<open>
  The network slice of the state: \<open>core/src/network/state.rs\<close>,
  \<open>core/src/network/entry_with_header.rs\<close> and the reducers of \<open>core/src/network/reducers/\<close>.

  The connection to the network module is a handle with the messages sent so far; whether a
  send fails is its own affair (\<open>p2p_fault\<close>). The record \<open>net_ext\<close> holds the JSON forms that
  \<open>serde_json\<close> gives the payloads, the derived debug text of entries, and the constructor of
  the connection. Opening a direct message draws a fresh id, which is an argument. \<open>None\<close> is
  a panic.
\<close>

section \<open>The state\<close>

datatype NetworkActionResponse =
    PublishResponse "Address HcResult"
  | RespondFetchResponse "unit HcResult"
  | RespondGetLinksResponse "unit HcResult"

record P2pNetwork =
  p2p_outbox :: "JsonProtocol list"
  p2p_fault :: "JsonProtocol list \<Rightarrow> JsonProtocol \<Rightarrow> string option"

record NetworkState =
  net_actions :: "NetworkActionResponse action_map"
  net_handle :: "P2pNetwork option"
  net_dna_address :: "Address option"
  net_agent_id :: "string option"
  get_entry_with_meta_results :: "GetEntryKey \<rightharpoonup> EntryWithMetaAndHeader option HcResult option"
  get_links_results :: "GetLinksKey \<rightharpoonup> Address list HcResult option"
  get_validation_package_results :: "Address \<rightharpoonup> ValidationPackage option HcResult option"
  direct_message_connections :: "string \<rightharpoonup> DirectMessage"
  custom_direct_message_replys :: "string \<rightharpoonup> string HcResult"

definition network_state_new :: NetworkState where
  "network_state_new = \<lparr>net_actions = Map.empty, net_handle = None, net_dna_address = None, net_agent_id = None,
     get_entry_with_meta_results = Map.empty, get_links_results = Map.empty,
     get_validation_package_results = Map.empty, direct_message_connections = Map.empty,
     custom_direct_message_replys = Map.empty\<rparr>"

definition not_initialized :: HolochainError where
  "not_initialized = ErrorGeneric ''Network not initialized''"

definition net_initialized :: "NetworkState \<Rightarrow> unit HcResult" where
  "net_initialized n =
     (if net_handle n \<noteq> None \<and> net_dna_address n \<noteq> None \<and> net_agent_id n \<noteq> None then Ok ()
      else Err not_initialized)"

record net_ext =
  ewh_value :: "EntryWithHeader \<Rightarrow> JsonValue"
  ewh_of_value :: "JsonValue \<Rightarrow> EntryWithHeader option"
  maybe_entry_value :: "EntryWithMetaAndHeader option \<Rightarrow> JsonValue"
  maybe_entry_of_value :: "JsonValue \<Rightarrow> EntryWithMetaAndHeader option option"
  addresses_value :: "Address list \<Rightarrow> JsonValue"
  addresses_of_value :: "JsonValue \<Rightarrow> Address list option"
  message_value :: "DirectMessage \<Rightarrow> JsonValue"
  message_of_value :: "JsonValue \<Rightarrow> DirectMessage option"
  entry_debug :: "Entry \<Rightarrow> string"
  p2p_new :: "string \<Rightarrow> P2pNetwork option"

section \<open>Sending\<close>

type_synonym net_result = "unit HcResult \<times> NetworkState"

definition net_send :: "NetworkState \<Rightarrow> JsonProtocol \<Rightarrow> net_result" where
  "net_send n msg =
     (case net_handle n of
        None \<Rightarrow> (Err not_initialized, n)
      | Some p \<Rightarrow>
          (case p2p_fault p (p2p_outbox p) msg of
             Some e \<Rightarrow> (Err (IoError e), n)
           | None \<Rightarrow> (Ok (), n\<lparr>net_handle := Some (p\<lparr>p2p_outbox := p2p_outbox p @ [msg]\<rparr>)\<rparr>)))"

text \<open>\<open>initialized()?\<close> and the unwrapping of the DNA address and the agent id.\<close>

definition when_initialized :: "NetworkState \<Rightarrow> (Address \<Rightarrow> string \<Rightarrow> net_result option) \<Rightarrow> net_result option" where
  "when_initialized n k =
     (case net_initialized n of
        Err e \<Rightarrow> Some (Err e, n)
      | Ok _ \<Rightarrow>
          (case (net_dna_address n, net_agent_id n) of (Some d, Some a) \<Rightarrow> k d a | _ \<Rightarrow> None))"

definition net_and_then :: "net_result \<Rightarrow> (NetworkState \<Rightarrow> net_result) \<Rightarrow> net_result" where
  "net_and_then rn k = (case rn of (Err e, n) \<Rightarrow> (Err e, n) | (Ok _, n) \<Rightarrow> k n)"

definition send_message ::
    "net_ext \<Rightarrow> string \<Rightarrow> NetworkState \<Rightarrow> Address \<Rightarrow> DirectMessage \<Rightarrow> net_result option" where
  "send_message N fresh n to_agent msg =
     (case (net_dna_address n, net_agent_id n) of
        (Some d, Some a) \<Rightarrow>
          Some (net_and_then
            (net_send n (SendMessage \<lparr>md_dna_address = d, md_request_id = fresh, md_to_agent_id = to_agent,
               md_from_agent_id = a, md_content = message_value N msg\<rparr>))
            (\<lambda>n. (Ok (), n\<lparr>direct_message_connections := (direct_message_connections n)(fresh \<mapsto> msg)\<rparr>)))
      | _ \<Rightarrow> None)"

section \<open>Entries with their headers\<close>

definition fetch_entry_from_cas :: "'s cas_ops \<Rightarrow> ext \<Rightarrow> 's \<Rightarrow> Address \<Rightarrow> Entry HcResult" where
  "fetch_entry_from_cas C x s a =
     and_then (cas_fetch C s a) (\<lambda>c.
     and_then (ok_or (ErrorGeneric ''Entry not found'') c) (\<lambda>json. entry_try_from_content x json))"

definition fetch_entry_with_header ::
    "'s cas_ops \<Rightarrow> ext \<Rightarrow> 's \<Rightarrow> AgentState \<Rightarrow> Address \<Rightarrow> EntryWithHeader HcResult option" where
  "fetch_entry_with_header C x s ag a =
     (case fetch_entry_from_cas C x s a of
        Err e \<Rightarrow> Some (Err e)
      | Ok entry \<Rightarrow>
          map_option (\<lambda>h. map_ok (\<lambda>h. \<lparr>ewh_entry = entry, ewh_header = h\<rparr>)
              (ok_or (ErrorGeneric ''No header found for entry'') h))
            (find_chain_header C x s ag entry))"

section \<open>Reducers\<close>

definition reduce_init :: "net_ext \<Rightarrow> NetworkState \<Rightarrow> NetworkSettings \<Rightarrow> NetworkState option" where
  "reduce_init N n settings =
     map_option (\<lambda>network.
         let json = TrackDna \<lparr>td_dna_address = ns_dna_address settings, td_agent_id = ns_agent_id settings\<rparr> in
         case p2p_fault network (p2p_outbox network) json of
           Some _ \<Rightarrow> n
         | None \<Rightarrow> n\<lparr>net_handle := Some (network\<lparr>p2p_outbox := p2p_outbox network @ [json]\<rparr>),
             net_dna_address := Some (ns_dna_address settings), net_agent_id := Some (ns_agent_id settings)\<rparr>)
       (p2p_new N (ns_p2p_config settings))"

definition reduce_fetch_entry_inner :: "NetworkState \<Rightarrow> GetEntryKey \<Rightarrow> net_result option" where
  "reduce_fetch_entry_inner n key =
     when_initialized n (\<lambda>d a. Some (net_send n (JpFetchEntry
       \<lparr>fe_dna_address = d, fe_request_id = gek_id key, fe_requester_agent_id = a,
        fe_entry_address = gek_address key\<rparr>)))"

text \<open>A request is open until its answer: \<open>None\<close> in the tables, an error at once when it could
  not be sent.\<close>

definition open_request :: "unit HcResult \<Rightarrow> 'a HcResult option" where
  "open_request r = (case r of Ok _ \<Rightarrow> None | Err e \<Rightarrow> Some (Err e))"

definition reduce_get_entry :: "NetworkState \<Rightarrow> GetEntryKey \<Rightarrow> NetworkState option" where
  "reduce_get_entry n key =
     map_option (\<lambda>(r, n). n\<lparr>get_entry_with_meta_results := (get_entry_with_meta_results n)(key \<mapsto> open_request r)\<rparr>)
       (reduce_fetch_entry_inner n key)"

definition reduce_get_entry_timeout :: "NetworkState \<Rightarrow> GetEntryKey \<Rightarrow> NetworkState" where
  "reduce_get_entry_timeout n key =
     (case get_entry_with_meta_results n key of
        Some None \<Rightarrow> n\<lparr>get_entry_with_meta_results := (get_entry_with_meta_results n)(key \<mapsto> Some (Err TimeoutErr))\<rparr>
      | _ \<Rightarrow> n)"

definition wildcard :: "string option \<Rightarrow> string" where
  "wildcard t = (case t of None \<Rightarrow> ''*'' | Some t \<Rightarrow> t)"

definition un_wildcard :: "string \<Rightarrow> string option" where
  "un_wildcard t = (if t = ''*'' then None else Some t)"

definition reduce_get_links_inner :: "NetworkState \<Rightarrow> GetLinksKey \<Rightarrow> net_result option" where
  "reduce_get_links_inner n key =
     when_initialized n (\<lambda>d a. Some (net_send n (FetchMeta
       \<lparr>fm_dna_address = d, fm_request_id = glk_id key, fm_requester_agent_id = a,
        fm_entry_address = glk_base_address key,
        fm_attribute = ''link__'' @ wildcard (glk_link_type key) @ ''__'' @ wildcard (glk_tag key)\<rparr>)))"

definition reduce_get_links :: "NetworkState \<Rightarrow> GetLinksKey \<Rightarrow> NetworkState option" where
  "reduce_get_links n key =
     map_option (\<lambda>(r, n). n\<lparr>get_links_results := (get_links_results n)(key \<mapsto> open_request r)\<rparr>)
       (reduce_get_links_inner n key)"

definition reduce_get_links_timeout :: "NetworkState \<Rightarrow> GetLinksKey \<Rightarrow> NetworkState" where
  "reduce_get_links_timeout n key =
     (case get_links_results n key of
        Some None \<Rightarrow> n\<lparr>get_links_results := (get_links_results n)(key \<mapsto> Some (Err TimeoutErr))\<rparr>
      | _ \<Rightarrow> n)"

definition get_validation_package_inner ::
    "net_ext \<Rightarrow> string \<Rightarrow> NetworkState \<Rightarrow> ChainHeader \<Rightarrow> net_result option" where
  "get_validation_package_inner N fresh n header =
     when_initialized n (\<lambda>_ _.
       case h_provenances header of
         [] \<Rightarrow> Some (Err (ErrorGeneric ''No source found in ChainHeader''), n)
       | p # _ \<Rightarrow> send_message N fresh n (prov_source p) (RequestValidationPackage (h_entry_address header)))"

definition reduce_get_validation_package ::
    "net_ext \<Rightarrow> string \<Rightarrow> NetworkState \<Rightarrow> ChainHeader \<Rightarrow> NetworkState option" where
  "reduce_get_validation_package N fresh n header =
     map_option (\<lambda>(r, n). n\<lparr>get_validation_package_results :=
         (get_validation_package_results n)(h_entry_address header \<mapsto> open_request r)\<rparr>)
       (get_validation_package_inner N fresh n header)"

definition reduce_handle_custom_send_response :: "NetworkState \<Rightarrow> string \<Rightarrow> string + string \<Rightarrow> NetworkState" where
  "reduce_handle_custom_send_response n msg_id response =
     n\<lparr>custom_direct_message_replys := (custom_direct_message_replys n)(msg_id \<mapsto> map_err ErrorGeneric response)\<rparr>"

definition reduce_handle_get_links_result_inner ::
    "net_ext \<Rightarrow> NetworkState \<Rightarrow> FetchMetaResultData \<Rightarrow> Address list HcResult option" where
  "reduce_handle_get_links_result_inner N n d =
     (case net_initialized n of
        Err e \<Rightarrow> Some (Err e)
      | Ok _ \<Rightarrow>
          (case fmr_content_list d of
             [v] \<Rightarrow> Some (ok_or (ErrorGeneric
               ''Failed to deserialize Vec<Address> from HandleGetLinkResult DhtMetaData content'')
               (addresses_of_value N v))
           | _ \<Rightarrow> None))"

definition reduce_handle_get_links_result ::
    "net_ext \<Rightarrow> NetworkState \<Rightarrow> FetchMetaResultData \<Rightarrow> string \<Rightarrow> string \<Rightarrow> NetworkState option" where
  "reduce_handle_get_links_result N n d lt tg =
     map_option (\<lambda>r. n\<lparr>get_links_results := (get_links_results n)
         (\<lparr>glk_base_address = fmr_entry_address d, glk_link_type = un_wildcard lt, glk_tag = un_wildcard tg,
           glk_id = fmr_request_id d\<rparr> \<mapsto> Some r)\<rparr>)
       (reduce_handle_get_links_result_inner N n d)"

definition reduce_handle_get_result_inner ::
    "net_ext \<Rightarrow> NetworkState \<Rightarrow> FetchEntryResultData \<Rightarrow> EntryWithMetaAndHeader option HcResult" where
  "reduce_handle_get_result_inner N n d =
     and_then (net_initialized n) (\<lambda>_.
       ok_or (ErrorGeneric ''Failed to deserialize EntryWithMeta from HandleFetchResult action argument'')
         (maybe_entry_of_value N (fer_entry_content d)))"

definition reduce_handle_get_result :: "net_ext \<Rightarrow> NetworkState \<Rightarrow> FetchEntryResultData \<Rightarrow> NetworkState" where
  "reduce_handle_get_result N n d =
     n\<lparr>get_entry_with_meta_results := (get_entry_with_meta_results n)
         (\<lparr>gek_address = fer_entry_address d, gek_id = fer_request_id d\<rparr> \<mapsto>
            Some (reduce_handle_get_result_inner N n d))\<rparr>"

definition reduce_handle_get_validation_package ::
    "NetworkState \<Rightarrow> Address \<Rightarrow> ValidationPackage option \<Rightarrow> NetworkState" where
  "reduce_handle_get_validation_package n a p =
     n\<lparr>get_validation_package_results := (get_validation_package_results n)(a \<mapsto> Some (Ok p))\<rparr>"

definition reduce_resolve_direct_connection :: "NetworkState \<Rightarrow> string \<Rightarrow> NetworkState" where
  "reduce_resolve_direct_connection n i =
     n\<lparr>direct_message_connections := (direct_message_connections n)(i := None)\<rparr>"

section \<open>Publishing\<close>

definition publish_entry :: "net_ext \<Rightarrow> ext \<Rightarrow> Address \<Rightarrow> string \<Rightarrow> EntryWithHeader \<Rightarrow> NetworkState \<Rightarrow> net_result" where
  "publish_entry N x d a eh n =
     net_send n (PublishEntry \<lparr>ed_dna_address = d, ed_provider_agent_id = a,
       ed_entry_address = entry_address x (ewh_entry eh), ed_entry_content = ewh_value N eh\<rparr>)"

definition publish_update_delete_meta ::
    "net_ext \<Rightarrow> Address \<Rightarrow> string \<Rightarrow> Address \<Rightarrow> string \<Rightarrow> EntryWithHeader \<Rightarrow> NetworkState \<Rightarrow> net_result" where
  "publish_update_delete_meta N d a ea crud_status eh n =
     net_send n (PublishMeta \<lparr>dm_dna_address = d, dm_provider_agent_id = a, dm_entry_address = ea,
       dm_attribute = crud_status, dm_content_list = [ewh_value N eh]\<rparr>)"

definition publish_link_meta ::
    "net_ext \<Rightarrow> Address \<Rightarrow> string \<Rightarrow> EntryWithHeader \<Rightarrow> NetworkState \<Rightarrow> net_result" where
  "publish_link_meta N d a eh n =
     (let publish = (\<lambda>ld attr. net_send n (PublishMeta \<lparr>dm_dna_address = d, dm_provider_agent_id = a,
            dm_entry_address = link_base (ld_link ld), dm_attribute = attribute_string attr,
            dm_content_list = [ewh_value N eh]\<rparr>)) in
      case ewh_entry eh of
        LinkAddEntry ld \<Rightarrow> publish ld LinkAttr
      | LinkRemoveEntry ld \<Rightarrow> publish ld LinkRemoveAttr
      | e \<Rightarrow> (Err (ErrorGeneric (''Received bad entry type. Expected Entry::LinkAdd received '' @ entry_debug N e)), n))"

definition publish_steps ::
    "net_ext \<Rightarrow> ext \<Rightarrow> Address \<Rightarrow> string \<Rightarrow> EntryWithHeader \<Rightarrow> NetworkState \<Rightarrow> net_result" where
  "publish_steps N x d a eh n =
     (case entry_type (ewh_entry eh) of
        AgentIdType \<Rightarrow> publish_entry N x d a eh n
      | AppType _ \<Rightarrow>
          net_and_then (publish_entry N x d a eh n) (\<lambda>n.
            if h_link_update_delete (ewh_header eh) \<noteq> None
            then publish_update_delete_meta N d a (entry_address x (ewh_entry eh)) (crud_status_string Modified) eh n
            else (Ok (), n))
      | LinkAddType \<Rightarrow> net_and_then (publish_entry N x d a eh n) (publish_link_meta N d a eh)
      | LinkRemoveType \<Rightarrow> net_and_then (publish_entry N x d a eh n) (publish_link_meta N d a eh)
      | DeletionType \<Rightarrow>
          net_and_then (publish_entry N x d a eh n) (\<lambda>n.
            publish_update_delete_meta N d a (entry_address x (ewh_entry eh)) (crud_status_string Deleted) eh n)
      | _ \<Rightarrow> (Err (NotImplemented ''reduce_publish_inner''), n))"

definition reduce_publish_inner ::
    "'s cas_ops \<Rightarrow> ext \<Rightarrow> net_ext \<Rightarrow> 's \<Rightarrow> AgentState \<Rightarrow> NetworkState \<Rightarrow> Address \<Rightarrow> net_result option" where
  "reduce_publish_inner C x N s ag n address =
     when_initialized n (\<lambda>d a.
       case fetch_entry_with_header C x s ag address of
         None \<Rightarrow> None
       | Some (Err e) \<Rightarrow> Some (Err e, n)
       | Some (Ok eh) \<Rightarrow> Some (publish_steps N x d a eh n))"

text \<open>The answers recorded for actions carry the error's text.\<close>

definition generic_error :: "'a HcResult \<Rightarrow> 'a HcResult" where
  "generic_error r = map_err (\<lambda>e. ErrorGeneric (error_display e)) r"

definition record_response :: "ActionWrapper \<Rightarrow> NetworkActionResponse \<Rightarrow> NetworkState \<Rightarrow> NetworkState" where
  "record_response w r n = n\<lparr>net_actions := actions_insert w r (net_actions n)\<rparr>"

definition reduce_publish ::
    "'s cas_ops \<Rightarrow> ext \<Rightarrow> net_ext \<Rightarrow> 's \<Rightarrow> AgentState \<Rightarrow> NetworkState \<Rightarrow> ActionWrapper \<Rightarrow> Address \<Rightarrow> NetworkState option" where
  "reduce_publish C x N s ag n w address =
     map_option (\<lambda>(r, n). record_response w (PublishResponse (generic_error (map_ok (\<lambda>_. address) r))) n)
       (reduce_publish_inner C x N s ag n address)"

section \<open>Responding\<close>

definition reduce_respond_fetch_data_inner ::
    "net_ext \<Rightarrow> NetworkState \<Rightarrow> FetchEntryData \<Rightarrow> EntryWithMetaAndHeader option \<Rightarrow> net_result option" where
  "reduce_respond_fetch_data_inner N n q maybe_entry =
     when_initialized n (\<lambda>d a. Some (net_send n (HandleFetchEntryResult
       \<lparr>fer_dna_address = d, fer_request_id = fe_request_id q, fer_requester_agent_id = fe_requester_agent_id q,
        fer_provider_agent_id = a, fer_entry_address = fe_entry_address q,
        fer_entry_content = maybe_entry_value N maybe_entry\<rparr>)))"

definition reduce_respond_fetch_data ::
    "net_ext \<Rightarrow> NetworkState \<Rightarrow> ActionWrapper \<Rightarrow> FetchEntryData \<Rightarrow> EntryWithMetaAndHeader option \<Rightarrow> NetworkState option" where
  "reduce_respond_fetch_data N n w q maybe_entry =
     map_option (\<lambda>(r, n). record_response w (RespondFetchResponse (generic_error r)) n)
       (reduce_respond_fetch_data_inner N n q maybe_entry)"

definition reduce_respond_get_links_inner ::
    "net_ext \<Rightarrow> NetworkState \<Rightarrow> FetchMetaData \<Rightarrow> Address list \<Rightarrow> net_result option" where
  "reduce_respond_get_links_inner N n q links =
     when_initialized n (\<lambda>d a. Some (net_send n (HandleFetchMetaResult
       \<lparr>fmr_dna_address = d, fmr_request_id = fm_request_id q, fmr_requester_agent_id = fm_requester_agent_id q,
        fmr_provider_agent_id = a, fmr_entry_address = fm_entry_address q, fmr_attribute = fm_attribute q,
        fmr_content_list = [addresses_value N links]\<rparr>)))"

definition reduce_respond_get_links ::
    "net_ext \<Rightarrow> NetworkState \<Rightarrow> ActionWrapper \<Rightarrow> FetchMetaData \<Rightarrow> Address list \<Rightarrow> NetworkState option" where
  "reduce_respond_get_links N n w q links =
     map_option (\<lambda>(r, n). record_response w (RespondGetLinksResponse (generic_error r)) n)
       (reduce_respond_get_links_inner N n q links)"

section \<open>Direct messages\<close>

definition send_direct_message_inner :: "net_ext \<Rightarrow> NetworkState \<Rightarrow> DirectMessageData \<Rightarrow> net_result option" where
  "send_direct_message_inner N n dm =
     when_initialized n (\<lambda>d a.
       let data = \<lparr>md_dna_address = d, md_request_id = dmsg_msg_id dm, md_to_agent_id = dmsg_address dm,
             md_from_agent_id = a, md_content = message_value N (dmsg_message dm)\<rparr> in
       Some (if dmsg_is_response dm then net_send n (HandleSendMessageResult data)
         else net_send (n\<lparr>direct_message_connections :=
                (direct_message_connections n)(dmsg_msg_id dm \<mapsto> dmsg_message dm)\<rparr>) (SendMessage data)))"

definition reduce_send_direct_message :: "net_ext \<Rightarrow> NetworkState \<Rightarrow> DirectMessageData \<Rightarrow> NetworkState option" where
  "reduce_send_direct_message N n dm = map_option snd (send_direct_message_inner N n dm)"

definition reduce_send_direct_message_timeout :: "NetworkState \<Rightarrow> string \<Rightarrow> NetworkState" where
  "reduce_send_direct_message_timeout n i =
     (if custom_direct_message_replys n i \<noteq> None then n
      else n\<lparr>custom_direct_message_replys := (custom_direct_message_replys n)(i \<mapsto> Err TimeoutErr)\<rparr>)"

section \<open>The slice reducer\<close>

definition network_reduce ::
    "'s cas_ops \<Rightarrow> ext \<Rightarrow> net_ext \<Rightarrow> string \<Rightarrow> 's \<Rightarrow> AgentState \<Rightarrow> NetworkState \<Rightarrow> ActionWrapper \<Rightarrow> NetworkState option" where
  "network_reduce C x N fresh s ag n w =
     (case aw_action w of
        FetchEntry k \<Rightarrow> reduce_get_entry n k
      | GetEntryTimeout k \<Rightarrow> Some (reduce_get_entry_timeout n k)
      | GetLinks k \<Rightarrow> reduce_get_links n k
      | GetLinksTimeout k \<Rightarrow> Some (reduce_get_links_timeout n k)
      | GetValidationPackage h \<Rightarrow> reduce_get_validation_package N fresh n h
      | HandleCustomSendResponse i r \<Rightarrow> Some (reduce_handle_custom_send_response n i r)
      | HandleFetchResult d \<Rightarrow> Some (reduce_handle_get_result N n d)
      | HandleGetLinksResult d lt tg \<Rightarrow> reduce_handle_get_links_result N n d lt tg
      | HandleGetValidationPackage a p \<Rightarrow> Some (reduce_handle_get_validation_package n a p)
      | InitNetwork st \<Rightarrow> reduce_init N n st
      | Publish a \<Rightarrow> reduce_publish C x N s ag n w a
      | ResolveDirectConnection i \<Rightarrow> Some (reduce_resolve_direct_connection n i)
      | RespondFetch q e \<Rightarrow> reduce_respond_fetch_data N n w q e
      | RespondGetLinks q ls \<Rightarrow> reduce_respond_get_links N n w q ls
      | SendDirectMessage dm \<Rightarrow> reduce_send_direct_message N n dm
      | SendDirectMessageTimeout i \<Rightarrow> Some (reduce_send_direct_message_timeout n i)
      | _ \<Rightarrow> Some n)"

section \<open>What the reducers keep\<close>

text \<open>The three parts of an initialised network come together.\<close>

definition wired :: "NetworkState \<Rightarrow> bool" where
  "wired n \<longleftrightarrow> (net_dna_address n \<noteq> None \<longleftrightarrow> net_handle n \<noteq> None)
     \<and> (net_agent_id n \<noteq> None \<longleftrightarrow> net_handle n \<noteq> None)"

text \<open>The part of the state sending works on, and the part it leaves alone.\<close>

definition same_ids :: "NetworkState \<Rightarrow> NetworkState \<Rightarrow> bool" where
  "same_ids n n' \<longleftrightarrow> net_dna_address n' = net_dna_address n \<and> net_agent_id n' = net_agent_id n
     \<and> (net_handle n' = None \<longleftrightarrow> net_handle n = None)
     \<and> get_entry_with_meta_results n' = get_entry_with_meta_results n
     \<and> get_links_results n' = get_links_results n"

lemma same_ids_refl [simp]: "same_ids n n"
  by (simp add: same_ids_def)

lemma same_ids_trans: "same_ids n n' \<Longrightarrow> same_ids n' n'' \<Longrightarrow> same_ids n n''"
  by (simp add: same_ids_def)

lemma net_send_same: "same_ids n (snd (net_send n msg))"
  by (simp add: net_send_def same_ids_def split: option.split)

lemma net_and_then_same:
  "same_ids n (snd rn) \<Longrightarrow> (\<And>m. same_ids n m \<Longrightarrow> same_ids n (snd (k m))) \<Longrightarrow> same_ids n (snd (net_and_then rn k))"
  by (cases rn) (auto simp: net_and_then_def split: sum.split)

lemma publish_steps_same: "same_ids n (snd (publish_steps N x d a eh n))"
proof -
  have e: "same_ids n (snd (publish_entry N x d a eh n))"
    and u: "same_ids m (snd (publish_update_delete_meta N d a ea cs eh m))"
    and l: "same_ids m (snd (publish_link_meta N d a eh m))" for m ea cs
    by (auto simp: publish_entry_def publish_update_delete_meta_def publish_link_meta_def Let_def net_send_same
        split: Entry.split)
  have a: "same_ids n (snd (net_and_then (publish_entry N x d a eh n) k))" if "\<And>m. same_ids m (snd (k m))" for k
    by (rule net_and_then_same [OF e]) (rule same_ids_trans [OF _ that])
  show ?thesis
    unfolding publish_steps_def
    by (cases "entry_type (ewh_entry eh)") (simp_all add: e a u l)
qed

lemma send_message_same: "send_message N fresh n b msg = Some rn \<Longrightarrow> same_ids n (snd rn)"
proof -
  have "same_ids n (snd (net_and_then (net_send n m)
      (\<lambda>n. (Ok (), n\<lparr>direct_message_connections := (direct_message_connections n)(fresh \<mapsto> msg)\<rparr>))))" for m
    by (rule net_and_then_same [OF net_send_same]) (simp add: same_ids_def)
  then show "send_message N fresh n b msg = Some rn \<Longrightarrow> same_ids n (snd rn)"
    by (auto simp: send_message_def split: option.splits)
qed

lemma when_initialized_wired:
  assumes "wired n"
  shows "when_initialized n k =
    (case net_handle n of None \<Rightarrow> Some (Err not_initialized, n)
     | Some _ \<Rightarrow> k (the (net_dna_address n)) (the (net_agent_id n)))"
  using assms by (auto simp: when_initialized_def net_initialized_def wired_def split: option.split)

lemma wired_initialized: "wired n \<Longrightarrow> net_initialized n = (if net_handle n = None then Err not_initialized else Ok ())"
  by (auto simp: net_initialized_def wired_def)

lemma net_send_same': "net_send n msg = (r, m) \<Longrightarrow> same_ids n m"
  by (metis net_send_same snd_conv)

lemma publish_steps_same': "publish_steps N x d a eh n = (r, m) \<Longrightarrow> same_ids n m"
  by (metis publish_steps_same snd_conv)

lemma when_initialized_same:
  assumes "when_initialized n k = Some rn" "\<And>d a rn. k d a = Some rn \<Longrightarrow> same_ids n (snd rn)"
  shows "same_ids n (snd rn)"
  using assms by (auto simp: when_initialized_def split: sum.splits option.splits)

text \<open>Every inner reducer only sends.\<close>

lemma inner_same:
  "reduce_fetch_entry_inner n k = Some rn \<Longrightarrow> same_ids n (snd rn)"
  "reduce_get_links_inner n lk = Some rn \<Longrightarrow> same_ids n (snd rn)"
  "get_validation_package_inner N fresh n h = Some rn \<Longrightarrow> same_ids n (snd rn)"
  "reduce_publish_inner C x N s ag n a = Some rn \<Longrightarrow> same_ids n (snd rn)"
  "reduce_respond_fetch_data_inner N n q e = Some rn \<Longrightarrow> same_ids n (snd rn)"
  "reduce_respond_get_links_inner N n lq ls = Some rn \<Longrightarrow> same_ids n (snd rn)"
  "send_direct_message_inner N n dm = Some rn \<Longrightarrow> same_ids n (snd rn)"
proof -
  show "send_direct_message_inner N n dm = Some rn \<Longrightarrow> same_ids n (snd rn)"
    unfolding send_direct_message_inner_def
  proof (erule when_initialized_same)
    fix d a rn'
    let ?n = "n\<lparr>direct_message_connections := (direct_message_connections n)(dmsg_msg_id dm \<mapsto> dmsg_message dm)\<rparr>"
    have "same_ids n ?n" by (simp add: same_ids_def)
    then have "same_ids n (snd (net_send ?n msg))" for msg
      using net_send_same same_ids_trans by blast
    then show "(let data = \<lparr>md_dna_address = d, md_request_id = dmsg_msg_id dm, md_to_agent_id = dmsg_address dm,
             md_from_agent_id = a, md_content = message_value N (dmsg_message dm)\<rparr> in
       Some (if dmsg_is_response dm then net_send n (HandleSendMessageResult data)
         else net_send ?n (SendMessage data))) = Some rn' \<Longrightarrow> same_ids n (snd rn')"
      by (auto simp: Let_def net_send_same)
  qed
qed (auto simp: reduce_fetch_entry_inner_def reduce_get_links_inner_def get_validation_package_inner_def
    reduce_publish_inner_def reduce_respond_fetch_data_inner_def reduce_respond_get_links_inner_def
    elim!: when_initialized_same split: list.splits option.splits sum.splits
    dest: send_message_same net_send_same' publish_steps_same')

text \<open>The effect of a step on the wiring and on the two tables of requests: most actions leave
  them as they are.\<close>

definition net_view :: "NetworkState \<Rightarrow> (bool \<times> Address option \<times> string option)
    \<times> (GetEntryKey \<rightharpoonup> EntryWithMetaAndHeader option HcResult option) \<times> (GetLinksKey \<rightharpoonup> Address list HcResult option)" where
  "net_view n = ((net_handle n = None, net_dna_address n, net_agent_id n),
     get_entry_with_meta_results n, get_links_results n)"

lemma same_ids_view: "same_ids n m \<Longrightarrow> net_view m = net_view n"
  by (simp add: same_ids_def net_view_def)

lemma map_option_view:
  assumes "map_option (\<lambda>(r, m). f r m) z = Some n'" "\<And>rn. z = Some rn \<Longrightarrow> same_ids n (snd rn)"
    and "\<And>r m. net_view (f r m) = net_view m"
  shows "net_view n' = net_view n"
  using assms same_ids_view by fastforce

definition touches_tables :: "Action \<Rightarrow> bool" where
  "touches_tables act = (case act of
     InitNetwork _ \<Rightarrow> True | FetchEntry _ \<Rightarrow> True | GetLinks _ \<Rightarrow> True | GetEntryTimeout _ \<Rightarrow> True
   | GetLinksTimeout _ \<Rightarrow> True | HandleFetchResult _ \<Rightarrow> True | HandleGetLinksResult _ _ _ \<Rightarrow> True | _ \<Rightarrow> False)"

lemma network_reduce_frame:
  assumes "network_reduce C x N fresh s ag n w = Some n'" "\<not> touches_tables (aw_action w)"
  shows "net_view n' = net_view n"
proof (cases "aw_action w")
  case (GetValidationPackage h)
  with assms(1) show ?thesis
    unfolding network_reduce_def reduce_get_validation_package_def
    by (simp del: map_option_eq_Some) (erule map_option_view [OF _ inner_same(3)], simp_all add: net_view_def)
next
  case (Publish a)
  with assms(1) show ?thesis
    unfolding network_reduce_def reduce_publish_def record_response_def
    by (simp del: map_option_eq_Some) (erule map_option_view [OF _ inner_same(4)], simp_all add: net_view_def)
next
  case (RespondFetch q e)
  with assms(1) show ?thesis
    unfolding network_reduce_def reduce_respond_fetch_data_def record_response_def
    by (simp del: map_option_eq_Some) (erule map_option_view [OF _ inner_same(5)], simp_all add: net_view_def)
next
  case (RespondGetLinks q ls)
  with assms(1) show ?thesis
    unfolding network_reduce_def reduce_respond_get_links_def record_response_def
    by (simp del: map_option_eq_Some) (erule map_option_view [OF _ inner_same(6)], simp_all add: net_view_def)
next
  case (SendDirectMessage dm)
  with assms(1) show ?thesis
    using inner_same(7) [of N n dm] same_ids_view
    by (auto simp: network_reduce_def reduce_send_direct_message_def)
qed (use assms in \<open>auto simp: network_reduce_def reduce_handle_custom_send_response_def
    reduce_handle_get_validation_package_def reduce_resolve_direct_connection_def
    reduce_send_direct_message_timeout_def net_view_def touches_tables_def split: if_splits\<close>)

lemma network_reduce_fetch_entry:
  assumes "network_reduce C x N fresh s ag n w = Some n'" "aw_action w = FetchEntry k"
  obtains r where "net_view n' = (fst (net_view n), (get_entry_with_meta_results n)(k \<mapsto> r), get_links_results n)"
  using assms inner_same(1) [of n k]
  by (fastforce simp: network_reduce_def reduce_get_entry_def net_view_def same_ids_def)

lemma network_reduce_get_links:
  assumes "network_reduce C x N fresh s ag n w = Some n'" "aw_action w = GetLinks k"
  obtains r where "net_view n' = (fst (net_view n), get_entry_with_meta_results n, (get_links_results n)(k \<mapsto> r))"
  using assms inner_same(2) [of n k]
  by (fastforce simp: network_reduce_def reduce_get_links_def net_view_def same_ids_def)

lemma network_reduce_wired:
  assumes "network_reduce C x N fresh s ag n w = Some n'" "wired n"
  shows "wired n'"
proof (cases "\<exists>st. aw_action w = InitNetwork st")
  case True
  with assms show ?thesis
    by (auto simp: network_reduce_def reduce_init_def Let_def wired_def split: option.splits)
next
  case False
  have "fst (net_view n') = fst (net_view n)"
  proof (cases "touches_tables (aw_action w)")
    case True
    then show ?thesis
    proof (cases "aw_action w")
      case (FetchEntry k)
      show ?thesis by (rule network_reduce_fetch_entry [OF assms(1) FetchEntry]) simp
    next
      case (GetLinks k)
      show ?thesis by (rule network_reduce_get_links [OF assms(1) GetLinks]) simp
    qed (use False assms(1) in \<open>auto simp: touches_tables_def network_reduce_def reduce_get_entry_timeout_def
        reduce_get_links_timeout_def reduce_handle_get_result_def reduce_handle_get_links_result_def
        net_view_def split: option.splits\<close>)
  qed (use network_reduce_frame [OF assms(1)] in simp)
  with assms(2) show ?thesis by (simp add: wired_def net_view_def)
qed

section \<open>Settling of requests\<close>

text \<open>A step leaves a request's place in its table alone or puts an answer there, unless it asks
  that very request.\<close>

lemma request_tables_step:
  assumes step: "network_reduce C x N fresh s ag n w = Some n'"
  shows "aw_action w \<noteq> FetchEntry k \<Longrightarrow> get_entry_with_meta_results n' k = get_entry_with_meta_results n k
      \<or> (\<exists>r. get_entry_with_meta_results n' k = Some (Some r))" (is "_ \<Longrightarrow> ?E")
    and "aw_action w \<noteq> GetLinks lk \<Longrightarrow> get_links_results n' lk = get_links_results n lk
      \<or> (\<exists>r. get_links_results n' lk = Some (Some r))" (is "_ \<Longrightarrow> ?L")
proof -
  have "(aw_action w \<noteq> FetchEntry k \<longrightarrow> ?E) \<and> (aw_action w \<noteq> GetLinks lk \<longrightarrow> ?L)"
  proof (cases "aw_action w")
    case (FetchEntry k')
    obtain r where "net_view n' = (fst (net_view n), (get_entry_with_meta_results n)(k' \<mapsto> r), get_links_results n)"
      using network_reduce_fetch_entry [OF step FetchEntry] .
    with FetchEntry show ?thesis by (simp add: net_view_def)
  next
    case (GetLinks k')
    obtain r where "net_view n' = (fst (net_view n), get_entry_with_meta_results n, (get_links_results n)(k' \<mapsto> r))"
      using network_reduce_get_links [OF step GetLinks] .
    with GetLinks show ?thesis by (simp add: net_view_def)
  next
    case (InitNetwork st)
    with step show ?thesis
      by (auto simp: network_reduce_def reduce_init_def Let_def split: option.splits)
  qed (use step network_reduce_frame [OF step] in \<open>auto simp: network_reduce_def reduce_get_entry_timeout_def
        reduce_get_links_timeout_def reduce_handle_get_result_def reduce_handle_get_links_result_def
        touches_tables_def net_view_def split: option.splits\<close>)
  then show "aw_action w \<noteq> FetchEntry k \<Longrightarrow> ?E" "aw_action w \<noteq> GetLinks lk \<Longrightarrow> ?L" by blast+
qed

text \<open>A run feeds the reducer the actions in order, each with the fresh id, the storage and the
  agent state of its moment.\<close>

fun network_run ::
    "'s cas_ops \<Rightarrow> ext \<Rightarrow> net_ext \<Rightarrow> NetworkState \<Rightarrow> (string \<times> 's \<times> AgentState \<times> ActionWrapper) list \<Rightarrow> NetworkState option" where
  "network_run C x N n [] = Some n"
| "network_run C x N n ((fresh, s, ag, w) # es) =
     Option.bind (network_reduce C x N fresh s ag n w) (\<lambda>n. network_run C x N n es)"

lemma network_run_append:
  "network_run C x N n (es @ fs) = Option.bind (network_run C x N n es) (\<lambda>n. network_run C x N n fs)"
  by (induction C x N n es rule: network_run.induct) (auto split: Option.bind_split)

lemma network_run_wired: "network_run C x N n es = Some n' \<Longrightarrow> wired n \<Longrightarrow> wired n'"
  by (induction C x N n es rule: network_run.induct) (auto simp: bind_eq_Some_conv network_reduce_wired)

lemma wired_new: "wired network_state_new"
  by (simp add: wired_def network_state_new_def)

definition actions_of :: "('f \<times> 's \<times> AgentState \<times> ActionWrapper) list \<Rightarrow> Action set" where
  "actions_of es = (\<lambda>(_, _, _, w). aw_action w) ` set es"

lemma actions_of_simps [simp]:
  "actions_of [] = {}" "actions_of ((f, s, ag, w) # es) = insert (aw_action w) (actions_of es)"
  "actions_of (es @ fs) = actions_of es \<union> actions_of fs"
  by (simp_all add: actions_of_def image_Un)

lemma request_tables_run:
  assumes "network_run C x N n es = Some n'"
  shows "FetchEntry k \<notin> actions_of es \<Longrightarrow> get_entry_with_meta_results n' k = get_entry_with_meta_results n k
      \<or> (\<exists>r. get_entry_with_meta_results n' k = Some (Some r))"
    and "GetLinks lk \<notin> actions_of es \<Longrightarrow> get_links_results n' lk = get_links_results n lk
      \<or> (\<exists>r. get_links_results n' lk = Some (Some r))"
proof -
  have "(FetchEntry k \<notin> actions_of es \<longrightarrow> get_entry_with_meta_results n' k = get_entry_with_meta_results n k
      \<or> (\<exists>r. get_entry_with_meta_results n' k = Some (Some r)))
    \<and> (GetLinks lk \<notin> actions_of es \<longrightarrow> get_links_results n' lk = get_links_results n lk
      \<or> (\<exists>r. get_links_results n' lk = Some (Some r)))"
    using assms
  proof (induction C x N n es rule: network_run.induct)
    case (2 C x N n fresh s ag w es)
    then obtain m where m: "network_reduce C x N fresh s ag n w = Some m" "network_run C x N m es = Some n'"
      by (auto simp: bind_eq_Some_conv)
    show ?case
      using "2.IH" [OF m] request_tables_step(1) [OF m(1), of k] request_tables_step(2) [OF m(1), of lk]
      by auto
  qed simp
  then show "FetchEntry k \<notin> actions_of es \<Longrightarrow> get_entry_with_meta_results n' k = get_entry_with_meta_results n k
      \<or> (\<exists>r. get_entry_with_meta_results n' k = Some (Some r))"
    "GetLinks lk \<notin> actions_of es \<Longrightarrow> get_links_results n' lk = get_links_results n lk
      \<or> (\<exists>r. get_links_results n' lk = Some (Some r))"
    by blast+
qed

section \<open>What a publication sends\<close>

text \<open>The messages an entry is published with, in order; none for the types that are not
  published this way.\<close>

definition published_messages :: "net_ext \<Rightarrow> ext \<Rightarrow> Address \<Rightarrow> string \<Rightarrow> EntryWithHeader \<Rightarrow> JsonProtocol list" where
  "published_messages N x d a eh =
     (let own = entry_address x (ewh_entry eh);
          entry = PublishEntry \<lparr>ed_dna_address = d, ed_provider_agent_id = a, ed_entry_address = own,
                    ed_entry_content = ewh_value N eh\<rparr>;
          meta = (\<lambda>b attr. PublishMeta \<lparr>dm_dna_address = d, dm_provider_agent_id = a, dm_entry_address = b,
                    dm_attribute = attr, dm_content_list = [ewh_value N eh]\<rparr>) in
      case ewh_entry eh of
        AgentIdEntry _ \<Rightarrow> [entry]
      | AppEntry _ _ \<Rightarrow> entry # (if h_link_update_delete (ewh_header eh) = None then [] else [meta own (crud_status_string Modified)])
      | LinkAddEntry ld \<Rightarrow> [entry, meta (link_base (ld_link ld)) (attribute_string LinkAttr)]
      | LinkRemoveEntry ld \<Rightarrow> [entry, meta (link_base (ld_link ld)) (attribute_string LinkRemoveAttr)]
      | DeletionEntry _ \<Rightarrow> [entry, meta own (crud_status_string Deleted)]
      | _ \<Rightarrow> [])"

fun send_all :: "NetworkState \<Rightarrow> JsonProtocol list \<Rightarrow> net_result" where
  "send_all n [] = (Ok (), n)"
| "send_all n (m # ms) = net_and_then (net_send n m) (\<lambda>n. send_all n ms)"

lemma net_and_then_Ok [simp]: "net_and_then rn (\<lambda>n. (Ok (), n)) = rn"
  by (cases rn) (simp add: net_and_then_def split: sum.split)

lemma publish_steps_sends:
  "publish_steps N x d a eh n =
     (if published_messages N x d a eh = [] then (Err (NotImplemented ''reduce_publish_inner''), n)
      else send_all n (published_messages N x d a eh))"
  by (cases "ewh_entry eh")
    (simp_all add: publish_steps_def published_messages_def publish_entry_def publish_update_delete_meta_def [abs_def]
      publish_link_meta_def [abs_def] Let_def)

lemma send_all_prefix:
  assumes "net_handle n = Some p"
  shows "\<exists>k r. send_all n ms = (r, n\<lparr>net_handle := Some (p\<lparr>p2p_outbox := p2p_outbox p @ take k ms\<rparr>)\<rparr>)
    \<and> (r = Ok () \<and> k = length ms
       \<or> (\<exists>e. r = Err (IoError e) \<and> k < length ms \<and> p2p_fault p (p2p_outbox p @ take k ms) (ms ! k) = Some e))"
  using assms
proof (induction ms arbitrary: n p)
  case Nil
  then show ?case by (auto intro!: NetworkState.equality)
next
  case (Cons m ms)
  show ?case
  proof (cases "p2p_fault p (p2p_outbox p) m")
    case (Some e)
    with Cons.prems show ?thesis
      by (intro exI [of _ 0]) (auto simp: net_send_def net_and_then_def intro!: NetworkState.equality)
  next
    case None
    let ?p = "p\<lparr>p2p_outbox := p2p_outbox p @ [m]\<rparr>"
    from Cons.IH [of "n\<lparr>net_handle := Some ?p\<rparr>" ?p] obtain k r where
      "send_all (n\<lparr>net_handle := Some ?p\<rparr>) ms = (r, n\<lparr>net_handle := Some (?p\<lparr>p2p_outbox := p2p_outbox ?p @ take k ms\<rparr>)\<rparr>)"
      "r = Ok () \<and> k = length ms
       \<or> (\<exists>e. r = Err (IoError e) \<and> k < length ms \<and> p2p_fault ?p (p2p_outbox ?p @ take k ms) (ms ! k) = Some e)"
      by auto
    with Cons.prems None show ?thesis
      by (intro exI [of _ "Suc k"] exI [of _ r]) (auto simp: net_send_def net_and_then_def)
  qed
qed

text \<open>A connection for the witnesses, whose sends all succeed, and a state connected to it.\<close>

definition sample_p2p :: P2pNetwork where
  "sample_p2p = \<lparr>p2p_outbox = [], p2p_fault = (\<lambda>_ _. None)\<rparr>"

definition sample_settings :: NetworkSettings where
  "sample_settings = \<lparr>ns_p2p_config = ''{}'', ns_dna_address = ''QmDna'', ns_agent_id = ''HcAgent''\<rparr>"

definition sample_net_ext :: net_ext where
  "sample_net_ext = \<lparr>ewh_value = (\<lambda>_. ''entry''), ewh_of_value = (\<lambda>_. None),
     maybe_entry_value = (\<lambda>_. ''maybe''), maybe_entry_of_value = (\<lambda>v. if v = ''null'' then Some None else None),
     addresses_value = concat, addresses_of_value = (\<lambda>v. Some [v]), message_value = (\<lambda>_. ''message''),
     message_of_value = (\<lambda>_. None), entry_debug = (\<lambda>_. ''entry''), p2p_new = (\<lambda>_. Some sample_p2p)\<rparr>"

definition sample_agent :: AgentState where
  "sample_agent = agent_state_new_with_top_chain_header None ''agent''"

abbreviation sample_event :: "Action \<Rightarrow> string \<times> MemoryStorage \<times> AgentState \<times> ActionWrapper" where
  "sample_event act \<equiv> (''id'', \<lparr>storage = Map.empty\<rparr>, sample_agent, action_wrapper_new 1 act)"

lemmas sample_net = sample_p2p_def sample_settings_def sample_net_ext_def sample_agent_def action_wrapper_new_def
  network_state_new_def

section \<open>Properties\<close>

text \<open>C19: A network state that grew from the initial one panics on exactly three actions: an
  initialisation whose connection cannot be made, a get-links answer whose content list does not
  hold exactly one value, and a publication for which the lookup of the entry's header panics; the
  last two only once the network is initialised.\<close>

lemma network_panics_exactly:
  assumes "network_run C x N network_state_new es = Some n"
  shows "network_reduce C x N fresh s ag n w = None \<longleftrightarrow>
    (\<exists>st. aw_action w = InitNetwork st \<and> p2p_new N (ns_p2p_config st) = None)
    \<or> net_initialized n = Ok () \<and>
       ((\<exists>d lt tg. aw_action w = HandleGetLinksResult d lt tg \<and> length (fmr_content_list d) \<noteq> 1)
        \<or> (\<exists>a. aw_action w = Publish a \<and> fetch_entry_with_header C x s ag a = None))"
proof -
  have wired: "wired n" by (rule network_run_wired [OF assms wired_new])
  note init = when_initialized_wired [OF wired] wired_initialized [OF wired]
  show ?thesis
  proof (cases "aw_action w")
    case (GetValidationPackage h)
    then show ?thesis
      using wired by (auto simp: network_reduce_def reduce_get_validation_package_def get_validation_package_inner_def
          init send_message_def wired_def split: option.split list.split)
  next
    case (HandleGetLinksResult d lt tg)
    then show ?thesis
      by (auto simp: network_reduce_def reduce_handle_get_links_result_def reduce_handle_get_links_result_inner_def init
          split: list.split)
  next
    case (Publish a)
    then show ?thesis
      by (auto simp: network_reduce_def reduce_publish_def reduce_publish_inner_def init
          split: option.split sum.split)
  next
    case (InitNetwork st)
    then show ?thesis by (simp add: network_reduce_def reduce_init_def)
  qed (auto simp: network_reduce_def reduce_get_entry_def reduce_fetch_entry_inner_def reduce_get_links_def
      reduce_get_links_inner_def reduce_respond_fetch_data_def reduce_respond_fetch_data_inner_def
      reduce_respond_get_links_def reduce_respond_get_links_inner_def reduce_send_direct_message_def
      send_direct_message_inner_def init Let_def split: option.split)
qed

theorem network_panics_exactly_witness:
  "let x = table_ext [] [];
       N = sample_net_ext;
       es = [sample_event (InitNetwork sample_settings)];
       d = \<lparr>fmr_dna_address = ''QmDna'', fmr_request_id = ''r'', fmr_requester_agent_id = ''HcAgent'',
            fmr_provider_agent_id = ''HcBob'', fmr_entry_address = ''QmE'', fmr_attribute = ''link__*__*'', fmr_content_list = []\<rparr>
   in \<exists>n. network_run memory_cas x N network_state_new es = Some n
        \<and> network_reduce memory_cas x N ''id'' \<lparr>storage = Map.empty\<rparr> sample_agent n
            (action_wrapper_new 2 (HandleGetLinksResult d ''*'' ''*'')) = None"
proof -
  let ?x = "table_ext [] []" and ?N = "sample_net_ext"
  let ?es = "[sample_event (InitNetwork sample_settings)]"
  obtain n where n: "network_run memory_cas ?x ?N network_state_new ?es = Some n" "net_initialized n = Ok ()"
    by (simp add: sample_net network_reduce_def reduce_init_def Let_def net_initialized_def)
  show ?thesis
    unfolding Let_def
    using network_panics_exactly [OF n(1), of "''id''" "\<lparr>storage = Map.empty\<rparr>" sample_agent] n
    by (auto simp: action_wrapper_new_def)
qed

text \<open>C20: A request for an entry or for links that is followed by its timeout ends with an answer,
  whatever is reduced between and afterwards, unless it is asked again.\<close>

lemma requests_settle:
  assumes "network_run C x N n (before @ (f, s, ag, w) # during @ (f', s', ag', w') # after) = Some n'"
  shows "(aw_action w = FetchEntry k \<and> aw_action w' = GetEntryTimeout k \<and> FetchEntry k \<notin> actions_of (during @ after)
      \<longrightarrow> (\<exists>r. get_entry_with_meta_results n' k = Some (Some r)))
    \<and> (aw_action w = GetLinks lk \<and> aw_action w' = GetLinksTimeout lk \<and> GetLinks lk \<notin> actions_of (during @ after)
      \<longrightarrow> (\<exists>r. get_links_results n' lk = Some (Some r)))"
proof -
  obtain n0 n1 n2 n3 where runs: "network_reduce C x N f s ag n0 w = Some n1"
    "network_run C x N n1 during = Some n2" "network_reduce C x N f' s' ag' n2 w' = Some n3"
    "network_run C x N n3 after = Some n'"
    using assms by (auto simp: network_run_append bind_eq_Some_conv)
  note tables = request_tables_run [OF runs(2)] request_tables_run [OF runs(4)]
  show ?thesis
  proof (intro conjI impI; elim conjE)
    assume w: "aw_action w = FetchEntry k" "aw_action w' = GetEntryTimeout k" "FetchEntry k \<notin> actions_of (during @ after)"
    obtain r where "net_view n1 = (fst (net_view n0), (get_entry_with_meta_results n0)(k \<mapsto> r), get_links_results n0)"
      using network_reduce_fetch_entry [OF runs(1) w(1)] .
    then have "get_entry_with_meta_results n2 k \<noteq> None" using tables(1) [of k] w(3) by (auto simp: net_view_def)
    then have "\<exists>r. get_entry_with_meta_results n3 k = Some (Some r)"
      using runs(3) w(2) by (auto simp: network_reduce_def reduce_get_entry_timeout_def split: option.splits)
    then show "\<exists>r. get_entry_with_meta_results n' k = Some (Some r)" using tables(3) [of k] w(3) by auto
  next
    assume w: "aw_action w = GetLinks lk" "aw_action w' = GetLinksTimeout lk" "GetLinks lk \<notin> actions_of (during @ after)"
    obtain r where "net_view n1 = (fst (net_view n0), get_entry_with_meta_results n0, (get_links_results n0)(lk \<mapsto> r))"
      using network_reduce_get_links [OF runs(1) w(1)] .
    then have "get_links_results n2 lk \<noteq> None" using tables(2) [of lk] w(3) by (auto simp: net_view_def)
    then have "\<exists>r. get_links_results n3 lk = Some (Some r)"
      using runs(3) w(2) by (auto simp: network_reduce_def reduce_get_links_timeout_def split: option.splits)
    then show "\<exists>r. get_links_results n' lk = Some (Some r)" using tables(4) [of lk] w(3) by auto
  qed
qed

theorem requests_settle_witness:
  "let x = table_ext [] [];
       k = \<lparr>gek_address = ''QmE'', gek_id = ''r''\<rparr>;
       es = [sample_event (InitNetwork sample_settings), sample_event (FetchEntry k),
             sample_event (Publish ''QmF''), sample_event (GetEntryTimeout k)]
   in \<exists>n r. network_run memory_cas x sample_net_ext network_state_new es = Some n
        \<and> get_entry_with_meta_results n k = Some (Some r)"
proof -
  let ?x = "table_ext [] []"
  let ?k = "\<lparr>gek_address = ''QmE'', gek_id = ''r''\<rparr>"
  let ?es = "[sample_event (InitNetwork sample_settings)] @ sample_event (FetchEntry ?k)
    # [sample_event (Publish ''QmF'')] @ sample_event (GetEntryTimeout ?k) # []"
  obtain n where "network_run memory_cas ?x sample_net_ext network_state_new ?es = Some n"
    by (simp add: sample_net network_reduce_def reduce_init_def Let_def net_initialized_def reduce_get_entry_def
        reduce_fetch_entry_inner_def when_initialized_def net_send_def reduce_publish_def reduce_publish_inner_def
        fetch_entry_with_header_def fetch_entry_from_cas_def memory_cas_def memory_fetch_def)
  from this requests_settle [OF this, of ?k] show ?thesis
    unfolding Let_def by (auto simp: action_wrapper_new_def)
qed

text \<open>C21: Publishing an entry sends its messages in order up to the first one the connection
  refuses, keeps everything sent before, and answers with the address exactly when the entry's type
  is published and all of them went out.\<close>

lemma publish_sends_in_order:
  assumes init: "net_handle n = Some p" "net_dna_address n = Some d" "net_agent_id n = Some a"
    and found: "fetch_entry_with_header C x s ag address = Some (Ok eh)"
    and msgs: "msgs = published_messages N x d a eh"
  shows "\<exists>k n'. network_reduce C x N fresh s ag n (action_wrapper_new i (Publish address)) = Some n'
    \<and> net_handle n' = Some (p\<lparr>p2p_outbox := p2p_outbox p @ take k msgs\<rparr>)
    \<and> (k < length msgs \<longrightarrow> p2p_fault p (p2p_outbox p @ take k msgs) (msgs ! k) \<noteq> None)
    \<and> (actions_get (action_wrapper_new i (Publish address)) (net_actions n') = Some (PublishResponse (Ok address))
        \<longleftrightarrow> msgs \<noteq> [] \<and> length msgs \<le> k)"
proof -
  let ?w = "action_wrapper_new i (Publish address)"
  obtain k r where sent: "send_all n msgs = (r, n\<lparr>net_handle := Some (p\<lparr>p2p_outbox := p2p_outbox p @ take k msgs\<rparr>)\<rparr>)"
    and k: "r = Ok () \<and> k = length msgs
       \<or> (\<exists>e. r = Err (IoError e) \<and> k < length msgs \<and> p2p_fault p (p2p_outbox p @ take k msgs) (msgs ! k) = Some e)"
    using send_all_prefix [OF init(1), of msgs] by blast
  have "network_reduce C x N fresh s ag n ?w = map_option
      (\<lambda>(r, n). record_response ?w (PublishResponse (generic_error (map_ok (\<lambda>_. address) r))) n)
      (Some (publish_steps N x d a eh n))"
    using init found
    by (simp add: network_reduce_def action_wrapper_new_def reduce_publish_def reduce_publish_inner_def
        when_initialized_def net_initialized_def)
  then show ?thesis
    using k by (cases "msgs = []")
      (auto simp: publish_steps_sends sent init(1) record_response_def generic_error_def simp flip: msgs
        intro!: exI [of _ k])
qed

theorem publish_sends_in_order_witness:
  "let e = AppEntry ''post'' ''hi'';
       h = chain_header_new (AppType ''post'') ''QmE'' [] None None (Some ''QmOld'') ''t'';
       x = table_ext [(e, ''E'')] [];
       n = network_state_new\<lparr>net_handle := Some sample_p2p, net_dna_address := Some ''QmDna'', net_agent_id := Some ''HcAgent''\<rparr>;
       ag = agent_state_new_with_top_chain_header (Some h) ''agent'';
       msgs = published_messages sample_net_ext x ''QmDna'' ''HcAgent'' \<lparr>ewh_entry = e, ewh_header = h\<rparr>
   in \<exists>n'. network_reduce memory_cas x sample_net_ext ''id'' \<lparr>storage = [''QmE'' \<mapsto> ''E'']\<rparr> ag n
          (action_wrapper_new 1 (Publish ''QmE'')) = Some n'
        \<and> net_handle n' = Some (sample_p2p\<lparr>p2p_outbox := msgs\<rparr>) \<and> length msgs = 2"
proof -
  let ?e = "AppEntry ''post'' ''hi''"
  let ?h = "chain_header_new (AppType ''post'') ''QmE'' [] None None (Some ''QmOld'') ''t''"
  let ?x = "table_ext [(?e, ''E'')] []"
  let ?eh = "\<lparr>ewh_entry = ?e, ewh_header = ?h\<rparr>"
  let ?n = "network_state_new\<lparr>net_handle := Some sample_p2p, net_dna_address := Some ''QmDna'', net_agent_id := Some ''HcAgent''\<rparr>"
  let ?msgs = "published_messages sample_net_ext ?x ''QmDna'' ''HcAgent'' ?eh"
  let ?s = "\<lparr>storage = [''QmE'' \<mapsto> ''E'']\<rparr>"
  let ?ag = "agent_state_new_with_top_chain_header (Some ?h) ''agent''"
  have found: "fetch_entry_with_header memory_cas ?x ?s ?ag ''QmE'' = Some (Ok ?eh)"
    by (simp add: fetch_entry_with_header_def fetch_entry_from_cas_def memory_cas_def memory_fetch_def table_ext_def
        entry_try_from_content_def find_chain_header_def chain_header_new_def iter_find_def consume.simps [where limit = 1]
        consume.simps [where limit = 0] iter_next_def entry_address_def content_address_def
        agent_state_new_with_top_chain_header_def chain_next_def entry_content_def)
  obtain k n' where
    "network_reduce memory_cas ?x sample_net_ext ''id'' ?s ?ag ?n (action_wrapper_new 1 (Publish ''QmE'')) = Some n'"
    "net_handle n' = Some (sample_p2p\<lparr>p2p_outbox := p2p_outbox sample_p2p @ take k ?msgs\<rparr>)"
    "k < length ?msgs \<longrightarrow> p2p_fault sample_p2p (p2p_outbox sample_p2p @ take k ?msgs) (?msgs ! k) \<noteq> None"
    using publish_sends_in_order [where n = ?n and p = sample_p2p and d = "''QmDna''" and a = "''HcAgent''"
        and fresh = "''id''" and i = 1, OF _ _ _ found refl, of sample_net_ext]
    by (simp del: take_all_iff) blast
  moreover have "length ?msgs = 2" by (simp add: published_messages_def Let_def chain_header_new_def)
  ultimately show ?thesis
    unfolding Let_def by (simp add: sample_p2p_def)
qed

end
