(* ===== verification/Instance_State.thy ===== *)
theory Instance_State
  imports Capabilities Network
begin

text \<open>
  The state of an instance and its action loop: \<open>core/src/state.rs\<close>, the part of
  \<open>core/src/instance.rs\<close> that changes the state, and \<open>core/src/persister.rs\<close>.

  Every context builder gives the chain and the DHT one content storage, so the state holds one
  storage for both, and one metadata storage. The reducers of the four slices run in order and
  see the slices of the old state but the storages as the reducers before them left them. What a
  step reads from outside is its \<open>moment\<close>: the signing function, the two clocks and the fresh
  id. The history is a table keyed by action id, because action wrappers are compared by id.
  Signals, observers and the conductor's interface are not modelled.
\<close>

section \<open>The state\<close>

record ('s, 'e) State =
  st_nucleus :: NucleusState
  st_agent :: AgentState
  st_dht :: DhtStore
  st_network :: NetworkState
  st_history :: "unit action_map"
  st_cas :: 's
  st_eav :: 'e

record moment =
  mo_sign :: "string \<Rightarrow> string HcResult"
  mo_now :: Iso8601
  mo_clock :: "nat \<Rightarrow> i64"
  mo_fresh :: string

definition state_new :: "Address \<Rightarrow> 's \<Rightarrow> 'e \<Rightarrow> ('s, 'e) State" where
  "state_new agent s m =
     \<lparr>st_nucleus = nucleus_state_new, st_agent = agent_state_new agent, st_dht = dht_store_new,
      st_network = network_state_new, st_history = Map.empty, st_cas = s, st_eav = m\<rparr>"

definition get_dna :: "'s cas_ops \<Rightarrow> ext \<Rightarrow> 's \<Rightarrow> AgentState \<Rightarrow> Dna HcResult option" where
  "get_dna C x s ag =
     map_option (\<lambda>hs.
         and_then (ok_or (ErrorGeneric ''No DNA entry found in source chain while creating state from agent'')
           (last_opt hs)) (\<lambda>h.
         and_then (cas_fetch C s (h_entry_address h)) (\<lambda>json.
         and_then (ok_or (ErrorGeneric ''No DNA entry found in storage while creating state from agent'') json) (\<lambda>j.
         and_then (entry_try_from_content x j) (\<lambda>e.
           case e of DnaEntry dna \<Rightarrow> Ok dna
           | _ \<Rightarrow> Err (SerializationError ''Tried to get Dna from non-Dna Entry''))))))
       (iter_type C x s (ag_top_chain_header ag) DnaType (\<lambda>_. True) 0 usize_max)"

definition new_with_agent_and_nucleus ::
    "'s cas_ops \<Rightarrow> ext \<Rightarrow> 's \<Rightarrow> 'e \<Rightarrow> AgentState \<Rightarrow> NucleusState \<Rightarrow> ('s, 'e) State option" where
  "new_with_agent_and_nucleus C x s m ag nuc =
     map_option (\<lambda>dna.
         \<lparr>st_nucleus = nuc\<lparr>nuc_dna := to_ok dna\<rparr>, st_agent = ag, st_dht = dht_store_new,
          st_network = network_state_new, st_history = Map.empty, st_cas = s, st_eav = m\<rparr>)
       (get_dna C x s ag)"

definition new_with_agent :: "'s cas_ops \<Rightarrow> ext \<Rightarrow> 's \<Rightarrow> 'e \<Rightarrow> AgentState \<Rightarrow> ('s, 'e) State option" where
  "new_with_agent C x s m ag = new_with_agent_and_nucleus C x s m ag nucleus_state_new"


section \<open>Reducing\<close>

definition state_reduce ::
    "'s cas_ops \<Rightarrow> 'e eav_ops \<Rightarrow> ext \<Rightarrow> net_ext \<Rightarrow> moment \<Rightarrow> ('s, 'e) State \<Rightarrow> ActionWrapper \<Rightarrow> ('s, 'e) State option" where
  "state_reduce C E x N mo st w =
     (let nucleus = nucleus_reduce x (st_nucleus st) w in
      case agent_reduce C x (mo_sign mo) (mo_now mo) (st_cas st) (st_agent st) w of
        None \<Rightarrow> None
      | Some (agent, s1) \<Rightarrow>
          (case dht_reduce C E x (mo_clock mo) s1 (st_eav st) (st_dht st) w of
             None \<Rightarrow> None
           | Some (dht, s2, m) \<Rightarrow>
               (case network_reduce C x N (mo_fresh mo) s2 (st_agent st) (st_network st) w of
                  None \<Rightarrow> None
                | Some network \<Rightarrow>
                    Some \<lparr>st_nucleus = nucleus, st_agent = agent, st_dht = dht, st_network = network,
                      st_history = actions_insert w () (st_history st), st_cas = s2, st_eav = m\<rparr>)))"

definition state_get_headers ::
    "'s cas_ops \<Rightarrow> 'e eav_ops \<Rightarrow> ext \<Rightarrow> ('s, 'e) State \<Rightarrow> Address \<Rightarrow> ChainHeader list HcResult option" where
  "state_get_headers C E x st a =
     map_option (\<lambda>headers.
         let header_addresses = map (header_address x) headers in
         and_then (fetch_eavi E (st_eav st) (meta_query a EntryHeaderAttr)) (\<lambda>vs.
         and_then (collect_results (map (cas_fetch C (st_cas st))
           (filter (\<lambda>h. h \<notin> set header_addresses) (map val vs)))) (\<lambda>cs.
         map_ok (\<lambda>dht_headers. headers @ dht_headers)
           (collect_results (map (header_try_from_content x) (flatten_options cs))))))
       (iter_chain C x (st_cas st) (st_agent st) (\<lambda>h. h_entry_address h = a) 0 usize_max)"

section \<open>Persisting\<close>







section \<open>A commit seen by all slices\<close>

context shard
begin

lemma store_entry_ok:
  assumes s: "inv s" "valid (entry_address x e)" and m: "eavi_set (contents m)" "length (contents m) < 2 ^ 64"
  obtains s' m' where "reduce_store_entry_inner cops eops x now s m e = Some (Ok (), s', m')" "inv s'"
    "\<And>b. valid b \<Longrightarrow> lookup s' b = (if b = entry_address x e then Some (entry_content x e) else lookup s b)"
    "eavi_set (contents m')"
    "\<And>a attr. recorded (contents m') a attr =
       (if entry_address x e = a \<and> attr = CrudStatusAttr then insert ''live'' (recorded (contents m) a attr)
        else recorded (contents m) a attr)"
proof -
  let ?v = "\<lparr>entity = entry_address x e, attribute = CrudStatusAttr, val = ''live'', index = now\<rparr>"
  obtain s' where s': "cas_add cops s (entry_addressable x e) = (Ok (), s')" "inv s'"
      "\<And>b. valid b \<Longrightarrow> lookup s' b = (if b = entry_address x e then Some (entry_content x e) else lookup s b)"
    using cas.add_cases [OF s] unfolding entry_addressable_def by blast
  obtain m' where m': "put_eavi eops m (Ok ?v) = Some (Ok (), m')" "extends 1 (contents m) (contents m')"
      "\<And>a attr. recorded (contents m') a attr =
       (if entity ?v = a \<and> attribute ?v = attr then insert (val ?v) (recorded (contents m) a attr)
        else recorded (contents m) a attr)"
    by (rule eav.put_ok [of m ?v]) (use m in auto)
  have "reduce_store_entry_inner cops eops x now s m e = Some (Ok (), s', m')"
    using s'(1) m'(1)
    by (auto simp: reduce_store_entry_inner_def put_eavi_def create_crud_status_eav_def eavi_new_def
        validate_attribute_def split: prod.splits)
  then show thesis
    using s'(2,3) m'(2,3) by (intro that [of s' m']) (auto simp: extends_def)
qed

lemma state_commit:
  fixes st :: "('s, 'e) State" and h :: ChainHeader
  assumes s: "inv (st_cas st)" and wf: "chain_wf x (lookup (st_cas st)) hs"
    and v: "\<forall>h\<in>set hs. valid (header_address x h)"
    and top: "ag_top_chain_header (st_agent st) = chain_top hs"
    and sign: "mo_sign mo (entry_address x e) = Ok sig"
    and h: "h = next_header x (st_agent st) hs e lud provs sig (mo_now mo)"
    and va: "valid (entry_address x e)" "valid (header_address x h)"
    and parse: "header_try_from_content x (header_content x h) = Ok h"
    and free: "no_clash (lookup (st_cas st)) [entry_addressable x e, header_addressable x h]"
    and m: "eavi_set (contents (st_eav st))" "length (contents (st_eav st)) < 2 ^ 64"
    and w: "aw_action w = Commit e lud provs"
  obtains st' where "state_reduce cops eops x N mo st w = Some st'"
    "ag_top_chain_header (st_agent st') = Some h" "chain_wf x (lookup (st_cas st')) (h # hs)" "inv (st_cas st')"
    "lookup (st_cas st') (entry_address x e) = Some (entry_content x e)"
    "\<And>a c. valid a \<Longrightarrow> lookup (st_cas st) a = Some c \<Longrightarrow> lookup (st_cas st') a = Some c"
    "eavi_set (contents (st_eav st'))"
    "\<And>a attr. recorded (contents (st_eav st')) a attr =
       (if entry_address x e = a \<and> attr = CrudStatusAttr then insert ''live'' (recorded (contents (st_eav st)) a attr)
        else recorded (contents (st_eav st)) a attr)"
    "st_nucleus st' = st_nucleus st" "st_network st' = st_network st"
    "st_history st' = actions_insert w () (st_history st)"
proof -
  obtain ag' s1 where c: "agent_reduce_commit_entry cops x (mo_sign mo) (mo_now mo) (st_cas st) (st_agent st) w e lud provs
        = Some (ag', s1)"
    "ag_top_chain_header ag' = Some h" "chain_wf x (lookup s1) (h # hs)" "inv s1"
    "lookup s1 (entry_address x e) = Some (entry_content x e)"
    "\<And>a c. valid a \<Longrightarrow> lookup (st_cas st) a = Some c \<Longrightarrow> lookup s1 a = Some c"
    by (rule cas.commit_wf [where sign = "mo_sign mo" and w = w, OF s wf v top sign h va parse free]) blast
  obtain s2 m2 where d: "reduce_store_entry_inner cops eops x (mo_clock mo 0) s1 (st_eav st) e = Some (Ok (), s2, m2)" "inv s2"
    "\<And>b. valid b \<Longrightarrow> lookup s2 b = (if b = entry_address x e then Some (entry_content x e) else lookup s1 b)"
    "eavi_set (contents m2)"
    "\<And>a attr. recorded (contents m2) a attr =
       (if entry_address x e = a \<and> attr = CrudStatusAttr then insert ''live'' (recorded (contents (st_eav st)) a attr)
        else recorded (contents (st_eav st)) a attr)"
    by (rule store_entry_ok [where now = "mo_clock mo 0", OF c(4) va(1) m]) blast
  have same: "lookup s2 b = lookup s1 b" if "valid b" for b
    using d(3) [OF that] c(5) by simp
  have "chain_wf x (lookup s2) (h # hs)"
    by (rule chain_wf_mono [OF c(3)]) (use v va(2) same in auto)
  then show thesis
    using c d same va(1)
    by (intro that [of "\<lparr>st_nucleus = st_nucleus st, st_agent = ag', st_dht = st_dht st, st_network = st_network st,
          st_history = actions_insert w () (st_history st), st_cas = s2, st_eav = m2\<rparr>"])
      (simp_all add: state_reduce_def nucleus_reduce_def agent_reduce_def dht_reduce_def dht_reduce_commit_entry_def
        network_reduce_def w)
qed

lemma state_headers_eq:
  fixes st :: "('s, 'e) State"
  assumes "inv (st_cas st)" "chain_wf x (lookup (st_cas st)) hs" "\<forall>h\<in>set hs. valid (header_address x h)"
    and "ag_top_chain_header (st_agent st) = chain_top hs" "length hs < 2 ^ 64"
    and m: "eavi_set (contents (st_eav st))" "recorded (contents (st_eav st)) a EntryHeaderAttr = {}"
  shows "state_get_headers cops eops x st a = Some (Ok (filter (\<lambda>h. h_entry_address h = a) hs))"
proof -
  let ?P = "\<lambda>h. h_entry_address h = a"
  have "iter_chain cops x (st_cas st) (st_agent st) ?P 0 usize_max = Some (filter ?P hs)"
    using consume_linked [OF cas.iter_linked [OF assms(1-3)], of ?P 0 usize_max]
      le_less_trans [OF length_filter_le assms(5), of ?P] assms(4)
    by (simp add: iter_chain_def usize_max_def)
  moreover have "query_run (meta_query a EntryHeaderAttr) (contents (st_eav st)) = []"
    using meta_query_vals(1) [OF m(1), of a EntryHeaderAttr] m(2) by simp
  ultimately show ?thesis
    by (simp add: state_get_headers_def eav.fetch_run)
qed

end

section \<open>Restarting\<close>




section \<open>Properties\<close>

text \<open>C22: A commit is visible through every slice at once. Reducing the commit of an entry the
  shard knows nothing about, on a state with a well-formed chain, leaves the entry readable from
  the agent's chain and from the DHT, where it is live, lists the new header first among its
  headers, records the action in the history, and leaves the nucleus and the network alone.\<close>

theorem committed_entry_readable:
  fixes st :: "(MemoryStorage, EavMemoryStorage) State"
  assumes wf: "chain_wf x (storage (st_cas st)) hs" and top: "ag_top_chain_header (st_agent st) = chain_top hs"
    and len: "length hs < 2 ^ 64 - 1" and sign: "mo_sign mo (entry_address x e) = Ok sig"
    and h: "h = next_header x (st_agent st) hs e lud provs sig (mo_now mo)"
    and parse: "header_try_from_content x (header_content x h) = Ok h" "entry_try_from_content x (entry_content x e) = Ok e"
    and free: "no_clash (storage (st_cas st)) [entry_addressable x e, header_addressable x h]"
    and m: "eavi_set (eav_storage (st_eav st))" "length (eav_storage (st_eav st)) < 2 ^ 64"
    and new: "\<forall>attr. recorded (eav_storage (st_eav st)) (entry_address x e) attr = {}"
    and w: "w = action_wrapper_new i (Commit e lud provs)"
  shows "\<exists>st'. state_reduce memory_cas memory_eav x N mo st w = Some st'
    \<and> get_entry_from_agent_chain memory_cas x (st_cas st') (st_agent st') (entry_address x e) = Some (Ok (Some e))
    \<and> get_entry_with_meta memory_cas memory_eav x (st_cas st') (st_eav st') (entry_address x e) =
        Some (Ok (Some \<lparr>ewm_entry = e, ewm_crud_status = Live, ewm_maybe_link_update_delete = None\<rparr>))
    \<and> state_get_headers memory_cas memory_eav x st' (entry_address x e) =
        Some (Ok (h # filter (\<lambda>g. h_entry_address g = entry_address x e) hs))
    \<and> actions_get w (st_history st') = Some ()
    \<and> st_nucleus st' = st_nucleus st \<and> st_network st' = st_network st"
proof -
  have act: "aw_action w = Commit e lud provs" by (simp add: w action_wrapper_new_def)
  obtain st' where st': "state_reduce memory_cas memory_eav x N mo st w = Some st'"
    "ag_top_chain_header (st_agent st') = Some h" "chain_wf x (storage (st_cas st')) (h # hs)"
    "storage (st_cas st') (entry_address x e) = Some (entry_content x e)"
    "eavi_set (eav_storage (st_eav st'))"
    "\<And>a attr. recorded (eav_storage (st_eav st')) a attr =
       (if entry_address x e = a \<and> attr = CrudStatusAttr then insert ''live'' (recorded (eav_storage (st_eav st)) a attr)
        else recorded (eav_storage (st_eav st)) a attr)"
    "st_nucleus st' = st_nucleus st" "st_network st' = st_network st"
    "st_history st' = actions_insert w () (st_history st)"
    by (rule msh.state_commit [where N = N, OF _ wf _ top sign h _ _ parse(1) free m act]) simp_all
  have top': "ag_top_chain_header (st_agent st') = chain_top (h # hs)" using st'(2) by simp
  have ea: "h_entry_address h = entry_address x e"
    by (simp add: h next_header_def chain_header_new_def)
  have "get_entry_from_agent_chain memory_cas x (st_cas st') (st_agent st') (entry_address x e) = Some (Ok (Some e))"
    unfolding get_entry_from_agent_chain_def top'
    using iter_find_linked [OF mem.iter_linked [where s = "st_cas st'" and x = x and hs = "h # hs"]] st'(3,4) parse(2) ea
    by (simp add: get_entry_from_cas_def mem.fetch_lookup)
  moreover have "get_entry_with_meta memory_cas memory_eav x (st_cas st') (st_eav st') (entry_address x e) =
        Some (Ok (Some \<lparr>ewm_entry = e, ewm_crud_status = Live, ewm_maybe_link_update_delete = None\<rparr>))"
    using st'(4,5) parse(2) new by (simp add: msh.with_meta_eq st'(6) crud_meta_of_def current_status_def)
  moreover have "state_get_headers memory_cas memory_eav x st' (entry_address x e) =
        Some (Ok (h # filter (\<lambda>g. h_entry_address g = entry_address x e) hs))"
    using msh.state_headers_eq [where st = st' and x = x and hs = "h # hs" and a = "entry_address x e"] st'(3,5) top' len new ea by (simp add: st'(6))
  ultimately show ?thesis using st' by auto
qed


definition sample_moment :: moment where
  "sample_moment = \<lparr>mo_sign = (\<lambda>_. Ok ''sig''), mo_now = ''t2'', mo_clock = (\<lambda>_. 7), mo_fresh = ''id''\<rparr>"

theorem committed_entry_readable_witness:
  "let e = AppEntry ''post'' ''hi'';
       h1 = chain_header_new AgentIdType ''alice'' [] None None None ''t1'';
       h2 = chain_header_new (AppType ''post'') ''QmE'' [provenance_new ''alice'' ''sig''] (Some ''QmH1'') None None ''t2'';
       x = table_ext [(e, ''E'')] [(h1, ''H1''), (h2, ''H2'')];
       st = (state_new ''alice'' \<lparr>storage = [''QmH1'' \<mapsto> ''H1'']\<rparr> \<lparr>eav_storage = []\<rparr>)
              \<lparr>st_agent := agent_state_new_with_top_chain_header (Some h1) ''alice''\<rparr>
   in \<exists>st'. state_reduce memory_cas memory_eav x sample_net_ext sample_moment st (action_wrapper_new 1 (Commit e None [])) = Some st'
        \<and> get_entry_with_meta memory_cas memory_eav x (st_cas st') (st_eav st') ''QmE'' =
            Some (Ok (Some \<lparr>ewm_entry = e, ewm_crud_status = Live, ewm_maybe_link_update_delete = None\<rparr>))
        \<and> state_get_headers memory_cas memory_eav x st' ''QmE'' = Some (Ok [h2])"
proof -
  let ?e = "AppEntry ''post'' ''hi''"
  let ?h1 = "chain_header_new AgentIdType ''alice'' [] None None None ''t1''"
  let ?h2 = "chain_header_new (AppType ''post'') ''QmE'' [provenance_new ''alice'' ''sig''] (Some ''QmH1'') None None ''t2''"
  let ?x = "table_ext [(?e, ''E'')] [(?h1, ''H1''), (?h2, ''H2'')]"
  let ?st = "(state_new ''alice'' \<lparr>storage = [''QmH1'' \<mapsto> ''H1'']\<rparr> \<lparr>eav_storage = []\<rparr>)
              \<lparr>st_agent := agent_state_new_with_top_chain_header (Some ?h1) ''alice''\<rparr>"
  have ea: "entry_address ?x ?e = ''QmE''" by code_simp
  have other: "h_entry_address ?h1 = ''alice''" by (simp add: chain_header_new_def)
  have "chain_wf ?x (storage (st_cas ?st)) [?h1]" by code_simp
  moreover have "?h2 = next_header ?x (st_agent ?st) [?h1] ?e None [] ''sig'' (mo_now sample_moment)" by code_simp
  moreover have "header_try_from_content ?x (header_content ?x ?h2) = Ok ?h2" by code_simp
  moreover have "entry_try_from_content ?x (entry_content ?x ?e) = Ok ?e" by code_simp
  moreover have "no_clash (storage (st_cas ?st)) [entry_addressable ?x ?e, header_addressable ?x ?h2]" by code_simp
  moreover have "ag_top_chain_header (st_agent ?st) = chain_top [?h1]"
    by (simp add: agent_state_new_with_top_chain_header_def)
  moreover have "mo_sign sample_moment (entry_address ?x ?e) = Ok ''sig''" by (simp add: sample_moment_def)
  moreover have "eav_storage (st_eav ?st) = []" by (simp add: state_new_def)
  ultimately show ?thesis
    unfolding Let_def
    using committed_entry_readable [of ?x ?st "[?h1]" sample_moment ?e "''sig''" ?h2 None "[]"
        "action_wrapper_new 1 (Commit ?e None [])" 1 sample_net_ext]
    by (auto simp: recorded_def ea other)
qed


end
