(* ===== verification/Entry_Lookup.thy ===== *)
theory Entry_Lookup
  imports Instance_State
begin

text \<open>
  Reading entries and links: the workflows \<open>get_entry_with_meta_workflow\<close>,
  \<open>get_entry_result_workflow\<close> and \<open>get_link_result_workflow\<close> of \<open>core/src/workflows/\<close>, the results
  they build (\<open>wasm_utils/src/api_serialization/get_entry.rs\<close>, \<open>get_links.rs\<close>), and the futures of
  \<open>core/src/network/actions/\<close> they wait on.

  A lookup that is not answered locally waits for the network, whose answer is an argument. The
  loop that follows the updates of an entry has no bound, so it is a partial function: its outer
  \<open>None\<close> is running forever, its inner \<open>None\<close> a panic. As other actions may be reduced while
  it runs, its lookups are numbered; the properties are about lookups that do not change.
\<close>

section \<open>Results\<close>

datatype StatusRequestKind = KindInitial | KindLatest | KindAll

record GetEntryOptions =
  geo_status_request :: StatusRequestKind
  geo_entry :: bool
  geo_headers :: bool
  geo_timeout :: u64

definition default_get_entry_options :: GetEntryOptions where
  "default_get_entry_options = \<lparr>geo_status_request = KindLatest, geo_entry = True, geo_headers = False, geo_timeout = 60000\<rparr>"

record GetEntryArgs =
  gea_address :: Address
  gea_options :: GetEntryOptions

record EntryResultMeta =
  erm_address :: Address
  erm_entry_type :: EntryType
  erm_crud_status :: CrudStatus

record GetEntryResultItem =
  item_meta :: "EntryResultMeta option"
  item_entry :: "Entry option"
  item_headers :: "ChainHeader list"

definition get_entry_result_item_new :: "ext \<Rightarrow> (EntryWithMeta \<times> ChainHeader list) option \<Rightarrow> GetEntryResultItem" where
  "get_entry_result_item_new x m =
     (case m of
        Some (em, headers) \<Rightarrow>
          \<lparr>item_meta = Some \<lparr>erm_address = entry_address x (ewm_entry em), erm_entry_type = entry_type (ewm_entry em),
             erm_crud_status = ewm_crud_status em\<rparr>,
           item_entry = Some (ewm_entry em), item_headers = headers\<rparr>
      | None \<Rightarrow> \<lparr>item_meta = None, item_entry = None, item_headers = []\<rparr>)"

record EntryHistory =
  hist_items :: "GetEntryResultItem list"
  hist_crud_links :: "Address \<rightharpoonup> Address"

definition entry_history_new :: EntryHistory where
  "entry_history_new = \<lparr>hist_items = [], hist_crud_links = Map.empty\<rparr>"

definition entry_history_push :: "ext \<Rightarrow> EntryHistory \<Rightarrow> EntryWithMeta \<Rightarrow> ChainHeader list \<Rightarrow> EntryHistory" where
  "entry_history_push x hist em headers =
     (let hist = hist\<lparr>hist_items := hist_items hist @ [get_entry_result_item_new x (Some (em, headers))]\<rparr> in
      case ewm_maybe_link_update_delete em of
        None \<Rightarrow> hist
      | Some b \<Rightarrow> hist\<lparr>hist_crud_links := (hist_crud_links hist)(entry_address x (ewm_entry em) \<mapsto> b)\<rparr>)"

datatype GetEntryResult = SingleResult GetEntryResultItem | AllResult EntryHistory

definition ger_push :: "ext \<Rightarrow> GetEntryResult \<Rightarrow> EntryWithMeta \<Rightarrow> ChainHeader list \<Rightarrow> GetEntryResult" where
  "ger_push x r em headers =
     (case r of
        SingleResult _ \<Rightarrow> SingleResult (get_entry_result_item_new x (Some (em, headers)))
      | AllResult hist \<Rightarrow> AllResult (entry_history_push x hist em headers))"

definition get_entry_result_new ::
    "ext \<Rightarrow> StatusRequestKind \<Rightarrow> (EntryWithMeta \<times> ChainHeader list) option \<Rightarrow> GetEntryResult" where
  "get_entry_result_new x kind m =
     (case kind of
        KindAll \<Rightarrow>
          (case m of None \<Rightarrow> AllResult entry_history_new
           | Some (em, headers) \<Rightarrow> ger_push x (AllResult entry_history_new) em headers)
      | _ \<Rightarrow> SingleResult (get_entry_result_item_new x m))"

definition ger_found :: "GetEntryResult \<Rightarrow> bool" where
  "ger_found r = (case r of SingleResult item \<Rightarrow> item_meta item \<noteq> None | AllResult hist \<Rightarrow> hist_items hist \<noteq> [])"

definition ger_clear :: "ext \<Rightarrow> GetEntryResult \<Rightarrow> GetEntryResult" where
  "ger_clear x r =
     (case r of
        SingleResult _ \<Rightarrow> SingleResult (get_entry_result_item_new x None)
      | AllResult hist \<Rightarrow> AllResult (hist\<lparr>hist_items := []\<rparr>))"

definition ger_latest :: "GetEntryResult \<Rightarrow> Entry option" where
  "ger_latest r =
     (case r of
        SingleResult item \<Rightarrow> item_entry item
      | AllResult hist \<Rightarrow> Option.bind (last_opt (hist_items hist)) item_entry)"

section \<open>Waiting for the network\<close>

text \<open>The futures; \<open>None\<close> is pending.\<close>

definition get_entry_poll :: "NetworkState \<Rightarrow> GetEntryKey \<Rightarrow> EntryWithMetaAndHeader option HcResult option" where
  "get_entry_poll n key =
     (case net_initialized n of
        Err e \<Rightarrow> Some (Err e)
      | Ok _ \<Rightarrow> (case get_entry_with_meta_results n key of Some (Some r) \<Rightarrow> Some r | _ \<Rightarrow> None))"

definition get_links_poll :: "NetworkState \<Rightarrow> GetLinksKey \<Rightarrow> Address list HcResult option" where
  "get_links_poll n key =
     (case net_initialized n of
        Err e \<Rightarrow> Some (Err e)
      | Ok _ \<Rightarrow> (case get_links_results n key of Some (Some r) \<Rightarrow> Some r | _ \<Rightarrow> None))"

section \<open>Entries\<close>

definition get_entry_with_meta_workflow ::
    "'s cas_ops \<Rightarrow> 'e eav_ops \<Rightarrow> ext \<Rightarrow> ('s, 'e) State \<Rightarrow> (Address \<Rightarrow> EntryWithMetaAndHeader option HcResult) \<Rightarrow> Address
     \<Rightarrow> EntryWithMetaAndHeader option HcResult option" where
  "get_entry_with_meta_workflow C E x st net a =
     (case get_entry_with_meta C E x (st_cas st) (st_eav st) a of
        None \<Rightarrow> None
      | Some (Err e) \<Rightarrow> Some (Err e)
      | Some (Ok None) \<Rightarrow> Some (net a)
      | Some (Ok (Some em)) \<Rightarrow>
          map_option (\<lambda>r. case r of
              Ok headers \<Rightarrow> Ok (Some \<lparr>ewmh_entry_with_meta = em, ewmh_headers = headers\<rparr>)
            | Err _ \<Rightarrow> net a)
            (state_get_headers C E x st a))"

partial_function (option) get_entry_loop ::
    "ext \<Rightarrow> (nat \<Rightarrow> Address \<Rightarrow> EntryWithMetaAndHeader option HcResult option) \<Rightarrow> StatusRequestKind \<Rightarrow> bool
     \<Rightarrow> nat \<Rightarrow> GetEntryResult \<Rightarrow> Address \<Rightarrow> GetEntryResult HcResult option option" where
  "get_entry_loop x look kind headers i result a =
     (case look i a of
        None \<Rightarrow> Some None
      | Some (Err e) \<Rightarrow> Some (Some (Err e))
      | Some (Ok None) \<Rightarrow> Some (Some (Ok result))
      | Some (Ok (Some found)) \<Rightarrow>
          (let em = ewmh_entry_with_meta found in
           if kind = KindLatest \<and> ewm_crud_status em = Deleted then Some (Some (Ok (ger_clear x result)))
           else
             let result = ger_push x result em (if headers then ewmh_headers found else []) in
             if kind = KindInitial then Some (Some (Ok result))
             else
               (case ewm_maybe_link_update_delete em of
                  None \<Rightarrow> Some (Some (Ok result))
                | Some b \<Rightarrow>
                    if ewm_crud_status em \<noteq> Deleted then get_entry_loop x look kind headers (Suc i) result b
                    else Some (Some (Ok result)))))"

declare get_entry_loop.simps [code]

definition get_entry_result_workflow ::
    "ext \<Rightarrow> (nat \<Rightarrow> Address \<Rightarrow> EntryWithMetaAndHeader option HcResult option) \<Rightarrow> GetEntryArgs
     \<Rightarrow> GetEntryResult HcResult option option" where
  "get_entry_result_workflow x look args =
     (let opts = gea_options args in
      get_entry_loop x look (geo_status_request opts) (geo_headers opts) 0
        (get_entry_result_new x (geo_status_request opts) None) (gea_address args))"


section \<open>Links\<close>

datatype LinksStatusRequestKind = LinksLive | LinksDeleted | LinksAll

record GetLinksArgs =
  gla_entry_address :: Address
  gla_link_type :: "string option"
  gla_tag :: "string option"
  gla_status_request :: LinksStatusRequestKind
  gla_headers :: bool
  gla_timeout :: u64

record LinksResult =
  lr_address :: Address
  lr_headers :: "ChainHeader list"
  lr_tag :: string

definition link_result ::
    "bool \<Rightarrow> Address \<Rightarrow> EntryWithMetaAndHeader option HcResult \<Rightarrow> LinksResult HcResult" where
  "link_result headers l r =
     (case r of
        Ok (Some found) \<Rightarrow>
          (case ewm_entry (ewmh_entry_with_meta found) of
             LinkAddEntry ld \<Rightarrow> Ok \<lparr>lr_address = link_target (ld_link ld),
               lr_headers = (if headers then ewmh_headers found else []), lr_tag = link_tag (ld_link ld)\<rparr>
           | _ \<Rightarrow> Err (ErrorGeneric
               ''Unknown Error retrieveing link. Most likely EAV entry points to non-link entry type''))
      | Ok None \<Rightarrow> Err (ErrorGeneric (''Could not get link entry for address stored in the EAV entry '' @ l))
      | Err e \<Rightarrow> Err (ErrorGeneric (''Error retrieveing link: '' @ error_debug e)))"

text \<open>The derived debug text of a vector of results that are all errors.\<close>

definition errors_debug :: "HolochainError list \<Rightarrow> string" where
  "errors_debug es = ''['' @ comma_separated (map (\<lambda>e. variant_debug ''Err'' (error_debug e)) es) @ '']''"

definition all_some :: "'a option list \<Rightarrow> 'a list option" where
  "all_some xs = (if None \<in> set xs then None else Some (map the xs))"

definition errs :: "'a HcResult list \<Rightarrow> HolochainError list" where
  "errs rs = concat (map (\<lambda>r. case r of Err e \<Rightarrow> [e] | Ok _ \<Rightarrow> []) rs)"

definition oks :: "'a HcResult list \<Rightarrow> 'a list" where
  "oks rs = concat (map (\<lambda>r. case r of Err _ \<Rightarrow> [] | Ok a \<Rightarrow> [a]) rs)"

definition get_link_result_workflow ::
    "(nat \<Rightarrow> Address \<Rightarrow> EntryWithMetaAndHeader option HcResult option) \<Rightarrow> (Address \<Rightarrow> string option \<Rightarrow> string option \<Rightarrow> Address list HcResult)
     \<Rightarrow> GetLinksArgs \<Rightarrow> LinksResult list HcResult option" where
  "get_link_result_workflow look net_links args =
     (if gla_status_request args \<noteq> LinksLive then Some (Err (ErrorGeneric ''Status rather than live not implemented''))
      else
        case net_links (gla_entry_address args) (gla_link_type args) (gla_tag args) of
          Err e \<Rightarrow> Some (Err e)
        | Ok links \<Rightarrow>
            map_option (\<lambda>answers.
                let results = map (\<lambda>(l, r). link_result (gla_headers args) l r) (zip links answers) in
                if errs results = [] then Ok (oks results)
                else Err (ErrorGeneric (''Could not get links: '' @ errors_debug (errs results))))
              (all_some (map (\<lambda>(i, l). look i l) (enumerate 0 links))))"

section \<open>The updates of an entry\<close>

text \<open>Where the loop goes after an entry, and the entries it passes on a path that ends.\<close>

definition crud_next :: "EntryWithMetaAndHeader \<Rightarrow> Address option" where
  "crud_next f = (if ewm_crud_status (ewmh_entry_with_meta f) = Deleted then None
     else ewm_maybe_link_update_delete (ewmh_entry_with_meta f))"

inductive crud_history ::
    "(Address \<Rightarrow> EntryWithMetaAndHeader option HcResult option) \<Rightarrow> Address \<Rightarrow> EntryWithMetaAndHeader list \<Rightarrow> bool"
  for look where
  missing: "look a = Some (Ok None) \<Longrightarrow> crud_history look a []"
| last_one: "look a = Some (Ok (Some f)) \<Longrightarrow> crud_next f = None \<Longrightarrow> crud_history look a [f]"
| updated: "look a = Some (Ok (Some f)) \<Longrightarrow> crud_next f = Some b \<Longrightarrow> crud_history look b fs \<Longrightarrow> crud_history look a (f # fs)"

fun crud_steps :: "(Address \<Rightarrow> EntryWithMetaAndHeader option HcResult option) \<Rightarrow> nat \<Rightarrow> Address \<Rightarrow> Address option" where
  "crud_steps look 0 a = Some a"
| "crud_steps look (Suc n) a =
     (case look a of Some (Ok (Some f)) \<Rightarrow> Option.bind (crud_next f) (crud_steps look n) | _ \<Rightarrow> None)"

lemma get_entry_loop_returns:
  assumes "crud_steps look n a = None"
  shows "get_entry_loop x (\<lambda>_. look) kind headers i r a \<noteq> None"
  using assms
proof (induction n arbitrary: i r a)
  case (Suc n)
  show ?case
  proof (cases "look a")
    case None
    then show ?thesis by (simp add: get_entry_loop.simps)
  next
    case (Some res)
    show ?thesis
      using Suc Some
      by (subst get_entry_loop.simps)
        (auto simp: Let_def crud_next_def split: sum.splits option.splits if_splits)
  qed
qed simp

lemmas get_entry_loop_induct = get_entry_loop.raw_induct
  [where xa = "((((((x, lk), kind), headers), i), r), a)", unfolded prod.case, rotated, consumes 1, case_names step]
  for x lk kind headers i r a

lemma get_entry_loop_followed:
  assumes "get_entry_loop x lk kind headers i r a = Some y" "lk = (\<lambda>_. look)" "kind \<noteq> KindInitial"
  shows "\<exists>n. crud_steps look n a = None"
  using assms
proof (induction x lk kind headers i r a y rule: get_entry_loop_induct)
  case (step loop x lk kind headers i r a y)
  show ?case
  proof (cases "\<exists>f b. look a = Some (Ok (Some f)) \<and> crud_next f = Some b")
    case True
    then obtain f b where fb: "look a = Some (Ok (Some f))" "crud_next f = Some b" by blast
    then obtain r' where "loop x lk kind headers (Suc i) r' b = Some y"
      using step.hyps step.prems by (auto simp: Let_def crud_next_def split: if_splits)
    then obtain n where "crud_steps look n b = None"
      using step.IH step.prems by blast
    with fb show ?thesis by (intro exI [of _ "Suc n"]) simp
  next
    case False
    then have "crud_steps look (Suc 0) a = None"
      by (auto split: option.splits sum.splits)
    then show ?thesis ..
  qed
qed



text \<open>On a path that ends, the loop pushes the entries it passes, and clears the result when it
  looks for the latest and the last one is deleted.\<close>

definition push_found :: "ext \<Rightarrow> bool \<Rightarrow> GetEntryResult \<Rightarrow> EntryWithMetaAndHeader \<Rightarrow> GetEntryResult" where
  "push_found x headers r f = ger_push x r (ewmh_entry_with_meta f) (if headers then ewmh_headers f else [])"

definition is_deleted :: "EntryWithMetaAndHeader \<Rightarrow> bool" where
  "is_deleted f \<longleftrightarrow> ewm_crud_status (ewmh_entry_with_meta f) = Deleted"

lemma get_entry_loop_history:
  assumes "crud_history look a fs" "kind \<noteq> KindInitial" "kind = KindLatest \<Longrightarrow> \<exists>item. r = SingleResult item"
  shows "get_entry_loop x (\<lambda>_. look) kind headers i r a = Some (Some (Ok
    (if kind = KindLatest \<and> fs \<noteq> [] \<and> is_deleted (last fs) then SingleResult (get_entry_result_item_new x None)
     else foldl (push_found x headers) r fs)))"
  using assms
proof (induction arbitrary: i r rule: crud_history.induct)
  case (missing a)
  then show ?case by (simp add: get_entry_loop.simps)
next
  case (last_one a f)
  then show ?case
    by (subst get_entry_loop.simps)
      (auto simp: Let_def is_deleted_def crud_next_def push_found_def ger_clear_def split: option.splits if_splits)
next
  case (updated a f b fs)
  have fs: "fs \<noteq> [] \<or> \<not> is_deleted f"
    using updated.hyps(2) by (auto simp: crud_next_def is_deleted_def split: if_splits)
  have single: "kind = KindLatest \<Longrightarrow> \<exists>item. push_found x headers r f = SingleResult item"
    using updated.prems(2) by (auto simp: push_found_def ger_push_def)
  show ?case
    using updated.hyps updated.prems(1) updated.IH [OF updated.prems(1) single] fs
    by (subst get_entry_loop.simps)
      (auto simp: Let_def is_deleted_def crud_next_def push_found_def split: if_splits)
qed

definition found_item :: "ext \<Rightarrow> bool \<Rightarrow> EntryWithMetaAndHeader \<Rightarrow> GetEntryResultItem" where
  "found_item x headers f = get_entry_result_item_new x (Some (ewmh_entry_with_meta f, if headers then ewmh_headers f else []))"

definition found_links :: "ext \<Rightarrow> EntryWithMetaAndHeader list \<Rightarrow> (Address \<times> Address) list" where
  "found_links x fs = concat (map (\<lambda>f. case ewm_maybe_link_update_delete (ewmh_entry_with_meta f) of
     None \<Rightarrow> [] | Some b \<Rightarrow> [(entry_address x (ewm_entry (ewmh_entry_with_meta f)), b)]) fs)"

lemma push_found_single: "foldl (push_found x headers) (SingleResult item) fs =
    SingleResult (if fs = [] then item else found_item x headers (last fs))"
  by (induction fs arbitrary: item) (auto simp: push_found_def ger_push_def found_item_def)

lemma push_found_all: "foldl (push_found x headers) (AllResult hist) fs = AllResult
    \<lparr>hist_items = hist_items hist @ map (found_item x headers) fs,
     hist_crud_links = hist_crud_links hist ++ map_of (rev (found_links x fs))\<rparr>"
proof (induction fs arbitrary: hist)
  case Nil
  then show ?case by (simp add: found_links_def)
next
  case (Cons f fs)
  have "push_found x headers (AllResult hist) f = AllResult
      \<lparr>hist_items = hist_items hist @ [found_item x headers f],
       hist_crud_links = hist_crud_links hist ++ map_of (rev (found_links x [f]))\<rparr>"
    by (simp add: push_found_def ger_push_def entry_history_push_def Let_def found_item_def found_links_def
        split: option.split)
  moreover have "found_links x (f # fs) = found_links x [f] @ found_links x fs"
    by (simp add: found_links_def)
  ultimately show ?case
    by (simp add: Cons del: map_add_assoc) (simp add: map_add_assoc)
qed


context shard
begin

lemma state_update:
  fixes st :: "('s, 'e) State"
  assumes "eavi_set (contents (st_eav st))" "length (contents (st_eav st)) + 2 \<le> 2 ^ 64" "aw_action w = UpdateEntry a b"
  obtains st' where "state_reduce cops eops x N mo st w = Some st'" "st_cas st' = st_cas st" "st_agent st' = st_agent st"
    "eavi_set (contents (st_eav st'))" "length (contents (st_eav st')) \<le> length (contents (st_eav st)) + 2"
    "recorded (contents (st_eav st')) a CrudStatusAttr = insert ''modified'' (recorded (contents (st_eav st)) a CrudStatusAttr)"
    "recorded (contents (st_eav st')) a CrudLinkAttr = insert b (recorded (contents (st_eav st)) a CrudLinkAttr)"
    "\<And>d attr. d \<noteq> a \<or> attr \<notin> {CrudStatusAttr, CrudLinkAttr} \<Longrightarrow>
       recorded (contents (st_eav st')) d attr = recorded (contents (st_eav st)) d attr"
proof -
  obtain m' where m': "record_crud eops (st_eav st) (create_crud_status_eav (mo_clock mo 0) a Modified)
      (create_crud_link_eav (mo_clock mo 1) a b) b = Some (Ok b, m')"
    "extends 2 (contents (st_eav st)) (contents m')"
    "recorded (contents m') a CrudStatusAttr = insert ''modified'' (recorded (contents (st_eav st)) a CrudStatusAttr)"
    "recorded (contents m') a CrudLinkAttr = insert b (recorded (contents (st_eav st)) a CrudLinkAttr)"
    "\<And>d attr. d \<noteq> a \<or> attr \<notin> {CrudStatusAttr, CrudLinkAttr} \<Longrightarrow>
       recorded (contents m') d attr = recorded (contents (st_eav st)) d attr"
    by (rule eav.record_crud_ok [OF assms(1,2), of "mo_clock mo 0" a Modified "mo_clock mo 1" b b]) simp
  let ?st = "st\<lparr>st_dht := (st_dht st)\<lparr>dht_actions := actions_insert w (Ok b) (dht_actions (st_dht st))\<rparr>,
    st_history := actions_insert w () (st_history st), st_eav := m'\<rparr>"
  have "state_reduce cops eops x N mo st w = Some ?st"
    using m'(1)
    by (simp add: state_reduce_def nucleus_reduce_def agent_reduce_def dht_reduce_def network_reduce_def assms(3)
        record_answer_def reduce_update_entry_inner_def)
  then show thesis
    using m' by (intro that [of ?st]) (auto simp: extends_def)
qed

lemma lookup_updated:
  fixes st :: "('s, 'e) State"
  assumes "inv (st_cas st)" "chain_wf x (lookup (st_cas st)) hs" "\<forall>h\<in>set hs. valid (header_address x h)"
    and "ag_top_chain_header (st_agent st) = chain_top hs" "length hs < 2 ^ 64" "eavi_set (contents (st_eav st))"
    and "valid a" "lookup (st_cas st) a = Some c" "entry_try_from_content x c = Ok e"
    and "recorded (contents (st_eav st)) a CrudStatusAttr = {''live'', ''modified'' }"
      "recorded (contents (st_eav st)) a CrudLinkAttr = {b}" "recorded (contents (st_eav st)) a EntryHeaderAttr = {}"
  shows "get_entry_with_meta_workflow cops eops x st net a = Some (Ok (Some
    \<lparr>ewmh_entry_with_meta = \<lparr>ewm_entry = e, ewm_crud_status = Modified, ewm_maybe_link_update_delete = Some b\<rparr>,
     ewmh_headers = filter (\<lambda>h. h_entry_address h = a) hs\<rparr>))"
  using assms
  by (simp add: get_entry_with_meta_workflow_def with_meta_eq state_headers_eq [OF assms(1-6) assms(12)] crud_meta_of_def
      current_status_def)

end

section \<open>Properties\<close>

text \<open>C24: What a request for an entry answers. When the lookups find a chain of updates that ends,
  the request returns: the first entry when the initial one is asked for; the last one, or nothing
  if it is deleted or missing, when the latest one is asked for; and all of them in order, with
  the links between them, when the whole history is asked for.\<close>

theorem get_entry_follows_updates:
  assumes "crud_history look a fs"
  shows "get_entry_result_workflow x (\<lambda>_. look) \<lparr>gea_address = a, gea_options = opts\<rparr> = Some (Some (Ok
    (case geo_status_request opts of
       KindInitial \<Rightarrow> SingleResult (if fs = [] then get_entry_result_item_new x None
         else found_item x (geo_headers opts) (hd fs))
     | KindLatest \<Rightarrow> SingleResult (if fs = [] \<or> is_deleted (last fs) then get_entry_result_item_new x None
         else found_item x (geo_headers opts) (last fs))
     | KindAll \<Rightarrow> AllResult \<lparr>hist_items = map (found_item x (geo_headers opts)) fs,
         hist_crud_links = map_of (rev (found_links x fs))\<rparr>)))"
proof (cases "geo_status_request opts")
  case KindInitial
  from assms show ?thesis
    by (cases rule: crud_history.cases)
      (simp_all add: KindInitial get_entry_result_workflow_def get_entry_loop.simps get_entry_result_new_def Let_def
        ger_push_def found_item_def)
next
  case KindLatest
  then show ?thesis
    using get_entry_loop_history [OF assms, of KindLatest]
    by (simp add: get_entry_result_workflow_def get_entry_result_new_def push_found_single)
next
  case KindAll
  then show ?thesis
    using get_entry_loop_history [OF assms, of KindAll]
    by (simp add: get_entry_result_workflow_def get_entry_result_new_def push_found_all entry_history_new_def)
qed

text \<open>When a request for an entry returns. A request for the initial entry always does; the
  others return exactly when the links from version to version come to an end.\<close>

theorem get_entry_returns_iff:
  "get_entry_result_workflow x (\<lambda>_. look) \<lparr>gea_address = a, gea_options = opts\<rparr> \<noteq> None \<longleftrightarrow>
     geo_status_request opts = KindInitial \<or> (\<exists>n. crud_steps look n a = None)"
proof (cases "geo_status_request opts = KindInitial")
  case True
  then show ?thesis
    unfolding get_entry_result_workflow_def Let_def
    by (subst get_entry_loop.simps) (simp add: Let_def split: option.split sum.split)
next
  case False
  show ?thesis
    using False get_entry_loop_returns get_entry_loop_followed [OF _ refl False]
    by (auto simp: get_entry_result_workflow_def Let_def)
qed



theorem get_entry_follows_updates_witness:
  "let f = \<lparr>ewmh_entry_with_meta = \<lparr>ewm_entry = AppEntry ''post'' ''hi'', ewm_crud_status = Modified,
              ewm_maybe_link_update_delete = Some ''QmB''\<rparr>, ewmh_headers = []\<rparr>;
       g = \<lparr>ewmh_entry_with_meta = \<lparr>ewm_entry = AppEntry ''post'' ''hello'', ewm_crud_status = Live,
              ewm_maybe_link_update_delete = None\<rparr>, ewmh_headers = []\<rparr>;
       look = (\<lambda>a. Some (Ok (if a = ''QmA'' then Some f else if a = ''QmB'' then Some g else None)))
   in get_entry_result_workflow (table_ext [] []) (\<lambda>_. look) \<lparr>gea_address = ''QmA'', gea_options = default_get_entry_options\<rparr>
        = Some (Some (Ok (SingleResult (found_item (table_ext [] []) False g))))"
proof -
  let ?f = "\<lparr>ewmh_entry_with_meta = \<lparr>ewm_entry = AppEntry ''post'' ''hi'', ewm_crud_status = Modified,
              ewm_maybe_link_update_delete = Some ''QmB''\<rparr>, ewmh_headers = []\<rparr>"
  let ?g = "\<lparr>ewmh_entry_with_meta = \<lparr>ewm_entry = AppEntry ''post'' ''hello'', ewm_crud_status = Live,
              ewm_maybe_link_update_delete = None\<rparr>, ewmh_headers = []\<rparr>"
  let ?look = "\<lambda>a. Some (Ok (if a = ''QmA'' then Some ?f else if a = ''QmB'' then Some ?g else None))"
  have "crud_history ?look ''QmA'' [?f, ?g]"
    by (rule crud_history.updated [of _ _ _ "''QmB''"], simp, simp add: crud_next_def, rule crud_history.last_one)
      (simp_all add: crud_next_def)
  from get_entry_follows_updates [OF this, of "table_ext [] []" default_get_entry_options] show ?thesis
    by (simp add: default_get_entry_options_def is_deleted_def)
qed



end
