(* ===== verification/Validation.thy ===== *)
theory Validation
  imports Entry_Lookup
begin

text \<open>
  Validation of entries: \<open>core/src/nucleus/validation/*.rs\<close>, the callbacks it runs
  (\<open>nucleus/actions/run_validation_callback.rs\<close>, \<open>nucleus/ribosome/callback/*.rs\<close>) and the
  validation packages an author builds (\<open>nucleus/actions/build_validation_package.rs\<close>).

  These functions dispatch actions and wait for their results to appear in the state. A run is
  described by its result and the actions it dispatched, in order: a \<open>flow\<close>. The result \<open>None\<close> is a
  panic, or waiting forever. What a function reads from the state, and what its futures and the
  WASM of the application return, are the fields of a record; as nothing relates the fields to
  each other, other actions may be reduced at any moment in between. \<open>context_at\<close> is the record
  of one state.
\<close>

section \<open>Flows\<close>

type_synonym ('e, 'a) flow = "('e + 'a) option \<times> Action list"

definition flow_then :: "('e, 'a) flow \<Rightarrow> ('a \<Rightarrow> ('e, 'b) flow) \<Rightarrow> ('e, 'b) flow" where
  "flow_then m f =
     (case m of
        (Some (Ok a), as) \<Rightarrow> (case f a of (r, bs) \<Rightarrow> (r, as @ bs))
      | (Some (Err e), as) \<Rightarrow> (Some (Err e), as)
      | (None, as) \<Rightarrow> (None, as))"

definition flow_wait :: "('e + 'a) option \<Rightarrow> ('e, 'a) flow" where
  "flow_wait r = (r, [])"

definition flow_result :: "'e + 'a \<Rightarrow> ('e, 'a) flow" where
  "flow_result r = flow_wait (Some r)"

definition flow_dispatch :: "Action \<Rightarrow> ('e, unit) flow" where
  "flow_dispatch a = (Some (Ok ()), [a])"

text \<open>\<open>map_err\<close> with a closure that may dispatch.\<close>

definition flow_map_err :: "('e \<Rightarrow> 'f \<times> Action list) \<Rightarrow> ('e, 'a) flow \<Rightarrow> ('f, 'a) flow" where
  "flow_map_err h m =
     (case m of
        (Some (Ok a), as) \<Rightarrow> (Some (Ok a), as)
      | (Some (Err e), as) \<Rightarrow> (case h e of (e', bs) \<Rightarrow> (Some (Err e'), as @ bs))
      | (None, as) \<Rightarrow> (None, as))"

lemma flow_then_simps [simp]:
  "flow_then (Some (Ok a), as) f = (fst (f a), as @ snd (f a))"
  "flow_then (Some (Err e), as) f = (Some (Err e), as)"
  "flow_then (None, as) f = (None, as)"
  by (simp_all add: flow_then_def split: prod.split)

lemma flow_map_err_simps [simp]:
  "flow_map_err h (Some (Ok a), as) = (Some (Ok a), as)"
  "flow_map_err h (Some (Err e), as) = (Some (Err (fst (h e))), as @ snd (h e))"
  "flow_map_err h (None, as) = (None, as)"
  by (simp_all add: flow_map_err_def split: prod.split)

lemma flow_wait_simps [simp]:
  "fst (flow_wait r) = r" "snd (flow_wait r) = []"
  "fst (flow_result r') = Some r'" "snd (flow_result r') = []"
  "fst (flow_dispatch a) = Some (Ok ())" "snd (flow_dispatch a) = [a]"
  by (simp_all add: flow_wait_def flow_result_def flow_dispatch_def)

lemma flow_then_dispatch [simp]: "flow_then (flow_dispatch a) f = (fst (f ()), a # snd (f ()))"
  by (simp add: flow_dispatch_def)

lemma flow_then_Ok [simp]:
  "fst (flow_then m f) = Some (Ok b) \<longleftrightarrow> (\<exists>a. fst m = Some (Ok a) \<and> fst (f a) = Some (Ok b))"
  by (cases m; cases "fst m") (auto split: sum.split simp: flow_then_def split: prod.split option.split)

lemma flow_map_err_Ok [simp]: "fst (flow_map_err h m) = Some (Ok b) \<longleftrightarrow> fst m = Some (Ok b)"
  by (cases m) (auto simp: flow_map_err_def split: prod.split option.split sum.split)

lemma in_flow_then [simp]:
  "a \<in> set (snd (flow_then m f)) \<longleftrightarrow> a \<in> set (snd m) \<or> (\<exists>x. fst m = Some (Ok x) \<and> a \<in> set (snd (f x)))"
  by (cases m) (auto simp: flow_then_def split: prod.split option.split sum.split)

lemma in_flow_map_err [simp]:
  "a \<in> set (snd (flow_map_err h m)) \<longleftrightarrow>
     a \<in> set (snd m) \<or> (\<exists>e. fst m = Some (Err e) \<and> a \<in> set (snd (h e)))"
  by (cases m) (auto simp: flow_map_err_def split: prod.split option.split sum.split)

section \<open>Calls of the application\<close>

text \<open>The parameters of a callback are kept as the values they are serialised from.\<close>

datatype callback_args =
    EntryValidationArgs EntryValidationData
  | LinkValidationArgs string Link LinkDirection LinkValidationData
  | EntryTypeArgs AppEntryType
  | LinkValidationPackageArgs string string LinkDirection
  | ReceiveArgs Address string
  | GenesisArgs

record CallbackFnCall =
  cb_zome_name :: string
  cb_fn_name :: string
  cb_parameters :: callback_args

definition callback_fn_call_new :: "string \<Rightarrow> string \<Rightarrow> callback_args \<Rightarrow> CallbackFnCall" where
  "callback_fn_call_new zome function parameters =
     \<lparr>cb_zome_name = zome, cb_fn_name = function, cb_parameters = parameters\<rparr>"

datatype CallbackResult =
    CbPass
  | CbFail string
  | CbNotImplemented string
  | CbValidationPackageDefinition ValidationPackageDefinition
  | CbReceiveResult string

definition is_null :: "string \<Rightarrow> bool" where
  "is_null json \<longleftrightarrow> json = ''null''"

text \<open>What the functions below read from the state or wait for.\<close>

record wf_context =
  cx_ext :: ext
  cx_crypto :: crypto
  cx_agent_id :: AgentId
  cx_status :: NucleusStatus
  cx_dna :: "Dna option"
  cx_entry :: "Address \<Rightarrow> Entry option HcResult"
  cx_entry_with_meta :: "Address \<Rightarrow> EntryWithMetaAndHeader option HcResult option"
  cx_entry_result :: "Address \<Rightarrow> GetEntryResult HcResult option"
  cx_chain :: "ChainHeader list option"
  cx_chain_header :: "Entry \<Rightarrow> ChainHeader option option"
  cx_chain_entry :: "Address \<Rightarrow> Entry option HcResult option"
  cx_new_header :: "Entry \<Rightarrow> Provenance list \<Rightarrow> ChainHeader HcResult option"
  cx_fetch :: "Address \<Rightarrow> Content option HcResult"
  cx_definition_json :: "ValidationPackageDefinition \<Rightarrow> string"
  cx_definition_of_json :: "string \<Rightarrow> ValidationPackageDefinition option"
  cx_run_dna :: "CallbackFnCall \<Rightarrow> string HcResult option"
  cx_id :: ProcessUniqueId
  cx_package :: "Address \<Rightarrow> ValidationPackage option HcResult option"
  cx_commit :: "Entry \<Rightarrow> Address HcResult option"
  cx_publish :: "Address \<Rightarrow> Address HcResult option"
  cx_dht :: "Action \<Rightarrow> Address HcResult option"
  cx_initialization :: "NucleusStatus HcResult option"

definition cx_address :: "wf_context \<Rightarrow> Entry \<Rightarrow> Address" where
  "cx_address X e = entry_address (cx_ext X) e"

section \<open>Running the validation callback\<close>

definition callback_validation_result :: "string HcResult \<Rightarrow> ValidationResult" where
  "callback_validation_result r =
     (case r of
        Ok call_result \<Rightarrow> if is_null call_result then Ok () else Err (Fail call_result)
      | Err (RibosomeFailed error_string) \<Rightarrow>
          if error_string = ''Argument deserialization failed''
          then Err (ValidationErrorMsg ''JSON object does not match entry schema'')
          else Err (ValidationErrorMsg error_string)
      | Err e \<Rightarrow> Err (ValidationErrorMsg (error_display e)))"

definition run_validation_callback ::
    "wf_context \<Rightarrow> Address \<Rightarrow> CallbackFnCall \<Rightarrow> (ValidationError, unit) flow" where
  "run_validation_callback X a call =
     (case cx_run_dna X call of
        None \<Rightarrow> flow_wait None
      | Some r \<Rightarrow>
          flow_then (flow_dispatch (ReturnValidationResult (cx_id X, a) (callback_validation_result r))) (\<lambda>_.
            flow_result (callback_validation_result r)))"

text \<open>The future waits until the nucleus has the result under its key; \<open>None\<close> is pending.\<close>

definition validation_callback_poll :: "NucleusState \<Rightarrow> ProcessUniqueId \<times> Address \<Rightarrow> ValidationResult option" where
  "validation_callback_poll n key = validation_results n key"

section \<open>Validation data\<close>

definition get_entry_with_header :: "wf_context \<Rightarrow> Address \<Rightarrow> (EntryWithMeta \<times> ChainHeader) HcResult option" where
  "get_entry_with_header X a =
     map_option (\<lambda>r.
         and_then r (\<lambda>pair.
         and_then (ok_or (ErrorGeneric ''Could not get chain'') pair) (\<lambda>entry_with_meta.
         map_ok (\<lambda>latest_header. (ewmh_entry_with_meta entry_with_meta, latest_header))
           (ok_or (ErrorGeneric ''Could not get last entry from chain'')
             (last_opt (ewmh_headers entry_with_meta))))))
       (cx_entry_with_meta X a)"

definition found_entry ::
    "(EntryWithMeta \<Rightarrow> ChainHeader \<Rightarrow> EntryValidationData) \<Rightarrow> (EntryWithMeta \<times> ChainHeader) HcResult
     \<Rightarrow> EntryValidationData HcResult" where
  "found_entry f r =
     (case r of Ok (em, h) \<Rightarrow> Ok (f em h) | Err _ \<Rightarrow> Err (ErrorGeneric ''Could not find Entry''))"

definition entry_to_validation_data ::
    "wf_context \<Rightarrow> Entry \<Rightarrow> Address option \<Rightarrow> ValidationData \<Rightarrow> EntryValidationData HcResult option" where
  "entry_to_validation_data X entry maybe_link_update_delete vd =
     (case entry of
        AppEntry _ _ \<Rightarrow>
          (case maybe_link_update_delete of
             Some link_update \<Rightarrow>
               map_option (found_entry (\<lambda>em h. EvdModify entry (ewm_entry em) h vd))
                 (get_entry_with_header X link_update)
           | None \<Rightarrow> Some (Ok (EvdCreate entry vd)))
      | DeletionEntry d \<Rightarrow>
          map_option (found_entry (\<lambda>em h. EvdDelete (ewm_entry em) h vd))
            (get_entry_with_header X (deleted_entry_address d))
      | CapTokenGrantEntry _ \<Rightarrow> Some (Ok (EvdCreate entry vd))
      | _ \<Rightarrow> Some (Err (NotImplemented ''Not implemented'')))"

section \<open>The checks of every entry\<close>

definition validate_header_address :: "wf_context \<Rightarrow> Entry \<Rightarrow> ChainHeader \<Rightarrow> ValidationResult" where
  "validate_header_address X entry header =
     (if cx_address X entry = h_entry_address header then Ok () else Err (Fail ''Wrong header for entry''))"

definition validate_provenance :: "crypto \<Rightarrow> ChainHeader \<Rightarrow> Provenance \<Rightarrow> ValidationResult" where
  "validate_provenance K header p =
     (case provenance_verify K p (h_entry_address header) of
        Err _ \<Rightarrow> Err (Fail (''Signature of entry '' @ h_entry_address header @ '' from author '' @ prov_source p
          @ '' failed to verify public signing key. Key might be invalid.''))
      | Ok has_authored \<Rightarrow>
          if has_authored then Ok ()
          else Err (Fail (''Signature of entry '' @ h_entry_address header @ '' from author '' @ prov_source p
            @ '' invalid'')))"

definition validate_provenances :: "wf_context \<Rightarrow> ValidationData \<Rightarrow> ValidationResult" where
  "validate_provenances X vd =
     (let header = vp_chain_header (vd_package vd) in
      try_each (validate_provenance (cx_crypto X) header) (h_provenances header))"

section \<open>The checks of a type\<close>

definition validate_app_entry ::
    "wf_context \<Rightarrow> Entry \<Rightarrow> AppEntryType \<Rightarrow> Address option \<Rightarrow> ValidationData \<Rightarrow> (ValidationError, unit) flow" where
  "validate_app_entry X entry app_entry_type link vd =
     flow_then (flow_wait (map_option Ok (cx_dna X))) (\<lambda>dna.
     flow_then (flow_wait (map_option (ok_or ValidationNotImplemented)
       (get_zome_name_for_app_entry_type dna app_entry_type))) (\<lambda>zome_name.
     flow_then (flow_result (case link of
         None \<Rightarrow> Ok ()
       | Some a \<Rightarrow> map_err (\<lambda>_. UnresolvedDependencies [a]) (map_ok (\<lambda>_. ()) (cx_entry X a)))) (\<lambda>_.
     flow_then (flow_wait (map_option (map_err (\<lambda>_. Fail ''Could not get entry validation''))
       (entry_to_validation_data X entry link vd))) (\<lambda>params.
       run_validation_callback X (cx_address X entry)
         (callback_fn_call_new zome_name ''__hdk_validate_app_entry'' (EntryValidationArgs params))))))"

definition validate_remove_entry :: "wf_context \<Rightarrow> Entry \<Rightarrow> ValidationData \<Rightarrow> (ValidationError, unit) flow" where
  "validate_remove_entry X entry vd =
     flow_then (flow_wait (map_option Ok (cx_dna X))) (\<lambda>dna.
     flow_then (flow_wait (case entry of DeletionEntry d \<Rightarrow> Some (Ok (deleted_entry_address d)) | _ \<Rightarrow> None)) (\<lambda>a.
     flow_then (flow_result (and_then (map_err (\<lambda>_. UnresolvedDependencies [a]) (cx_entry X a))
       (ok_or (Fail ''Could not obtain entry for link_update_delte'')))) (\<lambda>entry_to_delete.
     flow_then (flow_result (case entry_to_delete of
         AppEntry t _ \<Rightarrow> Ok t | _ \<Rightarrow> Err (Fail ''Entry type should be App Type''))) (\<lambda>app_entry_type.
     flow_then (flow_wait (map_option (ok_or ValidationNotImplemented)
       (get_zome_name_for_app_entry_type dna app_entry_type))) (\<lambda>zome_name.
     flow_then (flow_wait (map_option (map_err (\<lambda>_. Fail ''Could not get entry validation''))
       (entry_to_validation_data X entry None vd))) (\<lambda>params.
       run_validation_callback X (cx_address X entry)
         (callback_fn_call_new zome_name ''__hdk_validate_app_entry'' (EntryValidationArgs params))))))))"

definition latest_entry :: "wf_context \<Rightarrow> string \<Rightarrow> Address \<Rightarrow> Entry HcResult option" where
  "latest_entry X missing a =
     (case cx_entry_result X a of
        None \<Rightarrow> None
      | Some (Err e) \<Rightarrow> Some (Err e)
      | Some (Ok r) \<Rightarrow> if ger_found r then map_option Ok (ger_latest r) else Some (Err (ErrorGeneric missing)))"

definition get_link_entries :: "wf_context \<Rightarrow> Link \<Rightarrow> (Entry \<times> Entry) HcResult option" where
  "get_link_entries X link =
     (case latest_entry X ''Base for link not found'' (link_base link) of
        None \<Rightarrow> None
      | Some (Err e) \<Rightarrow> Some (Err e)
      | Some (Ok base) \<Rightarrow>
          map_option (map_ok (Pair base)) (latest_entry X ''Target for link not found'' (link_target link)))"

definition validate_link_entry :: "wf_context \<Rightarrow> Entry \<Rightarrow> ValidationData \<Rightarrow> (ValidationError, unit) flow" where
  "validate_link_entry X entry vd =
     flow_then (flow_result (case entry of
         LinkAddEntry link_add \<Rightarrow> Ok (ld_link link_add, LvdLinkAdd link_add vd)
       | LinkRemoveEntry link_remove \<Rightarrow> Ok (ld_link link_remove, LvdLinkRemove link_remove vd)
       | _ \<Rightarrow> Err (ValidationErrorMsg ''Could not extract link_add from entry''))) (\<lambda>(link, data).
     flow_then (flow_wait (map_option (map_err (\<lambda>_. UnresolvedDependencies [link_base link, link_target link]))
       (get_link_entries X link))) (\<lambda>(base, target).
     flow_then (flow_wait (map_option (map_err (\<lambda>_. ValidationNotImplemented))
       (find_link_definition_in_dna (cx_dna X) (entry_type base) (link_type link) (entry_type target)))) (\<lambda>path.
       run_validation_callback X (cx_address X entry) (callback_fn_call_new (ldp_zome_name path)
         ''__hdk_validate_link''
         (LinkValidationArgs (ldp_entry_type_name path) link (ldp_direction path) data)))))"

definition validate_entry ::
    "wf_context \<Rightarrow> Entry \<Rightarrow> Address option \<Rightarrow> ValidationData \<Rightarrow> (ValidationError, unit) flow" where
  "validate_entry X entry link vd =
     flow_then (flow_result (validate_header_address X entry (vp_chain_header (vd_package vd)))) (\<lambda>_.
     flow_then (flow_result (validate_provenances X vd)) (\<lambda>_.
       case entry_type entry of
         DnaType \<Rightarrow> flow_result (Ok ())
       | AppType app_entry_type \<Rightarrow> validate_app_entry X entry app_entry_type link vd
       | LinkAddType \<Rightarrow> validate_link_entry X entry vd
       | LinkRemoveType \<Rightarrow> validate_link_entry X entry vd
       | DeletionType \<Rightarrow> validate_remove_entry X entry vd
       | CapTokenGrantType \<Rightarrow> flow_result (Ok ())
       | AgentIdType \<Rightarrow> flow_result (Ok ())
       | _ \<Rightarrow> flow_result (Err ValidationNotImplemented)))"

section \<open>Validation packages\<close>

definition definition_result :: "wf_context \<Rightarrow> string \<Rightarrow> CallbackResult HcResult" where
  "definition_result X json =
     (if is_null json
      then Err (SerializationError ''__hdk_get_validation_package_for_entry_type returned empty result'')
      else case cx_definition_of_json X json of
        Some package \<Rightarrow> Ok (CbValidationPackageDefinition package)
      | None \<Rightarrow> Err (SerializationError
          ''validation_package result could not be deserialized as ValidationPackage''))"

definition link_package_definition :: "wf_context \<Rightarrow> Link \<Rightarrow> CallbackResult HcResult option" where
  "link_package_definition X link =
     (case get_link_entries X link of
        None \<Rightarrow> None
      | Some (Err e) \<Rightarrow> Some (Err e)
      | Some (Ok (base, target)) \<Rightarrow>
          (case find_link_definition_in_dna (cx_dna X) (entry_type base) (link_type link) (entry_type target) of
             None \<Rightarrow> None
           | Some (Err e) \<Rightarrow> Some (Err e)
           | Some (Ok path) \<Rightarrow>
               map_option (\<lambda>r. and_then r (definition_result X))
                 (cx_run_dna X (callback_fn_call_new (ldp_zome_name path) ''__hdk_get_validation_package_for_link''
                   (LinkValidationPackageArgs (ldp_entry_type_name path) (ldp_link_type path) (ldp_direction path))))))"

definition get_validation_package_definition :: "wf_context \<Rightarrow> Entry \<Rightarrow> CallbackResult HcResult option" where
  "get_validation_package_definition X entry =
     (case cx_dna X of
        None \<Rightarrow> None
      | Some dna \<Rightarrow>
          (case entry of
             AppEntry n _ \<Rightarrow>
               (case get_zome_name_for_app_entry_type dna n of
                  None \<Rightarrow> None
                | Some None \<Rightarrow> Some (Ok (CbNotImplemented ''get_validation_package_definition/1''))
                | Some (Some zome_name) \<Rightarrow>
                    map_option (\<lambda>r. and_then r (definition_result X))
                      (cx_run_dna X (callback_fn_call_new zome_name ''__hdk_get_validation_package_for_entry_type''
                        (EntryTypeArgs n))))
           | LinkAddEntry link_add \<Rightarrow> link_package_definition X (ld_link link_add)
           | LinkRemoveEntry link_remove \<Rightarrow> link_package_definition X (ld_link link_remove)
           | DeletionEntry _ \<Rightarrow> Some (definition_result X (cx_definition_json X VPChainFull))
           | CapTokenGrantEntry _ \<Rightarrow> Some (definition_result X (cx_definition_json X VPEntry))
           | AgentIdEntry _ \<Rightarrow> Some (definition_result X (cx_definition_json X VPEntry))
           | _ \<Rightarrow> Some (Err (NotImplemented ''get_validation_package_definition/3''))))"

text \<open>A panic while an entry is read, or while a type is asked whether it is public, is \<open>None\<close>.\<close>

definition chain_entry :: "wf_context \<Rightarrow> ChainHeader \<Rightarrow> Entry option" where
  "chain_entry X h =
     (case cx_fetch X (h_entry_address h) of
        Ok (Some json) \<Rightarrow> to_ok (entry_try_from_content (cx_ext X) json)
      | _ \<Rightarrow> None)"

definition public_headers :: "wf_context \<Rightarrow> ChainHeader list option" where
  "public_headers X =
     Option.bind (cx_chain X) (\<lambda>hs.
       map_option (\<lambda>ps. map fst (filter snd ps))
         (those (map (\<lambda>h. map_option (Pair h) (can_publish (cx_dna X) (h_entry_type h))) hs)))"

definition all_public_chain_entries :: "wf_context \<Rightarrow> Entry list option" where
  "all_public_chain_entries X = Option.bind (public_headers X) (\<lambda>hs. those (map (chain_entry X) hs))"

definition all_chain_headers :: "wf_context \<Rightarrow> ChainHeader list option" where
  "all_chain_headers X = cx_chain X"

definition package_of_definition ::
    "wf_context \<Rightarrow> ChainHeader \<Rightarrow> ValidationPackageDefinition \<Rightarrow> ValidationPackage option" where
  "package_of_definition X entry_header def =
     (let package = only_header entry_header in
      case def of
        VPEntry \<Rightarrow> Some package
      | VPChainEntries \<Rightarrow>
          map_option (\<lambda>es. package\<lparr>vp_source_chain_entries := Some es\<rparr>) (all_public_chain_entries X)
      | VPChainHeaders \<Rightarrow>
          map_option (\<lambda>hs. package\<lparr>vp_source_chain_headers := Some hs\<rparr>) (all_chain_headers X)
      | VPChainFull \<Rightarrow>
          Option.bind (all_public_chain_entries X) (\<lambda>es.
            map_option (\<lambda>hs. package\<lparr>vp_source_chain_entries := Some es, vp_source_chain_headers := Some hs\<rparr>)
              (all_chain_headers X))
      | VPCustom s \<Rightarrow> Some (package\<lparr>vp_custom := Some s\<rparr>))"

fun entry_type_debug :: "EntryType \<Rightarrow> string" where
  "entry_type_debug (AppType n) = variant_debug ''App'' (variant_debug ''AppEntryType'' (str_debug n))"
| "entry_type_debug DnaType = ''Dna''"
| "entry_type_debug AgentIdType = ''AgentId''"
| "entry_type_debug DeletionType = ''Deletion''"
| "entry_type_debug LinkAddType = ''LinkAdd''"
| "entry_type_debug LinkRemoveType = ''LinkRemove''"
| "entry_type_debug LinkListType = ''LinkList''"
| "entry_type_debug ChainHeaderType = ''ChainHeader''"
| "entry_type_debug ChainMigrateType = ''ChainMigrate''"
| "entry_type_debug CapTokenGrantType = ''CapTokenGrant''"
| "entry_type_debug CapTokenClaimType = ''CapTokenClaim''"

definition maybe_validation_package ::
    "wf_context \<Rightarrow> Entry \<Rightarrow> ChainHeader \<Rightarrow> ValidationPackage HcResult option" where
  "maybe_validation_package X entry entry_header =
     (case get_validation_package_definition X entry of
        None \<Rightarrow> None
      | Some (Err e) \<Rightarrow> Some (Err e)
      | Some (Ok (CbFail error_string)) \<Rightarrow> Some (Err (ErrorGeneric error_string))
      | Some (Ok (CbValidationPackageDefinition def)) \<Rightarrow>
          map_option Ok (package_of_definition X entry_header def)
      | Some (Ok (CbNotImplemented reason)) \<Rightarrow>
          Some (Err (ErrorGeneric (''ValidationPackage callback not implemented for ''
            @ entry_type_debug (entry_type entry) @ '' ('' @ reason @ '')'')))
      | Some (Ok _) \<Rightarrow> None)"

definition validatable :: "wf_context \<Rightarrow> EntryType \<Rightarrow> unit HcResult option" where
  "validatable X t =
     (case t of
        AppType n \<Rightarrow>
          Option.bind (cx_dna X) (\<lambda>dna.
            map_option (\<lambda>z. if z = None then Err (ValidationFailed (''Unknown app entry type '' @ [CHR 0x27] @ n @ [CHR 0x27])) else Ok ())
              (get_zome_name_for_app_entry_type dna n))
      | LinkAddType \<Rightarrow> Some (Ok ())
      | LinkRemoveType \<Rightarrow> Some (Ok ())
      | DeletionType \<Rightarrow> Some (Ok ())
      | CapTokenGrantType \<Rightarrow> Some (Ok ())
      | AgentIdType \<Rightarrow> Some (Ok ())
      | _ \<Rightarrow> Some (Err (ValidationFailed (''Attempted to validate system entry type '' @ entry_type_debug t))))"

definition build_validation_package ::
    "wf_context \<Rightarrow> Entry \<Rightarrow> Provenance list \<Rightarrow> (HolochainError, ValidationPackage) flow" where
  "build_validation_package X entry provenances =
     flow_then (flow_wait (validatable X (entry_type entry))) (\<lambda>_.
     flow_then (flow_wait (case cx_chain_header X entry of
         None \<Rightarrow> None
       | Some (Some entry_header) \<Rightarrow> Some (Ok entry_header)
       | Some None \<Rightarrow> cx_new_header X entry provenances)) (\<lambda>entry_header.
     case maybe_validation_package X entry entry_header of
       None \<Rightarrow> flow_wait None
     | Some r \<Rightarrow>
         flow_then (flow_dispatch (ReturnValidationPackage (cx_id X) r)) (\<lambda>_. flow_result r)))"

definition validation_package_poll :: "NucleusState \<Rightarrow> ProcessUniqueId \<Rightarrow> ValidationPackage HcResult option" where
  "validation_package_poll n i = validation_packages n i"

section \<open>The answers of one state\<close>

text \<open>The waits for a validation package, a commit, a publication and a change of the shard;
  \<open>None\<close> is pending. The wait for a held entry looks for its content only.\<close>

definition get_validation_package_poll :: "NetworkState \<Rightarrow> Address \<Rightarrow> ValidationPackage option HcResult option" where
  "get_validation_package_poll n a =
     (case net_initialized n of
        Err e \<Rightarrow> Some (Err e)
      | Ok _ \<Rightarrow> (case get_validation_package_results n a of Some (Some r) \<Rightarrow> Some r | _ \<Rightarrow> None))"

definition publish_poll :: "NetworkState \<Rightarrow> ActionWrapper \<Rightarrow> Address HcResult option" where
  "publish_poll n w =
     (case net_initialized n of
        Err e \<Rightarrow> Some (Err e)
      | Ok _ \<Rightarrow> (case actions_get w (net_actions n) of Some (PublishResponse r) \<Rightarrow> Some r | _ \<Rightarrow> None))"

definition commit_poll :: "AgentState \<Rightarrow> ActionWrapper \<Rightarrow> Address HcResult option" where
  "commit_poll ag w = (case actions_get w (ag_actions ag) of Some (CommitResponse r) \<Rightarrow> Some r | _ \<Rightarrow> None)"

definition dht_action_poll :: "DhtStore \<Rightarrow> ActionWrapper \<Rightarrow> Address HcResult option" where
  "dht_action_poll dht w = actions_get w (dht_actions dht)"

definition hold_entry_poll :: "'s cas_ops \<Rightarrow> 's \<Rightarrow> Address \<Rightarrow> Address HcResult option" where
  "hold_entry_poll C s a = (case cas_contains C s a of Ok True \<Rightarrow> Some (Ok a) | _ \<Rightarrow> None)"

definition context_at ::
    "'s cas_ops \<Rightarrow> 'e eav_ops \<Rightarrow> moment \<Rightarrow> (Address \<Rightarrow> EntryWithMetaAndHeader option HcResult) \<Rightarrow> ('s, 'e) State
     \<Rightarrow> wf_context \<Rightarrow> wf_context" where
  "context_at C E mo net st X =
     (let x = cx_ext X; s = st_cas st; ag = st_agent st; look = get_entry_with_meta_workflow C E x st net in
      X\<lparr>cx_status := nuc_status (st_nucleus st),
        cx_dna := nuc_dna (st_nucleus st),
        cx_entry := get_entry_from_cas C x s,
        cx_entry_with_meta := look,
        cx_entry_result := (\<lambda>a. Option.bind (get_entry_result_workflow x (\<lambda>_. look)
          \<lparr>gea_address = a, gea_options = default_get_entry_options\<rparr>) id),
        cx_chain := iter_chain C x s ag (\<lambda>_. True) 0 usize_max,
        cx_chain_header := find_chain_header C x s ag,
        cx_chain_entry := get_entry_from_agent_chain C x s ag,
        cx_new_header := (\<lambda>e ps. create_new_chain_header C x (mo_sign mo) (mo_now mo) s ag e None ps),
        cx_fetch := cas_fetch C s,
        cx_package := get_validation_package_poll (st_network st)\<rparr>)"

section \<open>What validation accepts\<close>

lemma map_option_Ok_eq [simp]:
  "map_option (map_err f) r = Some (Ok a) \<longleftrightarrow> r = Some (Ok a)"
  "map_option (ok_or e) q = Some (Ok b) \<longleftrightarrow> q = Some (Some b)"
  by (cases r; auto simp: map_err_def split: sum.splits)
     (cases q; auto simp: ok_or_def split: option.splits)

lemma run_validation_callback_Ok [simp]:
  "fst (run_validation_callback X a call) = Some (Ok ()) \<longleftrightarrow> cx_run_dna X call = Some (Ok ''null'')"
  by (auto simp: run_validation_callback_def callback_validation_result_def is_null_def
      split: option.split sum.split HolochainError.split)

text \<open>The call of the application that has to accept an entry. Types that pass unasked have none,
  and neither have those that never pass.\<close>

definition app_callback ::
    "wf_context \<Rightarrow> Entry \<Rightarrow> AppEntryType \<Rightarrow> Address option \<Rightarrow> ValidationData \<Rightarrow> CallbackFnCall \<Rightarrow> bool" where
  "app_callback X entry n link vd call \<longleftrightarrow>
     (\<exists>dna zome data. cx_dna X = Some dna \<and> get_zome_name_for_app_entry_type dna n = Some (Some zome)
        \<and> entry_to_validation_data X entry link vd = Some (Ok data)
        \<and> call = callback_fn_call_new zome ''__hdk_validate_app_entry'' (EntryValidationArgs data))"

definition link_callback ::
    "wf_context \<Rightarrow> Link \<Rightarrow> LinkValidationData \<Rightarrow> CallbackFnCall \<Rightarrow> bool" where
  "link_callback X link data call \<longleftrightarrow>
     (\<exists>base target path. get_link_entries X link = Some (Ok (base, target))
        \<and> find_link_definition_in_dna (cx_dna X) (entry_type base) (link_type link) (entry_type target) = Some (Ok path)
        \<and> call = callback_fn_call_new (ldp_zome_name path) ''__hdk_validate_link''
            (LinkValidationArgs (ldp_entry_type_name path) link (ldp_direction path) data))"

fun accepting_callback ::
    "wf_context \<Rightarrow> Entry \<Rightarrow> Address option \<Rightarrow> ValidationData \<Rightarrow> CallbackFnCall \<Rightarrow> bool" where
  "accepting_callback X (AppEntry n v) link vd call \<longleftrightarrow>
     (\<forall>a. link = Some a \<longrightarrow> is_ok (cx_entry X a)) \<and> app_callback X (AppEntry n v) n link vd call"
| "accepting_callback X (DeletionEntry d) link vd call \<longleftrightarrow>
     (\<exists>n v. cx_entry X (deleted_entry_address d) = Ok (Some (AppEntry n v))
        \<and> app_callback X (DeletionEntry d) n None vd call)"
| "accepting_callback X (LinkAddEntry l) link vd call \<longleftrightarrow> link_callback X (ld_link l) (LvdLinkAdd l vd) call"
| "accepting_callback X (LinkRemoveEntry l) link vd call \<longleftrightarrow> link_callback X (ld_link l) (LvdLinkRemove l vd) call"
| "accepting_callback X _ link vd call \<longleftrightarrow> False"

definition passes_unasked :: "EntryType \<Rightarrow> bool" where
  "passes_unasked t \<longleftrightarrow> t = DnaType \<or> t = CapTokenGrantType \<or> t = AgentIdType"

definition signed_by_all :: "wf_context \<Rightarrow> ChainHeader \<Rightarrow> bool" where
  "signed_by_all X header \<longleftrightarrow>
     (\<forall>p\<in>set (h_provenances header). provenance_verify (cx_crypto X) p (h_entry_address header) = Ok True)"

definition accepted :: "wf_context \<Rightarrow> Entry \<Rightarrow> Address option \<Rightarrow> ValidationData \<Rightarrow> bool" where
  "accepted X entry link vd \<longleftrightarrow>
     cx_address X entry = h_entry_address (vp_chain_header (vd_package vd))
     \<and> signed_by_all X (vp_chain_header (vd_package vd))
     \<and> (passes_unasked (entry_type entry)
        \<or> (\<exists>call. accepting_callback X entry link vd call \<and> cx_run_dna X call = Some (Ok ''null'')))"

lemma validate_provenance_Ok [simp]:
  "validate_provenance K header p = Ok () \<longleftrightarrow> provenance_verify K p (h_entry_address header) = Ok True"
  by (cases "provenance_verify K p (h_entry_address header)") (simp_all add: validate_provenance_def)

lemma validate_provenances_Ok [simp]:
  "validate_provenances X vd = Ok () \<longleftrightarrow> signed_by_all X (vp_chain_header (vd_package vd))"
  by (simp add: validate_provenances_def signed_by_all_def Let_def)

lemma ok_or_Ok [simp]: "ok_or e q = Ok a \<longleftrightarrow> q = Some a"
  by (auto simp: ok_or_def split: option.splits)

lemma map_err_Ok [simp]: "map_err f r = Ok a \<longleftrightarrow> r = Ok a"
  by (auto simp: map_err_def split: sum.splits)

lemma validate_app_entry_Ok:
  "fst (validate_app_entry X entry n link vd) = Some (Ok ()) \<longleftrightarrow>
     (\<forall>a. link = Some a \<longrightarrow> is_ok (cx_entry X a))
     \<and> (\<exists>call. app_callback X entry n link vd call \<and> cx_run_dna X call = Some (Ok ''null''))"
  by (auto simp: validate_app_entry_def app_callback_def is_ok_def split: option.splits sum.splits)

lemma validate_remove_entry_Ok:
  "fst (validate_remove_entry X (DeletionEntry d) vd) = Some (Ok ()) \<longleftrightarrow>
     (\<exists>n v. cx_entry X (deleted_entry_address d) = Ok (Some (AppEntry n v))
        \<and> (\<exists>call. app_callback X (DeletionEntry d) n None vd call \<and> cx_run_dna X call = Some (Ok ''null'')))"
proof -
  have app: "(case e of AppEntry t _ \<Rightarrow> Ok t | _ \<Rightarrow> Err (Fail ''Entry type should be App Type'')) = Ok n
      \<longleftrightarrow> (\<exists>v. e = AppEntry n v)" for e :: Entry and n
    by (cases e) simp_all
  show ?thesis
    by (simp add: validate_remove_entry_def app_callback_def and_then_eq_Ok app) blast
qed

lemma validate_link_entry_Ok:
  "fst (validate_link_entry X (LinkAddEntry l) vd) = Some (Ok ()) \<longleftrightarrow>
     (\<exists>call. link_callback X (ld_link l) (LvdLinkAdd l vd) call \<and> cx_run_dna X call = Some (Ok ''null''))"
  "fst (validate_link_entry X (LinkRemoveEntry l) vd) = Some (Ok ()) \<longleftrightarrow>
     (\<exists>call. link_callback X (ld_link l) (LvdLinkRemove l vd) call \<and> cx_run_dna X call = Some (Ok ''null''))"
  by (simp_all add: validate_link_entry_def link_callback_def) blast+

lemma validate_entry_Ok:
  "fst (validate_entry X entry link vd) = Some (Ok ()) \<longleftrightarrow> accepted X entry link vd"
  by (cases entry)
    (auto simp: validate_entry_def accepted_def validate_header_address_def passes_unasked_def
      validate_app_entry_Ok validate_remove_entry_Ok validate_link_entry_Ok split: if_splits)

lemma validation_dispatches:
  "act \<in> set (snd (validate_entry X entry link vd)) \<Longrightarrow> \<exists>r. act = ReturnValidationResult (cx_id X, cx_address X entry) r"
  by (auto simp: validate_entry_def validate_app_entry_def validate_remove_entry_def validate_link_entry_def
      run_validation_callback_def split: EntryType.splits option.splits)

section \<open>A concrete context\<close>

text \<open>A blog with public posts and private notes; the application answers \<open>r\<close> when it is asked to
  validate a post or a note.\<close>

definition post_entry :: Entry where
  "post_entry = AppEntry ''post'' ''hi''"

definition note_entry :: Entry where
  "note_entry = AppEntry ''note'' ''psst''"

definition blog_type :: "Sharing \<Rightarrow> EntryTypeDef" where
  "blog_type s = \<lparr>etd_description = [], sharing = s, links_to = [], linked_from = []\<rparr>"

definition blog_dna :: Dna where
  "blog_dna = default_dna\<lparr>dna_zomes := [(''blog'', default_zome\<lparr>entry_types :=
     [(AppType ''post'', blog_type SharingPublic), (AppType ''note'', blog_type SharingPrivate)], zome_code := [1]\<rparr>)]\<rparr>"

definition post_header :: ChainHeader where
  "post_header = chain_header_new (AppType ''post'') ''QmE'' [provenance_new ''alice'' ''aliceQmE''] None None None ''t''"

definition blog_ext :: ext where
  "blog_ext = table_ext [(post_entry, ''E''), (note_entry, ''N'')] [(post_header, ''H'')]"

definition blog_context :: "string HcResult \<Rightarrow> wf_context" where
  "blog_context r =
     \<lparr>cx_ext = blog_ext, cx_crypto = sample_crypto, cx_agent_id = agent_id_new ''Alice'' ''alice'',
      cx_status = StatusNew, cx_dna = Some blog_dna, cx_entry = (\<lambda>_. Ok None), cx_entry_with_meta = (\<lambda>_. Some (Ok None)),
      cx_entry_result = (\<lambda>_. None), cx_chain = Some [post_header],
      cx_chain_header = (\<lambda>e. Some (if e = post_entry then Some post_header else None)),
      cx_chain_entry = (\<lambda>a. Some (Ok (if a = ''QmE'' then Some post_entry else None))),
      cx_new_header = (\<lambda>e ps. Some (Ok post_header)),
      cx_fetch = (\<lambda>a. Ok (if a = ''QmE'' then Some ''E'' else None)),
      cx_definition_json = (\<lambda>_. ''entry''), cx_definition_of_json = (\<lambda>_. Some VPEntry),
      cx_run_dna = (\<lambda>c. Some (if cb_fn_name c = ''__hdk_validate_app_entry'' then r
        else if cb_fn_name c = ''genesis'' then Ok ''null'' else Ok ''entry'')),
      cx_id = 1, cx_package = (\<lambda>_. Some (Ok (Some (only_header post_header)))),
      cx_commit = (\<lambda>_. Some (Ok ''QmE'')), cx_publish = (\<lambda>a. Some (Ok a)), cx_dht = (\<lambda>_. Some (Ok ''QmE'')),
      cx_initialization = None\<rparr>"

lemma blog_accepts:
  "accepted (blog_context (Ok ''null'')) post_entry None \<lparr>vd_package = only_header post_header, vd_lifecycle = l\<rparr>"
  unfolding validate_entry_Ok [symmetric] by (cases l) code_simp+

lemma blog_rejects:
  "fst (validate_entry (blog_context (Ok ''bad'')) post_entry None \<lparr>vd_package = only_header post_header, vd_lifecycle = l\<rparr>)
     = Some (Err (Fail ''bad''))"
  by (cases l) code_simp+

end
