(* ===== verification/Workflows.thy ===== *)
theory Workflows
  imports Validation
begin

text \<open>
  The workflows that author and hold entries: \<open>core/src/workflows/*.rs\<close>, the action creators they
  use (\<open>agent/actions\<close>, \<open>dht/actions\<close>, \<open>network/actions\<close>, \<open>nucleus/actions\<close>), the retry of pending
  validations (\<open>scheduled_jobs/pending_validations.rs\<close>), and the initialisation of a chain
  (\<open>nucleus/actions/initialize.rs\<close>). They are flows over the record of answers of \<open>Validation\<close>.
\<close>

section \<open>Action creators\<close>

definition get_validation_package ::
    "wf_context \<Rightarrow> ChainHeader \<Rightarrow> (HolochainError, ValidationPackage option) flow" where
  "get_validation_package X header =
     flow_then (flow_dispatch (GetValidationPackage header)) (\<lambda>_. flow_wait (cx_package X (h_entry_address header)))"

definition commit_entry :: "wf_context \<Rightarrow> Entry \<Rightarrow> Address option \<Rightarrow> (HolochainError, Address) flow" where
  "commit_entry X entry maybe_link_update_delete =
     flow_then (flow_dispatch (Commit entry maybe_link_update_delete [])) (\<lambda>_. flow_wait (cx_commit X entry))"

definition publish :: "wf_context \<Rightarrow> Address \<Rightarrow> (HolochainError, Address) flow" where
  "publish X a = flow_then (flow_dispatch (Publish a)) (\<lambda>_. flow_wait (cx_publish X a))"

definition hold_entry :: "wf_context \<Rightarrow> EntryWithHeader \<Rightarrow> (HolochainError, Address) flow" where
  "hold_entry X ewh = flow_then (flow_dispatch (Hold ewh)) (\<lambda>_. flow_wait (cx_dht X (Hold ewh)))"

definition add_link :: "wf_context \<Rightarrow> Link \<Rightarrow> (HolochainError, unit) flow" where
  "add_link X link =
     flow_then (flow_dispatch (AddLink link)) (\<lambda>_. flow_wait (map_option (map_ok (\<lambda>_. ())) (cx_dht X (AddLink link))))"

definition remove_link :: "wf_context \<Rightarrow> Link \<Rightarrow> (HolochainError, unit) flow" where
  "remove_link X link =
     flow_then (flow_dispatch (RemoveLink link)) (\<lambda>_.
       flow_wait (map_option (map_ok (\<lambda>_. ())) (cx_dht X (RemoveLink link))))"

definition update_entry :: "wf_context \<Rightarrow> Address \<Rightarrow> Address \<Rightarrow> (HolochainError, Address) flow" where
  "update_entry X old_address new_address =
     flow_then (flow_dispatch (UpdateEntry old_address new_address)) (\<lambda>_.
       flow_wait (cx_dht X (UpdateEntry old_address new_address)))"

definition remove_entry :: "wf_context \<Rightarrow> Address \<Rightarrow> Address \<Rightarrow> (HolochainError, unit) flow" where
  "remove_entry X deleted_address deletion_address =
     flow_then (flow_dispatch (RemoveEntry deleted_address deletion_address)) (\<lambda>_.
       flow_wait (map_option (map_ok (\<lambda>_. ())) (cx_dht X (RemoveEntry deleted_address deletion_address))))"

definition add_pending_validation :: "EntryWithHeader \<Rightarrow> Address list \<Rightarrow> ValidatingWorkflow \<Rightarrow> Action" where
  "add_pending_validation ewh dependencies workflow =
     AddPendingValidation \<lparr>pv_entry_with_header = ewh, pv_dependencies = dependencies, pv_workflow = workflow\<rparr>"

section \<open>Authoring\<close>

definition author_entry ::
    "wf_context \<Rightarrow> Entry \<Rightarrow> Address option \<Rightarrow> Provenance list \<Rightarrow> (HolochainError, Address) flow" where
  "author_entry X entry maybe_link_update_delete provenances =
     flow_then (build_validation_package X entry provenances) (\<lambda>validation_package.
     flow_then (flow_map_err (\<lambda>err. (holochain_error_of_validation err, []))
       (validate_entry X entry maybe_link_update_delete
         \<lparr>vd_package = validation_package, vd_lifecycle = LifecycleChain\<rparr>)) (\<lambda>_.
     flow_then (commit_entry X entry maybe_link_update_delete) (\<lambda>addr.
     flow_then (flow_wait (map_option Ok (can_publish (cx_dna X) (entry_type entry)))) (\<lambda>public.
     flow_then (if public then flow_then (publish X (cx_address X entry)) (\<lambda>_. flow_result (Ok ()))
                else flow_result (Ok ())) (\<lambda>_.
       flow_result (Ok addr))))))"

section \<open>Holding\<close>

text \<open>The common steps of \<open>hold_entry_workflow\<close> and \<open>hold_link_workflow\<close>: whatever goes wrong, the
  answer is \<open>ValidationPending\<close>.\<close>

definition pending ::
    "EntryWithHeader \<Rightarrow> ValidatingWorkflow \<Rightarrow> Address list \<Rightarrow> HolochainError \<times> Action list" where
  "pending ewh workflow dependencies = (ValidationPending, [add_pending_validation ewh dependencies workflow])"

definition validate_or_pend ::
    "wf_context \<Rightarrow> EntryWithHeader \<Rightarrow> ValidatingWorkflow \<Rightarrow> EntryLifecycle \<Rightarrow> (HolochainError, unit) flow" where
  "validate_or_pend X ewh workflow lifecycle =
     flow_then (flow_map_err (\<lambda>_. pending ewh workflow []) (get_validation_package X (ewh_header ewh))) (\<lambda>maybe_package.
     flow_then (flow_map_err (\<lambda>_. pending ewh workflow []) (flow_result (ok_or () maybe_package))) (\<lambda>package.
       flow_map_err (\<lambda>err. case err of
           UnresolvedDependencies dependencies \<Rightarrow> pending ewh workflow dependencies
         | _ \<Rightarrow> (ValidationPending, []))
         (validate_entry X (ewh_entry ewh) None \<lparr>vd_package = package, vd_lifecycle = lifecycle\<rparr>)))"

definition hold_entry_workflow :: "wf_context \<Rightarrow> EntryWithHeader \<Rightarrow> (HolochainError, unit) flow" where
  "hold_entry_workflow X ewh =
     flow_then (validate_or_pend X ewh HoldEntry LifecycleDht) (\<lambda>_.
     flow_then (hold_entry X ewh) (\<lambda>_. flow_result (Ok ())))"

definition hold_link_workflow :: "wf_context \<Rightarrow> EntryWithHeader \<Rightarrow> (HolochainError, unit) flow" where
  "hold_link_workflow X ewh =
     flow_then (flow_result (case ewh_entry ewh of
         LinkAddEntry link_add \<Rightarrow> Ok (ld_link link_add)
       | _ \<Rightarrow> Err (ErrorGeneric ''hold_link_workflow expects entry to be an Entry::LinkAdd''))) (\<lambda>link.
     flow_then (validate_or_pend X ewh HoldLink LifecycleMeta) (\<lambda>_. add_link X link))"

text \<open>The common steps of the other three: a failure is the answer.\<close>

definition delivered_package :: "wf_context \<Rightarrow> ChainHeader \<Rightarrow> (HolochainError, ValidationPackage) flow" where
  "delivered_package X header =
     flow_then (get_validation_package X header) (\<lambda>maybe_package.
       flow_result (ok_or (ErrorGeneric ''Could not get validation package from source'') maybe_package))"

definition validate_meta :: "wf_context \<Rightarrow> Entry \<Rightarrow> Address option \<Rightarrow> ValidationPackage \<Rightarrow> (HolochainError, unit) flow" where
  "validate_meta X entry link package =
     flow_map_err (\<lambda>err. (holochain_error_of_validation err, []))
       (validate_entry X entry link \<lparr>vd_package = package, vd_lifecycle = LifecycleMeta\<rparr>)"

definition remove_link_workflow :: "wf_context \<Rightarrow> EntryWithHeader \<Rightarrow> (HolochainError, unit) flow" where
  "remove_link_workflow X ewh =
     flow_then (flow_result (case ewh_entry ewh of
         LinkRemoveEntry link_remove \<Rightarrow> Ok (ld_link link_remove)
       | _ \<Rightarrow> Err (ErrorGeneric ''remove_link_workflow expects entry to be an Entry::LinkRemove''))) (\<lambda>link.
     flow_then (delivered_package X (ewh_header ewh)) (\<lambda>package.
     flow_then (validate_meta X (ewh_entry ewh) None package) (\<lambda>_. remove_link X link)))"

definition hold_update_workflow :: "wf_context \<Rightarrow> EntryWithHeader \<Rightarrow> (HolochainError, Address) flow" where
  "hold_update_workflow X ewh =
     flow_then (delivered_package X (ewh_header ewh)) (\<lambda>package.
     flow_then (flow_result (ok_or (ErrorGeneric ''Could not get link update from header'')
       (h_link_update_delete (ewh_header ewh)))) (\<lambda>link.
     flow_then (validate_meta X (ewh_entry ewh) (Some link) package) (\<lambda>_.
       update_entry X link (cx_address X (ewh_entry ewh)))))"

definition hold_remove_workflow :: "wf_context \<Rightarrow> EntryWithHeader \<Rightarrow> (HolochainError, unit) flow" where
  "hold_remove_workflow X ewh =
     flow_then (delivered_package X (ewh_header ewh)) (\<lambda>package.
     flow_then (validate_meta X (ewh_entry ewh) None package) (\<lambda>_.
     flow_then (flow_wait (case ewh_entry ewh of
         DeletionEntry d \<Rightarrow> Some (Ok (deleted_entry_address d)) | _ \<Rightarrow> None)) (\<lambda>a.
       remove_entry X a (cx_address X (ewh_entry ewh)))))"

section \<open>Pending validations\<close>

definition retry_validation :: "wf_context \<Rightarrow> PendingValidation \<Rightarrow> Action list" where
  "retry_validation X p =
     (let ewh = pv_entry_with_header p;
          (result, actions) = (case pv_workflow p of
             HoldLink \<Rightarrow> hold_link_workflow X ewh | HoldEntry \<Rightarrow> hold_entry_workflow X ewh) in
      if result = None \<or> result = Some (Err ValidationPending) then actions
      else actions @ [RemovePendingValidation (cx_address X (ewh_entry ewh)) (pv_workflow p)])"

text \<open>One thread per pending validation of the table, in the order of its iteration.\<close>

definition run_pending_validations :: "(PendingValidation \<Rightarrow> wf_context) \<Rightarrow> PendingValidation list \<Rightarrow> Action list list" where
  "run_pending_validations X ps = map (\<lambda>p. retry_validation (X p) p) ps"

section \<open>Answering peers\<close>

definition direct_response :: "Address \<Rightarrow> string \<Rightarrow> DirectMessage \<Rightarrow> Action" where
  "direct_response to_agent_id msg_id message =
     SendDirectMessage \<lparr>dmsg_address = to_agent_id, dmsg_message = message, dmsg_msg_id = msg_id, dmsg_is_response = True\<rparr>"

definition respond_validation_package_request ::
    "wf_context \<Rightarrow> Address \<Rightarrow> string \<Rightarrow> Address \<Rightarrow> Provenance list \<Rightarrow> (HolochainError, unit) flow" where
  "respond_validation_package_request X to_agent_id msg_id requested_entry_address provenances =
     (let respond = (\<lambda>p. direct_response to_agent_id msg_id (ValidationPackageMessage p)) in
      case cx_chain_entry X requested_entry_address of
        None \<Rightarrow> flow_wait None
      | Some (Ok (Some entry)) \<Rightarrow>
          (case build_validation_package X entry provenances of
             (None, actions) \<Rightarrow> (None, actions)
           | (Some r, actions) \<Rightarrow> (Some (Ok ()), actions @ [respond (to_ok r)]))
      | Some _ \<Rightarrow> flow_dispatch (respond None))"

definition receive_callback :: "wf_context \<Rightarrow> string \<Rightarrow> Address \<Rightarrow> string \<Rightarrow> CallbackResult option" where
  "receive_callback X zome from payload =
     map_option (\<lambda>r. case r of Ok call_result \<Rightarrow> CbReceiveResult call_result | Err err \<Rightarrow> CbFail (error_display err))
       (cx_run_dna X (callback_fn_call_new zome ''receive'' (ReceiveArgs from payload)))"

fun definition_debug :: "ValidationPackageDefinition \<Rightarrow> string" where
  "definition_debug VPEntry = ''Entry''"
| "definition_debug VPChainEntries = ''ChainEntries''"
| "definition_debug VPChainHeaders = ''ChainHeaders''"
| "definition_debug VPChainFull = ''ChainFull''"
| "definition_debug (VPCustom s) = variant_debug ''Custom'' (str_debug s)"

fun callback_result_debug :: "CallbackResult \<Rightarrow> string" where
  "callback_result_debug CbPass = ''Pass''"
| "callback_result_debug (CbFail s) = variant_debug ''Fail'' (str_debug s)"
| "callback_result_debug (CbNotImplemented s) = variant_debug ''NotImplemented'' (str_debug s)"
| "callback_result_debug (CbValidationPackageDefinition d) =
     variant_debug ''ValidationPackageDefinition'' (definition_debug d)"
| "callback_result_debug (CbReceiveResult s) = variant_debug ''ReceiveResult'' (str_debug s)"

definition handle_custom_direct_message ::
    "wf_context \<Rightarrow> Address \<Rightarrow> string \<Rightarrow> CustomDirectMessage \<Rightarrow> (HolochainError, unit) flow" where
  "handle_custom_direct_message X from_agent_id msg_id cdm =
     flow_then (flow_result (map_err (\<lambda>e. ErrorGeneric (''Got error in initial custom direct message: '' @ e))
       (cdm_payload cdm))) (\<lambda>payload.
     flow_then (flow_wait (map_option Ok (receive_callback X (cdm_zome cdm) from_agent_id payload))) (\<lambda>result.
       let response = (case result of
             CbReceiveResult r \<Rightarrow> Ok r
           | err \<Rightarrow> Err (''Error calling receive callback: '' @ callback_result_debug err)) in
       flow_dispatch (direct_response from_agent_id msg_id
         (Custom \<lparr>cdm_zome = cdm_zome cdm, cdm_payload = response\<rparr>))))"

section \<open>Initialising a chain\<close>

definition run_callback :: "wf_context \<Rightarrow> CallbackFnCall \<Rightarrow> CallbackResult option" where
  "run_callback X call =
     map_option (\<lambda>r. case r of
         Ok call_result \<Rightarrow> if is_null call_result then CbPass else CbFail call_result
       | Err _ \<Rightarrow> CbNotImplemented ''run_callback'')
       (cx_run_dna X call)"

definition genesis :: "wf_context \<Rightarrow> string \<Rightarrow> CallbackResult option" where
  "genesis X zome =
     (case cx_dna X of
        None \<Rightarrow> None
      | Some dna \<Rightarrow>
          (case get_wasm_from_zome_name dna zome of
             None \<Rightarrow> Some (CbNotImplemented ''call/1'')
           | Some wasm \<Rightarrow>
               if wasm = [] then Some (CbNotImplemented ''call/2'')
               else run_callback X (callback_fn_call_new zome ''genesis'' GenesisArgs)))"

definition first_failure :: "CallbackResult list \<Rightarrow> string option" where
  "first_failure results =
     (case find (\<lambda>r. case r of CbFail _ \<Rightarrow> True | _ \<Rightarrow> False) results of
        Some (CbFail error_string) \<Rightarrow> Some error_string
      | _ \<Rightarrow> None)"

definition public_functions :: "Dna \<Rightarrow> CapFunctions" where
  "public_functions dna =
     List.map_filter (\<lambda>(zome_name, zome).
       map_option (\<lambda>(_, functions). (zome_name, functions))
         (find (\<lambda>(cap_name, _). cap_name = ''hc_public'') (zome_traits zome))) (dna_zomes dna)"

text \<open>A failed commit is reported to the nucleus before the error is returned.\<close>

definition committed_or_failed ::
    "wf_context \<Rightarrow> Entry \<Rightarrow> (HolochainError \<Rightarrow> string) \<Rightarrow> (HolochainError, Address) flow" where
  "committed_or_failed X entry message =
     flow_map_err (\<lambda>err. (InitializationFailedErr (message err), [ReturnInitializationResult (Err (error_display err))]))
       (commit_entry X entry None)"

definition public_token_of :: "wf_context \<Rightarrow> Dna \<Rightarrow> (HolochainError, Address option) flow" where
  "public_token_of X dna =
     (if public_functions dna = [] then flow_result (Ok None)
      else
        flow_then (flow_map_err (\<lambda>err. (InitializationFailedErr ''error creating public cap grant'',
             [ReturnInitializationResult (Err (error_display err))]))
           (flow_result (cap_token_grant_create (reserved_capability_str ReservedPublic) CapabilityType.Public None
             (public_functions dna)))) (\<lambda>grant.
        flow_then (committed_or_failed X (CapTokenGrantEntry grant) (\<lambda>_. ''error committing public grant'')) (\<lambda>addr.
          flow_result (Ok (Some addr)))))"

definition initialize_chain :: "wf_context \<Rightarrow> Dna \<Rightarrow> (HolochainError, NucleusStatus) flow" where
  "initialize_chain X dna =
     (if cx_status X \<noteq> StatusNew
      then flow_result (Err (InitializationFailedErr (''Can'' @ [CHR 0x27] @ ''t trigger initialization: Nucleus status is not New'')))
      else
        flow_then (flow_dispatch (InitializeChain dna)) (\<lambda>_.
        flow_then (committed_or_failed X (DnaEntry dna) (\<lambda>err. ''Error committing DNA: '' @ error_debug err)) (\<lambda>_.
        flow_then (committed_or_failed X (AgentIdEntry (cx_agent_id X)) (\<lambda>_. ''error committing Agent'')) (\<lambda>_.
        flow_then (flow_result (if dna_zomes dna = []
            then Err (ErrorGeneric ''Attempting to initialize DNA with zero zomes!'') else Ok ())) (\<lambda>_.
        flow_then (public_token_of X dna) (\<lambda>public_token.
        flow_then (flow_wait (map_option Ok (those (map (genesis X) (map fst (dna_zomes dna)))))) (\<lambda>results.
        flow_then (flow_dispatch (ReturnInitializationResult (case first_failure results of
            Some error_string \<Rightarrow> Err error_string
          | None \<Rightarrow> Ok \<lparr>public_token = public_token, init_payload = None\<rparr>))) (\<lambda>_.
          flow_wait (cx_initialization X)))))))))"

text \<open>The future of the initialisation: a timeout, or the status the nucleus has reached.\<close>

definition initialization_poll :: "bool \<Rightarrow> NucleusState \<Rightarrow> NucleusStatus HcResult option" where
  "initialization_poll timed_out n =
     (if timed_out then Some (Err (ErrorGeneric ''Timeout while initializing''))
      else case nuc_status n of
        StatusNew \<Rightarrow> None
      | Initializing \<Rightarrow> None
      | Initialized init \<Rightarrow> Some (Ok (Initialized init))
      | InitializationFailed error \<Rightarrow> Some (Err (ErrorGeneric error)))"

section \<open>Changes of the shard\<close>

fun changes_shard :: "Action \<Rightarrow> bool" where
  "changes_shard (Hold _) = True"
| "changes_shard (AddLink _) = True"
| "changes_shard (RemoveLink _) = True"
| "changes_shard (UpdateEntry _ _) = True"
| "changes_shard (RemoveEntry _ _) = True"
| "changes_shard _ = False"

text \<open>The source delivered a package under which the entry is accepted.\<close>

definition vetted :: "wf_context \<Rightarrow> EntryWithHeader \<Rightarrow> Address option \<Rightarrow> EntryLifecycle \<Rightarrow> bool" where
  "vetted X ewh link lifecycle \<longleftrightarrow>
     (\<exists>p. cx_package X (h_entry_address (ewh_header ewh)) = Some (Ok (Some p))
        \<and> accepted X (ewh_entry ewh) link \<lparr>vd_package = p, vd_lifecycle = lifecycle\<rparr>)"

lemmas creator_defs = get_validation_package_def commit_entry_def publish_def hold_entry_def add_link_def
  remove_link_def update_entry_def remove_entry_def

lemma validation_changes_nothing [simp]:
  "changes_shard act \<Longrightarrow> act \<notin> set (snd (validate_entry X entry link vd))"
  by (auto dest: validation_dispatches)

lemma validate_or_pend_Ok [simp]:
  "fst (validate_or_pend X ewh workflow lifecycle) = Some (Ok ()) \<longleftrightarrow> vetted X ewh None lifecycle"
  by (auto simp: validate_or_pend_def vetted_def creator_defs validate_entry_Ok)

lemma validate_or_pend_changes_nothing [simp]:
  "changes_shard act \<Longrightarrow> act \<notin> set (snd (validate_or_pend X ewh workflow lifecycle))"
  by (auto simp: validate_or_pend_def creator_defs pending_def add_pending_validation_def split: ValidationError.splits)

lemma delivered_package_simps [simp]:
  "fst (delivered_package X header) = Some (Ok p) \<longleftrightarrow> cx_package X (h_entry_address header) = Some (Ok (Some p))"
  "snd (delivered_package X header) = [GetValidationPackage header]"
  by (auto simp: delivered_package_def creator_defs)
    (auto simp: flow_then_def flow_wait_def flow_dispatch_def flow_result_def split: option.split sum.split)

lemma validate_meta_simps [simp]:
  "fst (validate_meta X entry link p) = Some (Ok ()) \<longleftrightarrow>
     accepted X entry link \<lparr>vd_package = p, vd_lifecycle = LifecycleMeta\<rparr>"
  "changes_shard act \<Longrightarrow> act \<notin> set (snd (validate_meta X entry link p))"
  by (auto simp: validate_meta_def validate_entry_Ok)

lemma hold_entry_changes:
  "act \<in> set (snd (hold_entry_workflow X ewh)) \<and> changes_shard act \<longleftrightarrow>
     act = Hold ewh \<and> vetted X ewh None LifecycleDht"
  by (auto simp: hold_entry_workflow_def creator_defs)

text \<open>The header that is stored is not the one that is validated: any other header for the same
  address is stored as well.\<close>

lemma stored_header_unchecked:
  assumes "h_entry_address h = h_entry_address g"
    and "Hold \<lparr>ewh_entry = e, ewh_header = g\<rparr> \<in> set (snd (hold_entry_workflow X \<lparr>ewh_entry = e, ewh_header = g\<rparr>))"
  shows "Hold \<lparr>ewh_entry = e, ewh_header = h\<rparr> \<in> set (snd (hold_entry_workflow X \<lparr>ewh_entry = e, ewh_header = h\<rparr>))"
  using assms hold_entry_changes [of "Hold \<lparr>ewh_entry = e, ewh_header = g\<rparr>" X "\<lparr>ewh_entry = e, ewh_header = g\<rparr>"]
    hold_entry_changes [of "Hold \<lparr>ewh_entry = e, ewh_header = h\<rparr>" X "\<lparr>ewh_entry = e, ewh_header = h\<rparr>"]
  by (simp add: vetted_def)

lemma hold_link_changes:
  "act \<in> set (snd (hold_link_workflow X ewh)) \<and> changes_shard act \<longleftrightarrow>
     (\<exists>l. ewh_entry ewh = LinkAddEntry l \<and> act = AddLink (ld_link l)) \<and> vetted X ewh None LifecycleMeta"
  by (cases "ewh_entry ewh") (auto simp: hold_link_workflow_def creator_defs)

lemma remove_link_changes:
  "act \<in> set (snd (remove_link_workflow X ewh)) \<and> changes_shard act \<longleftrightarrow>
     (\<exists>l. ewh_entry ewh = LinkRemoveEntry l \<and> act = RemoveLink (ld_link l)) \<and> vetted X ewh None LifecycleMeta"
  by (cases "ewh_entry ewh") (auto simp: remove_link_workflow_def vetted_def creator_defs)

lemma hold_update_changes:
  "act \<in> set (snd (hold_update_workflow X ewh)) \<and> changes_shard act \<longleftrightarrow>
     (\<exists>a. h_link_update_delete (ewh_header ewh) = Some a \<and> act = UpdateEntry a (cx_address X (ewh_entry ewh))
        \<and> vetted X ewh (Some a) LifecycleMeta)"
  by (auto simp: hold_update_workflow_def vetted_def creator_defs)

lemma hold_remove_changes:
  "act \<in> set (snd (hold_remove_workflow X ewh)) \<and> changes_shard act \<longleftrightarrow>
     (\<exists>d. ewh_entry ewh = DeletionEntry d
        \<and> act = RemoveEntry (deleted_entry_address d) (cx_address X (ewh_entry ewh)))
     \<and> vetted X ewh None LifecycleMeta"
  by (cases "ewh_entry ewh") (auto simp: hold_remove_workflow_def vetted_def creator_defs)

section \<open>Authoring\<close>

lemma build_dispatches:
  "act \<in> set (snd (build_validation_package X entry provs)) \<Longrightarrow> \<exists>r. act = ReturnValidationPackage (cx_id X) r"
  by (auto simp: build_validation_package_def split: option.splits)

fun writes_chain :: "Action \<Rightarrow> bool" where
  "writes_chain (Commit _ _ _) = True"
| "writes_chain (Publish _) = True"
| "writes_chain _ = False"

lemma filter_flow_then:
  "filter P (snd (flow_then m f)) = filter P (snd m) @ (case fst m of Some (Ok a) \<Rightarrow> filter P (snd (f a)) | _ \<Rightarrow> [])"
  by (cases m) (auto simp: flow_then_def split: prod.split option.split sum.split)

lemma filter_flow_map_err:
  "(\<And>e. filter P (snd (h e)) = []) \<Longrightarrow> filter P (snd (flow_map_err h m)) = filter P (snd m)"
  by (cases m; cases "fst m") (auto simp: flow_map_err_def split: option.split sum.split prod.split, metis snd_conv)

lemma no_chain_writes [simp]:
  "filter writes_chain (snd (build_validation_package X entry provs)) = []"
  "filter writes_chain (snd (validate_entry X entry link vd)) = []"
  by (auto simp: filter_empty_conv dest!: build_dispatches validation_dispatches)

lemma flow_map_err_fst:
  "fst (flow_map_err h m) =
     (case fst m of None \<Rightarrow> None | Some (Err e) \<Rightarrow> Some (Err (fst (h e))) | Some (Ok a) \<Rightarrow> Some (Ok a))"
  by (cases m) (auto simp: flow_map_err_def split: prod.split option.split sum.split)

text \<open>The author's own validation of an entry.\<close>

definition author_accepts :: "wf_context \<Rightarrow> Entry \<Rightarrow> Address option \<Rightarrow> Provenance list \<Rightarrow> bool" where
  "author_accepts X entry lud provs \<longleftrightarrow>
     (\<exists>p. fst (build_validation_package X entry provs) = Some (Ok p)
        \<and> accepted X entry lud \<lparr>vd_package = p, vd_lifecycle = LifecycleChain\<rparr>)"

text \<open>C4: An author writes to the chain and to the network only what it has validated. The commit is
  dispatched exactly when a validation package could be built and the entry is accepted under it,
  the publication exactly when moreover the commit succeeded and the type is public, in this
  order and each once; the call succeeds with the address of the commit exactly when everything
  that was due succeeded. The provenances given by the caller go into the validated header only:
  the commit is dispatched without them.\<close>

theorem author_writes_validated:
  "filter writes_chain (snd (author_entry X entry lud provs)) =
     (if author_accepts X entry lud provs
      then Commit entry lud [] #
        (if (\<exists>a. cx_commit X entry = Some (Ok a)) \<and> can_publish (cx_dna X) (entry_type entry) = Some True
         then [Publish (cx_address X entry)] else [])
      else [])
   \<and> (\<forall>a. fst (author_entry X entry lud provs) = Some (Ok a) \<longleftrightarrow>
        author_accepts X entry lud provs \<and> cx_commit X entry = Some (Ok a)
        \<and> (can_publish (cx_dna X) (entry_type entry) = Some False
           \<or> can_publish (cx_dna X) (entry_type entry) = Some True
             \<and> (\<exists>b. cx_publish X (cx_address X entry) = Some (Ok b))))"
proof
  let ?m = "build_validation_package X entry provs"
  let ?v = "\<lambda>p. validate_entry X entry lud \<lparr>vd_package = p, vd_lifecycle = LifecycleChain\<rparr>"
  let ?c = "can_publish (cx_dna X) (entry_type entry)"
  define rest where "rest = flow_then (commit_entry X entry lud) (\<lambda>addr. flow_then (flow_wait (map_option Ok ?c)) (\<lambda>public.
     flow_then (if public then flow_then (publish X (cx_address X entry)) (\<lambda>_. flow_result (Ok ()))
                else flow_result (Ok ())) (\<lambda>_. flow_result (Ok addr :: HolochainError + Address))))"
  have rest: "filter writes_chain (snd rest) = Commit entry lud [] #
        (if (\<exists>a. cx_commit X entry = Some (Ok a)) \<and> ?c = Some True then [Publish (cx_address X entry)] else [])"
    by (auto simp: rest_def creator_defs filter_flow_then split: option.split sum.split)
  have "filter writes_chain (snd (author_entry X entry lud provs)) =
      (case fst ?m of Some (Ok p) \<Rightarrow> if fst (?v p) = Some (Ok ()) then filter writes_chain (snd rest) else [] | _ \<Rightarrow> [])"
    by (auto simp: author_entry_def rest_def filter_flow_then filter_flow_map_err flow_map_err_fst
        split: option.split sum.split)
  also have "\<dots> = (if author_accepts X entry lud provs then filter writes_chain (snd rest) else [])"
    by (auto simp: author_accepts_def validate_entry_Ok split: option.split sum.split)
  finally show "filter writes_chain (snd (author_entry X entry lud provs)) =
     (if author_accepts X entry lud provs
      then Commit entry lud [] #
        (if (\<exists>a. cx_commit X entry = Some (Ok a)) \<and> ?c = Some True then [Publish (cx_address X entry)] else [])
      else [])"
    by (simp only: rest)
  show "\<forall>a. fst (author_entry X entry lud provs) = Some (Ok a) \<longleftrightarrow>
        author_accepts X entry lud provs \<and> cx_commit X entry = Some (Ok a)
        \<and> (?c = Some False \<or> ?c = Some True \<and> (\<exists>b. cx_publish X (cx_address X entry) = Some (Ok b)))"
    by (auto simp: author_entry_def author_accepts_def creator_defs validate_entry_Ok split: if_splits)
qed

section \<open>Retrying\<close>

text \<open>The source delivers a package, and the entry fails validation under it.\<close>

definition rejected :: "wf_context \<Rightarrow> PendingValidation \<Rightarrow> bool" where
  "rejected X p \<longleftrightarrow>
     (let ewh = pv_entry_with_header p;
          lifecycle = (case pv_workflow p of HoldEntry \<Rightarrow> LifecycleDht | HoldLink \<Rightarrow> LifecycleMeta) in
      (pv_workflow p = HoldEntry \<or> entry_type (ewh_entry ewh) = LinkAddType)
      \<and> (\<exists>package reason. cx_package X (h_entry_address (ewh_header ewh)) = Some (Ok (Some package))
           \<and> fst (validate_entry X (ewh_entry ewh) None \<lparr>vd_package = package, vd_lifecycle = lifecycle\<rparr>)
             = Some (Err (Fail reason))))"

lemma validate_or_pend_rejected:
  assumes "cx_package X (h_entry_address (ewh_header ewh)) = Some (Ok (Some package))"
    and "fst (validate_entry X (ewh_entry ewh) None \<lparr>vd_package = package, vd_lifecycle = lifecycle\<rparr>) = Some (Err (Fail reason))"
  shows "validate_or_pend X ewh workflow lifecycle = (Some (Err ValidationPending), GetValidationPackage (ewh_header ewh) #
    snd (validate_entry X (ewh_entry ewh) None \<lparr>vd_package = package, vd_lifecycle = lifecycle\<rparr>))"
  using assms
  by (cases "validate_entry X (ewh_entry ewh) None \<lparr>vd_package = package, vd_lifecycle = lifecycle\<rparr>")
    (simp add: validate_or_pend_def creator_defs flow_wait_def flow_result_def ok_or_def)

lemma retry_rejected:
  assumes "rejected X p" "act \<in> set (retry_validation X p)"
  shows "(\<exists>h. act = GetValidationPackage h) \<or> (\<exists>k r. act = ReturnValidationResult k r)"
proof -
  let ?ewh = "pv_entry_with_header p"
  let ?l = "case pv_workflow p of HoldEntry \<Rightarrow> LifecycleDht | HoldLink \<Rightarrow> LifecycleMeta"
  obtain package where p: "validate_or_pend X ?ewh (pv_workflow p) ?l = (Some (Err ValidationPending),
      GetValidationPackage (ewh_header ?ewh) # snd (validate_entry X (ewh_entry ?ewh) None
        \<lparr>vd_package = package, vd_lifecycle = ?l\<rparr>))"
    using assms(1) validate_or_pend_rejected unfolding rejected_def Let_def by blast
  then have "retry_validation X p = snd (validate_or_pend X ?ewh (pv_workflow p) ?l)"
    using assms(1) by (cases "pv_workflow p"; cases "ewh_entry ?ewh")
      (auto simp: retry_validation_def rejected_def hold_entry_workflow_def hold_link_workflow_def flow_result_def
        flow_wait_def)
  with p assms(2) show ?thesis by (auto dest: validation_dispatches)
qed

lemma pending_run_unconcerned:
  "\<forall>w\<in>set ws. \<not> concerns x a v (aw_action w) \<Longrightarrow> pending_for (nucleus_run x ws n) a v = pending_for n a v"
  by (induction ws rule: rev_induct) (simp_all add: pending_for_unconcerned)

text \<open>C39: An entry that is known to be invalid is validated again forever. In any number of rounds
  in which the source delivers the package of a pending entry and validation rejects it, and
  whatever else is reduced in between, the entry stays in the table of pending validations
  unchanged: the workflow answers \<open>ValidationPending\<close>, the one answer for which the job does not
  remove the entry. The shard is not changed.\<close>

theorem rejected_entry_stays_pending:
  assumes "pending_for n a v = Some p" and "v = pv_workflow p"
    and "\<forall>X\<in>set Xs. rejected X p"
    and "\<forall>w\<in>set ws. aw_action w \<in> set (concat (map (\<lambda>X. retry_validation X p) Xs)) \<or> \<not> concerns x a v (aw_action w)"
  shows "pending_for (nucleus_run x ws n) a v = Some p
    \<and> (\<forall>act\<in>set (concat (map (\<lambda>X. retry_validation X p) Xs)). \<not> changes_shard act)"
proof
  have quiet: "\<not> concerns x a v act \<and> \<not> changes_shard act"
    if "act \<in> set (concat (map (\<lambda>X. retry_validation X p) Xs))" for act
    using that assms(3) retry_rejected [of _ p act] by (fastforce simp: concerns_def)
  then show "\<forall>act\<in>set (concat (map (\<lambda>X. retry_validation X p) Xs)). \<not> changes_shard act" by blast
  show "pending_for (nucleus_run x ws n) a v = Some p"
    using pending_run_unconcerned [of ws x a v n] assms(1,4) quiet by metis
qed

section \<open>The outcome of an initialisation\<close>

fun is_init :: "Action \<Rightarrow> bool" where
  "is_init (InitializeChain _) = True"
| "is_init (ReturnInitializationResult _) = True"
| "is_init _ = False"

fun init_step :: "Action \<Rightarrow> NucleusStatus \<Rightarrow> NucleusStatus" where
  "init_step (InitializeChain _) s =
     (case s of
        Initializing \<Rightarrow> InitializationFailed ''Nucleus already initializing''
      | Initialized _ \<Rightarrow> InitializationFailed ''Nucleus already initialized''
      | _ \<Rightarrow> Initializing)"
| "init_step (ReturnInitializationResult r) s =
     (if s \<noteq> Initializing
      then InitializationFailed ''reduce of ReturnInitializationResult attempted when status != Initializing''
      else case r of Ok i \<Rightarrow> Initialized i | Err e \<Rightarrow> InitializationFailed e)"
| "init_step _ s = s"

lemma status_step: "nuc_status (nucleus_reduce x n w) = init_step (aw_action w) (nuc_status n)"
  by (cases "aw_action w")
    (auto simp: nucleus_reduce_def reduce_initialize_chain_def reduce_return_initialization_result_def
      reduce_add_pending_validation_def reduce_remove_pending_validation_def
      reduce_return_zome_function_result_def reduce_return_validation_result_def reduce_return_validation_package_def
      split: NucleusStatus.split sum.split)

lemma init_step_other: "\<not> is_init a \<Longrightarrow> init_step a s = s"
  by (cases a) simp_all

lemma status_run:
  "nuc_status (nucleus_run x ws n) = fold init_step (filter is_init (map aw_action ws)) (nuc_status n)"
  by (induction ws rule: rev_induct) (simp_all add: status_step init_step_other)

definition committed :: "wf_context \<Rightarrow> Entry \<Rightarrow> bool" where
  "committed X entry \<longleftrightarrow> (\<exists>a. cx_commit X entry = Some (Ok a))"

lemma init_actions_committed:
  "filter is_init (snd (committed_or_failed X entry message)) =
     (case cx_commit X entry of Some (Err e) \<Rightarrow> [ReturnInitializationResult (Err (error_display e))] | _ \<Rightarrow> [])"
  "fst (committed_or_failed X entry message) = Some (Ok a) \<longleftrightarrow> cx_commit X entry = Some (Ok a)"
  by (auto simp: committed_or_failed_def creator_defs flow_map_err_def split: option.split sum.split)

lemma create_public_grant:
  "cap_token_grant_create i CapabilityType.Public None fs = Ok (cap_token_grant_new i None fs)"
  by (simp add: cap_token_grant_create_def grant_valid_def)

definition public_grant :: "Dna \<Rightarrow> Entry" where
  "public_grant dna = CapTokenGrantEntry (cap_token_grant_new ''hc_public'' None (public_functions dna))"

definition reported :: "wf_context \<Rightarrow> Entry \<Rightarrow> Action list" where
  "reported X entry =
     (case cx_commit X entry of Some (Err e) \<Rightarrow> [ReturnInitializationResult (Err (error_display e))] | _ \<Rightarrow> [])"

definition genesis_passes :: "wf_context \<Rightarrow> Dna \<Rightarrow> bool" where
  "genesis_passes X dna \<longleftrightarrow> (\<forall>z\<in>set (map fst (dna_zomes dna)). \<exists>r. genesis X z = Some r \<and> (\<forall>s. r \<noteq> CbFail s))"

lemma init_actions_token:
  "filter is_init (snd (public_token_of X dna)) = (if public_functions dna = [] then [] else reported X (public_grant dna))"
  "(\<exists>t. fst (public_token_of X dna) = Some (Ok t)) \<longleftrightarrow> public_functions dna = [] \<or> committed X (public_grant dna)"
  by (auto simp: public_token_of_def create_public_grant filter_flow_then reserved_capability_str_def
      init_actions_committed reported_def public_grant_def committed_def flow_result_def flow_wait_def
      split: option.split sum.split)

lemma those_Some: "those xs = Some ys \<longleftrightarrow> xs = map Some ys"
  by (induction xs arbitrary: ys) (auto split: option.splits simp: Cons_eq_map_conv)

lemma first_failure_None: "first_failure rs = None \<longleftrightarrow> (\<forall>r\<in>set rs. \<forall>s. r \<noteq> CbFail s)"
  by (induction rs) (auto simp: first_failure_def split: CallbackResult.splits)

lemma genesis_passes_those:
  "genesis_passes X dna \<longleftrightarrow>
     (\<exists>rs. those (map (genesis X) (map fst (dna_zomes dna))) = Some rs \<and> first_failure rs = None)"
proof
  assume "genesis_passes X dna"
  then obtain f where f: "\<forall>z\<in>set (map fst (dna_zomes dna)). genesis X z = Some (f z) \<and> (\<forall>s. f z \<noteq> CbFail s)"
    unfolding genesis_passes_def by metis
  then have "those (map (genesis X) (map fst (dna_zomes dna))) = Some (map f (map fst (dna_zomes dna)))"
    by (auto simp: those_Some)
  moreover have "first_failure (map f (map fst (dna_zomes dna))) = None"
    using f by (auto simp: first_failure_None)
  ultimately show "\<exists>rs. those (map (genesis X) (map fst (dna_zomes dna))) = Some rs \<and> first_failure rs = None" by blast
next
  assume "\<exists>rs. those (map (genesis X) (map fst (dna_zomes dna))) = Some rs \<and> first_failure rs = None"
  then obtain rs where rs: "map (genesis X) (map fst (dna_zomes dna)) = map Some rs" "first_failure rs = None"
    by (auto simp: those_Some)
  show "genesis_passes X dna"
    unfolding genesis_passes_def
  proof
    fix z assume "z \<in> set (map fst (dna_zomes dna))"
    then have "genesis X z \<in> set (map Some rs)" by (metis rs(1) image_eqI set_map)
    with rs(2) show "\<exists>r. genesis X z = Some r \<and> (\<forall>s. r \<noteq> CbFail s)" by (auto simp: first_failure_None)
  qed
qed

lemma reported_fails: "fold init_step (reported X entry) Initializing \<noteq> Initialized i"
  by (auto simp: reported_def split: option.split sum.split)

lemma init_actions_first:
  "filter is_init (snd (flow_then (committed_or_failed X entry message) f)) =
     (if committed X entry then filter is_init (snd (f (SOME a. cx_commit X entry = Some (Ok a)))) else reported X entry)"
  by (auto simp: filter_flow_then init_actions_committed committed_def reported_def committed_or_failed_def creator_defs
      flow_map_err_fst split: option.split sum.split)

lemma init_rest:
  fixes X :: wf_context and dna :: Dna
  defines "gs \<equiv> those (map (genesis X) (map fst (dna_zomes dna)))"
  shows "(\<exists>i. fold init_step (filter is_init (snd (flow_then (public_token_of X dna) (\<lambda>t.
      flow_then (flow_wait (map_option Ok gs)) (\<lambda>results.
      flow_then (flow_dispatch (ReturnInitializationResult (case first_failure results of
          Some error_string \<Rightarrow> Err error_string
        | None \<Rightarrow> Ok \<lparr>public_token = t, init_payload = None\<rparr>))) (\<lambda>_. flow_wait (cx_initialization X))))))) Initializing
        = Initialized i)
    \<longleftrightarrow> (public_functions dna = [] \<or> committed X (public_grant dna)) \<and> genesis_passes X dna"
proof (cases "\<exists>t. fst (public_token_of X dna) = Some (Ok t)")
  case True
  then have ok: "public_functions dna = [] \<or> committed X (public_grant dna)" by (simp add: init_actions_token)
  then have "filter is_init (snd (public_token_of X dna)) = []"
    by (auto simp: init_actions_token reported_def committed_def)
  moreover have "genesis_passes X dna \<longleftrightarrow> (\<exists>rs. gs = Some rs \<and> first_failure rs = None)"
    by (simp only: genesis_passes_those gs_def)
  ultimately show ?thesis
    using True ok by (cases gs) (auto simp: filter_flow_then split: option.split)
next
  case False
  then have no: "\<not> (public_functions dna = [] \<or> committed X (public_grant dna))" by (simp add: init_actions_token)
  have "(case fst (public_token_of X dna) of Some (Ok a) \<Rightarrow> g a | _ \<Rightarrow> []) = ([] :: Action list)" for g
    using False by (auto split: option.split sum.split)
  then show ?thesis
    using no reported_fails [of X "public_grant dna"]
    by (simp add: filter_flow_then init_actions_token(1))
qed

text \<open>C38: When an instance counts as initialised. On a new nucleus, and whatever else is reduced in
  between, the actions of the initialisation end in the status \<open>Initialized\<close> exactly when the DNA
  and the agent were committed, the DNA has zomes, the grant of its public functions was
  committed, and the genesis callback of every zome returned without a complaint. A DNA without
  zomes leaves the status at \<open>Initializing\<close> for good although the call returned an error, and a
  genesis callback that could not be run, or trapped, counts as one without a complaint.\<close>

theorem initialization_outcome:
  assumes "cx_status X = StatusNew" and "nuc_status n = StatusNew"
    and "filter is_init (map aw_action ws) = filter is_init (snd (initialize_chain X dna))"
  shows "((\<exists>i. nuc_status (nucleus_run x ws n) = Initialized i) \<longleftrightarrow>
      committed X (DnaEntry dna) \<and> committed X (AgentIdEntry (cx_agent_id X)) \<and> dna_zomes dna \<noteq> []
      \<and> (public_functions dna = [] \<or> committed X (public_grant dna)) \<and> genesis_passes X dna)
    \<and> (committed X (DnaEntry dna) \<and> committed X (AgentIdEntry (cx_agent_id X)) \<and> dna_zomes dna = [] \<longrightarrow>
         nuc_status (nucleus_run x ws n) = Initializing
         \<and> fst (initialize_chain X dna) = Some (Err (ErrorGeneric ''Attempting to initialize DNA with zero zomes!'')))
    \<and> (cx_run_dna X (callback_fn_call_new z ''genesis'' GenesisArgs) = Some (Err e) \<longrightarrow>
         (\<forall>s. genesis X z \<noteq> Some (CbFail s)))"
proof (intro conjI impI)
  let ?D = "DnaEntry dna" and ?A = "AgentIdEntry (cx_agent_id X)"
  have init: "nuc_status (nucleus_run x ws n) = fold init_step (filter is_init (snd (initialize_chain X dna))) StatusNew"
    using assms by (simp add: status_run)
  show "(\<exists>i. nuc_status (nucleus_run x ws n) = Initialized i) \<longleftrightarrow> committed X ?D \<and> committed X ?A \<and> dna_zomes dna \<noteq> []
      \<and> (public_functions dna = [] \<or> committed X (public_grant dna)) \<and> genesis_passes X dna"
    using init_rest [of X dna] reported_fails
    by (auto simp: init initialize_chain_def assms(1) init_actions_first flow_result_def flow_wait_def)
  assume *: "committed X ?D \<and> committed X ?A \<and> dna_zomes dna = []"
  then show "nuc_status (nucleus_run x ws n) = Initializing"
    by (simp add: init initialize_chain_def assms(1) init_actions_first flow_result_def flow_wait_def)
  from * show "fst (initialize_chain X dna) = Some (Err (ErrorGeneric ''Attempting to initialize DNA with zero zomes!''))"
    by (auto simp: initialize_chain_def assms(1) committed_def committed_or_failed_def creator_defs flow_wait_def
        flow_result_def)
next
  assume "cx_run_dna X (callback_fn_call_new z ''genesis'' GenesisArgs) = Some (Err e)"
  then show "\<forall>s. genesis X z \<noteq> Some (CbFail s)"
    by (auto simp: genesis_def run_callback_def split: option.splits)
qed

section \<open>Witnesses\<close>

definition post_pending :: PendingValidation where
  "post_pending = \<lparr>pv_entry_with_header = \<lparr>ewh_entry = post_entry, ewh_header = post_header\<rparr>, pv_dependencies = [],
     pv_workflow = HoldEntry\<rparr>"

theorem rejected_entry_stays_pending_witness:
  "let X = blog_context (Ok ''bad'');
       n = nucleus_reduce blog_ext nucleus_state_new (action_wrapper_new 1 (AddPendingValidation post_pending));
       ws = map (action_wrapper_new 2) (retry_validation X post_pending @ retry_validation X post_pending)
   in length ws = 4 \<and> pending_for (nucleus_run blog_ext ws n) ''QmE'' HoldEntry = Some post_pending"
proof -
  let ?X = "blog_context (Ok ''bad'')"
  let ?n = "nucleus_reduce blog_ext nucleus_state_new (action_wrapper_new 1 (AddPendingValidation post_pending))"
  let ?ws = "map (action_wrapper_new 2) (retry_validation ?X post_pending @ retry_validation ?X post_pending)"
  have "rejected ?X post_pending"
    using blog_rejects [of LifecycleDht]
    by (simp add: rejected_def post_pending_def) (simp add: blog_context_def)
  moreover have "entry_address blog_ext post_entry = ''QmE''" by code_simp
  then have "pending_for ?n ''QmE'' HoldEntry = Some post_pending"
    by (simp add: pending_for_reduce action_wrapper_new_def post_pending_def)
  moreover have "length ?ws = 4" by code_simp
  ultimately show ?thesis
    unfolding Let_def
    using rejected_entry_stays_pending [of ?n "''QmE''" HoldEntry post_pending "[?X, ?X]" ?ws blog_ext]
    by (auto simp: action_wrapper_new_def post_pending_def)
qed

theorem initialization_outcome_witness:
  "let X = (blog_context (Ok ''null''))\<lparr>cx_run_dna := (\<lambda>_. Some (Err (RibosomeFailed ''trap'')))\<rparr>;
       ws = map (action_wrapper_new 1) (snd (initialize_chain X blog_dna));
       X0 = blog_context (Ok ''null''); ws0 = map (action_wrapper_new 1) (snd (initialize_chain X0 default_dna))
   in (\<exists>i. nuc_status (nucleus_run blog_ext ws nucleus_state_new) = Initialized i)
      \<and> nuc_status (nucleus_run blog_ext ws0 nucleus_state_new) = Initializing"
proof -
  let ?Y = "blog_context (Ok ''null'')"
  let ?X = "?Y\<lparr>cx_run_dna := (\<lambda>_. Some (Err (RibosomeFailed ''trap'')))\<rparr>"
  have acts: "map (aw_action \<circ> action_wrapper_new i) as = as" for i as
    by (induction as) (simp_all add: action_wrapper_new_def)
  have "committed ?X e" "committed ?Y e" for e by (simp_all add: committed_def blog_context_def)
  moreover have "genesis_passes ?X blog_dna"
  proof -
    have "genesis ?X ''blog'' = Some (CbNotImplemented ''run_callback'')" by code_simp
    then show ?thesis by (simp add: genesis_passes_def blog_dna_def default_dna_def)
  qed
  moreover have "dna_zomes blog_dna \<noteq> []" "dna_zomes default_dna = []" "cx_status ?X = StatusNew" "cx_status ?Y = StatusNew"
      "nuc_status nucleus_state_new = StatusNew"
    by (simp_all add: blog_dna_def default_dna_def blog_context_def nucleus_state_new_def)
  ultimately show ?thesis
    unfolding Let_def
    using initialization_outcome [of ?X nucleus_state_new "map (action_wrapper_new 1) (snd (initialize_chain ?X blog_dna))" blog_dna blog_ext
        "''blog''" "RibosomeFailed ''trap''"]
      initialization_outcome [of ?Y nucleus_state_new "map (action_wrapper_new 1) (snd (initialize_chain ?Y default_dna))" default_dna blog_ext
        "''blog''" "RibosomeFailed ''trap''"]
    by (simp add: acts)
qed

end
