(* ===== verification/Net_Handler.thy ===== *)
theory Net_Handler
  imports Workflows
begin

text \<open>
  What an instance does with a message from the network: \<open>core/src/network/handler/*.rs\<close>. A message
  is handled in the network thread, which may start another thread for a workflow. The handler
  is a flow: its result \<open>None\<close> is a panic of the network thread, its actions are those that the
  network thread dispatches, and its value are the actions of the thread it started.
\<close>

section \<open>The context of the handler\<close>

record hd_context =
  hd_net :: net_ext
  hd_dna_address :: Address
  hd_flow :: wf_context
  hd_entry_with_meta :: "Address \<Rightarrow> EntryWithMeta option HcResult option"
  hd_headers :: "Address \<Rightarrow> ChainHeader list HcResult option"
  hd_links :: "Address \<Rightarrow> string option \<Rightarrow> string option \<Rightarrow> EAVI list HcResult"
  hd_connections :: "string \<rightharpoonup> DirectMessage"

text \<open>The lookups of one state.\<close>

definition handler_at ::
    "'s cas_ops \<Rightarrow> 'e eav_ops \<Rightarrow> moment \<Rightarrow> (Address \<Rightarrow> EntryWithMetaAndHeader option HcResult) \<Rightarrow> ('s, 'e) State
     \<Rightarrow> hd_context \<Rightarrow> hd_context" where
  "handler_at C E mo net st H =
     (let x = cx_ext (hd_flow H) in
      H\<lparr>hd_flow := context_at C E mo net st (hd_flow H),
        hd_entry_with_meta := get_entry_with_meta C E x (st_cas st) (st_eav st),
        hd_headers := state_get_headers C E x st,
        hd_links := get_links E (st_eav st),
        hd_connections := direct_message_connections (st_network st)\<rparr>)"

type_synonym handling = "(HolochainError, Action list) flow"

definition ignored :: handling where
  "ignored = flow_result (Ok [])"

definition panics :: handling where
  "panics = flow_wait None"

definition dispatched :: "Action \<Rightarrow> handling" where
  "dispatched act = flow_then (flow_dispatch act) (\<lambda>_. ignored)"

definition spawned :: "('e, 'a) flow \<Rightarrow> handling" where
  "spawned m = flow_result (Ok (snd m))"

definition is_my_dna :: "Address \<Rightarrow> Address \<Rightarrow> bool" where
  "is_my_dna my_dna_address dna_address \<longleftrightarrow> my_dna_address = dna_address"

definition is_my_id :: "wf_context \<Rightarrow> string \<Rightarrow> bool" where
  "is_my_id X agent_id \<longleftrightarrow> \<not> (agent_id \<noteq> '''' \<and> pub_sign_key (cx_agent_id X) \<noteq> agent_id)"

section \<open>Requests to store\<close>

definition handle_store_entry :: "hd_context \<Rightarrow> EntryData \<Rightarrow> handling" where
  "handle_store_entry H dht_data =
     (case ewh_of_value (hd_net H) (ed_entry_content dht_data) of
        None \<Rightarrow> panics
      | Some ewh \<Rightarrow> spawned (hold_entry_workflow (hd_flow H) ewh))"

definition first_content :: "hd_context \<Rightarrow> DhtMetaData \<Rightarrow> EntryWithHeader option" where
  "first_content H d = (case dm_content_list d of [] \<Rightarrow> None | c # _ \<Rightarrow> ewh_of_value (hd_net H) c)"

definition handle_store_meta :: "hd_context \<Rightarrow> DhtMetaData \<Rightarrow> handling" where
  "handle_store_meta H d =
     (let attr = dm_attribute d in
      if attr = attribute_string LinkAttr \<or> attr = attribute_string LinkRemoveAttr then
        if length (dm_content_list d) \<noteq> 1 then panics
        else case first_content H d of
          None \<Rightarrow> panics
        | Some ewh \<Rightarrow>
            if attr = attribute_string LinkAttr then spawned (hold_link_workflow (hd_flow H) ewh)
            else spawned (remove_link_workflow (hd_flow H) ewh)
      else case crud_status_from_str attr of
        Err _ \<Rightarrow> panics
      | Ok status \<Rightarrow>
          if status = Deleted then
            (case first_content H d of None \<Rightarrow> panics | Some ewh \<Rightarrow> spawned (hold_remove_workflow (hd_flow H) ewh))
          else if status = Modified then
            (case first_content H d of None \<Rightarrow> panics | Some ewh \<Rightarrow> spawned (hold_update_workflow (hd_flow H) ewh))
          else ignored)"

section \<open>Requests to read\<close>

definition handle_fetch_entry :: "hd_context \<Rightarrow> FetchEntryData \<Rightarrow> handling" where
  "handle_fetch_entry H d =
     (let a = fe_entry_address d in
      case hd_entry_with_meta H a of
        None \<Rightarrow> panics
      | Some (Err _) \<Rightarrow> dispatched (RespondFetch d None)
      | Some (Ok entry_with_meta_opt) \<Rightarrow>
          (case hd_headers H a of
             None \<Rightarrow> panics
           | Some (Err _) \<Rightarrow> dispatched (RespondFetch d None)
           | Some (Ok headers) \<Rightarrow>
               (case entry_with_meta_opt of
                  None \<Rightarrow> dispatched (RespondFetch d None)
                | Some em \<Rightarrow>
                    (case can_publish (cx_dna (hd_flow H)) (entry_type (ewm_entry em)) of
                       None \<Rightarrow> panics
                     | Some public \<Rightarrow>
                         dispatched (RespondFetch d (if public
                           then Some \<lparr>ewmh_entry_with_meta = em, ewmh_headers = headers\<rparr> else None))))))"

definition handle_fetch_entry_result :: "FetchEntryResultData \<Rightarrow> handling" where
  "handle_fetch_entry_result d = dispatched (HandleFetchResult d)"

definition unless_star :: "string \<Rightarrow> string option" where
  "unless_star s = (if s = ''*'' then None else Some s)"

definition handle_fetch_meta :: "hd_context \<Rightarrow> FetchMetaData \<Rightarrow> handling" where
  "handle_fetch_meta H d =
     (case attribute_try_from (fm_attribute d) of
        Ok (LinkTag ty tag) \<Rightarrow>
          dispatched (RespondGetLinks d
            (case hd_links H (fm_entry_address d) (unless_star ty) (unless_star tag) of
               Ok eavs \<Rightarrow> map val eavs | Err _ \<Rightarrow> []))
      | _ \<Rightarrow> ignored)"

definition handle_fetch_meta_result :: "FetchMetaResultData \<Rightarrow> handling" where
  "handle_fetch_meta_result d =
     (case attribute_try_from (fmr_attribute d) of
        Ok (LinkTag ty tag) \<Rightarrow> dispatched (HandleGetLinksResult d ty tag)
      | _ \<Rightarrow> ignored)"

section \<open>Direct messages\<close>

definition handle_send_message :: "hd_context \<Rightarrow> MessageData \<Rightarrow> handling" where
  "handle_send_message H d =
     (case message_of_value (hd_net H) (md_content d) of
        None \<Rightarrow> panics
      | Some (Custom cdm) \<Rightarrow>
          spawned (handle_custom_direct_message (hd_flow H) (md_from_agent_id d) (md_request_id d) cdm)
      | Some (RequestValidationPackage a) \<Rightarrow>
          spawned (respond_validation_package_request (hd_flow H) (md_from_agent_id d) (md_request_id d) a [])
      | Some (ValidationPackageMessage _) \<Rightarrow> ignored)"

definition handle_send_message_result :: "hd_context \<Rightarrow> MessageData \<Rightarrow> handling" where
  "handle_send_message_result H d =
     (let i = md_request_id d; initial_message = hd_connections H i in
      case message_of_value (hd_net H) (md_content d) of
        None \<Rightarrow> panics
      | Some (Custom cdm) \<Rightarrow>
          if initial_message = None then ignored
          else flow_then (flow_dispatch (HandleCustomSendResponse i (cdm_payload cdm))) (\<lambda>_.
            dispatched (ResolveDirectConnection i))
      | Some (RequestValidationPackage _) \<Rightarrow> ignored
      | Some (ValidationPackageMessage p) \<Rightarrow>
          (case initial_message of
             None \<Rightarrow> ignored
           | Some (RequestValidationPackage a) \<Rightarrow>
               flow_then (flow_dispatch (HandleGetValidationPackage a p)) (\<lambda>_. dispatched (ResolveDirectConnection i))
           | Some _ \<Rightarrow> panics))"

section \<open>The handler\<close>

text \<open>Errors of a publication are logged, waiting for one blocks the network thread. A chain that
  cannot be read to its end is taken to panic before anything is published.\<close>

fun republish :: "wf_context \<Rightarrow> ChainHeader list \<Rightarrow> handling" where
  "republish X [] = ignored"
| "republish X (h # hs) =
     (case can_publish (cx_dna X) (h_entry_type h) of
        None \<Rightarrow> panics
      | Some False \<Rightarrow> republish X hs
      | Some True \<Rightarrow>
          (case publish X (h_entry_address h) of
             (None, acts) \<Rightarrow> (None, acts)
           | (Some _, acts) \<Rightarrow> flow_then (Some (Ok ()), acts) (\<lambda>_. republish X hs)))"

definition republish_all_public_chain_entries :: "wf_context \<Rightarrow> handling" where
  "republish_all_public_chain_entries X = (case cx_chain X of None \<Rightarrow> panics | Some hs \<Rightarrow> republish X hs)"

definition for_my_dna :: "hd_context \<Rightarrow> Address \<Rightarrow> handling \<Rightarrow> handling" where
  "for_my_dna H dna_address handle = (if is_my_dna (hd_dna_address H) dna_address then handle else ignored)"

definition for_my_id :: "hd_context \<Rightarrow> string \<Rightarrow> handling \<Rightarrow> handling" where
  "for_my_id H agent_id handle = (if is_my_id (hd_flow H) agent_id then handle else ignored)"

definition handle_message :: "hd_context \<Rightarrow> JsonProtocol \<Rightarrow> handling" where
  "handle_message H message =
     (case message of
        HandleStoreEntry d \<Rightarrow> for_my_dna H (ed_dna_address d) (handle_store_entry H d)
      | HandleStoreMeta d \<Rightarrow> for_my_dna H (dm_dna_address d) (handle_store_meta H d)
      | HandleFetchEntry d \<Rightarrow> for_my_dna H (fe_dna_address d) (handle_fetch_entry H d)
      | FetchEntryResult d \<Rightarrow>
          for_my_dna H (fer_dna_address d) (for_my_id H (fer_requester_agent_id d) (handle_fetch_entry_result d))
      | HandleFetchMeta d \<Rightarrow> for_my_dna H (fm_dna_address d) (handle_fetch_meta H d)
      | FetchMetaResult d \<Rightarrow>
          for_my_dna H (fmr_dna_address d) (for_my_id H (fmr_requester_agent_id d) (handle_fetch_meta_result d))
      | HandleSendMessage d \<Rightarrow>
          for_my_dna H (md_dna_address d) (for_my_id H (md_to_agent_id d) (handle_send_message H d))
      | SendMessageResult d \<Rightarrow>
          for_my_dna H (md_dna_address d) (for_my_id H (md_to_agent_id d) (handle_send_message_result H d))
      | PeerConnected d \<Rightarrow>
          if is_my_id (hd_flow H) (pd_agent_id d) then ignored
          else republish_all_public_chain_entries (hd_flow H)
      | _ \<Rightarrow> ignored)"

section \<open>What a message can cause\<close>

text \<open>The actions of both threads.\<close>

definition caused :: "handling \<Rightarrow> Action set" where
  "caused m = set (snd m) \<union> (case fst m of Some (Ok acts) \<Rightarrow> set acts | _ \<Rightarrow> {})"

lemma caused_simps [simp]:
  "caused ignored = {}" "caused panics = {}" "caused (dispatched act) = {act}" "caused (spawned m) = set (snd m)"
  by (simp_all add: caused_def ignored_def panics_def dispatched_def spawned_def)

lemma caused_Cons [simp]: "caused (fst m, act # snd m) = insert act (caused m)"
  by (simp add: caused_def)

lemma caused_guards [simp]:
  "caused (for_my_dna H a m) = (if hd_dna_address H = a then caused m else {})"
  "caused (for_my_id H i m) = (if is_my_id (hd_flow H) i then caused m else {})"
  by (simp_all add: for_my_dna_def for_my_id_def is_my_dna_def)

lemma republish_causes:
  "act \<in> caused (republish X hs) \<Longrightarrow>
     \<exists>h\<in>set hs. act = Publish (h_entry_address h) \<and> can_publish (cx_dna X) (h_entry_type h) = Some True"
proof (induction X hs rule: republish.induct)
  case (2 X h hs)
  show ?case
  proof (cases "can_publish (cx_dna X) (h_entry_type h)")
    case (Some public)
    show ?thesis
    proof (cases public)
      case True
      have p: "publish X (h_entry_address h) = (cx_publish X (h_entry_address h), [Publish (h_entry_address h)])"
        by (simp add: publish_def)
      show ?thesis
      proof (cases "cx_publish X (h_entry_address h)")
        case None
        with 2 Some True p show ?thesis by (auto simp: caused_def)
      next
        case r: (Some r)
        with 2(3) Some True p have "act = Publish (h_entry_address h) \<or> act \<in> caused (republish X hs)"
          by (auto simp: caused_def)
        with 2 Some True p r show ?thesis by auto
      qed
    qed (use 2 Some in auto)
  qed (use 2 in simp)
qed simp




text \<open>What a request for a validation package is answered with.\<close>

lemma response_actions:
  assumes "act \<in> set (snd (respond_validation_package_request X to i a ps))"
  obtains e where "act \<in> set (snd (build_validation_package X e ps))"
    | e p where "fst (build_validation_package X e ps) = Some (Ok p)"
        "act = direct_response to i (ValidationPackageMessage (Some p))"
    | "act = direct_response to i (ValidationPackageMessage None)"
proof (cases "cx_chain_entry X a")
  case None
  with assms show thesis by (simp add: respond_validation_package_request_def)
next
  case (Some r)
  consider e where "r = Ok (Some e)" | "\<nexists>e. r = Ok (Some e)" by blast
  then show thesis
  proof cases
    case (1 e)
    obtain b acts where b: "build_validation_package X e ps = (b, acts)" by force
    then consider "act \<in> set acts" | q where "b = Some q" "act = direct_response to i (ValidationPackageMessage (to_ok q))"
      using assms Some 1 by (cases b) (auto simp: respond_validation_package_request_def)
    then show thesis
    proof cases
      case 1
      with b that(1) [of e] show thesis by simp
    next
      case (2 q)
      with b that(2) [of e] that(3) show thesis by (cases q) simp_all
    qed
  next
    case 2
    then have "respond_validation_package_request X to i a ps
        = flow_dispatch (direct_response to i (ValidationPackageMessage None))"
      using Some by (auto simp: respond_validation_package_request_def Let_def split: sum.split option.split)
    with assms that show thesis by simp
  qed
qed


lemmas answer_defs = handle_fetch_entry_def handle_fetch_entry_result_def handle_fetch_meta_def
  handle_fetch_meta_result_def handle_send_message_def handle_send_message_result_def
  republish_all_public_chain_entries_def Let_def

section \<open>Disclosure\<close>

text \<open>The entries that an action sends to another agent.\<close>

fun discloses :: "Action \<Rightarrow> Entry list" where
  "discloses (RespondFetch _ (Some em)) = [ewm_entry (ewmh_entry_with_meta em)]"
| "discloses (SendDirectMessage d) =
     (case dmsg_message d of
        ValidationPackageMessage (Some p) \<Rightarrow> (case vp_source_chain_entries p of Some es \<Rightarrow> es | None \<Rightarrow> [])
      | _ \<Rightarrow> [])"
| "discloses _ = []"

definition is_public :: "wf_context \<Rightarrow> EntryType \<Rightarrow> bool" where
  "is_public X t \<longleftrightarrow> can_publish (cx_dna X) t = Some True"

text \<open>Headers name the type of their entry, as those of the commit reducer do.\<close>

definition typed_chain :: "wf_context \<Rightarrow> bool" where
  "typed_chain X \<longleftrightarrow>
     (\<forall>hs h e. cx_chain X = Some hs \<and> h \<in> set hs \<and> chain_entry X h = Some e \<longrightarrow> entry_type e = h_entry_type h)"

lemma public_headers_public:
  assumes "public_headers X = Some hs" "h \<in> set hs"
  shows "is_public X (h_entry_type h) \<and> (\<exists>gs. cx_chain X = Some gs \<and> h \<in> set gs)"
proof -
  from assms(1) obtain gs ps where g: "cx_chain X = Some gs" "hs = map fst (filter snd ps)"
    "map (\<lambda>h. map_option (Pair h) (can_publish (cx_dna X) (h_entry_type h))) gs = map Some ps"
    by (auto simp: public_headers_def those_Some split: Option.bind_splits)
  from assms(2) g(2) have "(h, True) \<in> set ps" by force
  then have "Some (h, True) \<in> set (map (\<lambda>h. map_option (Pair h) (can_publish (cx_dna X) (h_entry_type h))) gs)"
    unfolding g(3) by simp
  then show ?thesis using g(1) by (auto simp: is_public_def dest!: sym [of "Some (h, True)"])
qed

lemma package_entries_public:
  assumes "typed_chain X" "package_of_definition X h def = Some p" "vp_source_chain_entries p = Some es" "e \<in> set es"
  shows "is_public X (entry_type e)"
proof -
  have "all_public_chain_entries X = Some es"
    using assms(2,3)
    by (auto simp: package_of_definition_def only_header_def Let_def split: ValidationPackageDefinition.splits
        Option.bind_splits)
  then obtain hs where hs: "public_headers X = Some hs" "map (chain_entry X) hs = map Some es"
    by (auto simp: all_public_chain_entries_def those_Some split: Option.bind_splits)
  with assms(4) obtain h where h: "h \<in> set hs" "chain_entry X h = Some e"
    by (metis (no_types, lifting) image_iff list.set_map option.inject)
  with public_headers_public [OF hs(1) h(1)] assms(1) show ?thesis
    by (auto simp: typed_chain_def)
qed

lemma build_entries_public:
  assumes "typed_chain X" "fst (build_validation_package X e ps) = Some (Ok p)"
    and "vp_source_chain_entries p = Some es" "f \<in> set es"
  shows "is_public X (entry_type f)"
proof -
  obtain h where "maybe_validation_package X e h = Some (Ok p)"
    using assms(2) by (auto simp: build_validation_package_def split: option.splits)
  then obtain def where "package_of_definition X h def = Some p"
    by (auto simp: maybe_validation_package_def split: option.splits sum.splits CallbackResult.splits)
  with assms package_entries_public show ?thesis by blast
qed

lemma workflow_discloses_nothing:
  assumes "act \<in> set (snd (hold_entry_workflow X ewh)) \<union> set (snd (hold_link_workflow X ewh))
      \<union> set (snd (remove_link_workflow X ewh)) \<union> set (snd (hold_update_workflow X ewh)) \<union> set (snd (hold_remove_workflow X ewh))"
  shows "discloses act = [] \<and> (\<forall>a. act \<noteq> Publish a)"
proof -
  have v: "discloses act = [] \<and> (\<forall>a. act \<noteq> Publish a)" if "act \<in> set (snd (validate_entry X e l vd))" for e l vd
    using validation_dispatches [OF that] by auto
  have "discloses a = [] \<and> (\<forall>b. a \<noteq> Publish b)" if "a \<in> set (snd (case err of
      UnresolvedDependencies ds \<Rightarrow> pending ewh w ds | _ \<Rightarrow> (ValidationPending, [])))" for a w err
    using that by (cases err) (auto simp: pending_def add_pending_validation_def)
  then have p: "discloses act = [] \<and> (\<forall>a. act \<noteq> Publish a)" if "act \<in> set (snd (validate_or_pend X ewh w lc))" for w lc
    using that v by (auto simp: validate_or_pend_def creator_defs pending_def add_pending_validation_def)
  have m: "discloses act = [] \<and> (\<forall>a. act \<noteq> Publish a)" if "act \<in> set (snd (validate_meta X e l q))" for e l q
    using that v by (auto simp: validate_meta_def)
  show ?thesis
    using assms p m
    by (auto simp: hold_entry_workflow_def hold_link_workflow_def remove_link_workflow_def hold_update_workflow_def
        hold_remove_workflow_def creator_defs)
qed

section \<open>Properties\<close>


text \<open>C3: Private entries stay with their author. Every entry that an instance sends in answer to a
  message, as a fetched entry or inside a validation package, has a type that the DNA lets be
  published, provided that the headers of the chain name the types of their entries; and the
  entries it publishes when a peer connects are those of the chain with such a type.\<close>

theorem private_entries_stay_private:
  assumes "typed_chain (hd_flow H)" and "act \<in> caused (handle_message H message)"
  shows "(\<forall>e\<in>set (discloses act). is_public (hd_flow H) (entry_type e))
    \<and> (\<forall>a. act = Publish a \<longrightarrow>
         (\<exists>hs h. cx_chain (hd_flow H) = Some hs \<and> h \<in> set hs \<and> h_entry_address h = a
            \<and> is_public (hd_flow H) (h_entry_type h)))"
proof -
  let ?X = "hd_flow H"
  let ?P = "\<lambda>act. (\<forall>e\<in>set (discloses act). is_public ?X (entry_type e))
    \<and> (\<forall>a. act = Publish a \<longrightarrow>
         (\<exists>hs h. cx_chain ?X = Some hs \<and> h \<in> set hs \<and> h_entry_address h = a \<and> is_public ?X (h_entry_type h)))"
  have answer: "?P act" if "act \<in> set (snd (respond_validation_package_request ?X to i a ps))" for to i a ps
    using that
  proof (cases rule: response_actions)
    case (1 e)
    then show ?thesis by (auto dest: build_dispatches)
  next
    case (2 e p)
    then show ?thesis
      using build_entries_public [OF assms(1) 2(1)]
      by (cases "vp_source_chain_entries p") (auto simp: direct_response_def)
  qed (simp add: direct_response_def)
  have custom: "?P act" if "act \<in> set (snd (handle_custom_direct_message ?X from i cdm))" for "from" i cdm
    using that by (auto simp: handle_custom_direct_message_def direct_response_def Let_def)
  have store: "?P act" if "act \<in> set (snd (hold_entry_workflow ?X ewh)) \<union> set (snd (hold_link_workflow ?X ewh))
      \<union> set (snd (remove_link_workflow ?X ewh)) \<union> set (snd (hold_update_workflow ?X ewh)) \<union> set (snd (hold_remove_workflow ?X ewh))" for ewh
    using workflow_discloses_nothing [OF that] by simp
  have republished: "?P act" if "cx_chain ?X = Some hs" "act \<in> caused (republish ?X hs)" for hs
    using republish_causes [OF that(2)] that(1) by (auto simp: is_public_def)
  show ?thesis
  proof (cases "(\<exists>d. message = HandleStoreEntry d) \<or> (\<exists>d. message = HandleStoreMeta d)")
    case True
    then have "\<exists>ewh. act \<in> set (snd (hold_entry_workflow ?X ewh)) \<union> set (snd (hold_link_workflow ?X ewh))
      \<union> set (snd (remove_link_workflow ?X ewh)) \<union> set (snd (hold_update_workflow ?X ewh)) \<union> set (snd (hold_remove_workflow ?X ewh))"
      using assms(2)
      by (auto simp: handle_message_def handle_store_entry_def handle_store_meta_def Let_def
          split: option.splits sum.splits if_splits; blast)
    with store show ?thesis by blast
  next
    case False
    consider "?P act" | to i a ps where "act \<in> set (snd (respond_validation_package_request ?X to i a ps))"
      | "from" i cdm where "act \<in> set (snd (handle_custom_direct_message ?X from i cdm))"
      | hs where "cx_chain ?X = Some hs" "act \<in> caused (republish ?X hs)"
      using assms(2) False
      by (cases message)
        (fastforce simp: handle_message_def answer_defs is_public_def
          split: option.splits sum.splits if_splits Attribute.splits DirectMessage.splits)+
    then show ?thesis
    proof cases
      case 1
      then show ?thesis .
    qed (fact answer custom republished)+
  qed
qed

text \<open>What a peer can write into a message to make the network thread panic.\<close>

fun malformed :: "hd_context \<Rightarrow> JsonProtocol \<Rightarrow> bool" where
  "malformed H (HandleStoreEntry d) \<longleftrightarrow>
     ed_dna_address d = hd_dna_address H \<and> ewh_of_value (hd_net H) (ed_entry_content d) = None"
| "malformed H (HandleStoreMeta d) \<longleftrightarrow>
     dm_dna_address d = hd_dna_address H
     \<and> (dm_attribute d \<notin> {''link'', ''link_remove'', ''live'', ''rejected'', ''deleted'', ''modified'', ''locked''}
        \<or> dm_attribute d \<in> {''link'', ''link_remove''} \<and> length (dm_content_list d) \<noteq> 1
        \<or> dm_attribute d \<in> {''link'', ''link_remove'', ''deleted'', ''modified''} \<and> first_content H d = None)"
| "malformed H (HandleSendMessage d) \<longleftrightarrow>
     md_dna_address d = hd_dna_address H \<and> is_my_id (hd_flow H) (md_to_agent_id d)
     \<and> message_of_value (hd_net H) (md_content d) = None"
| "malformed H (SendMessageResult d) \<longleftrightarrow>
     md_dna_address d = hd_dna_address H \<and> is_my_id (hd_flow H) (md_to_agent_id d)
     \<and> (message_of_value (hd_net H) (md_content d) = None
        \<or> (\<exists>p cdm. message_of_value (hd_net H) (md_content d) = Some (ValidationPackageMessage p)
             \<and> hd_connections H (md_request_id d) = Some (Custom cdm))
        \<or> (\<exists>p q. message_of_value (hd_net H) (md_content d) = Some (ValidationPackageMessage p)
             \<and> hd_connections H (md_request_id d) = Some (ValidationPackageMessage q)))"
| "malformed H _ \<longleftrightarrow> False"

lemma handling_results [simp]:
  "fst ignored = Some (Ok [])" "fst panics = None" "fst (dispatched act) = Some (Ok [])" "fst (spawned m) = Some (Ok (snd m))"
  by (simp_all add: ignored_def panics_def dispatched_def spawned_def)


text \<open>C40: Which messages of peers kill the network thread. Apart from the two that read the local
  chain and storage, a message makes its handler panic exactly when it is malformed: a request to
  store whose content is no entry with its header, a metadata request with an attribute other
  than the seven that are known, or with none or two values for a link, a direct message that
  cannot be read, and a validation package as the answer to anything but a request for one. All
  other messages are handled to the end.\<close>

theorem handler_panics_exactly:
  assumes "\<forall>d. message \<noteq> HandleFetchEntry d" and "\<forall>d. message \<noteq> PeerConnected d"
  shows "(fst (handle_message H message) = None) = malformed H message"
proof (cases message)
  case (HandleStoreMeta d)
  then show ?thesis
    by (cases "dm_content_list d")
      (auto simp: handle_message_def for_my_dna_def is_my_dna_def handle_store_meta_def crud_status_from_str_def
        first_content_def Let_def split: option.splits)
next
  case (SendMessageResult d)
  then show ?thesis
    by (auto simp: handle_message_def for_my_dna_def for_my_id_def is_my_dna_def handle_send_message_result_def Let_def
        split: option.splits DirectMessage.splits)
qed (use assms in \<open>auto simp: handle_message_def for_my_dna_def for_my_id_def is_my_dna_def handle_store_entry_def
    handle_fetch_entry_result_def handle_fetch_meta_def handle_fetch_meta_result_def handle_send_message_def
    split: option.splits sum.splits Attribute.splits DirectMessage.splits\<close>)

section \<open>Witnesses\<close>

definition post_with_header :: EntryWithHeader where
  "post_with_header = \<lparr>ewh_entry = post_entry, ewh_header = post_header\<rparr>"

definition post_with_meta :: EntryWithMeta where
  "post_with_meta = \<lparr>ewm_entry = post_entry, ewm_crud_status = Live, ewm_maybe_link_update_delete = None\<rparr>"

definition blog_handler :: hd_context where
  "blog_handler =
     \<lparr>hd_net = sample_net_ext\<lparr>ewh_of_value := (\<lambda>v. if v = ''post'' then Some post_with_header else None)\<rparr>,
      hd_dna_address = ''QmDna'', hd_flow = blog_context (Ok ''null''),
      hd_entry_with_meta = (\<lambda>_. Some (Ok (Some post_with_meta))), hd_headers = (\<lambda>_. Some (Ok [post_header])),
      hd_links = (\<lambda>_ _ _. Ok []), hd_connections = Map.empty\<rparr>"

definition post_request :: "JsonValue \<Rightarrow> JsonProtocol" where
  "post_request v = HandleStoreEntry \<lparr>ed_dna_address = ''QmDna'', ed_provider_agent_id = ''alice'',
     ed_entry_address = ''QmE'', ed_entry_content = v\<rparr>"


theorem private_entries_stay_private_witness:
  "let d = \<lparr>fe_dna_address = ''QmDna'', fe_request_id = ''r'', fe_requester_agent_id = ''bob'', fe_entry_address = ''QmE''\<rparr>;
       em = \<lparr>ewmh_entry_with_meta = post_with_meta, ewmh_headers = [post_header]\<rparr>
   in RespondFetch d (Some em) \<in> caused (handle_message blog_handler (HandleFetchEntry d))
      \<and> is_public (hd_flow blog_handler) (entry_type post_entry)"
proof -
  let ?d = "\<lparr>fe_dna_address = ''QmDna'', fe_request_id = ''r'', fe_requester_agent_id = ''bob'', fe_entry_address = ''QmE''\<rparr>"
  let ?em = "\<lparr>ewmh_entry_with_meta = post_with_meta, ewmh_headers = [post_header]\<rparr>"
  have "chain_entry (hd_flow blog_handler) post_header = Some post_entry" by code_simp
  then have "typed_chain (hd_flow blog_handler)"
    by (simp add: typed_chain_def) (simp add: blog_handler_def blog_context_def post_header_def post_entry_def chain_header_new_def)
  moreover have "can_publish (cx_dna (blog_context (Ok ''null''))) (entry_type post_entry) = Some True" by code_simp
  then have "RespondFetch ?d (Some ?em) \<in> caused (handle_message blog_handler (HandleFetchEntry ?d))"
    by (simp add: handle_message_def handle_fetch_entry_def blog_handler_def post_with_meta_def Let_def)
  ultimately show ?thesis
    unfolding Let_def
    using private_entries_stay_private [of blog_handler "RespondFetch ?d (Some ?em)" "HandleFetchEntry ?d"]
    by (simp add: post_with_meta_def)
qed

theorem handler_panics_exactly_witness:
  "fst (handle_message blog_handler (post_request ''rubbish'')) = None
   \<and> fst (handle_message blog_handler (post_request ''post'')) \<noteq> None"
proof -
  have "malformed blog_handler (post_request ''rubbish'')" "\<not> malformed blog_handler (post_request ''post'')"
    by (simp_all add: post_request_def blog_handler_def)
  moreover have "\<forall>d. post_request v \<noteq> HandleFetchEntry d" "\<forall>d. post_request v \<noteq> PeerConnected d" for v
    by (simp_all add: post_request_def)
  ultimately show ?thesis
    using handler_panics_exactly [of "post_request ''rubbish''" blog_handler]
      handler_panics_exactly [of "post_request ''post''" blog_handler] by simp
qed

end
