(* ===== verification/Wasm_Memory.thy ===== *)
theory Wasm_Memory
  imports Core_Errors
begin

text \<open>
  The memory protocol between the ribosome and a zome's WASM module:
  \<open>wasm_utils/src/memory/{mod,allocation,stack,ribosome,read,write}.rs\<close> (the guest side) and
  \<open>core/src/nucleus/ribosome/memory.rs\<close> (the host side). Allocations are 32-bit offsets and
  lengths, compared in 64 bits; a stack is only its top. Linear memory is a list of bytes of
  the module's current memory size: touching a byte beyond it is a trap or a failed
  \<open>expect\<close>, modelled as \<open>None\<close>.
\<close>

section \<open>Allocations\<close>

definition MEMORY_INT_MAX :: u64 where
  "MEMORY_INT_MAX = U32_MAX"

datatype AllocationError = OutOfBounds | ZeroLength | BadStackAlignment | Serialization

record WasmAllocation =
  offset :: u32
  alen :: u32

type_synonym AllocationResult = "AllocationError + WasmAllocation"

fun allocation_error_str :: "AllocationError \<Rightarrow> string" where
  "allocation_error_str OutOfBounds = ''Allocation out of bounds''"
| "allocation_error_str ZeroLength = ''Allocation is zero length''"
| "allocation_error_str BadStackAlignment = ''Allocation not aligned with stack''"
| "allocation_error_str Serialization = ''Allocation could not serialize data''"

definition holochain_error_of_alloc :: "AllocationError \<Rightarrow> HolochainError" where
  "holochain_error_of_alloc e = ErrorGeneric (allocation_error_str e)"

definition allocation_new :: "u32 \<Rightarrow> u32 \<Rightarrow> AllocationResult" where
  "allocation_new off len =
     (if (ucast off + ucast len :: u64) > MEMORY_INT_MAX then Err OutOfBounds
      else if len = 0 then Err ZeroLength
      else Ok \<lparr>offset = off, alen = len\<rparr>)"

section \<open>The stack\<close>

record WasmStack =
  stack_top :: u32

definition stack_new :: WasmStack where
  "stack_new = \<lparr>stack_top = 0\<rparr>"

definition next_allocation :: "WasmStack \<Rightarrow> u32 \<Rightarrow> AllocationResult" where
  "next_allocation s len = allocation_new (stack_top s) len"

definition allocate :: "WasmStack \<Rightarrow> WasmAllocation \<Rightarrow> (AllocationError + u32) \<times> WasmStack" where
  "allocate s a =
     (if stack_top s \<noteq> offset a then (Err BadStackAlignment, s)
      else if (ucast (stack_top s) + ucast (alen a) :: u64) > MEMORY_INT_MAX then (Err OutOfBounds, s)
      else (Ok (stack_top s), s\<lparr>stack_top := offset a + alen a\<rparr>))"

definition deallocate :: "WasmStack \<Rightarrow> WasmAllocation \<Rightarrow> (AllocationError + u32) \<times> WasmStack" where
  "deallocate s a =
     (if stack_top s \<noteq> offset a + alen a then (Err BadStackAlignment, s)
      else if offset a < 0 then (Err OutOfBounds, s)
      else (Ok (stack_top s), s\<lparr>stack_top := offset a\<rparr>))"

definition stack_try_from :: "WasmAllocation \<Rightarrow> AllocationError + WasmStack" where
  "stack_try_from a =
     (case allocate \<lparr>stack_top = offset a\<rparr> a of (Ok _, s) \<Rightarrow> Ok s | (Err e, _) \<Rightarrow> Err e)"

section \<open>Ribosome encodings of allocations\<close>

definition allocation_try_from_encoded :: "u64 \<Rightarrow> AllocationResult" where
  "allocation_try_from_encoded bits =
     (let (off, len) = u64_split_bits bits in allocation_new off len)"

definition encoded_allocation :: "WasmAllocation \<Rightarrow> u64" where
  "encoded_allocation a = u64_merge_bits (offset a) (alen a)"

fun ribosome_error_of_alloc :: "AllocationError \<Rightarrow> RibosomeErrorCode" where
  "ribosome_error_of_alloc OutOfBounds = OutOfMemory"
| "ribosome_error_of_alloc ZeroLength = ZeroSizedAllocation"
| "ribosome_error_of_alloc BadStackAlignment = NotAnAllocation"
| "ribosome_error_of_alloc Serialization = NotAnAllocation"

definition encoded_value_of_alloc_error :: "AllocationError \<Rightarrow> RibosomeEncodedValue" where
  "encoded_value_of_alloc_error e = Failure (ribosome_error_of_alloc e)"

definition allocation_as_ribosome_encoding :: "WasmAllocation \<Rightarrow> u64" where
  "allocation_as_ribosome_encoding a = encoding_bits (Allocation (encoded_allocation a))"

definition allocation_try_from_ribosome_encoding :: "u64 \<Rightarrow> AllocationResult option" where
  "allocation_try_from_ribosome_encoding bits =
     (case encoded_value_of bits of
        None \<Rightarrow> None
      | Some Success \<Rightarrow> Some (Err ZeroLength)
      | Some (Failure _) \<Rightarrow> Some (Err OutOfBounds)
      | Some (Allocation r) \<Rightarrow> Some (allocation_try_from_encoded r))"

definition stack_try_from_ribosome_encoding ::
    "u64 \<Rightarrow> (RibosomeEncodedValue + WasmStack) option" where
  "stack_try_from_ribosome_encoding bits =
     (case allocation_try_from_ribosome_encoding bits of
        None \<Rightarrow> None
      | Some r \<Rightarrow>
          (case and_then r stack_try_from of
             Ok s \<Rightarrow> Some (Ok s)
           | Err e \<Rightarrow>
               map_option Err (encoded_value_of (encoding_bits (encoded_value_of_alloc_error e)))))"

definition return_code_for_allocation_result :: "AllocationResult \<Rightarrow> RibosomeEncodedValue" where
  "return_code_for_allocation_result r =
     (case r of Ok a \<Rightarrow> Allocation (encoded_allocation a)
      | Err e \<Rightarrow> encoded_value_of_alloc_error e)"

section \<open>Linear memory\<close>

definition mem_set :: "u8 list \<Rightarrow> nat \<Rightarrow> u8 list \<Rightarrow> u8 list option" where
  "mem_set mem off bs =
     (if off + length bs \<le> length mem then Some (take off mem @ bs @ drop (off + length bs) mem)
      else None)"

definition mem_get :: "u8 list \<Rightarrow> nat \<Rightarrow> nat \<Rightarrow> u8 list option" where
  "mem_get mem off len =
     (if off + len \<le> length mem then Some (take len (drop off mem)) else None)"

text \<open>\<open>str::from_utf8\<close>: well-formed UTF-8, without overlong forms or surrogates.\<close>

definition utf8_cont :: "u8 \<Rightarrow> bool" where
  "utf8_cont b \<longleftrightarrow> 128 \<le> b \<and> b \<le> 191"

definition utf8_char :: "u8 list \<Rightarrow> nat option" where
  "utf8_char bs =
     (case bs of
        [] \<Rightarrow> None
      | b0 # r0 \<Rightarrow>
          if b0 < 128 then Some 1
          else (case r0 of
             [] \<Rightarrow> None
           | b1 # r1 \<Rightarrow>
               if 194 \<le> b0 \<and> b0 \<le> 223 \<and> utf8_cont b1 then Some 2
               else (case r1 of
                  [] \<Rightarrow> None
                | b2 # r2 \<Rightarrow>
                    if utf8_cont b2 \<and> (b0 = 224 \<and> 160 \<le> b1 \<and> b1 \<le> 191
                        \<or> 225 \<le> b0 \<and> b0 \<le> 236 \<and> utf8_cont b1
                        \<or> b0 = 237 \<and> 128 \<le> b1 \<and> b1 \<le> 159
                        \<or> 238 \<le> b0 \<and> b0 \<le> 239 \<and> utf8_cont b1) then Some 3
                    else (case r2 of
                       [] \<Rightarrow> None
                     | b3 # _ \<Rightarrow>
                         if utf8_cont b2 \<and> utf8_cont b3 \<and> (b0 = 240 \<and> 144 \<le> b1 \<and> b1 \<le> 191
                             \<or> 241 \<le> b0 \<and> b0 \<le> 243 \<and> utf8_cont b1
                             \<or> b0 = 244 \<and> 128 \<le> b1 \<and> b1 \<le> 143) then Some 4
                         else None))))"

fun utf8_valid_fuel :: "nat \<Rightarrow> u8 list \<Rightarrow> bool" where
  "utf8_valid_fuel 0 bs \<longleftrightarrow> bs = []"
| "utf8_valid_fuel (Suc n) bs \<longleftrightarrow>
     bs = [] \<or> (case utf8_char bs of None \<Rightarrow> False | Some k \<Rightarrow> utf8_valid_fuel n (drop k bs))"

text \<open>Each character takes at least one byte, so the length of the input is enough fuel.\<close>

definition utf8_valid :: "u8 list \<Rightarrow> bool" where
  "utf8_valid bs = utf8_valid_fuel (length bs) bs"

section \<open>The guest side: reading and writing strings\<close>

text \<open>\<open>read_str_raw\<close> goes through \<open>CStr::from_ptr\<close>: it reads from the offset up to the
  first NUL byte, whatever the length of the allocation, and unwraps the UTF-8 check.\<close>

definition read_str_raw :: "u8 list \<Rightarrow> nat \<Rightarrow> u8 list option" where
  "read_str_raw mem p =
     (let rest = drop p mem; s = takeWhile (\<lambda>b. b \<noteq> 0) rest in
      if 0 \<in> set rest \<and> utf8_valid s then Some s else None)"

definition read_to_string :: "u8 list \<Rightarrow> WasmAllocation \<Rightarrow> u8 list option" where
  "read_to_string mem a = read_str_raw mem (unat (offset a))"

definition write_in_wasm_memory ::
    "WasmStack \<Rightarrow> u8 list \<Rightarrow> u8 list \<Rightarrow> u32 \<Rightarrow> (AllocationResult \<times> WasmStack \<times> u8 list) option"
  where
  "write_in_wasm_memory s mem bs len =
     (case next_allocation s len of
        Err e \<Rightarrow> Some (Err e, s, mem)
      | Ok next \<Rightarrow>
          (case allocate s next of
             (Err e, s') \<Rightarrow> Some (Err e, s', mem)
           | (Ok ptr, s') \<Rightarrow>
               if unat len < length bs then None
               else map_option (\<lambda>mem'. (allocation_new ptr len, s', mem'))
                      (mem_set mem (unat ptr) bs)))"

definition write_string ::
    "WasmStack \<Rightarrow> u8 list \<Rightarrow> u8 list \<Rightarrow> (AllocationResult \<times> WasmStack \<times> u8 list) option" where
  "write_string s mem str =
     (let len = of_nat (length str) :: u32 in
      if (ucast len :: u64) > MEMORY_INT_MAX then Some (Err OutOfBounds, s, mem)
      else write_in_wasm_memory s mem str len)"

definition write_json ::
    "WasmStack \<Rightarrow> u8 list \<Rightarrow> u8 list option \<Rightarrow> (AllocationResult \<times> WasmStack \<times> u8 list) option"
  where
  "write_json s mem json =
     (case json of
        None \<Rightarrow> Some (Err Serialization, s, mem)
      | Some bs \<Rightarrow>
          let len = of_nat (length bs) :: u32 in
          if (ucast len :: u64) > MEMORY_INT_MAX then Some (Err OutOfBounds, s, mem)
          else write_in_wasm_memory s mem bs len)"

definition load_ribosome_encoded_string :: "u8 list \<Rightarrow> u64 \<Rightarrow> u8 list HcResult option" where
  "load_ribosome_encoded_string mem bits =
     (case encoded_value_of bits of
        None \<Rightarrow> None
      | Some Success \<Rightarrow> Some (Err (Ribosome ZeroSizedAllocation))
      | Some (Failure c) \<Rightarrow> Some (Err (Ribosome c))
      | Some (Allocation r) \<Rightarrow>
          (case allocation_try_from_encoded r of
             Err e \<Rightarrow> Some (Err (holochain_error_of_alloc e))
           | Ok a \<Rightarrow> map_option Ok (read_to_string mem a)))"

section \<open>The host side: the page manager\<close>

record WasmPageManager =
  stack :: WasmStack
  wasm_memory :: "u8 list"

definition page_allocate :: "WasmPageManager \<Rightarrow> u32 \<Rightarrow> AllocationResult \<times> WasmPageManager" where
  "page_allocate m len =
     (case next_allocation (stack m) len of
        Err e \<Rightarrow> (Err e, m)
      | Ok a \<Rightarrow>
          (case allocate (stack m) a of
             (Err e, s) \<Rightarrow> (Err e, m\<lparr>stack := s\<rparr>)
           | (Ok t, s) \<Rightarrow> (allocation_new t len, m\<lparr>stack := s\<rparr>)))"

definition page_write ::
    "WasmPageManager \<Rightarrow> u8 list \<Rightarrow> (AllocationResult \<times> WasmPageManager) option" where
  "page_write m data =
     (if (of_nat (length data) :: u64) > MEMORY_INT_MAX then Some (Err OutOfBounds, m)
      else if data = [] then Some (Err ZeroLength, m)
      else case page_allocate m (of_nat (length data)) of
        (Err e, m') \<Rightarrow> Some (Err e, m')
      | (Ok buf, m') \<Rightarrow>
          map_option (\<lambda>mem'. (Ok buf, m'\<lparr>wasm_memory := mem'\<rparr>))
            (mem_set (wasm_memory m') (unat (offset buf)) data))"

definition page_read :: "WasmPageManager \<Rightarrow> WasmAllocation \<Rightarrow> u8 list option" where
  "page_read m a = mem_get (wasm_memory m) (unat (offset a)) (unat (alen a))"

section \<open>Bounds of allocations\<close>

definition valid_allocation :: "WasmAllocation \<Rightarrow> bool" where
  "valid_allocation a \<longleftrightarrow> alen a \<noteq> 0 \<and> unat (offset a) + unat (alen a) < 2 ^ 32"

text \<open>
  The histories of a stack that the ribosome and the HDK produce: each allocation is the next
  one, and the most recent live allocation is the one given back. The list holds the live
  allocations, the most recent first.
\<close>

inductive stack_run :: "WasmStack \<Rightarrow> WasmAllocation list \<Rightarrow> bool" where
  init: "stack_run stack_new []"
| push: "stack_run s as \<Longrightarrow> next_allocation s len = Ok a \<Longrightarrow> allocate s a = (r, s')
         \<Longrightarrow> stack_run s' (a # as)"
| pop: "stack_run s (a # as) \<Longrightarrow> deallocate s a = (r, s') \<Longrightarrow> stack_run s' as"

definition region :: "WasmAllocation \<Rightarrow> nat set" where
  "region a = {unat (offset a) ..< unat (offset a) + unat (alen a)}"

fun contiguous :: "nat \<Rightarrow> WasmAllocation list \<Rightarrow> bool" where
  "contiguous t [] \<longleftrightarrow> t = 0"
| "contiguous t (a # as) \<longleftrightarrow>
     valid_allocation a \<and> unat (offset a) + unat (alen a) = t \<and> contiguous (unat (offset a)) as"

definition page_top :: "WasmPageManager \<Rightarrow> nat" where
  "page_top m = unat (stack_top (stack m))"

lemma wide_sum_le_max:
  fixes a b :: u32
  shows "(ucast a + ucast b :: u64) > MEMORY_INT_MAX \<longleftrightarrow> 2 ^ 32 \<le> unat a + unat b"
proof -
  have "unat a < 2 ^ 32" "unat b < 2 ^ 32"
    using unsigned_less [of a] unsigned_less [of b] by simp_all
  then have "unat (ucast a + ucast b :: u64) = unat a + unat b"
    by (simp add: unat_word_ariths unsigned_ucast_eq take_bit_nat_eq_self)
  then show ?thesis
    by (simp add: word_less_nat_alt MEMORY_INT_MAX_def U32_MAX_def) linarith
qed

lemma word32_wide_not_gt: "\<not> (ucast (a :: u32) :: u64) > MEMORY_INT_MAX"
  using wide_sum_le_max [of a 0] unsigned_less [of a, where ?'a = nat] by simp

lemma allocation_new_Ok_iff:
  "allocation_new off len = Ok a \<longleftrightarrow>
     a = \<lparr>offset = off, alen = len\<rparr> \<and> valid_allocation a"
  by (auto simp: allocation_new_def wide_sum_le_max valid_allocation_def)

lemma allocation_new_valid:
  "valid_allocation a \<Longrightarrow> allocation_new (offset a) (alen a) = Ok a"
  by (simp add: allocation_new_Ok_iff)

lemma valid_allocation_end:
  "valid_allocation a \<Longrightarrow> unat (offset a + alen a) = unat (offset a) + unat (alen a)"
  by (simp add: valid_allocation_def unat_word_ariths)

lemma allocate_next:
  assumes "next_allocation s len = Ok a"
  shows "allocate s a = (Ok (stack_top s), \<lparr>stack_top = stack_top s + len\<rparr>)"
    and "offset a = stack_top s" and "alen a = len" and "valid_allocation a"
  using assms
  by (auto simp: next_allocation_def allocation_new_Ok_iff allocate_def wide_sum_le_max
      valid_allocation_def)

lemma deallocate_top:
  assumes "stack_top s = offset a + alen a"
  shows "deallocate s a = (Ok (stack_top s), \<lparr>stack_top = offset a\<rparr>)"
  using assms by (simp add: deallocate_def)

section \<open>Stack discipline\<close>

lemma contiguous_below:
  "contiguous t as \<Longrightarrow> b \<in> set as \<Longrightarrow> region b \<subseteq> {..< t}"
proof (induction as arbitrary: t)
  case (Cons a as)
  then show ?case by (cases "b = a") (auto simp: region_def, force)
qed simp

lemma contiguous_disjoint:
  "contiguous t as \<Longrightarrow> i < j \<Longrightarrow> j < length as \<Longrightarrow> region (as ! i) \<inter> region (as ! j) = {}"
proof (induction as arbitrary: t i j)
  case (Cons a as)
  show ?case
  proof (cases i)
    case 0
    with Cons.prems have "region (as ! (j - 1)) \<subseteq> {..< unat (offset a)}"
      using contiguous_below [of "unat (offset a)" as "as ! (j - 1)"] by auto
    moreover have "region a \<inter> {..< unat (offset a)} = {}"
      by (auto simp: region_def)
    ultimately show ?thesis using 0 Cons.prems by (auto simp: nth_Cons')
  next
    case (Suc k)
    with Cons.prems Cons.IH [of "unat (offset a)" k "j - 1"] show ?thesis
      by (auto simp: nth_Cons')
  qed
qed simp

lemma contiguous_top:
  "contiguous (unat t) (a # as) \<Longrightarrow> t = offset a + alen a"
  using valid_allocation_end [of a] by (auto simp: word_unat_eq_iff)

lemma stack_run_contiguous:
  "stack_run s as \<Longrightarrow> contiguous (unat (stack_top s)) as"
proof (induction rule: stack_run.induct)
  case init
  then show ?case by (simp add: stack_new_def)
next
  case (push s as len a r s')
  note nx = allocate_next [OF push.hyps(2)]
  have "s' = \<lparr>stack_top = offset a + alen a\<rparr>"
    using nx push.hyps(3) by simp
  with nx(2,4) push.IH valid_allocation_end [OF nx(4)] show ?case
    by simp
next
  case (pop s a as r s')
  from deallocate_top [OF contiguous_top [OF pop.IH]] pop show ?case by auto
qed

text \<open>
  C15: However a stack is used, its live allocations never overlap and all end at or below the
  top of the stack, and the most recent live allocation can always be given back, which
  moves the top back to its offset.
\<close>

theorem stack_allocations_disjoint:
  assumes "stack_run s as"
  shows "(\<forall>i j. i < j \<and> j < length as \<longrightarrow> region (as ! i) \<inter> region (as ! j) = {})
    \<and> (\<forall>a. a \<in> set as \<longrightarrow> region a \<subseteq> {..< unat (stack_top s)})
    \<and> (\<forall>a rest. as = a # rest \<longrightarrow> deallocate s a = (Ok (stack_top s), \<lparr>stack_top = offset a\<rparr>))"
proof -
  note c = stack_run_contiguous [OF assms]
  have "deallocate s a = (Ok (stack_top s), \<lparr>stack_top = offset a\<rparr>)" if "as = a # rest" for a rest
    using contiguous_top [of "stack_top s" a rest] c that by (simp add: deallocate_top)
  with contiguous_disjoint [OF c] contiguous_below [OF c] show ?thesis by blast
qed

theorem stack_allocations_disjoint_witness:
  "let a = \<lparr>offset = 0, alen = 3\<rparr>; b = \<lparr>offset = 3, alen = 4\<rparr> in
   region b \<inter> region a = {} \<and> deallocate \<lparr>stack_top = 7\<rparr> b = (Ok 7, \<lparr>stack_top = 3\<rparr>)"
proof -
  let ?a = "\<lparr>offset = 0, alen = 3\<rparr>" and ?b = "\<lparr>offset = 3, alen = 4\<rparr>"
  have "stack_run \<lparr>stack_top = 3\<rparr> [?a]"
    by (rule push [OF init, of 3 _ "Ok 0"]) code_simp+
  then have "stack_run \<lparr>stack_top = 7\<rparr> [?b, ?a]"
    by (rule push [of _ _ 4 _ "Ok 3"]) code_simp+
  from stack_allocations_disjoint [OF this]
  have "region ([?b, ?a] ! 0) \<inter> region ([?b, ?a] ! 1) = {}"
    "deallocate \<lparr>stack_top = 7\<rparr> ?b = (Ok 7, \<lparr>stack_top = 3\<rparr>)"
    by fastforce+
  then show ?thesis by (simp add: Let_def)
qed

section \<open>Allocations as return codes\<close>

lemma encoded_allocation_decode:
  "valid_allocation a \<Longrightarrow> allocation_try_from_encoded (encoded_allocation a) = Ok a"
  by (simp add: allocation_try_from_encoded_def encoded_allocation_def allocation_new_valid)

lemma stack_try_from_valid:
  "valid_allocation a \<Longrightarrow> stack_try_from a = Ok \<lparr>stack_top = offset a + alen a\<rparr>"
  by (simp add: stack_try_from_def allocate_def wide_sum_le_max valid_allocation_def)

text \<open>
  An allocation handed over as a return code is recovered by the receiver, the stack it
  rebuilds from the code has its top at the end of the allocation, and every return code
  that decodes to an allocation at all decodes to one whose end is representable.
\<close>

theorem allocation_encoding_roundtrip:
  shows "(valid_allocation a \<longrightarrow>
      allocation_try_from_ribosome_encoding (allocation_as_ribosome_encoding a) = Some (Ok a)
      \<and> stack_try_from_ribosome_encoding (allocation_as_ribosome_encoding a)
          = Some (Ok \<lparr>stack_top = offset a + alen a\<rparr>))
    \<and> (allocation_try_from_ribosome_encoding bits = Some (Ok b) \<longrightarrow>
        valid_allocation b \<and> allocation_as_ribosome_encoding b = bits)"
proof (intro conjI impI)
  assume "valid_allocation a"
  then have "u64_low_bits (encoded_allocation a) \<noteq> 0"
    by (simp add: encoded_allocation_def valid_allocation_def)
  with \<open>valid_allocation a\<close>
  show "allocation_try_from_ribosome_encoding (allocation_as_ribosome_encoding a) = Some (Ok a)"
    by (simp add: allocation_as_ribosome_encoding_def allocation_try_from_ribosome_encoding_def
        encoded_value_of_alloc encoded_allocation_decode)
  with \<open>valid_allocation a\<close>
  show "stack_try_from_ribosome_encoding (allocation_as_ribosome_encoding a)
          = Some (Ok \<lparr>stack_top = offset a + alen a\<rparr>)"
    by (simp add: stack_try_from_ribosome_encoding_def stack_try_from_valid)
next
  assume "allocation_try_from_ribosome_encoding bits = Some (Ok b)"
  then obtain r where r: "encoded_value_of bits = Some (Allocation r)"
      "allocation_try_from_encoded r = Ok b"
    by (auto simp: allocation_try_from_ribosome_encoding_def
        split: option.splits RibosomeEncodedValue.splits)
  from r(1) have "r = bits"
    by (simp add: encoded_value_of_def Let_def split: if_splits option.splits prod.splits)
  with r(2) have "valid_allocation b" "b = \<lparr>offset = u64_high_bits bits, alen = u64_low_bits bits\<rparr>"
    by (auto simp: allocation_try_from_encoded_def u64_split_bits_def allocation_new_Ok_iff)
  then show "valid_allocation b" "allocation_as_ribosome_encoding b = bits"
    by (simp_all add: allocation_as_ribosome_encoding_def encoded_allocation_def u64_merge_split)
qed

section \<open>Writing and reading memory\<close>

lemma mem_get_set:
  "mem_set mem off bs = Some mem' \<Longrightarrow> mem_get mem' off (length bs) = Some bs"
  by (auto simp: mem_set_def mem_get_def split: if_splits)

lemma mem_get_set_below:
  "mem_set mem off bs = Some mem' \<Longrightarrow> p + n \<le> off \<Longrightarrow> mem_get mem' p n = mem_get mem p n"
  by (auto simp: mem_set_def mem_get_def drop_take min_def split: if_splits)

lemma mem_set_drop:
  "mem_set mem off bs = Some mem' \<Longrightarrow> drop off mem' = bs @ drop (off + length bs) mem"
  by (auto simp: mem_set_def split: if_splits)

lemma page_allocate_eq:
  "page_allocate m len =
     (case next_allocation (stack m) len of
        Err e \<Rightarrow> (Err e, m)
      | Ok a \<Rightarrow> (Ok a, m\<lparr>stack := \<lparr>stack_top = stack_top (stack m) + len\<rparr>\<rparr>))"
  using allocate_next [of "stack m" len]
  by (auto simp: page_allocate_def next_allocation_def split: sum.splits)

lemma length_word32:
  assumes "n < 2 ^ 64"
  shows "(of_nat n :: u64) > MEMORY_INT_MAX \<longleftrightarrow> 2 ^ 32 \<le> n"
  using assms by (simp add: word_less_nat_alt MEMORY_INT_MAX_def U32_MAX_def unat_of_nat) linarith

lemma page_write_eq:
  assumes "length data < 2 ^ 64"
  shows "page_write m data =
    (if data = [] then Some (Err ZeroLength, m)
     else if 2 ^ 32 \<le> page_top m + length data then Some (Err OutOfBounds, m)
     else let a = \<lparr>offset = stack_top (stack m), alen = of_nat (length data)\<rparr> in
       map_option (\<lambda>mem'. (Ok a, m\<lparr>stack := \<lparr>stack_top = offset a + alen a\<rparr>, wasm_memory := mem'\<rparr>))
         (mem_set (wasm_memory m) (page_top m) data))"
proof (cases "data = [] \<or> 2 ^ 32 \<le> length data")
  case True
  with assms show ?thesis
    by (auto simp: page_write_def length_word32)
next
  case False
  then have len: "unat (of_nat (length data) :: u32) = length data" "(of_nat (length data) :: u32) \<noteq> 0"
    by (auto simp: unat_of_nat simp flip: unat_eq_zero)
  with False assms show ?thesis
    by (auto simp: page_write_def length_word32 page_allocate_eq next_allocation_def
        allocation_new_def wide_sum_le_max page_top_def)
qed

text \<open>
  C13: The ribosome's page manager stores a payload at the top of the stack. An empty payload
  and one that does not fit below \<open>2\<^sup>3\<^sup>2\<close> are refused and change nothing. Otherwise, when
  the module's memory is large enough, the returned allocation is the payload's own
  region, the stack moves past it, reading it gives the payload back, and what every
  allocation below the old top holds is unchanged.
\<close>

theorem page_write_read:
  assumes "length data < 2 ^ 64"
  shows "(data = [] \<longrightarrow> page_write m data = Some (Err ZeroLength, m))
    \<and> (2 ^ 32 \<le> page_top m + length data \<and> data \<noteq> [] \<longrightarrow> page_write m data = Some (Err OutOfBounds, m))
    \<and> (data \<noteq> [] \<and> page_top m + length data < 2 ^ 32 \<and> page_top m + length data \<le> length (wasm_memory m) \<longrightarrow>
        (\<exists>a m'. page_write m data = Some (Ok a, m')
          \<and> region a = {page_top m ..< page_top m + length data}
          \<and> page_top m' = page_top m + length data
          \<and> page_read m' a = Some data
          \<and> (\<forall>b. unat (offset b) + unat (alen b) \<le> page_top m \<longrightarrow> page_read m' b = page_read m b)))"
proof (intro conjI impI)
  assume fits: "data \<noteq> [] \<and> page_top m + length data < 2 ^ 32 \<and> page_top m + length data \<le> length (wasm_memory m)"
  let ?a = "\<lparr>offset = stack_top (stack m), alen = of_nat (length data)\<rparr> :: WasmAllocation"
  have len: "unat (of_nat (length data) :: u32) = length data"
    using fits by (simp add: unat_of_nat)
  obtain mem' where mem': "mem_set (wasm_memory m) (page_top m) data = Some mem'"
    using fits by (simp add: mem_set_def)
  let ?m' = "m\<lparr>stack := \<lparr>stack_top = offset ?a + alen ?a\<rparr>, wasm_memory := mem'\<rparr>"
  have "page_write m data = Some (Ok ?a, ?m')"
    using fits assms mem' by (simp add: page_write_eq)
  moreover have "page_top ?m' = page_top m + length data" "region ?a = {page_top m ..< page_top m + length data}"
    using fits len by (simp_all add: page_top_def region_def unat_word_ariths)
  moreover have "page_read ?m' ?a = Some data"
    using mem_get_set [OF mem'] len by (simp add: page_read_def page_top_def)
  moreover have "page_read ?m' b = page_read m b" if "unat (offset b) + unat (alen b) \<le> page_top m" for b
    using mem_get_set_below [OF mem' that] by (simp add: page_read_def)
  ultimately show "\<exists>a m'. page_write m data = Some (Ok a, m') \<and> region a = {page_top m ..< page_top m + length data}
      \<and> page_top m' = page_top m + length data \<and> page_read m' a = Some data
      \<and> (\<forall>b. unat (offset b) + unat (alen b) \<le> page_top m \<longrightarrow> page_read m' b = page_read m b)"
    by blast
qed (use assms in \<open>simp_all add: page_write_eq\<close>)

theorem page_write_read_witness:
  "\<exists>a m'. page_write \<lparr>stack = stack_new, wasm_memory = replicate 8 0\<rparr> [104, 105] = Some (Ok a, m')
     \<and> region a = {0 ..< 2} \<and> page_top m' = 2 \<and> page_read m' a = Some [104, 105]"
proof -
  let ?m = "\<lparr>stack = stack_new, wasm_memory = replicate 8 0\<rparr>"
  have "page_top ?m = 0" by (simp add: page_top_def stack_new_def)
  then show ?thesis
    using page_write_read [of "[104, 105]" ?m] by auto
qed

text \<open>
  What a guest reads back is not always what it wrote: \<open>read_to_string\<close> stops at the first
  NUL byte and not at the allocation's length, and \<open>write_string\<close> writes no NUL. After a
  successful write of a NUL-free string the read returns the string followed by the bytes
  left in memory above it up to the next NUL, and panics when there is no NUL or when the
  bytes are not UTF-8. The string is read back exactly when the byte after it is NUL.
\<close>

theorem guest_read_after_write:
  assumes "write_string s mem str = Some (Ok a, s', mem')" and "0 \<notin> set str"
  shows "read_to_string mem' a =
    (let above = drop (unat (stack_top s) + length str) mem;
         got = str @ takeWhile (\<lambda>b. b \<noteq> 0) above in
     if 0 \<in> set above \<and> utf8_valid got then Some got else None)"
proof -
  let ?len = "of_nat (length str) :: u32"
  from assms have w: "write_in_wasm_memory s mem str ?len = Some (Ok a, s', mem')"
    by (auto simp: write_string_def Let_def split: if_splits)
  then obtain b where nx: "next_allocation s ?len = Ok b"
    by (auto simp: write_in_wasm_memory_def split: sum.splits)
  with w allocate_next(1) [OF nx]
  have set: "mem_set mem (unat (stack_top s)) str = Some mem'" and a: "offset a = stack_top s"
    by (auto simp: write_in_wasm_memory_def allocation_new_Ok_iff split: if_splits)
  have "takeWhile (\<lambda>b. b \<noteq> 0) (str @ xs) = str @ takeWhile (\<lambda>b. b \<noteq> 0) xs" for xs
    using assms(2) by (intro takeWhile_append2) auto
  with assms(2) show ?thesis
    by (auto simp: read_to_string_def read_str_raw_def a mem_set_drop [OF set] Let_def)
qed

text \<open>
  The witness writes \<open>hello\<close>, gives it back, writes \<open>hi\<close> and reads \<open>hillo\<close>.
\<close>

end
