(* ===== verification/Dpki.thy ===== *)
theory Dpki
  imports Capabilities
begin

text \<open>
  Keys, seeds and their passphrase-encrypted blobs: the wrappers of \<open>sodium/src\<close> around
  libsodium, \<open>dpki/src/password_encryption.rs\<close>, \<open>utils.rs\<close>, \<open>keypair.rs\<close>, \<open>key_bundle.rs\<close>,
  \<open>seed.rs\<close> and \<open>key_blob.rs\<close>.

  libsodium, the HCID codecs, base64, serde and bip39 are third-party code: the record
  \<open>sodium\<close> holds them, over a type \<open>'g\<close> of the outside world that random bytes and passphrases
  are drawn from. A \<open>SecBuf\<close> is the list of its bytes; a function that writes into a buffer it
  was given returns the buffer. libsodium fills memory it allocates with the byte 0xdb. All
  sizes of secure buffers here are multiples of 8, as \<open>SecBuf::with_secure\<close> requires. \<open>None\<close> is
  a panic.
\<close>

section \<open>Third-party code\<close>

datatype PwHashConfig = PwHashConfig u64 u64 u8

record EncryptedData =
  enc_salt :: "u8 list"
  enc_nonce :: "u8 list"
  enc_cipher :: "u8 list"

record 'g sodium =
  randombytes_buf :: "nat \<Rightarrow> 'g \<Rightarrow> u8 list \<times> 'g"
  crypto_pwhash :: "PwHashConfig \<Rightarrow> u8 list \<Rightarrow> u8 list \<Rightarrow> u8 list option"
  crypto_aead_encrypt :: "u8 list \<Rightarrow> u8 list \<Rightarrow> u8 list \<Rightarrow> u8 list"
  crypto_aead_decrypt :: "u8 list \<Rightarrow> u8 list \<Rightarrow> u8 list \<Rightarrow> u8 list option"
  rejected_output :: "nat \<Rightarrow> u8 list \<Rightarrow> u8 list"
  crypto_sign_seed_keypair :: "u8 list \<Rightarrow> u8 list \<times> u8 list"
  crypto_sign_detached :: "u8 list \<Rightarrow> u8 list \<Rightarrow> u8 list"
  crypto_kx_seed_keypair :: "u8 list \<Rightarrow> u8 list \<times> u8 list"
  crypto_kdf_derive_from_key :: "nat \<Rightarrow> u64 \<Rightarrow> u8 list \<Rightarrow> u8 list \<Rightarrow> u8 list"
  pwhash_default :: PwHashConfig
  hcs0_encode :: "u8 list \<Rightarrow> string HcResult"
  hck0_encode :: "u8 list \<Rightarrow> string HcResult"
  hck0_decode :: "string \<Rightarrow> u8 list HcResult"
  base64_decode :: "string \<Rightarrow> u8 list HcResult"
  str_from_utf8 :: "u8 list \<Rightarrow> string HcResult"
  encrypted_data_to_string :: "EncryptedData \<Rightarrow> string"
  encrypted_data_from_str :: "string \<Rightarrow> EncryptedData HcResult"
  mnemonic_to_entropy :: "string \<Rightarrow> string + u8 list"
  mnemonic_from_entropy :: "u8 list \<Rightarrow> string + string"
  request_passphrase :: "'g \<Rightarrow> u8 list HcResult \<times> 'g"
  hcs0_base64 :: crypto

text \<open>
  \<open>crypto_pwhash\<close> gives \<open>None\<close> for the status -1, and so does \<open>crypto_aead_decrypt\<close>, which then
  leaves \<open>rejected_output\<close> in the buffer for the message: a function of the length of the cipher
  and of the bytes there before. \<open>hcs0_base64\<close> is the part the signature
  check shares: base64, the decoder of signing keys and \<open>crypto_sign_verify_detached\<close>.
\<close>

section \<open>Buffers\<close>

definition with_insecure :: "nat \<Rightarrow> u8 list" where
  "with_insecure s = replicate s 0"

definition with_secure :: "nat \<Rightarrow> u8 list" where
  "with_secure s = replicate s 0xdb"

definition secbuf_write :: "u8 list \<Rightarrow> nat \<Rightarrow> u8 list \<Rightarrow> u8 list HcResult" where
  "secbuf_write buf offset data =
     (if offset + length data > length buf then Err (ErrorGeneric ''SecBuf write overflow'')
      else Ok (take offset buf @ data @ drop (offset + length data) buf))"

definition secbuf_from_array :: "u8 list \<Rightarrow> u8 list \<Rightarrow> u8 list HcResult" where
  "secbuf_from_array buf data =
     (if length data \<noteq> length buf then Err (ErrorGeneric ''Input does not have same size as SecBuf'')
      else secbuf_write buf 0 data)"

section \<open>The wrappers around libsodium\<close>

definition SALTBYTES :: nat where
  "SALTBYTES = 16"

definition NONCEBYTES :: nat where
  "NONCEBYTES = 24"

definition ABYTES :: nat where
  "ABYTES = 16"

definition SECRETKEYBYTES :: nat where
  "SECRETKEYBYTES = 64"

definition KX_PUBLICKEYBYTES :: nat where
  "KX_PUBLICKEYBYTES = 32"

definition KX_SECRETKEYBYTES :: nat where
  "KX_SECRETKEYBYTES = 32"

definition SEED_SIZE :: nat where
  "SEED_SIZE = 32"

definition CONTEXTBYTES :: nat where
  "CONTEXTBYTES = 8"

definition pwhash_hash :: "'g sodium \<Rightarrow> u8 list \<Rightarrow> PwHashConfig \<Rightarrow> u8 list \<Rightarrow> u8 list HcResult" where
  "pwhash_hash N password config salt =
     ok_or (ErrorGeneric ''libSodium went out of memory'') (crypto_pwhash N config password salt)"

definition aead_enc :: "'g sodium \<Rightarrow> u8 list \<Rightarrow> u8 list \<Rightarrow> u8 list \<Rightarrow> u8 list" where
  "aead_enc N message secret nonce = crypto_aead_encrypt N secret nonce message"

text \<open>
  The status of the decryption is dropped. A cipher that is too long for the buffer makes libsodium
  write past its end, where a guard page ends the process.
\<close>

definition aead_dec :: "'g sodium \<Rightarrow> u8 list \<Rightarrow> u8 list \<Rightarrow> u8 list \<Rightarrow> u8 list \<Rightarrow> u8 list option" where
  "aead_dec N buf secret nonce cipher =
     (if length cipher > length buf + ABYTES then None
      else Some (case crypto_aead_decrypt N secret nonce cipher of
        Some message \<Rightarrow> message @ drop (length message) buf
      | None \<Rightarrow> rejected_output N (length cipher) buf))"

definition sign_seed_keypair :: "'g sodium \<Rightarrow> u8 list \<Rightarrow> u8 list \<times> u8 list" where
  "sign_seed_keypair N seed = crypto_sign_seed_keypair N seed"

text \<open>Arguments in the order of \<open>kx::seed_keypair(seed, pk, sk)\<close>; the three buffers afterwards.\<close>

definition kx_seed_keypair :: "'g sodium \<Rightarrow> u8 list \<Rightarrow> u8 list \<Rightarrow> u8 list \<Rightarrow> u8 list \<times> u8 list \<times> u8 list" where
  "kx_seed_keypair N seed pk sk =
     (let (public, secret) = crypto_kx_seed_keypair N seed in (seed, public, secret))"

definition kdf_derive :: "'g sodium \<Rightarrow> nat \<Rightarrow> u64 \<Rightarrow> u8 list \<Rightarrow> u8 list \<Rightarrow> u8 list HcResult" where
  "kdf_derive N out idx context parent =
     (if out < 16 \<or> out > 64 then Err (ErrorGeneric (''Invalid '' @ [CHR 0x27] @ ''out'' @ [CHR 0x27] @ '' Buffer length:'' @ show_nat out))
      else if length context \<noteq> CONTEXTBYTES then Err (ErrorGeneric ''context must be a Buffer of length: 8.'')
      else Ok (crypto_kdf_derive_from_key N out idx context parent))"


section \<open>Passphrase encryption\<close>

definition pw_hash :: "'g sodium \<Rightarrow> u8 list \<Rightarrow> u8 list \<Rightarrow> PwHashConfig option \<Rightarrow> u8 list HcResult" where
  "pw_hash N password salt config =
     pwhash_hash N password (case config of Some c \<Rightarrow> c | None \<Rightarrow> pwhash_default N) salt"

definition pw_enc :: "'g sodium \<Rightarrow> 'g \<Rightarrow> u8 list \<Rightarrow> u8 list \<Rightarrow> PwHashConfig option \<Rightarrow> EncryptedData HcResult \<times> 'g" where
  "pw_enc N g data passphrase config =
     (let (salt, g) = randombytes_buf N SALTBYTES g;
          (nonce, g) = randombytes_buf N NONCEBYTES g in
      (map_ok (\<lambda>secret. \<lparr>enc_salt = salt, enc_nonce = nonce, enc_cipher = aead_enc N data secret nonce\<rparr>)
         (pw_hash N passphrase salt config), g))"

definition pw_dec :: "'g sodium \<Rightarrow> EncryptedData \<Rightarrow> u8 list \<Rightarrow> u8 list \<Rightarrow> PwHashConfig option \<Rightarrow> u8 list HcResult option" where
  "pw_dec N encrypted_data passphrase decrypted_data config =
     (case secbuf_from_array (with_insecure SALTBYTES) (enc_salt encrypted_data) of
        Err _ \<Rightarrow> None
      | Ok salt \<Rightarrow>
          (case pw_hash N passphrase salt config of
             Err e \<Rightarrow> Some (Err e)
           | Ok secret \<Rightarrow> map_option Ok (aead_dec N decrypted_data secret (enc_nonce encrypted_data) (enc_cipher encrypted_data))))"

definition encrypt_with_passphrase_buf ::
    "'g sodium \<Rightarrow> 'g \<Rightarrow> u8 list \<Rightarrow> u8 list \<Rightarrow> PwHashConfig option \<Rightarrow> string HcResult \<times> 'g" where
  "encrypt_with_passphrase_buf N g data_buf passphrase config =
     (let (r, g) = pw_enc N g data_buf passphrase config in
      (map_ok (\<lambda>blob. b64_encode (hcs0_base64 N) (encrypted_data_to_string N blob)) r, g))"

definition decrypt_with_passphrase_buf ::
    "'g sodium \<Rightarrow> string \<Rightarrow> u8 list \<Rightarrow> PwHashConfig option \<Rightarrow> nat \<Rightarrow> u8 list HcResult option" where
  "decrypt_with_passphrase_buf N blob passphrase config sz =
     (case and_then (base64_decode N blob) (\<lambda>blob_b64.
             and_then (str_from_utf8 N blob_b64) (encrypted_data_from_str N)) of
        Err e \<Rightarrow> Some (Err e)
      | Ok encrypted_blob \<Rightarrow>
          map_option (\<lambda>r. and_then r (\<lambda>decrypted_data.
             if length decrypted_data \<noteq> sz then Err (ErrorGeneric ''Invalid Blob size'') else Ok decrypted_data))
            (pw_dec N encrypted_blob passphrase (with_secure sz) config))"

section \<open>Key pairs\<close>

record KeyPair =
  kp_public :: Base32
  kp_private :: "u8 list"

type_synonym SigningKeyPair = KeyPair
type_synonym EncryptingKeyPair = KeyPair

definition encode_pub_key :: "(u8 list \<Rightarrow> string HcResult) \<Rightarrow> u8 list \<Rightarrow> Base32 HcResult option" where
  "encode_pub_key codec pub_key_sec =
     (if length pub_key_sec < SEED_SIZE then None else Some (codec (take SEED_SIZE pub_key_sec)))"

definition encode_pub_key_expect :: "(u8 list \<Rightarrow> string HcResult) \<Rightarrow> u8 list \<Rightarrow> Base32 option" where
  "encode_pub_key_expect codec pub_key_sec = Option.bind (encode_pub_key codec pub_key_sec) to_ok"

definition is_same :: "KeyPair \<Rightarrow> KeyPair \<Rightarrow> bool" where
  "is_same k other \<longleftrightarrow> kp_public k = kp_public other \<and> kp_private k = kp_private other"

definition key_new_from_self :: "KeyPair \<Rightarrow> KeyPair HcResult" where
  "key_new_from_self k = Ok \<lparr>kp_public = kp_public k, kp_private = kp_private k\<rparr>"

text \<open>Both constructors return the seed buffer as they leave it.\<close>

definition signing_new_from_seed :: "'g sodium \<Rightarrow> u8 list \<Rightarrow> (SigningKeyPair HcResult \<times> u8 list) option" where
  "signing_new_from_seed N seed =
     (if length seed \<noteq> SEED_SIZE then None
      else let (pub_sec_buf, priv_sec_buf) = sign_seed_keypair N seed in
        map_option (\<lambda>r. (map_ok (\<lambda>pub. \<lparr>kp_public = pub, kp_private = priv_sec_buf\<rparr>) r, seed))
          (encode_pub_key (hcs0_encode N) pub_sec_buf))"

definition encrypting_new_from_seed :: "'g sodium \<Rightarrow> u8 list \<Rightarrow> (EncryptingKeyPair HcResult \<times> u8 list) option" where
  "encrypting_new_from_seed N seed =
     (if length seed \<noteq> SEED_SIZE then None
      else let (pub_sec_buf, priv_sec_buf, seed) =
          kx_seed_keypair N (with_insecure KX_PUBLICKEYBYTES) (with_secure KX_SECRETKEYBYTES) seed in
        map_option (\<lambda>r. (map_ok (\<lambda>pub. \<lparr>kp_public = pub, kp_private = priv_sec_buf\<rparr>) r, seed))
          (encode_pub_key (hck0_encode N) pub_sec_buf))"

definition key_sign :: "'g sodium \<Rightarrow> SigningKeyPair \<Rightarrow> u8 list \<Rightarrow> u8 list HcResult" where
  "key_sign N k data = Ok (crypto_sign_detached N data (kp_private k))"

definition key_verify :: "'g sodium \<Rightarrow> SigningKeyPair \<Rightarrow> u8 list \<Rightarrow> u8 list \<Rightarrow> bool option" where
  "key_verify N k data signature =
     map_option (verify_detached (hcs0_base64 N) signature data)
       (to_ok (decode_pub_key (hcs0_base64 N) (kp_public k)))"

record KeyBundle =
  sign_keys :: SigningKeyPair
  enc_keys :: EncryptingKeyPair

definition key_bundle_new_from_seed_buf :: "'g sodium \<Rightarrow> u8 list \<Rightarrow> (KeyBundle HcResult \<times> u8 list) option" where
  "key_bundle_new_from_seed_buf N seed =
     (case signing_new_from_seed N seed of
        None \<Rightarrow> None
      | Some (Err e, seed) \<Rightarrow> Some (Err e, seed)
      | Some (Ok s, seed) \<Rightarrow>
          map_option (\<lambda>(r, seed). (map_ok (\<lambda>e. \<lparr>sign_keys = s, enc_keys = e\<rparr>) r, seed)) (encrypting_new_from_seed N seed))"

definition get_id :: "KeyBundle \<Rightarrow> Base32" where
  "get_id b = kp_public (sign_keys b)"

definition bundle_is_same :: "KeyBundle \<Rightarrow> KeyBundle \<Rightarrow> bool" where
  "bundle_is_same b other \<longleftrightarrow> is_same (sign_keys b) (sign_keys other) \<and> is_same (enc_keys b) (enc_keys other)"


section \<open>Seeds\<close>

datatype SeedType = RootSeed | RevocationSeed | DeviceSeed | DevicePinSeed | DnaSeed | OneShotSeed | MockSeed

record Seed =
  seed_kind :: SeedType
  seed_buf :: "u8 list"

datatype SeedInitializer = InitSeed "u8 list" | InitMnemonic string

datatype TypedSeed = TypedRoot Seed | TypedDevice Seed | TypedDevicePin Seed

definition seed_new :: "u8 list \<Rightarrow> SeedType \<Rightarrow> Seed option" where
  "seed_new buf t = (if length buf = SEED_SIZE then Some \<lparr>seed_kind = t, seed_buf = buf\<rparr> else None)"

definition seed_new_with_mnemonic :: "'g sodium \<Rightarrow> string \<Rightarrow> SeedType \<Rightarrow> Seed HcResult option" where
  "seed_new_with_mnemonic N phrase t =
     (case mnemonic_to_entropy N phrase of
        Err e \<Rightarrow> Some (Err (ErrorGeneric (''Error loading Mnemonic phrase: '' @ e)))
      | Ok entropy \<Rightarrow>
          if length entropy \<noteq> SEED_SIZE then None
          else Some (map_ok (\<lambda>buf. \<lparr>seed_kind = t, seed_buf = buf\<rparr>)
            (secbuf_from_array (with_secure (length entropy)) entropy)))"

definition seed_new_with_initializer :: "'g sodium \<Rightarrow> SeedInitializer \<Rightarrow> SeedType \<Rightarrow> Seed option" where
  "seed_new_with_initializer N initializer t =
     (case initializer of
        InitSeed buf \<Rightarrow> seed_new buf t
      | InitMnemonic phrase \<Rightarrow> Option.bind (seed_new_with_mnemonic N phrase t) to_ok)"

definition get_mnemonic :: "'g sodium \<Rightarrow> Seed \<Rightarrow> string HcResult" where
  "get_mnemonic N s =
     map_err (\<lambda>e. ErrorGeneric (''Error generating Mnemonic phrase: '' @ e)) (mnemonic_from_entropy N (seed_buf s))"

text \<open>The constructors of the typed seeds go through \<open>Seed::new_with_initializer\<close>.\<close>

definition typed_seed_new :: "'g sodium \<Rightarrow> u8 list \<Rightarrow> SeedType \<Rightarrow> Seed option" where
  "typed_seed_new N buf t = seed_new_with_initializer N (InitSeed buf) t"

definition into_typed :: "'g sodium \<Rightarrow> Seed \<Rightarrow> TypedSeed HcResult option" where
  "into_typed N s =
     (case seed_kind s of
        RootSeed \<Rightarrow> map_option (Ok \<circ> TypedRoot) (typed_seed_new N (seed_buf s) RootSeed)
      | DeviceSeed \<Rightarrow> map_option (Ok \<circ> TypedDevice) (typed_seed_new N (seed_buf s) DeviceSeed)
      | DevicePinSeed \<Rightarrow> map_option (Ok \<circ> TypedDevicePin) (typed_seed_new N (seed_buf s) DevicePinSeed)
      | _ \<Rightarrow> Some (Err (ErrorGeneric ''Seed does have specific behavior for its type'')))"

definition generate_derived_seed_buf :: "'g sodium \<Rightarrow> u8 list \<Rightarrow> u8 list \<Rightarrow> u64 \<Rightarrow> nat \<Rightarrow> u8 list HcResult" where
  "generate_derived_seed_buf N src_seed seed_context idx sz =
     (if idx = 0 then Err (ErrorGeneric ''Invalid index'') else kdf_derive N sz idx seed_context src_seed)"

definition generate_device_seed :: "'g sodium \<Rightarrow> Seed \<Rightarrow> u8 list \<Rightarrow> u64 \<Rightarrow> Seed HcResult option" where
  "generate_device_seed N root seed_context idx =
     (case generate_derived_seed_buf N (seed_buf root) seed_context idx SEED_SIZE of
        Err e \<Rightarrow> Some (Err e)
      | Ok buf \<Rightarrow> map_option Ok (typed_seed_new N buf DeviceSeed))"

definition generate_device_pin_seed :: "'g sodium \<Rightarrow> Seed \<Rightarrow> u8 list \<Rightarrow> PwHashConfig option \<Rightarrow> Seed HcResult option" where
  "generate_device_pin_seed N device pin config =
     (case pw_hash N pin (seed_buf device) config of
        Err e \<Rightarrow> Some (Err e)
      | Ok hash \<Rightarrow> map_option Ok (typed_seed_new N hash DevicePinSeed))"

definition AGENT_ID_CTX :: "u8 list" where
  "AGENT_ID_CTX = string_bytes ''HCAGNTID''"

definition generate_dna_key :: "'g sodium \<Rightarrow> Seed \<Rightarrow> u64 \<Rightarrow> KeyBundle HcResult option" where
  "generate_dna_key N pin_seed idx =
     (if idx = 0 then Some (Err (ErrorGeneric ''Invalid index''))
      else case kdf_derive N SEED_SIZE idx AGENT_ID_CTX (seed_buf pin_seed) of
        Err e \<Rightarrow> Some (Err e)
      | Ok buf \<Rightarrow> map_option fst (key_bundle_new_from_seed_buf N buf))"

section \<open>Blobs\<close>

datatype BlobType = SeedBlob | KeyBundleBlob | SigningKeyBlob | EncryptingKeyBlob

record KeyBlob =
  blob_type :: BlobType
  blob_seed_type :: SeedType
  blob_hint :: string
  blob_data :: string

definition SIGNING_KEY_BLOB_SIZE :: nat where
  "SIGNING_KEY_BLOB_SIZE = 1 + PUBLICKEYBYTES + SECRETKEYBYTES"

definition SIGNING_KEY_BLOB_SIZE_ALIGNED :: nat where
  "SIGNING_KEY_BLOB_SIZE_ALIGNED = ((SIGNING_KEY_BLOB_SIZE + 8 - 1) div 8) * 8"

definition ENCRYPTING_KEY_BLOB_SIZE :: nat where
  "ENCRYPTING_KEY_BLOB_SIZE = 1 + KX_PUBLICKEYBYTES + KX_SECRETKEYBYTES"

definition ENCRYPTING_KEY_BLOB_SIZE_ALIGNED :: nat where
  "ENCRYPTING_KEY_BLOB_SIZE_ALIGNED = ((ENCRYPTING_KEY_BLOB_SIZE + 8 - 1) div 8) * 8"

definition KEYBUNDLE_BLOB_SIZE :: nat where
  "KEYBUNDLE_BLOB_SIZE = 1 + PUBLICKEYBYTES + KX_PUBLICKEYBYTES + SECRETKEYBYTES + KX_SECRETKEYBYTES"

definition KEYBUNDLE_BLOB_SIZE_ALIGNED :: nat where
  "KEYBUNDLE_BLOB_SIZE_ALIGNED = ((KEYBUNDLE_BLOB_SIZE + 8 - 1) div 8) * 8"

fun blob_size :: "BlobType \<Rightarrow> nat" where
  "blob_size SeedBlob = SEED_SIZE"
| "blob_size KeyBundleBlob = KEYBUNDLE_BLOB_SIZE_ALIGNED"
| "blob_size SigningKeyBlob = SIGNING_KEY_BLOB_SIZE_ALIGNED"
| "blob_size EncryptingKeyBlob = ENCRYPTING_KEY_BLOB_SIZE_ALIGNED"

definition finalize_blobbing ::
    "'g sodium \<Rightarrow> 'g \<Rightarrow> BlobType \<Rightarrow> u8 list \<Rightarrow> u8 list \<Rightarrow> PwHashConfig option \<Rightarrow> string HcResult \<times> 'g" where
  "finalize_blobbing N g t data_buf passphrase config =
     (if length data_buf \<noteq> blob_size t then (Err (ErrorGeneric ''Invalid buf size for Blobbing''), g)
      else encrypt_with_passphrase_buf N g data_buf passphrase config)"

definition unblob :: "'g sodium \<Rightarrow> BlobType \<Rightarrow> KeyBlob \<Rightarrow> u8 list \<Rightarrow> PwHashConfig option \<Rightarrow> u8 list HcResult option" where
  "unblob N t blob passphrase config =
     (if blob_type blob \<noteq> t then Some (Err (ErrorGeneric ''Blob type mismatch while unblobbing''))
      else decrypt_with_passphrase_buf N (blob_data blob) passphrase config (blob_size t))"

text \<open>The writes of an \<open>as_blob\<close> function, each with its \<open>expect\<close>.\<close>

fun write_at :: "u8 list \<Rightarrow> (nat \<times> u8 list) list \<Rightarrow> u8 list option" where
  "write_at buf [] = Some buf"
| "write_at buf ((offset, data) # ws) = Option.bind (to_ok (secbuf_write buf offset data)) (\<lambda>b. write_at b ws)"

definition blobbed ::
    "'g sodium \<Rightarrow> 'g \<Rightarrow> BlobType \<Rightarrow> SeedType \<Rightarrow> u8 list \<Rightarrow> u8 list \<Rightarrow> string \<Rightarrow> PwHashConfig option \<Rightarrow> KeyBlob HcResult \<times> 'g" where
  "blobbed N g t st data_buf passphrase hint config =
     (let (r, g) = finalize_blobbing N g t data_buf passphrase config in
      (map_ok (\<lambda>encoded_blob. \<lparr>blob_type = t, blob_seed_type = st, blob_hint = hint, blob_data = encoded_blob\<rparr>) r, g))"

definition seed_as_blob ::
    "'g sodium \<Rightarrow> 'g \<Rightarrow> Seed \<Rightarrow> u8 list \<Rightarrow> string \<Rightarrow> PwHashConfig option \<Rightarrow> KeyBlob HcResult \<times> 'g" where
  "seed_as_blob N g s passphrase hint config = blobbed N g SeedBlob (seed_kind s) (seed_buf s) passphrase hint config"

definition seed_from_blob :: "'g sodium \<Rightarrow> KeyBlob \<Rightarrow> u8 list \<Rightarrow> PwHashConfig option \<Rightarrow> Seed HcResult option" where
  "seed_from_blob N blob passphrase config =
     (case unblob N SeedBlob blob passphrase config of
        None \<Rightarrow> None
      | Some (Err e) \<Rightarrow> Some (Err e)
      | Some (Ok buf) \<Rightarrow> map_option Ok (seed_new buf (blob_seed_type blob)))"


definition signing_as_blob ::
    "'g sodium \<Rightarrow> 'g \<Rightarrow> SigningKeyPair \<Rightarrow> u8 list \<Rightarrow> string \<Rightarrow> PwHashConfig option \<Rightarrow> (KeyBlob HcResult \<times> 'g) option" where
  "signing_as_blob N g k passphrase hint config =
     (case hcid_decode (hcs0_base64 N) (kp_public k) of
        Err _ \<Rightarrow> None
      | Ok key \<Rightarrow>
          if length key \<noteq> PUBLICKEYBYTES then None
          else map_option (\<lambda>data_buf. blobbed N g SigningKeyBlob MockSeed data_buf passphrase hint config)
            (write_at (with_secure SIGNING_KEY_BLOB_SIZE_ALIGNED) [(0, [1]), (1, key), (1 + PUBLICKEYBYTES, kp_private k)]))"

definition encrypting_as_blob ::
    "'g sodium \<Rightarrow> 'g \<Rightarrow> EncryptingKeyPair \<Rightarrow> u8 list \<Rightarrow> string \<Rightarrow> PwHashConfig option \<Rightarrow> (KeyBlob HcResult \<times> 'g) option" where
  "encrypting_as_blob N g k passphrase hint config =
     (case hck0_decode N (kp_public k) of
        Err _ \<Rightarrow> None
      | Ok key \<Rightarrow>
          if length key \<noteq> KX_PUBLICKEYBYTES then None
          else map_option (\<lambda>data_buf. blobbed N g EncryptingKeyBlob MockSeed data_buf passphrase hint config)
            (write_at (with_secure ENCRYPTING_KEY_BLOB_SIZE_ALIGNED) [(0, [1]), (1, key), (1 + KX_PUBLICKEYBYTES, kp_private k)]))"

definition key_bundle_as_blob ::
    "'g sodium \<Rightarrow> 'g \<Rightarrow> KeyBundle \<Rightarrow> u8 list \<Rightarrow> string \<Rightarrow> PwHashConfig option \<Rightarrow> (KeyBlob HcResult \<times> 'g) option" where
  "key_bundle_as_blob N g b passphrase hint config =
     (case (hcid_decode (hcs0_base64 N) (kp_public (sign_keys b)), hck0_decode N (kp_public (enc_keys b))) of
        (Ok sign_pub, Ok enc_pub) \<Rightarrow>
          if length sign_pub \<noteq> PUBLICKEYBYTES \<or> length enc_pub \<noteq> KX_PUBLICKEYBYTES then None
          else map_option (\<lambda>data_buf. blobbed N g KeyBundleBlob MockSeed data_buf passphrase hint config)
            (write_at (with_secure KEYBUNDLE_BLOB_SIZE_ALIGNED)
              [(0, [2]), (1, sign_pub), (1 + PUBLICKEYBYTES, enc_pub),
               (1 + PUBLICKEYBYTES + KX_PUBLICKEYBYTES, kp_private (sign_keys b)),
               (1 + PUBLICKEYBYTES + KX_PUBLICKEYBYTES + SECRETKEYBYTES, kp_private (enc_keys b))])
      | _ \<Rightarrow> None)"

definition version_mismatch :: "string \<Rightarrow> u8 \<Rightarrow> nat \<Rightarrow> HolochainError" where
  "version_mismatch kind found expected =
     ErrorGeneric (''Invalid '' @ kind @ '' Blob Format: v'' @ show_nat (unat found) @ '' != v'' @ show_nat expected)"

definition slice :: "nat \<Rightarrow> nat \<Rightarrow> u8 list \<Rightarrow> u8 list" where
  "slice from to buf = drop from (take to buf)"

definition signing_from_blob :: "'g sodium \<Rightarrow> KeyBlob \<Rightarrow> u8 list \<Rightarrow> PwHashConfig option \<Rightarrow> SigningKeyPair HcResult option" where
  "signing_from_blob N blob passphrase config =
     (case unblob N SigningKeyBlob blob passphrase config of
        None \<Rightarrow> None
      | Some (Err e) \<Rightarrow> Some (Err e)
      | Some (Ok buf) \<Rightarrow>
          if hd buf \<noteq> 1 then Some (Err (version_mismatch ''SigningKey'' (hd buf) 1))
          else map_option (\<lambda>pub. Ok \<lparr>kp_public = pub, kp_private = slice 33 97 buf\<rparr>)
            (encode_pub_key_expect (hcs0_encode N) (slice 1 33 buf)))"

definition encrypting_from_blob :: "'g sodium \<Rightarrow> KeyBlob \<Rightarrow> u8 list \<Rightarrow> PwHashConfig option \<Rightarrow> EncryptingKeyPair HcResult option" where
  "encrypting_from_blob N blob passphrase config =
     (case unblob N EncryptingKeyBlob blob passphrase config of
        None \<Rightarrow> None
      | Some (Err e) \<Rightarrow> Some (Err e)
      | Some (Ok buf) \<Rightarrow>
          if hd buf \<noteq> 1 then Some (Err (version_mismatch ''EncryptingKey'' (hd buf) 1))
          else map_option (\<lambda>pub. Ok \<lparr>kp_public = pub, kp_private = slice 33 65 buf\<rparr>)
            (encode_pub_key_expect (hck0_encode N) (slice 1 33 buf)))"

definition key_bundle_from_blob :: "'g sodium \<Rightarrow> KeyBlob \<Rightarrow> u8 list \<Rightarrow> PwHashConfig option \<Rightarrow> KeyBundle HcResult option" where
  "key_bundle_from_blob N blob passphrase config =
     (case unblob N KeyBundleBlob blob passphrase config of
        None \<Rightarrow> None
      | Some (Err e) \<Rightarrow> Some (Err e)
      | Some (Ok buf) \<Rightarrow>
          if hd buf \<noteq> 2 then Some (Err (version_mismatch ''KeyBundle'' (hd buf) 2))
          else
            (case (encode_pub_key_expect (hcs0_encode N) (slice 1 33 buf), encode_pub_key_expect (hck0_encode N) (slice 33 65 buf)) of
               (Some sign_pub, Some enc_pub) \<Rightarrow>
                 Some (Ok \<lparr>sign_keys = \<lparr>kp_public = sign_pub, kp_private = slice 65 129 buf\<rparr>,
                           enc_keys = \<lparr>kp_public = enc_pub, kp_private = slice 129 161 buf\<rparr>\<rparr>)
             | _ \<Rightarrow> None))"


section \<open>What the libraries promise\<close>

definition library_laws :: "'g sodium \<Rightarrow> bool" where
  "library_laws N \<longleftrightarrow>
     (\<forall>n g. length (fst (randombytes_buf N n g)) = n)
     \<and> (\<forall>k n m. length (crypto_aead_encrypt N k n m) = length m + ABYTES)
     \<and> (\<forall>k n m. crypto_aead_decrypt N k n (crypto_aead_encrypt N k n m) = Some m)
     \<and> (\<forall>n buf. length (rejected_output N n buf) = length buf)
     \<and> (\<forall>s. length s = SEED_SIZE \<longrightarrow> length (fst (crypto_sign_seed_keypair N s)) = PUBLICKEYBYTES
          \<and> length (snd (crypto_sign_seed_keypair N s)) = SECRETKEYBYTES)
     \<and> (\<forall>s. length s = SEED_SIZE \<longrightarrow> length (fst (crypto_kx_seed_keypair N s)) = KX_PUBLICKEYBYTES
          \<and> length (snd (crypto_kx_seed_keypair N s)) = KX_SECRETKEYBYTES)
     \<and> (\<forall>k. length k = PUBLICKEYBYTES \<longrightarrow> (\<exists>t. hcs0_encode N k = Ok t \<and> hcid_decode (hcs0_base64 N) t = Ok k))
     \<and> (\<forall>k. length k = KX_PUBLICKEYBYTES \<longrightarrow> (\<exists>t. hck0_encode N k = Ok t \<and> hck0_decode N t = Ok k))
     \<and> (\<forall>s. base64_decode N (b64_encode (hcs0_base64 N) s) = Ok (string_bytes s))
     \<and> (\<forall>d. str_from_utf8 N (string_bytes (encrypted_data_to_string N d)) = Ok (encrypted_data_to_string N d))
     \<and> (\<forall>d. encrypted_data_from_str N (encrypted_data_to_string N d) = Ok d)"

text \<open>The passphrase \<open>q\<close> does not open what \<open>p\<close> has sealed.\<close>

definition rejects :: "'g sodium \<Rightarrow> PwHashConfig option \<Rightarrow> u8 list \<Rightarrow> u8 list \<Rightarrow> bool" where
  "rejects N config p q \<longleftrightarrow>
     (\<forall>salt s. pw_hash N p salt config = Ok s \<longrightarrow>
        (\<exists>s'. pw_hash N q salt config = Ok s'
          \<and> (\<forall>n m. crypto_aead_decrypt N s' n (crypto_aead_encrypt N s n m) = None)))"

lemmas size_defs =
  SALTBYTES_def NONCEBYTES_def ABYTES_def PUBLICKEYBYTES_def SECRETKEYBYTES_def KX_PUBLICKEYBYTES_def
  KX_SECRETKEYBYTES_def SEED_SIZE_def CONTEXTBYTES_def

lemmas blob_size_defs =
  SIGNING_KEY_BLOB_SIZE_ALIGNED_def SIGNING_KEY_BLOB_SIZE_def ENCRYPTING_KEY_BLOB_SIZE_ALIGNED_def
  ENCRYPTING_KEY_BLOB_SIZE_def KEYBUNDLE_BLOB_SIZE_ALIGNED_def KEYBUNDLE_BLOB_SIZE_def size_defs

section \<open>Encryption and decryption\<close>

lemma encrypted_blob:
  assumes laws: "library_laws N" and enc: "encrypt_with_passphrase_buf N g data p config = (Ok blob, g')"
  obtains d s where "pw_hash N p (enc_salt d) config = Ok s" and "length (enc_salt d) = SALTBYTES"
    and "enc_cipher d = crypto_aead_encrypt N s (enc_nonce d) data"
    and "\<forall>q sz. decrypt_with_passphrase_buf N blob q config sz =
      map_option (\<lambda>r. and_then r (\<lambda>b. if length b \<noteq> sz then Err (ErrorGeneric ''Invalid Blob size'') else Ok b))
        (pw_dec N d q (with_secure sz) config)"
proof -
  obtain salt g1 nonce g2 where rnd: "randombytes_buf N SALTBYTES g = (salt, g1)" "randombytes_buf N NONCEBYTES g1 = (nonce, g2)"
    by fastforce
  have salt: "length salt = SALTBYTES"
    using laws rnd(1) unfolding library_laws_def by (metis fst_conv)
  obtain s where s: "pw_hash N p salt config = Ok s"
    and blob: "blob = b64_encode (hcs0_base64 N) (encrypted_data_to_string N
      \<lparr>enc_salt = salt, enc_nonce = nonce, enc_cipher = aead_enc N data s nonce\<rparr>)"
    using enc by (auto simp: encrypt_with_passphrase_buf_def pw_enc_def rnd)
  show thesis
    by (rule that [of "\<lparr>enc_salt = salt, enc_nonce = nonce, enc_cipher = aead_enc N data s nonce\<rparr>" s])
      (use laws in \<open>simp_all add: s salt aead_enc_def decrypt_with_passphrase_buf_def blob library_laws_def\<close>)
qed

lemma secbuf_from_array_full [simp]: "length data = length buf \<Longrightarrow> secbuf_from_array buf data = Ok data"
  by (simp add: secbuf_from_array_def secbuf_write_def)

lemma length_buffers [simp]: "length (with_insecure n) = n" "length (with_secure n) = n"
  by (simp_all add: with_insecure_def with_secure_def)

lemma decrypt_encrypt:
  assumes laws: "library_laws N" and enc: "encrypt_with_passphrase_buf N g data p config = (Ok blob, g')"
  shows "decrypt_with_passphrase_buf N blob p config (length data) = Some (Ok data)"
proof -
  obtain d s where d: "pw_hash N p (enc_salt d) config = Ok s" "length (enc_salt d) = SALTBYTES"
    "enc_cipher d = crypto_aead_encrypt N s (enc_nonce d) data"
    and dec: "\<forall>q sz. decrypt_with_passphrase_buf N blob q config sz =
      map_option (\<lambda>r. and_then r (\<lambda>b. if length b \<noteq> sz then Err (ErrorGeneric ''Invalid Blob size'') else Ok b))
        (pw_dec N d q (with_secure sz) config)"
    by (rule encrypted_blob [OF laws enc])
  have "length (enc_cipher d) = length data + ABYTES" "crypto_aead_decrypt N s (enc_nonce d) (enc_cipher d) = Some data"
    using laws unfolding d(3) library_laws_def by blast+
  then have "pw_dec N d p (with_secure (length data)) config = Some (Ok data)"
    by (simp add: pw_dec_def d(1,2) aead_dec_def)
  then show ?thesis
    by (simp add: dec)
qed

lemma decrypt_rejected:
  assumes laws: "library_laws N" and enc: "encrypt_with_passphrase_buf N g data p config = (Ok blob, g')"
    and rej: "rejects N config p q"
  shows "decrypt_with_passphrase_buf N blob q config (length data)
    = Some (Ok (rejected_output N (length data + ABYTES) (with_secure (length data))))"
proof -
  obtain d s where d: "pw_hash N p (enc_salt d) config = Ok s" "length (enc_salt d) = SALTBYTES"
    "enc_cipher d = crypto_aead_encrypt N s (enc_nonce d) data"
    and dec: "\<forall>q sz. decrypt_with_passphrase_buf N blob q config sz =
      map_option (\<lambda>r. and_then r (\<lambda>b. if length b \<noteq> sz then Err (ErrorGeneric ''Invalid Blob size'') else Ok b))
        (pw_dec N d q (with_secure sz) config)"
    by (rule encrypted_blob [OF laws enc])
  obtain s' where s': "pw_hash N q (enc_salt d) config = Ok s'"
    "crypto_aead_decrypt N s' (enc_nonce d) (enc_cipher d) = None"
    using rej d(1) unfolding rejects_def d(3) by blast
  have len: "length (enc_cipher d) = length data + ABYTES"
    and out: "length (rejected_output N n buf) = length buf" for n buf
    using laws unfolding d(3) library_laws_def by blast+
  have "pw_dec N d q (with_secure (length data)) config
      = Some (Ok (rejected_output N (length data + ABYTES) (with_secure (length data))))"
    by (simp add: pw_dec_def d(2) s' aead_dec_def len)
  then show ?thesis
    by (simp add: dec out)
qed


section \<open>Blobs and their keys\<close>

definition wf_signing :: "'g sodium \<Rightarrow> SigningKeyPair \<Rightarrow> bool" where
  "wf_signing N k \<longleftrightarrow> length (kp_private k) = SECRETKEYBYTES
     \<and> (\<exists>pub. length pub = PUBLICKEYBYTES \<and> hcs0_encode N pub = Ok (kp_public k))"

definition wf_encrypting :: "'g sodium \<Rightarrow> EncryptingKeyPair \<Rightarrow> bool" where
  "wf_encrypting N k \<longleftrightarrow> length (kp_private k) = KX_SECRETKEYBYTES
     \<and> (\<exists>pub. length pub = KX_PUBLICKEYBYTES \<and> hck0_encode N pub = Ok (kp_public k))"

lemma hcs0_decode:
  assumes "library_laws N" and "length pub = PUBLICKEYBYTES" and "hcs0_encode N pub = Ok t"
  shows "hcid_decode (hcs0_base64 N) t = Ok pub"
  using assms unfolding library_laws_def by (metis Inr_inject)

lemma hck0_decode_encode:
  assumes "library_laws N" and "length pub = KX_PUBLICKEYBYTES" and "hck0_encode N pub = Ok t"
  shows "hck0_decode N t = Ok pub"
  using assms unfolding library_laws_def by (metis Inr_inject)

lemma blobbed_Ok:
  assumes "blobbed N g t st data p hint config = (Ok blob, g')"
  shows "blob_type blob = t" and "blob_seed_type blob = st" and "length data = blob_size t"
    and "encrypt_with_passphrase_buf N g data p config = (Ok (blob_data blob), g')"
  using assms by (auto simp: blobbed_def finalize_blobbing_def Let_def split: prod.splits if_splits)

lemma unblob_blobbed:
  assumes "library_laws N" and "blobbed N g t st data p hint config = (Ok blob, g')"
  shows "unblob N t blob p config = Some (Ok data)"
  using decrypt_encrypt [OF assms(1) blobbed_Ok(4) [OF assms(2)]] blobbed_Ok(1,3) [OF assms(2)]
  by (simp add: unblob_def)

lemma unblob_rejected:
  assumes "library_laws N" and "blobbed N g t st data p hint config = (Ok blob, g')" and "rejects N config p q"
  shows "unblob N t blob q config = Some (Ok (rejected_output N (blob_size t + ABYTES) (with_secure (blob_size t))))"
  using decrypt_rejected [OF assms(1) blobbed_Ok(4) [OF assms(2)] assms(3)] blobbed_Ok(1,3) [OF assms(2)]
  by (simp add: unblob_def)

lemma seed_round_trip:
  assumes "library_laws N" and "length (seed_buf s) = SEED_SIZE"
    and "seed_as_blob N g s p hint config = (Ok blob, g')"
  shows "seed_from_blob N blob p config = Some (Ok s)"
  using unblob_blobbed [OF assms(1) assms(3) [unfolded seed_as_blob_def]]
    blobbed_Ok(2) [OF assms(3) [unfolded seed_as_blob_def]] assms(2)
  by (simp add: seed_from_blob_def seed_new_def)

lemma signing_buffer:
  assumes "length pub = 32" and "length priv = 64"
  shows "write_at (with_secure SIGNING_KEY_BLOB_SIZE_ALIGNED) [(0, [1]), (1, pub), (1 + PUBLICKEYBYTES, priv)]
    = Some (1 # pub @ priv @ replicate 7 0xdb)"
  using assms by (simp add: blob_size_defs secbuf_write_def to_ok_def with_secure_def)

lemma encrypting_buffer:
  assumes "length pub = 32" and "length priv = 32"
  shows "write_at (with_secure ENCRYPTING_KEY_BLOB_SIZE_ALIGNED) [(0, [1]), (1, pub), (1 + KX_PUBLICKEYBYTES, priv)]
    = Some (1 # pub @ priv @ replicate 7 0xdb)"
  using assms by (simp add: blob_size_defs secbuf_write_def to_ok_def with_secure_def)

lemma signing_round_trip:
  assumes laws: "library_laws N" and wf: "wf_signing N k"
    and blob: "signing_as_blob N g k p hint config = Some (Ok blob, g')"
  shows "signing_from_blob N blob p config = Some (Ok k)"
proof -
  obtain pub where pub: "length pub = PUBLICKEYBYTES" "hcs0_encode N pub = Ok (kp_public k)"
    and priv: "length (kp_private k) = SECRETKEYBYTES"
    using wf by (auto simp: wf_signing_def)
  have dec: "hcid_decode (hcs0_base64 N) (kp_public k) = Ok pub"
    by (rule hcs0_decode [OF laws pub])
  let ?buf = "1 # pub @ kp_private k @ replicate 7 0xdb"
  have "blobbed N g SigningKeyBlob MockSeed ?buf p hint config = (Ok blob, g')"
    using blob pub priv signing_buffer [of pub "kp_private k"]
    by (simp add: signing_as_blob_def dec PUBLICKEYBYTES_def SECRETKEYBYTES_def)
  then have "unblob N SigningKeyBlob blob p config = Some (Ok ?buf)"
    by (rule unblob_blobbed [OF laws])
  moreover have "slice 1 33 ?buf = pub" "slice 33 97 ?buf = kp_private k"
    using pub(1) priv by (simp_all add: slice_def size_defs)
  ultimately show ?thesis
    using pub by (simp add: signing_from_blob_def encode_pub_key_expect_def encode_pub_key_def to_ok_def size_defs)
qed

lemma encrypting_round_trip:
  assumes laws: "library_laws N" and wf: "wf_encrypting N k"
    and blob: "encrypting_as_blob N g k p hint config = Some (Ok blob, g')"
  shows "encrypting_from_blob N blob p config = Some (Ok k)"
proof -
  obtain pub where pub: "length pub = KX_PUBLICKEYBYTES" "hck0_encode N pub = Ok (kp_public k)"
    and priv: "length (kp_private k) = KX_SECRETKEYBYTES"
    using wf by (auto simp: wf_encrypting_def)
  have dec: "hck0_decode N (kp_public k) = Ok pub"
    by (rule hck0_decode_encode [OF laws pub])
  let ?buf = "1 # pub @ kp_private k @ replicate 7 0xdb"
  have "blobbed N g EncryptingKeyBlob MockSeed ?buf p hint config = (Ok blob, g')"
    using blob pub priv encrypting_buffer [of pub "kp_private k"]
    by (simp add: encrypting_as_blob_def dec KX_PUBLICKEYBYTES_def KX_SECRETKEYBYTES_def)
  then have "unblob N EncryptingKeyBlob blob p config = Some (Ok ?buf)"
    by (rule unblob_blobbed [OF laws])
  moreover have "slice 1 33 ?buf = pub" "slice 33 65 ?buf = kp_private k"
    using pub(1) priv by (simp_all add: slice_def size_defs)
  ultimately show ?thesis
    using pub by (simp add: encrypting_from_blob_def encode_pub_key_expect_def encode_pub_key_def to_ok_def size_defs)
qed

end
