(* ===== verification/Keystore.thy ===== *)
theory Keystore
  imports Dpki
begin

text \<open>
  The keystore of an agent, \<open>conductor_api/src/keystore.rs\<close>, and the passphrase manager it asks,
  \<open>conductor_api/src/conductor/passphrase_manager.rs\<close>.

  An operation is a function of the state: the keystore, the passphrase the manager has cached,
  and the outside world. It gives \<open>None\<close> when it panics, and otherwise a result and the state it
  leaves, also when the result is an error. A secret in the cache is shared with the callers of
  \<open>get\<close>; the functions here lock it for the time they use it, so what they change in it is
  changed in the cache.
\<close>

section \<open>State\<close>

datatype Secret = SigningKey SigningKeyPair | EncryptingKey EncryptingKeyPair | SeedSecret "u8 list"

datatype KeyType = Signing | Encrypting

record Keystore =
  passphrase_check :: string
  secrets :: "(string \<times> KeyBlob) list"
  key_cache :: "string \<Rightarrow> Secret option"
  has_passphrase_manager :: bool
  hash_config :: "PwHashConfig option"

record 'g ks_state =
  keystore :: Keystore
  passphrase_cache :: "u8 list option"
  outside :: 'g

type_synonym ('g, 'a) ks_op = "('g ks_state, HolochainError, 'a) op"

text \<open>\<open>secrets\<close> is a \<open>BTreeMap\<close>: an association list sorted by its keys.\<close>

fun btree_insert :: "'k::linorder \<Rightarrow> 'v \<Rightarrow> ('k \<times> 'v) list \<Rightarrow> ('k \<times> 'v) list" where
  "btree_insert k v [] = [(k, v)]"
| "btree_insert k v ((k', v') # m) =
     (if k < k' then (k, v) # (k', v') # m else if k = k' then (k, v) # m else (k', v') # btree_insert k v m)"

lemma map_of_btree_insert [simp]: "map_of (btree_insert k v m) = (map_of m)(k \<mapsto> v)"
  by (induction m) auto

section \<open>The passphrase manager\<close>

definition get_passphrase :: "'g sodium \<Rightarrow> ('g, u8 list) ks_op" where
  "get_passphrase N st =
     (case passphrase_cache st of
        Some p \<Rightarrow> Some (Ok p, st)
      | None \<Rightarrow>
          (case request_passphrase N (outside st) of
             (Err e, g) \<Rightarrow> Some (Err e, st\<lparr>outside := g\<rparr>)
           | (Ok p, g) \<Rightarrow> Some (Ok p, st\<lparr>passphrase_cache := Some p, outside := g\<rparr>)))"

definition forget_passphrase :: "'g ks_state \<Rightarrow> 'g ks_state" where
  "forget_passphrase st = st\<lparr>passphrase_cache := None\<rparr>"

section \<open>The passphrase check\<close>

definition PCHECK_HEADER_SIZE :: nat where
  "PCHECK_HEADER_SIZE = 8"

definition PCHECK_HEADER :: "u8 list" where
  "PCHECK_HEADER = string_bytes ''PHCCHECK''"

definition PCHECK_RANDOM_SIZE :: nat where
  "PCHECK_RANDOM_SIZE = 32"

definition PCHECK_SIZE :: nat where
  "PCHECK_SIZE = PCHECK_RANDOM_SIZE + PCHECK_HEADER_SIZE"

definition DEFAULT_PASSPHRASE :: "u8 list" where
  "DEFAULT_PASSPHRASE = string_bytes ''convenient and insecure keystore''"

definition make_passphrase_check :: "'g sodium \<Rightarrow> 'g \<Rightarrow> u8 list \<Rightarrow> PwHashConfig option \<Rightarrow> (string HcResult \<times> 'g) option" where
  "make_passphrase_check N g passphrase config =
     (let (check_buf, g) = randombytes_buf N PCHECK_SIZE g in
      map_option (\<lambda>check_buf. encrypt_with_passphrase_buf N g check_buf passphrase config)
        (to_ok (secbuf_write check_buf 0 PCHECK_HEADER)))"

definition check_passphrase :: "'g sodium \<Rightarrow> Keystore \<Rightarrow> u8 list \<Rightarrow> bool HcResult option" where
  "check_passphrase N k passphrase =
     map_option (map_ok (\<lambda>decrypted_buf. take PCHECK_HEADER_SIZE decrypted_buf = PCHECK_HEADER))
       (decrypt_with_passphrase_buf N (passphrase_check k) passphrase (hash_config k) PCHECK_SIZE)"

definition change_passphrase :: "'g sodium \<Rightarrow> u8 list \<Rightarrow> u8 list \<Rightarrow> ('g, unit) ks_op" where
  "change_passphrase N old_passphrase new_passphrase st =
     (case check_passphrase N (keystore st) old_passphrase of
        None \<Rightarrow> None
      | Some (Err e) \<Rightarrow> Some (Err e, st)
      | Some (Ok False) \<Rightarrow> Some (Err (ErrorGeneric ''Bad passphrase''), st)
      | Some (Ok True) \<Rightarrow>
          map_option (\<lambda>(r, g).
              case r of
                Err e \<Rightarrow> (Err e, st\<lparr>outside := g\<rparr>)
              | Ok check \<Rightarrow> (Ok (), st\<lparr>keystore := (keystore st)\<lparr>passphrase_check := check\<rparr>, outside := g\<rparr>))
            (make_passphrase_check N (outside st) new_passphrase (hash_config (keystore st))))"

section \<open>Decrypting and encrypting one secret\<close>

definition inner_decrypt :: "'g sodium \<Rightarrow> Keystore \<Rightarrow> KeyBlob \<Rightarrow> u8 list \<Rightarrow> Secret HcResult option" where
  "inner_decrypt N k blob passphrase =
     (case blob_type blob of
        SeedBlob \<Rightarrow> map_option (map_ok (\<lambda>s. SeedSecret (seed_buf s))) (seed_from_blob N blob passphrase (hash_config k))
      | SigningKeyBlob \<Rightarrow> map_option (map_ok SigningKey) (signing_from_blob N blob passphrase (hash_config k))
      | EncryptingKeyBlob \<Rightarrow> map_option (map_ok EncryptingKey) (encrypting_from_blob N blob passphrase (hash_config k))
      | KeyBundleBlob \<Rightarrow> Some (Err (ErrorGeneric ''Tried to decrypt unsupported BlobType in Keystore: {}'')))"

definition could_not_decrypt :: "string \<Rightarrow> HolochainError \<Rightarrow> HolochainError" where
  "could_not_decrypt i e =
     ErrorGeneric (''Could not decrypt '' @ [CHR 0x27] @ i @ [CHR 0x27] @ '': '' @ error_debug e)"

definition manager_passphrase :: "'g sodium \<Rightarrow> ('g, u8 list) ks_op" where
  "manager_passphrase N st =
     (if has_passphrase_manager (keystore st) then get_passphrase N st
      else Some (Err (ErrorGeneric ''Expected Some and got None''), st))"

definition ks_decrypt :: "'g sodium \<Rightarrow> string \<Rightarrow> ('g, unit) ks_op" where
  "ks_decrypt N id_str st =
     (case map_of (secrets (keystore st)) id_str of
        None \<Rightarrow> Some (Err (ErrorGeneric ''Secret not found''), st)
      | Some blob \<Rightarrow>
          (case check_passphrase N (keystore st) DEFAULT_PASSPHRASE of
             None \<Rightarrow> None
           | Some r \<Rightarrow>
               op_then (if r = Ok True then op_result (Ok DEFAULT_PASSPHRASE) else manager_passphrase N) (\<lambda>passphrase st.
                 map_option (\<lambda>r. case r of
                     Err e \<Rightarrow> (Err (could_not_decrypt id_str e), st)
                   | Ok secret \<Rightarrow> (Ok (), st\<lparr>keystore := (keystore st)\<lparr>key_cache := (key_cache (keystore st))(id_str \<mapsto> secret)\<rparr>\<rparr>))
                   (inner_decrypt N (keystore st) blob passphrase)) st))"

definition secret_as_blob ::
    "'g sodium \<Rightarrow> 'g \<Rightarrow> Secret \<Rightarrow> u8 list \<Rightarrow> PwHashConfig option \<Rightarrow> (KeyBlob HcResult \<times> 'g) option" where
  "secret_as_blob N g secret passphrase config =
     (case secret of
        SeedSecret buf \<Rightarrow> map_option (\<lambda>s. seed_as_blob N g s passphrase [] config) (seed_new buf OneShotSeed)
      | SigningKey key \<Rightarrow> signing_as_blob N g key passphrase [] config
      | EncryptingKey key \<Rightarrow> encrypting_as_blob N g key passphrase [] config)"

definition store_blob :: "string \<Rightarrow> KeyBlob HcResult \<times> 'g \<Rightarrow> 'g ks_state \<Rightarrow> unit HcResult \<times> 'g ks_state" where
  "store_blob id_str x st =
     (case fst x of
        Err e \<Rightarrow> (Err e, st\<lparr>outside := snd x\<rparr>)
      | Ok blob \<Rightarrow> (Ok (), st\<lparr>keystore := (keystore st)\<lparr>secrets := btree_insert id_str blob (secrets (keystore st))\<rparr>, outside := snd x\<rparr>))"

text \<open>The outcome of \<open>check_passphrase\<close> is used only for its error.\<close>

definition ks_encrypt :: "'g sodium \<Rightarrow> string \<Rightarrow> ('g, unit) ks_op" where
  "ks_encrypt N id_str st =
     (case key_cache (keystore st) id_str of
        None \<Rightarrow> Some (Err (ErrorGeneric ''Secret not found''), st)
      | Some secret \<Rightarrow>
          op_then (manager_passphrase N) (\<lambda>passphrase.
          op_then (\<lambda>st. op_pure (check_passphrase N (keystore st) passphrase) st) (\<lambda>_ st.
            map_option (\<lambda>x. store_blob id_str x st)
              (secret_as_blob N (outside st) secret passphrase (hash_config (keystore st))))) st)"


section \<open>The operations\<close>

definition keystore_new :: "'g sodium \<Rightarrow> u8 list option \<Rightarrow> 'g \<Rightarrow> PwHashConfig option \<Rightarrow> (unit HcResult \<times> 'g ks_state) option" where
  "keystore_new N cached g config =
     (let empty = \<lparr>passphrase_check = [], secrets = [], key_cache = Map.empty, has_passphrase_manager = True, hash_config = config\<rparr> in
      op_then (get_passphrase N) (\<lambda>passphrase st.
        map_option (\<lambda>(r, g).
            case r of
              Err e \<Rightarrow> (Err e, st\<lparr>outside := g\<rparr>)
            | Ok check \<Rightarrow> (Ok (), st\<lparr>keystore := empty\<lparr>passphrase_check := check\<rparr>, outside := g\<rparr>))
          (make_passphrase_check N (outside st) passphrase config))
        \<lparr>keystore = empty, passphrase_cache = cached, outside = g\<rparr>)"

text \<open>What \<open>save\<close> writes and \<open>new_from_file\<close> reads: the fields that are not skipped by serde.\<close>

type_synonym keystore_file = "string \<times> (string \<times> KeyBlob) list"

definition keystore_save :: "Keystore \<Rightarrow> keystore_file" where
  "keystore_save k = (passphrase_check k, secrets k)"

definition keystore_new_from_file :: "keystore_file HcResult \<Rightarrow> PwHashConfig option \<Rightarrow> Keystore HcResult" where
  "keystore_new_from_file contents config =
     map_ok (\<lambda>(check, ss). \<lparr>passphrase_check = check, secrets = ss, key_cache = Map.empty, has_passphrase_manager = True,
       hash_config = config\<rparr>) contents"

definition keystore_list :: "Keystore \<Rightarrow> string list" where
  "keystore_list k = map fst (secrets k)"

definition check_dst_identifier :: "string \<Rightarrow> ('g, string) ks_op" where
  "check_dst_identifier dst_id st =
     Some (if map_of (secrets (keystore st)) dst_id \<noteq> None then Err (ErrorGeneric ''identifier already exists'') else Ok dst_id, st)"

definition cache_insert :: "string \<Rightarrow> Secret \<Rightarrow> ('g, unit) ks_op" where
  "cache_insert i secret st =
     Some (Ok (), st\<lparr>keystore := (keystore st)\<lparr>key_cache := (key_cache (keystore st))(i \<mapsto> secret)\<rparr>\<rparr>)"

definition ks_insert :: "'g sodium \<Rightarrow> string \<Rightarrow> Secret \<Rightarrow> ('g, unit) ks_op" where
  "ks_insert N dst_id secret = op_then (cache_insert dst_id secret) (\<lambda>_. ks_encrypt N dst_id)"

definition ks_add :: "'g sodium \<Rightarrow> string \<Rightarrow> Secret \<Rightarrow> ('g, unit) ks_op" where
  "ks_add N dst_id_str secret = op_then (check_dst_identifier dst_id_str) (\<lambda>dst_id. ks_insert N dst_id secret)"

definition generate_random_buf :: "'g sodium \<Rightarrow> nat \<Rightarrow> ('g, u8 list) ks_op" where
  "generate_random_buf N sz st =
     (let (buf, g) = randombytes_buf N sz (outside st) in Some (Ok buf, st\<lparr>outside := g\<rparr>))"

definition add_random_seed :: "'g sodium \<Rightarrow> string \<Rightarrow> nat \<Rightarrow> ('g, unit) ks_op" where
  "add_random_seed N dst_id_str sz =
     op_then (check_dst_identifier dst_id_str) (\<lambda>dst_id.
     op_then (generate_random_buf N sz) (\<lambda>buf. ks_insert N dst_id (SeedSecret buf)))"

definition ks_get :: "'g sodium \<Rightarrow> string \<Rightarrow> ('g, Secret) ks_op" where
  "ks_get N src_id st =
     (if map_of (secrets (keystore st)) src_id = None
      then Some (Err (ErrorGeneric ''unknown source identifier''), st)
      else
        op_then (if key_cache (keystore st) src_id = None then ks_decrypt N src_id else op_result (Ok ())) (\<lambda>_ st.
          map_option (\<lambda>s. (Ok s, st)) (key_cache (keystore st) src_id)) st)"

definition check_identifiers :: "'g sodium \<Rightarrow> string \<Rightarrow> string \<Rightarrow> ('g, Secret \<times> string) ks_op" where
  "check_identifiers N src_id_str dst_id_str =
     op_then (check_dst_identifier dst_id_str) (\<lambda>dst_id.
     op_then (ks_get N src_id_str) (\<lambda>src_secret. op_result (Ok (src_secret, dst_id))))"

definition add_seed_from_seed :: "'g sodium \<Rightarrow> string \<Rightarrow> string \<Rightarrow> u8 list \<Rightarrow> u64 \<Rightarrow> ('g, unit) ks_op" where
  "add_seed_from_seed N src_id_str dst_id_str seed_context idx =
     op_then (check_identifiers N src_id_str dst_id_str) (\<lambda>(src_secret, dst_id).
       case src_secret of
         SeedSecret src \<Rightarrow>
           op_then (op_result (generate_derived_seed_buf N src seed_context idx SEED_SIZE)) (\<lambda>seed.
             ks_insert N dst_id (SeedSecret seed))
       | _ \<Rightarrow> op_result (Err (ErrorGeneric ''source secret is not a root seed'')))"

definition key_pair_from_seed :: "'g sodium \<Rightarrow> KeyType \<Rightarrow> u8 list \<Rightarrow> (KeyPair HcResult \<times> u8 list) option" where
  "key_pair_from_seed N key_type seed =
     (case key_type of Signing \<Rightarrow> signing_new_from_seed N seed | Encrypting \<Rightarrow> encrypting_new_from_seed N seed)"

definition key_secret :: "KeyType \<Rightarrow> KeyPair \<Rightarrow> Secret" where
  "key_secret key_type k = (case key_type of Signing \<Rightarrow> SigningKey k | Encrypting \<Rightarrow> EncryptingKey k)"

text \<open>The constructor of the key pair works on the seed buffer in the cache.\<close>

definition add_key_from_seed :: "'g sodium \<Rightarrow> string \<Rightarrow> string \<Rightarrow> KeyType \<Rightarrow> ('g, Base32) ks_op" where
  "add_key_from_seed N src_id_str dst_id_str key_type =
     op_then (check_identifiers N src_id_str dst_id_str) (\<lambda>(src_secret, dst_id).
       case src_secret of
         SeedSecret seed \<Rightarrow>
           (\<lambda>st. case key_pair_from_seed N key_type seed of
              None \<Rightarrow> None
            | Some (r, seed) \<Rightarrow>
                op_then (cache_insert src_id_str (SeedSecret seed)) (\<lambda>_.
                op_then (op_result r) (\<lambda>key_pair.
                op_then (ks_insert N dst_id (key_secret key_type key_pair)) (\<lambda>_. op_result (Ok (kp_public key_pair))))) st)
       | _ \<Rightarrow> op_result (Err (ErrorGeneric ''source secret is not a seed'')))"

definition sign_key_id :: "string \<Rightarrow> string" where
  "sign_key_id prefix = prefix @ '':sign_key''"

definition enc_key_id :: "string \<Rightarrow> string" where
  "enc_key_id prefix = prefix @ '':enc_key''"

definition add_keybundle_from_seed :: "'g sodium \<Rightarrow> string \<Rightarrow> string \<Rightarrow> ('g, Base32 \<times> Base32) ks_op" where
  "add_keybundle_from_seed N src_id_str dst_id_prefix_str =
     op_then (add_key_from_seed N src_id_str (sign_key_id dst_id_prefix_str) Signing) (\<lambda>sign_pub_key.
     op_then (add_key_from_seed N src_id_str (enc_key_id dst_id_prefix_str) Encrypting) (\<lambda>enc_pub_key.
       op_result (Ok (sign_pub_key, enc_pub_key))))"

definition PRIMARY_KEYBUNDLE_ID :: string where
  "PRIMARY_KEYBUNDLE_ID = ''primary_keybundle''"

definition STANDALONE_ROOT_SEED :: string where
  "STANDALONE_ROOT_SEED = ''root_seed''"

definition keystore_new_standalone ::
    "'g sodium \<Rightarrow> u8 list option \<Rightarrow> 'g \<Rightarrow> PwHashConfig option \<Rightarrow> (Base32 HcResult \<times> 'g ks_state) option" where
  "keystore_new_standalone N cached g config =
     (case keystore_new N cached g config of
        None \<Rightarrow> None
      | Some (Err e, st) \<Rightarrow> Some (Err e, st)
      | Some (Ok _, st) \<Rightarrow>
          op_then (add_random_seed N STANDALONE_ROOT_SEED SEED_SIZE) (\<lambda>_.
          op_then (add_keybundle_from_seed N STANDALONE_ROOT_SEED PRIMARY_KEYBUNDLE_ID) (\<lambda>(pub_key, _).
            op_result (Ok pub_key))) st)"

definition add_keybundle :: "'g sodium \<Rightarrow> string \<Rightarrow> KeyBundle \<Rightarrow> ('g, unit) ks_op" where
  "add_keybundle N dst_id_prefix_str keybundle =
     op_then (op_result (key_new_from_self (sign_keys keybundle))) (\<lambda>sign_keypair.
     op_then (op_result (key_new_from_self (enc_keys keybundle))) (\<lambda>enc_keypair.
     op_then (ks_add N (sign_key_id dst_id_prefix_str) (SigningKey sign_keypair)) (\<lambda>_.
       ks_add N (enc_key_id dst_id_prefix_str) (EncryptingKey enc_keypair))))"

definition get_keybundle :: "'g sodium \<Rightarrow> string \<Rightarrow> ('g, KeyBundle) ks_op" where
  "get_keybundle N src_id_prefix_str =
     op_then (ks_get N (sign_key_id src_id_prefix_str)) (\<lambda>sign_secret.
       case sign_secret of
         SigningKey sign_pair \<Rightarrow>
           op_then (op_result (key_new_from_self sign_pair)) (\<lambda>sign_key.
           op_then (ks_get N (enc_key_id src_id_prefix_str)) (\<lambda>enc_secret.
             case enc_secret of
               EncryptingKey enc_pair \<Rightarrow>
                 op_then (op_result (key_new_from_self enc_pair)) (\<lambda>enc_key.
                   op_result (Ok \<lparr>sign_keys = sign_key, enc_keys = enc_key\<rparr>))
             | _ \<Rightarrow> op_result (Err (ErrorGeneric ''source secret is not an encrypting key''))))
       | _ \<Rightarrow> op_result (Err (ErrorGeneric ''source secret is not a signing key'')))"

definition bytes_string :: "u8 list \<Rightarrow> string" where
  "bytes_string bs = map (\<lambda>b. char_of (unat b)) bs"

definition ks_sign :: "'g sodium \<Rightarrow> string \<Rightarrow> string \<Rightarrow> ('g, Signature) ks_op" where
  "ks_sign N src_id_str data =
     op_then (ks_get N src_id_str) (\<lambda>src_secret.
       case src_secret of
         SigningKey key_pair \<Rightarrow>
           op_then (op_result (key_sign N key_pair (string_bytes data))) (\<lambda>buf.
             op_result (Ok (b64_encode (hcs0_base64 N) (bytes_string buf))))
       | _ \<Rightarrow> op_result (Err (ErrorGeneric ''source secret is not a signing key'')))"


section \<open>The passphrase check decides\<close>

definition sealed_check :: "'g sodium \<Rightarrow> Keystore \<Rightarrow> u8 list \<Rightarrow> bool" where
  "sealed_check N k p \<longleftrightarrow>
     (\<exists>g g' rnd. length rnd = PCHECK_RANDOM_SIZE
       \<and> encrypt_with_passphrase_buf N g (PCHECK_HEADER @ rnd) p (hash_config k) = (Ok (passphrase_check k), g'))"

text \<open>What a rejected decryption leaves in the buffer is neither the header nor a version byte.\<close>

definition marks_rejection :: "'g sodium \<Rightarrow> bool" where
  "marks_rejection N \<longleftrightarrow> (\<forall>n buf. take PCHECK_HEADER_SIZE (rejected_output N n buf) \<noteq> PCHECK_HEADER)
     \<and> (\<forall>n buf. buf \<noteq> [] \<longrightarrow> hd (rejected_output N n buf) \<noteq> 1)"

definition hashes :: "'g sodium \<Rightarrow> PwHashConfig option \<Rightarrow> u8 list \<Rightarrow> bool" where
  "hashes N config p \<longleftrightarrow> (\<forall>salt. \<exists>s. pw_hash N p salt config = Ok s)"

definition wf_secret :: "'g sodium \<Rightarrow> Secret \<Rightarrow> bool" where
  "wf_secret N secret =
     (case secret of
        SeedSecret buf \<Rightarrow> length buf = SEED_SIZE
      | SigningKey k \<Rightarrow> wf_signing N k
      | EncryptingKey k \<Rightarrow> wf_encrypting N k)"

lemma length_header: "length PCHECK_HEADER = PCHECK_HEADER_SIZE"
  by (simp add: PCHECK_HEADER_def string_bytes_def PCHECK_HEADER_SIZE_def)

lemma header_written:
  "length buf = PCHECK_SIZE \<Longrightarrow> secbuf_write buf 0 PCHECK_HEADER = Ok (PCHECK_HEADER @ drop PCHECK_HEADER_SIZE buf)"
  by (simp add: secbuf_write_def length_header PCHECK_SIZE_def)

lemma make_passphrase_check_sealed:
  assumes laws: "library_laws N" and check: "make_passphrase_check N g p (hash_config k) = Some (Ok (passphrase_check k), g')"
  shows "sealed_check N k p"
proof -
  obtain buf g1 where rnd: "randombytes_buf N PCHECK_SIZE g = (buf, g1)"
    by fastforce
  have len: "length buf = PCHECK_SIZE"
    using laws rnd unfolding library_laws_def by (metis fst_conv)
  note w = header_written [OF this]
  have "encrypt_with_passphrase_buf N g1 (PCHECK_HEADER @ drop PCHECK_HEADER_SIZE buf) p (hash_config k)
      = (Ok (passphrase_check k), g')"
    using check by (simp add: make_passphrase_check_def rnd w to_ok_def)
  moreover have "length (drop PCHECK_HEADER_SIZE buf) = PCHECK_RANDOM_SIZE"
    by (simp add: len PCHECK_SIZE_def)
  ultimately show ?thesis
    unfolding sealed_check_def by blast
qed

lemma check_passphrase_right:
  assumes laws: "library_laws N" and "sealed_check N k p"
  shows "check_passphrase N k p = Some (Ok True)"
proof -
  obtain g g' rnd where rnd: "length rnd = PCHECK_RANDOM_SIZE"
    and enc: "encrypt_with_passphrase_buf N g (PCHECK_HEADER @ rnd) p (hash_config k) = (Ok (passphrase_check k), g')"
    using assms(2) by (auto simp: sealed_check_def)
  have "length (PCHECK_HEADER @ rnd) = PCHECK_SIZE"
    by (simp add: rnd length_header PCHECK_SIZE_def)
  then show ?thesis
    using decrypt_encrypt [OF laws enc] by (simp add: check_passphrase_def length_header)
qed

lemma check_passphrase_wrong:
  assumes laws: "library_laws N" and "sealed_check N k p" and rej: "rejects N (hash_config k) p q" and "marks_rejection N"
  shows "check_passphrase N k q = Some (Ok False)"
proof -
  obtain g g' rnd where rnd: "length rnd = PCHECK_RANDOM_SIZE"
    and enc: "encrypt_with_passphrase_buf N g (PCHECK_HEADER @ rnd) p (hash_config k) = (Ok (passphrase_check k), g')"
    using assms(2) by (auto simp: sealed_check_def)
  have "length (PCHECK_HEADER @ rnd) = PCHECK_SIZE"
    by (simp add: rnd length_header PCHECK_SIZE_def)
  then show ?thesis
    using decrypt_rejected [OF laws enc rej] assms(4) by (simp add: check_passphrase_def marks_rejection_def)
qed

section \<open>Sealed secrets\<close>

lemma encrypt_hashes:
  assumes "hashes N config p"
  obtains blob g' where "encrypt_with_passphrase_buf N g data p config = (Ok blob, g')"
proof -
  obtain salt g1 nonce g2 where rnd: "randombytes_buf N SALTBYTES g = (salt, g1)" "randombytes_buf N NONCEBYTES g1 = (nonce, g2)"
    by fastforce
  obtain s where "pw_hash N p salt config = Ok s"
    using assms unfolding hashes_def by blast
  then show thesis
    by (intro that) (simp add: encrypt_with_passphrase_buf_def pw_enc_def rnd)
qed

lemma blobbed_hashes:
  assumes "hashes N config p" and "length data = blob_size t"
  obtains blob g' where "blobbed N g t st data p hint config = (Ok blob, g')"
proof -
  obtain b g' where "encrypt_with_passphrase_buf N g data p config = (Ok b, g')"
    by (rule encrypt_hashes [OF assms(1)])
  then show thesis
    using assms(2) by (intro that) (simp add: blobbed_def finalize_blobbing_def)
qed

lemma secret_as_blob_hashes:
  assumes laws: "library_laws N" and hash: "hashes N config p" and wf: "wf_secret N secret"
  obtains blob g' where "secret_as_blob N g secret p config = Some (Ok blob, g')"
proof (cases secret)
  case (SeedSecret buf)
  then have len: "length buf = SEED_SIZE"
    using wf by (simp add: wf_secret_def)
  obtain blob g' where "blobbed N g SeedBlob OneShotSeed buf p [] config = (Ok blob, g')"
    by (rule blobbed_hashes [OF hash, of buf SeedBlob]) (simp_all add: len)
  then show thesis
    by (intro that) (simp add: SeedSecret secret_as_blob_def seed_new_def len seed_as_blob_def)
next
  case (SigningKey k)
  then obtain pub where pub: "length pub = PUBLICKEYBYTES" "hcs0_encode N pub = Ok (kp_public k)"
    and priv: "length (kp_private k) = SECRETKEYBYTES"
    using wf by (auto simp: wf_secret_def wf_signing_def)
  let ?buf = "1 # pub @ kp_private k @ replicate 7 0xdb"
  obtain blob g' where "blobbed N g SigningKeyBlob MockSeed ?buf p [] config = (Ok blob, g')"
    by (rule blobbed_hashes [OF hash, of ?buf SigningKeyBlob]) (simp_all add: pub(1) priv blob_size_defs)
  then show thesis
    using hcs0_decode [OF laws pub] pub priv signing_buffer [of pub "kp_private k"]
    by (intro that) (simp add: SigningKey secret_as_blob_def signing_as_blob_def PUBLICKEYBYTES_def SECRETKEYBYTES_def)
next
  case (EncryptingKey k)
  then obtain pub where pub: "length pub = KX_PUBLICKEYBYTES" "hck0_encode N pub = Ok (kp_public k)"
    and priv: "length (kp_private k) = KX_SECRETKEYBYTES"
    using wf by (auto simp: wf_secret_def wf_encrypting_def)
  let ?buf = "1 # pub @ kp_private k @ replicate 7 0xdb"
  obtain blob g' where "blobbed N g EncryptingKeyBlob MockSeed ?buf p [] config = (Ok blob, g')"
    by (rule blobbed_hashes [OF hash, of ?buf EncryptingKeyBlob]) (simp_all add: pub(1) priv blob_size_defs)
  then show thesis
    using hck0_decode_encode [OF laws pub] pub priv encrypting_buffer [of pub "kp_private k"]
    by (intro that) (simp add: EncryptingKey secret_as_blob_def encrypting_as_blob_def KX_PUBLICKEYBYTES_def KX_SECRETKEYBYTES_def)
qed

lemma secret_blob_type:
  assumes "secret_as_blob N g secret p config = Some (Ok blob, g')"
  shows "blob_type blob = (case secret of SeedSecret _ \<Rightarrow> SeedBlob | SigningKey _ \<Rightarrow> SigningKeyBlob | EncryptingKey _ \<Rightarrow> EncryptingKeyBlob)"
  using assms
  by (auto simp: secret_as_blob_def seed_as_blob_def signing_as_blob_def encrypting_as_blob_def blobbed_Ok(1)
      split: Secret.splits sum.splits if_splits)

lemma inner_decrypt_sealed:
  assumes laws: "library_laws N" and wf: "wf_secret N secret"
    and blob: "secret_as_blob N g secret p (hash_config k) = Some (Ok blob, g')"
  shows "inner_decrypt N k blob p = Some (Ok secret)"
proof (cases secret)
  case (SeedSecret buf)
  then have len: "length buf = SEED_SIZE"
    using wf by (simp add: wf_secret_def)
  have "seed_as_blob N g \<lparr>seed_kind = OneShotSeed, seed_buf = buf\<rparr> p [] (hash_config k) = (Ok blob, g')"
    using blob by (simp add: SeedSecret secret_as_blob_def seed_new_def len)
  from seed_round_trip [OF laws _ this] show ?thesis
    using secret_blob_type [OF blob] by (simp add: SeedSecret len inner_decrypt_def)
next
  case (SigningKey key)
  then show ?thesis
    using signing_round_trip [OF laws, of key] wf blob secret_blob_type [OF blob]
    by (simp add: secret_as_blob_def wf_secret_def inner_decrypt_def)
next
  case (EncryptingKey key)
  then show ?thesis
    using encrypting_round_trip [OF laws, of key] wf blob secret_blob_type [OF blob]
    by (simp add: secret_as_blob_def wf_secret_def inner_decrypt_def)
qed


section \<open>Adding and getting\<close>

definition with_secret :: "'g ks_state \<Rightarrow> string \<Rightarrow> Secret \<Rightarrow> KeyBlob \<Rightarrow> 'g \<Rightarrow> 'g ks_state" where
  "with_secret st i secret blob g =
     st\<lparr>keystore := (keystore st)\<lparr>key_cache := (key_cache (keystore st))(i \<mapsto> secret), secrets := btree_insert i blob (secrets (keystore st))\<rparr>,
        outside := g\<rparr>"

lemma ks_insert_Ok:
  assumes manager: "has_passphrase_manager (keystore st)" "passphrase_cache st = Some p"
    and check: "check_passphrase N (keystore st) p = Some (Ok b)"
    and blob: "secret_as_blob N (outside st) secret p (hash_config (keystore st)) = Some (Ok blob, g)"
  shows "ks_insert N i secret st = Some (Ok (), with_secret st i secret blob g)"
proof -
  have same: "check_passphrase N ((keystore st)\<lparr>key_cache := m\<rparr>) p = Some (Ok b)" for m
    using check by (simp add: check_passphrase_def)
  show ?thesis
    by (simp add: ks_insert_def op_defs cache_insert_def ks_encrypt_def manager_passphrase_def manager get_passphrase_def
        same blob store_blob_def with_secret_def)
qed

lemma ks_add_Ok:
  assumes "map_of (secrets (keystore st)) i = None"
    and "has_passphrase_manager (keystore st)" "passphrase_cache st = Some p"
    and "check_passphrase N (keystore st) p = Some (Ok b)"
    and "secret_as_blob N (outside st) secret p (hash_config (keystore st)) = Some (Ok blob, g)"
  shows "ks_add N i secret st = Some (Ok (), with_secret st i secret blob g)"
  using ks_insert_Ok [OF assms(2-)] assms(1) by (simp add: ks_add_def op_then_def check_dst_identifier_def)

lemma new_from_saved:
  "keystore_new_from_file (Ok (keystore_save k)) (hash_config k)
    = Ok (k\<lparr>key_cache := Map.empty, has_passphrase_manager := True\<rparr>)"
  by (simp add: keystore_new_from_file_def keystore_save_def)

lemma check_passphrase_cong:
  assumes "passphrase_check k' = passphrase_check k" and "hash_config k' = hash_config k"
  shows "check_passphrase N k' q = check_passphrase N k q"
  using assms by (simp add: check_passphrase_def)

lemma ks_get_uncached:
  assumes blob: "map_of (secrets (keystore st)) i = Some blob" and cold: "key_cache (keystore st) i = None"
    and manager: "has_passphrase_manager (keystore st)" "passphrase_cache st = Some q"
    and default: "q = DEFAULT_PASSPHRASE \<and> check_passphrase N (keystore st) DEFAULT_PASSPHRASE = Some (Ok True)
      \<or> check_passphrase N (keystore st) DEFAULT_PASSPHRASE = Some (Ok False)"
    and dec: "inner_decrypt N (keystore st) blob q = Some r"
  shows "\<exists>st'. ks_get N i st = Some (map_err (could_not_decrypt i) r, st')"
proof (cases r)
  case (Inl e)
  then show ?thesis
    using default dec by (auto simp: ks_get_def blob cold op_defs ks_decrypt_def manager_passphrase_def manager get_passphrase_def)
next
  case (Inr s)
  then show ?thesis
    using default dec by (auto simp: ks_get_def blob cold op_defs ks_decrypt_def manager_passphrase_def manager get_passphrase_def)
qed

text \<open>A keystore whose check is sealed with \<open>p\<close> is opened with \<open>p\<close> and, unless it is \<open>p\<close>, not with the default.\<close>

definition locked_with :: "'g sodium \<Rightarrow> Keystore \<Rightarrow> u8 list \<Rightarrow> bool" where
  "locked_with N k p \<longleftrightarrow> sealed_check N k p
     \<and> (p = DEFAULT_PASSPHRASE \<or> rejects N (hash_config k) p DEFAULT_PASSPHRASE)"

lemma locked_default:
  assumes "library_laws N" and "marks_rejection N" and "locked_with N k p"
  shows "p = DEFAULT_PASSPHRASE \<and> check_passphrase N k DEFAULT_PASSPHRASE = Some (Ok True)
    \<or> check_passphrase N k DEFAULT_PASSPHRASE = Some (Ok False)"
  using assms check_passphrase_right [of N k p] check_passphrase_wrong [of N k p DEFAULT_PASSPHRASE]
  by (auto simp: locked_with_def)

lemma add_restart_get:
  assumes laws: "library_laws N" "marks_rejection N" and locked: "locked_with N (keystore st) p"
    and hash: "hashes N (hash_config (keystore st)) p" and wf: "wf_secret N secret"
    and fresh: "map_of (secrets (keystore st)) i = None"
    and manager: "has_passphrase_manager (keystore st)" "passphrase_cache st = Some p"
  shows "\<exists>st' k'. ks_add N i secret st = Some (Ok (), st')
    \<and> keystore_new_from_file (Ok (keystore_save (keystore st'))) (hash_config (keystore st)) = Ok k'
    \<and> (\<exists>st3. ks_get N i \<lparr>keystore = k', passphrase_cache = Some p, outside = g\<rparr> = Some (Ok secret, st3))"
proof -
  obtain blob g' where blob: "secret_as_blob N (outside st) secret p (hash_config (keystore st)) = Some (Ok blob, g')"
    by (rule secret_as_blob_hashes [OF laws(1) hash wf])
  let ?st' = "with_secret st i secret blob g'"
  let ?k' = "(keystore ?st')\<lparr>key_cache := Map.empty, has_passphrase_manager := True\<rparr>"
  have add: "ks_add N i secret st = Some (Ok (), ?st')"
    by (rule ks_add_Ok [OF fresh manager check_passphrase_right [OF laws(1)] blob])
      (use locked in \<open>simp add: locked_with_def\<close>)
  have config: "hash_config (keystore ?st') = hash_config (keystore st)"
    by (simp add: with_secret_def)
  have new: "keystore_new_from_file (Ok (keystore_save (keystore ?st'))) (hash_config (keystore st)) = Ok ?k'"
    unfolding config [symmetric] by (rule new_from_saved)
  have same: "check_passphrase N ?k' q = check_passphrase N (keystore st) q" for q
    by (rule check_passphrase_cong) (simp_all add: with_secret_def)
  have "inner_decrypt N ?k' blob p = Some (Ok secret)"
    by (rule inner_decrypt_sealed [OF laws(1) wf]) (use blob in \<open>simp add: with_secret_def\<close>)
  then have "\<exists>st3. ks_get N i \<lparr>keystore = ?k', passphrase_cache = Some p, outside = g\<rparr>
      = Some (map_err (could_not_decrypt i) (Ok secret), st3)"
    by (intro ks_get_uncached)
      (use locked_default [OF laws locked] same in \<open>simp_all add: with_secret_def\<close>)
  then show ?thesis
    using add new by auto
qed


text \<open>What a seed sealed with another passphrase decrypts to.\<close>

definition lost_seed :: "'g sodium \<Rightarrow> u8 list" where
  "lost_seed N = rejected_output N (SEED_SIZE + ABYTES) (with_secure SEED_SIZE)"

lemma inner_decrypt_rejected:
  assumes laws: "library_laws N" and rej: "rejects N (hash_config k) p q"
    and blob: "secret_as_blob N g (SeedSecret buf) p (hash_config k) = Some (Ok blob, g')"
  shows "inner_decrypt N k blob q = Some (Ok (SeedSecret (lost_seed N)))"
proof -
  have len: "length buf = SEED_SIZE"
    and "blobbed N g SeedBlob OneShotSeed buf p [] (hash_config k) = (Ok blob, g')"
    using blob by (auto simp: secret_as_blob_def seed_new_def seed_as_blob_def split: if_splits)
  then have "unblob N SeedBlob blob q (hash_config k) = Some (Ok (lost_seed N))"
    using unblob_rejected [OF laws _ rej] by (simp add: lost_seed_def)
  moreover have "length (lost_seed N) = SEED_SIZE"
    using laws by (simp add: lost_seed_def library_laws_def)
  ultimately show ?thesis
    using secret_blob_type [OF blob] by (simp add: inner_decrypt_def seed_from_blob_def seed_new_def)
qed

lemma get_lost_seed:
  assumes laws: "library_laws N" "marks_rejection N" and locked: "locked_with N k q"
    and blob: "map_of (secrets k) i = Some blob" "secret_as_blob N g (SeedSecret buf) p (hash_config k) = Some (Ok blob, g')"
    and rej: "rejects N (hash_config k) p q"
  shows "\<exists>k' st3. keystore_new_from_file (Ok (keystore_save k)) (hash_config k) = Ok k'
    \<and> ks_get N i \<lparr>keystore = k', passphrase_cache = Some q, outside = g''\<rparr> = Some (Ok (SeedSecret (lost_seed N)), st3)"
proof -
  let ?k' = "k\<lparr>key_cache := Map.empty, has_passphrase_manager := True\<rparr>"
  have same: "check_passphrase N ?k' r = check_passphrase N k r" for r
    by (rule check_passphrase_cong) simp_all
  have "inner_decrypt N ?k' blob q = Some (Ok (SeedSecret (lost_seed N)))"
    by (rule inner_decrypt_rejected [OF laws(1)]) (use rej blob(2) in simp_all)
  then have "\<exists>st3. ks_get N i \<lparr>keystore = ?k', passphrase_cache = Some q, outside = g''\<rparr>
      = Some (map_err (could_not_decrypt i) (Ok (SeedSecret (lost_seed N))), st3)"
    by (intro ks_get_uncached) (use blob(1) locked_default [OF laws locked] same in simp_all)
  then show ?thesis
    using new_from_saved [of k] by auto
qed

lemma add_with_wrong_passphrase:
  assumes laws: "library_laws N" "marks_rejection N" and locked: "locked_with N (keystore st) p"
    and wrong: "rejects N (hash_config (keystore st)) p q" "rejects N (hash_config (keystore st)) q p"
    and hash: "hashes N (hash_config (keystore st)) q" and len: "length buf = SEED_SIZE"
    and fresh: "map_of (secrets (keystore st)) i = None"
    and manager: "has_passphrase_manager (keystore st)" "passphrase_cache st = Some q"
  shows "check_passphrase N (keystore st) q = Some (Ok False)
    \<and> (\<exists>st' k' st3. ks_add N i (SeedSecret buf) st = Some (Ok (), st')
      \<and> keystore_new_from_file (Ok (keystore_save (keystore st'))) (hash_config (keystore st)) = Ok k'
      \<and> ks_get N i \<lparr>keystore = k', passphrase_cache = Some p, outside = g\<rparr> = Some (Ok (SeedSecret (lost_seed N)), st3))"
proof -
  have check: "check_passphrase N (keystore st) q = Some (Ok False)"
    using locked by (intro check_passphrase_wrong [OF laws(1) _ wrong(1) laws(2)]) (simp add: locked_with_def)
  obtain blob g' where blob: "secret_as_blob N (outside st) (SeedSecret buf) q (hash_config (keystore st)) = Some (Ok blob, g')"
    by (rule secret_as_blob_hashes [OF laws(1) hash, of "SeedSecret buf"]) (simp add: wf_secret_def len)
  let ?st' = "with_secret st i (SeedSecret buf) blob g'"
  have config: "hash_config (keystore ?st') = hash_config (keystore st)"
    by (simp add: with_secret_def)
  have add: "ks_add N i (SeedSecret buf) st = Some (Ok (), ?st')"
    by (rule ks_add_Ok [OF fresh manager check blob])
  have "locked_with N (keystore ?st') p"
    using locked by (simp add: locked_with_def sealed_check_def with_secret_def)
  then have "\<exists>k' st3. keystore_new_from_file (Ok (keystore_save (keystore ?st'))) (hash_config (keystore ?st')) = Ok k'
      \<and> ks_get N i \<lparr>keystore = k', passphrase_cache = Some p, outside = g\<rparr> = Some (Ok (SeedSecret (lost_seed N)), st3)"
    by (rule get_lost_seed [OF laws]) (use blob wrong(2) in \<open>simp_all add: with_secret_def\<close>)
  then show ?thesis
    using check add unfolding config by blast
qed

lemma change_passphrase_seeds:
  assumes laws: "library_laws N" "marks_rejection N" and locked: "locked_with N (keystore st) p"
    and seed: "map_of (secrets (keystore st)) i = Some blob"
      "secret_as_blob N g (SeedSecret buf) p (hash_config (keystore st)) = Some (Ok blob, g')"
    and new: "rejects N (hash_config (keystore st)) p q" "hashes N (hash_config (keystore st)) q"
      "q = DEFAULT_PASSPHRASE \<or> rejects N (hash_config (keystore st)) q DEFAULT_PASSPHRASE"
  shows "\<exists>st' k' st3. change_passphrase N p q st = Some (Ok (), st') \<and> secrets (keystore st') = secrets (keystore st)
    \<and> keystore_new_from_file (Ok (keystore_save (keystore st'))) (hash_config (keystore st)) = Ok k'
    \<and> ks_get N i \<lparr>keystore = k', passphrase_cache = Some q, outside = g''\<rparr> = Some (Ok (SeedSecret (lost_seed N)), st3)"
proof -
  have right: "check_passphrase N (keystore st) p = Some (Ok True)"
    using locked check_passphrase_right [OF laws(1)] by (simp add: locked_with_def)
  obtain buf0 g1 where rnd: "randombytes_buf N PCHECK_SIZE (outside st) = (buf0, g1)"
    by fastforce
  have len: "length buf0 = PCHECK_SIZE"
    using laws(1) rnd unfolding library_laws_def by (metis fst_conv)
  obtain check g2 where "encrypt_with_passphrase_buf N g1 (PCHECK_HEADER @ drop PCHECK_HEADER_SIZE buf0) q (hash_config (keystore st))
      = (Ok check, g2)"
    by (rule encrypt_hashes [OF new(2)])
  then have mk: "make_passphrase_check N (outside st) q (hash_config (keystore st)) = Some (Ok check, g2)"
    by (simp add: make_passphrase_check_def rnd header_written [OF len] to_ok_def)
  let ?k = "(keystore st)\<lparr>passphrase_check := check\<rparr>"
  have ch: "change_passphrase N p q st = Some (Ok (), st\<lparr>keystore := ?k, outside := g2\<rparr>)"
    by (simp add: change_passphrase_def right mk)
  have "sealed_check N ?k q"
    by (rule make_passphrase_check_sealed [OF laws(1)]) (use mk in simp)
  then have "locked_with N ?k q"
    using new(3) by (simp add: locked_with_def)
  then have "\<exists>k' st3. keystore_new_from_file (Ok (keystore_save ?k)) (hash_config ?k) = Ok k'
      \<and> ks_get N i \<lparr>keystore = k', passphrase_cache = Some q, outside = g''\<rparr> = Some (Ok (SeedSecret (lost_seed N)), st3)"
    by (rule get_lost_seed [OF laws]) (use seed new(1) in simp_all)
  then show ?thesis
    using ch by auto
qed


section \<open>Keys from seeds\<close>

abbreviation zero_key :: "u8 list" where
  "zero_key \<equiv> replicate 32 0"

lemma encrypting_from_any_seed:
  assumes "length s = SEED_SIZE"
  shows "encrypting_new_from_seed N s =
    Some (map_ok (\<lambda>pub. \<lparr>kp_public = pub, kp_private = fst (crypto_kx_seed_keypair N zero_key)\<rparr>) (hck0_encode N zero_key),
      snd (crypto_kx_seed_keypair N zero_key))"
  using assms
  by (simp add: encrypting_new_from_seed_def kx_seed_keypair_def encode_pub_key_def with_insecure_def size_defs
      split: prod.split)

text \<open>An insertion leaves the cached secrets with other names alone.\<close>

lemma store_blob_cache: "key_cache (keystore (snd (store_blob i x st))) = key_cache (keystore st)"
  by (simp add: store_blob_def split: sum.split)

lemma store_blob_secrets:
  "fst (store_blob i x st) = Ok () \<Longrightarrow> \<exists>blob. map_of (secrets (keystore (snd (store_blob i x st)))) i = Some blob"
  by (auto simp: store_blob_def split: sum.splits)

lemma ks_encrypt_stores:
  assumes "ks_encrypt N i st = Some (r, st')"
  shows "keystore st' = keystore st \<and> r \<noteq> Ok () \<or> (\<exists>x st1. keystore st1 = keystore st \<and> store_blob i x st1 = (r, st'))"
  using assms
  by (fastforce simp: ks_encrypt_def op_defs manager_passphrase_def get_passphrase_def
      split: option.splits sum.splits prod.splits if_splits)

lemma ks_encrypt_cache:
  assumes "ks_encrypt N i st = Some (r, st')"
  shows "key_cache (keystore st') = key_cache (keystore st)"
  using ks_encrypt_stores [OF assms] store_blob_cache by (metis snd_conv)

lemma ks_encrypt_secrets:
  assumes "ks_encrypt N i st = Some (Ok (), st')"
  shows "\<exists>blob. map_of (secrets (keystore st')) i = Some blob"
  using ks_encrypt_stores [OF assms] store_blob_secrets by (metis fst_conv snd_conv)

lemma ks_insert_cache:
  assumes "ks_insert N i secret st = Some (r, st')"
  shows "key_cache (keystore st') = (key_cache (keystore st))(i \<mapsto> secret)"
proof -
  have "ks_encrypt N i (st\<lparr>keystore := (keystore st)\<lparr>key_cache := (key_cache (keystore st))(i \<mapsto> secret)\<rparr>\<rparr>) = Some (r, st')"
    using assms by (simp add: ks_insert_def op_then_def cache_insert_def)
  from ks_encrypt_cache [OF this] show ?thesis
    by simp
qed

lemma check_identifiers_cached:
  assumes "map_of (secrets (keystore st)) dst = None" and "map_of (secrets (keystore st)) src = Some blob"
    and "key_cache (keystore st) src = Some secret"
  shows "check_identifiers N src dst st = Some (Ok (secret, dst), st)"
  using assms by (simp add: check_identifiers_def op_defs check_dst_identifier_def ks_get_def)

lemma add_key_cache:
  assumes fresh: "map_of (secrets (keystore st)) dst = None" and src: "map_of (secrets (keystore st)) src = Some blob"
    and cached: "key_cache (keystore st) src = Some (SeedSecret s)"
    and pair: "key_pair_from_seed N t s = Some (Ok k, s')"
    and add: "add_key_from_seed N src dst t st = Some (Ok pub, st')"
  shows "pub = kp_public k" and "key_cache (keystore st') src = Some (SeedSecret s')"
    and "key_cache (keystore st') dst = Some (key_secret t k)"
    and "\<exists>blob. map_of (secrets (keystore st')) dst = Some blob"
proof -
  have ne: "src \<noteq> dst"
    using fresh src by auto
  let ?st = "st\<lparr>keystore := (keystore st)\<lparr>key_cache := (key_cache (keystore st))(src \<mapsto> SeedSecret s')\<rparr>\<rparr>"
  have ins: "ks_insert N dst (key_secret t k) ?st = Some (Ok (), st')" and pub: "pub = kp_public k"
    using add by (auto simp: add_key_from_seed_def op_then_def [of "check_identifiers N src dst"]
        check_identifiers_cached [OF fresh src cached] pair op_then_def cache_insert_def op_result_def
        split: option.splits sum.splits)
  show "pub = kp_public k"
    by (rule pub)
  show "key_cache (keystore st') src = Some (SeedSecret s')" "key_cache (keystore st') dst = Some (key_secret t k)"
    using ks_insert_cache [OF ins] ne by simp_all
  show "\<exists>blob. map_of (secrets (keystore st')) dst = Some blob"
    using ins by (intro ks_encrypt_secrets) (simp add: ks_insert_def op_then_def cache_insert_def)
qed

lemma add_key_Ok:
  assumes laws: "library_laws N" and check: "sealed_check N (keystore st) p" and hash: "hashes N (hash_config (keystore st)) p"
    and manager: "has_passphrase_manager (keystore st)" "passphrase_cache st = Some p"
    and fresh: "map_of (secrets (keystore st)) dst = None" and src: "map_of (secrets (keystore st)) src = Some blob"
    and cached: "key_cache (keystore st) src = Some (SeedSecret s)"
    and pair: "key_pair_from_seed N t s = Some (Ok k, s')" and wf: "wf_secret N (key_secret t k)"
  obtains st' where "add_key_from_seed N src dst t st = Some (Ok (kp_public k), st')"
proof -
  let ?st = "st\<lparr>keystore := (keystore st)\<lparr>key_cache := (key_cache (keystore st))(src \<mapsto> SeedSecret s')\<rparr>\<rparr>"
  obtain b g where blob: "secret_as_blob N (outside ?st) (key_secret t k) p (hash_config (keystore ?st)) = Some (Ok b, g)"
    by (rule secret_as_blob_hashes [OF laws _ wf, of "hash_config (keystore ?st)" p]) (use hash in simp_all)
  have "check_passphrase N (keystore ?st) p = Some (Ok True)"
    by (rule check_passphrase_right [OF laws]) (use check in \<open>simp add: sealed_check_def\<close>)
  then have "ks_insert N dst (key_secret t k) ?st = Some (Ok (), with_secret ?st dst (key_secret t k) b g)"
    by (intro ks_insert_Ok [OF _ _ _ blob]) (use manager in simp_all)
  then show thesis
    by (intro that) (simp add: add_key_from_seed_def op_then_def [of "check_identifiers N src dst"]
        check_identifiers_cached [OF fresh src cached] pair op_then_def cache_insert_def op_result_def)
qed

lemma signing_pair:
  assumes laws: "library_laws N" and len: "length s = SEED_SIZE"
  obtains k where "signing_new_from_seed N s = Some (Ok k, s)" and "wf_signing N k"
proof -
  obtain pk sk where kp: "crypto_sign_seed_keypair N s = (pk, sk)"
    by fastforce
  have lp: "length pk = PUBLICKEYBYTES" "length sk = SECRETKEYBYTES"
    using laws len kp unfolding library_laws_def by (metis fst_conv, metis snd_conv)
  obtain t where t: "hcs0_encode N pk = Ok t"
    using laws lp unfolding library_laws_def by blast
  show thesis
    by (rule that [of "\<lparr>kp_public = t, kp_private = sk\<rparr>"])
      (use len lp t in \<open>auto simp: signing_new_from_seed_def sign_seed_keypair_def kp encode_pub_key_def size_defs wf_signing_def\<close>)
qed

definition signs_and_verifies :: "'g sodium \<Rightarrow> bool" where
  "signs_and_verifies N \<longleftrightarrow>
     (\<forall>s m. length s = SEED_SIZE \<longrightarrow>
        verify_detached (hcs0_base64 N) (crypto_sign_detached N m (snd (crypto_sign_seed_keypair N s))) m
          (fst (crypto_sign_seed_keypair N s)))
     \<and> (\<forall>t. b64_decode (hcs0_base64 N) (b64_encode (hcs0_base64 N) t) = Some (string_bytes t))"

lemma string_bytes_string [simp]: "string_bytes (bytes_string bs) = bs"
proof -
  have "of_char (char_of (unat b)) = b" for b :: u8
  proof -
    have "unat b < 256"
      using unsigned_less [of b] by simp
    then have "of_char (char_of (unat b)) = unat b"
      by simp
    then show ?thesis
      using of_nat_of_char [of "char_of (unat b)", where 'a = "8 word"] by simp
  qed
  then show ?thesis
    by (simp add: string_bytes_def bytes_string_def map_idI)
qed

lemma bytes_string_bytes [simp]: "bytes_string (string_bytes s) = s"
proof -
  have "char_of (unat (of_char c :: u8)) = c" for c
  proof -
    have "unat (of_char c :: u8) = of_char c mod 256"
      using unat_of_nat [of "of_char c :: nat", where 'a = 8] by (simp add: of_nat_of_char)
    then show ?thesis
      by simp
  qed
  then show ?thesis
    by (simp add: string_bytes_def bytes_string_def map_idI)
qed

lemma signed_verifies:
  assumes laws: "library_laws N" "signs_and_verifies N" and len: "length s = SEED_SIZE"
    and pair: "signing_new_from_seed N s = Some (Ok k, s')"
  shows "dpki_verify (hcs0_base64 N) (kp_public k) data
    (b64_encode (hcs0_base64 N) (bytes_string (crypto_sign_detached N (string_bytes data) (kp_private k)))) = Ok True"
proof -
  obtain pub priv where kp: "crypto_sign_seed_keypair N s = (pub, priv)"
    by fastforce
  have lp: "length pub = PUBLICKEYBYTES"
    using laws(1) len kp unfolding library_laws_def by (metis fst_conv)
  have k: "hcs0_encode N pub = Ok (kp_public k)" "kp_private k = priv"
    using pair len lp by (auto simp: signing_new_from_seed_def sign_seed_keypair_def kp encode_pub_key_def size_defs)
  have "verify_detached (hcs0_base64 N) (crypto_sign_detached N (string_bytes data) priv) (string_bytes data) pub"
    using laws(2) len kp unfolding signs_and_verifies_def by (metis fst_conv snd_conv)
  then show ?thesis
    using laws(2) hcs0_decode [OF laws(1) lp k(1)] lp k
    by (simp add: dpki_verify_def verify_bufs_def decode_pub_key_def signs_and_verifies_def ok_or_def)
qed


section \<open>A concrete library\<close>

text \<open>
  An instance of the parameters for evaluation: the hash of a passphrase is the passphrase, a
  cipher is the message with its key as the tag, and texts keep their bytes.
\<close>

definition sample_tag :: "u8 list \<Rightarrow> u8 list" where
  "sample_tag k = take ABYTES (k @ replicate ABYTES 0)"

definition sample_encrypt :: "u8 list \<Rightarrow> u8 list \<Rightarrow> u8 list \<Rightarrow> u8 list" where
  "sample_encrypt k nonce m = sample_tag k @ m"

definition sample_decrypt :: "u8 list \<Rightarrow> u8 list \<Rightarrow> u8 list \<Rightarrow> u8 list option" where
  "sample_decrypt k nonce c = (if take ABYTES c = sample_tag k then Some (drop ABYTES c) else None)"

definition sample_data_text :: "EncryptedData \<Rightarrow> string" where
  "sample_data_text d =
     replicate (length (enc_salt d)) (CHR ''s'') @ ''.'' @ replicate (length (enc_nonce d)) (CHR ''n'') @ ''.''
     @ bytes_string (enc_salt d @ enc_nonce d @ enc_cipher d)"

definition sample_data_parse :: "string \<Rightarrow> EncryptedData HcResult" where
  "sample_data_parse t =
     (let n = length (takeWhile (\<lambda>c. c = CHR ''s'') t);
          m = length (takeWhile (\<lambda>c. c = CHR ''n'') (drop (Suc n) t));
          bs = string_bytes (drop (n + m + 2) t) in
      Ok \<lparr>enc_salt = take n bs, enc_nonce = take m (drop n bs), enc_cipher = drop (n + m) bs\<rparr>)"

definition sample_sodium :: "nat sodium" where
  "sample_sodium = \<lparr>
     randombytes_buf = \<lambda>n g. (replicate n (of_nat g), Suc g),
     crypto_pwhash = \<lambda>c p salt. Some p,
     crypto_aead_encrypt = sample_encrypt, crypto_aead_decrypt = sample_decrypt,
     rejected_output = \<lambda>n buf. replicate (length buf) 0,
     crypto_sign_seed_keypair = \<lambda>s. (s, s @ s), crypto_sign_detached = \<lambda>m sk. sk @ m,
     crypto_kx_seed_keypair = \<lambda>s. (map NOT s, s),
     crypto_kdf_derive_from_key = \<lambda>n i c parent. take n (parent @ replicate n 0),
     pwhash_default = PwHashConfig 4 1024 2,
     hcs0_encode = \<lambda>k. Ok (''HcS'' @ bytes_string k),
     hck0_encode = \<lambda>k. Ok (''HcK'' @ bytes_string k), hck0_decode = \<lambda>t. Ok (string_bytes (drop 3 t)),
     base64_decode = \<lambda>t. Ok (string_bytes t), str_from_utf8 = \<lambda>bs. Ok (bytes_string bs),
     encrypted_data_to_string = sample_data_text, encrypted_data_from_str = sample_data_parse,
     mnemonic_to_entropy = \<lambda>t. Ok (string_bytes t), mnemonic_from_entropy = \<lambda>bs. Ok (bytes_string bs),
     request_passphrase = \<lambda>g. (Ok (string_bytes ''alice''), g),
     hcs0_base64 = \<lparr>b64_encode = \<lambda>t. t, b64_decode = \<lambda>t. Some (string_bytes t),
       hcid_decode = \<lambda>t. Ok (string_bytes (drop 3 t)), verify_detached = \<lambda>sig m pk. sig = pk @ pk @ m\<rparr>\<rparr>"

lemma takeWhile_replicate_stop: "\<not> P y \<Longrightarrow> P x \<Longrightarrow> takeWhile P (replicate n x @ y # ys) = replicate n x"
  by (induction n) auto

lemma length_string_conv [simp]: "length (string_bytes s) = length s" "length (bytes_string bs) = length bs"
  by (simp_all add: string_bytes_def bytes_string_def)

lemma sample_data_round: "sample_data_parse (sample_data_text d) = Ok d"
proof -
  have "takeWhile (\<lambda>c. c = CHR ''s'') (sample_data_text d) = replicate (length (enc_salt d)) (CHR ''s'')"
    by (simp add: sample_data_text_def takeWhile_replicate_stop)
  moreover have "drop (Suc (length (enc_salt d))) (sample_data_text d)
      = replicate (length (enc_nonce d)) (CHR ''n'') @ ''.'' @ bytes_string (enc_salt d @ enc_nonce d @ enc_cipher d)"
    by (simp add: sample_data_text_def)
  moreover have "drop (length (enc_salt d) + length (enc_nonce d) + 2) (sample_data_text d)
      = bytes_string (enc_salt d @ enc_nonce d @ enc_cipher d)"
    by (simp add: sample_data_text_def)
  ultimately show ?thesis
    by (simp add: sample_data_parse_def takeWhile_replicate_stop)
qed

lemma length_sample_tag [simp]: "length (sample_tag k) = ABYTES"
  by (simp add: sample_tag_def)

lemma sample_sodium_laws: "library_laws sample_sodium"
  by (simp add: library_laws_def sample_sodium_def sample_encrypt_def sample_decrypt_def sample_data_round size_defs)

lemma sample_sodium_marks: "marks_rejection sample_sodium"
proof -
  have "take 8 (replicate n (0 :: u8)) \<noteq> PCHECK_HEADER" for n
    by (cases n) (simp_all add: PCHECK_HEADER_def string_bytes_def)
  then show ?thesis
    by (simp add: marks_rejection_def sample_sodium_def PCHECK_HEADER_SIZE_def)
qed

lemma sample_sodium_signs: "signs_and_verifies sample_sodium"
  by (simp add: signs_and_verifies_def sample_sodium_def)

lemma sample_hash [simp]: "pw_hash sample_sodium p salt config = Ok p"
  by (simp add: pw_hash_def pwhash_hash_def sample_sodium_def ok_or_def)

lemma sample_hashes: "hashes sample_sodium config p"
  by (simp add: hashes_def)

lemma sample_rejects: "sample_tag p \<noteq> sample_tag q \<Longrightarrow> rejects sample_sodium config p q"
  by (simp add: rejects_def) (simp add: sample_sodium_def sample_encrypt_def sample_decrypt_def)


section \<open>Properties\<close>

lemma keystore_new_locked:
  assumes laws: "library_laws N" and hash: "hashes N config p"
  obtains st where "keystore_new N (Some p) g config = Some (Ok (), st)" and "sealed_check N (keystore st) p"
    and "secrets (keystore st) = []" and "has_passphrase_manager (keystore st)" and "passphrase_cache st = Some p"
    and "hash_config (keystore st) = config"
proof -
  obtain buf g1 where rnd: "randombytes_buf N PCHECK_SIZE g = (buf, g1)"
    by fastforce
  have len: "length buf = PCHECK_SIZE"
    using laws rnd unfolding library_laws_def by (metis fst_conv)
  obtain check g2 where "encrypt_with_passphrase_buf N g1 (PCHECK_HEADER @ drop PCHECK_HEADER_SIZE buf) p config = (Ok check, g2)"
    by (rule encrypt_hashes [OF hash])
  then have mk: "make_passphrase_check N g p config = Some (Ok check, g2)"
    by (simp add: make_passphrase_check_def rnd header_written [OF len] to_ok_def)
  let ?k = "\<lparr>passphrase_check = check, secrets = [], key_cache = Map.empty, has_passphrase_manager = True, hash_config = config\<rparr>"
  let ?st = "\<lparr>keystore = ?k, passphrase_cache = Some p, outside = g2\<rparr>"
  have "keystore_new N (Some p) g config = Some (Ok (), ?st)"
    by (simp add: keystore_new_def op_then_def get_passphrase_def mk)
  moreover have "sealed_check N ?k p"
    by (rule make_passphrase_check_sealed [OF laws]) (use mk in simp)
  ultimately show thesis
    by (intro that [of ?st]) simp_all
qed

definition alice :: "u8 list" where
  "alice = string_bytes ''alice''"

definition bob :: "u8 list" where
  "bob = string_bytes ''bob''"

lemma alice_rejects:
  "rejects sample_sodium config alice bob" "rejects sample_sodium config bob alice"
  "rejects sample_sodium config alice DEFAULT_PASSPHRASE" "rejects sample_sodium config bob DEFAULT_PASSPHRASE"
  by (rule sample_rejects, simp add: sample_tag_def alice_def bob_def string_bytes_def size_defs DEFAULT_PASSPHRASE_def)+

lemma sample_keystore:
  obtains st where "keystore_new sample_sodium (Some alice) 0 None = Some (Ok (), st)"
    and "locked_with sample_sodium (keystore st) alice" and "secrets (keystore st) = []"
    and "has_passphrase_manager (keystore st)" and "passphrase_cache st = Some alice" and "hash_config (keystore st) = None"
proof (rule keystore_new_locked [OF sample_sodium_laws sample_hashes [of None alice]])
  fix st
  assume "keystore_new sample_sodium (Some alice) 0 None = Some (Ok (), st)" "sealed_check sample_sodium (keystore st) alice"
    "secrets (keystore st) = []" "has_passphrase_manager (keystore st)" "passphrase_cache st = Some alice"
    "hash_config (keystore st) = None"
  then show thesis
    by (intro that) (simp_all add: locked_with_def alice_rejects)
qed

text \<open>
  C26: A secret survives a restart of the keystore. In a keystore locked with a passphrase, when
  the manager has that passphrase, adding a 32-byte seed or a well-formed key pair under a name
  that is free succeeds; a keystore read back from the saved file, whose cache is empty, returns
  exactly that secret for the name.
\<close>

theorem secret_survives_restart:
  assumes "library_laws N" and "marks_rejection N" and "locked_with N (keystore st) p"
    and "hashes N (hash_config (keystore st)) p" and "wf_secret N secret"
    and "map_of (secrets (keystore st)) i = None"
    and "has_passphrase_manager (keystore st)" and "passphrase_cache st = Some p"
  shows "\<exists>st' k'. ks_add N i secret st = Some (Ok (), st')
    \<and> keystore_new_from_file (Ok (keystore_save (keystore st'))) (hash_config (keystore st)) = Ok k'
    \<and> (\<exists>st3. ks_get N i \<lparr>keystore = k', passphrase_cache = Some p, outside = g\<rparr> = Some (Ok secret, st3))"
  by (rule add_restart_get [OF assms])

theorem secret_survives_restart_witness:
  "\<exists>st st' k'. keystore_new sample_sodium (Some alice) 0 None = Some (Ok (), st)
    \<and> ks_add sample_sodium ''seed'' (SeedSecret (replicate 32 7)) st = Some (Ok (), st')
    \<and> keystore_new_from_file (Ok (keystore_save (keystore st'))) None = Ok k'
    \<and> (\<exists>st3. ks_get sample_sodium ''seed'' \<lparr>keystore = k', passphrase_cache = Some alice, outside = 0\<rparr>
        = Some (Ok (SeedSecret (replicate 32 7)), st3))"
proof -
  obtain st where st: "keystore_new sample_sodium (Some alice) 0 None = Some (Ok (), st)"
    "locked_with sample_sodium (keystore st) alice" "secrets (keystore st) = []"
    "has_passphrase_manager (keystore st)" "passphrase_cache st = Some alice" "hash_config (keystore st) = None"
    by (rule sample_keystore)
  show ?thesis
    using secret_survives_restart [OF sample_sodium_laws sample_sodium_marks st(2) sample_hashes _ _ st(4,5),
        of "SeedSecret (replicate 32 7)" "''seed''" 0] st(1,3,6)
    by (auto simp: wf_secret_def SEED_SIZE_def)
qed

text \<open>
  C29: The passphrase check guards nothing. With a passphrase the keystore is not locked with,
  \<open>check_passphrase\<close> answers false, and yet adding a seed succeeds and seals it with the wrong
  passphrase: read back with the right one, the keystore returns without an error a seed that is
  whatever the rejected decryption left in the buffer.
\<close>

theorem wrong_passphrase_seals_secret:
  assumes "library_laws N" and "marks_rejection N" and "locked_with N (keystore st) p"
    and "rejects N (hash_config (keystore st)) p q" and "rejects N (hash_config (keystore st)) q p"
    and "hashes N (hash_config (keystore st)) q" and "length buf = SEED_SIZE"
    and "map_of (secrets (keystore st)) i = None"
    and "has_passphrase_manager (keystore st)" and "passphrase_cache st = Some q"
  shows "check_passphrase N (keystore st) q = Some (Ok False)
    \<and> (\<exists>st' k' st3. ks_add N i (SeedSecret buf) st = Some (Ok (), st')
      \<and> keystore_new_from_file (Ok (keystore_save (keystore st'))) (hash_config (keystore st)) = Ok k'
      \<and> ks_get N i \<lparr>keystore = k', passphrase_cache = Some p, outside = g\<rparr> = Some (Ok (SeedSecret (lost_seed N)), st3))"
  by (rule add_with_wrong_passphrase [OF assms])

theorem wrong_passphrase_seals_secret_witness:
  "\<exists>st st' k' st3. keystore_new sample_sodium (Some alice) 0 None = Some (Ok (), st)
    \<and> ks_add sample_sodium ''seed'' (SeedSecret (replicate 32 7)) (st\<lparr>passphrase_cache := Some bob\<rparr>) = Some (Ok (), st')
    \<and> keystore_new_from_file (Ok (keystore_save (keystore st'))) None = Ok k'
    \<and> ks_get sample_sodium ''seed'' \<lparr>keystore = k', passphrase_cache = Some alice, outside = 0\<rparr>
        = Some (Ok (SeedSecret (replicate 32 0)), st3)"
proof -
  obtain st where st: "keystore_new sample_sodium (Some alice) 0 None = Some (Ok (), st)"
    "locked_with sample_sodium (keystore st) alice" "secrets (keystore st) = []"
    "has_passphrase_manager (keystore st)" "passphrase_cache st = Some alice" "hash_config (keystore st) = None"
    by (rule sample_keystore)
  have lost: "lost_seed sample_sodium = replicate 32 0"
    by (simp add: lost_seed_def sample_sodium_def SEED_SIZE_def)
  show ?thesis
    using wrong_passphrase_seals_secret [OF sample_sodium_laws sample_sodium_marks, of "st\<lparr>passphrase_cache := Some bob\<rparr>"
        alice bob "replicate 32 7" "''seed''" 0] st alice_rejects sample_hashes
    by (auto simp: SEED_SIZE_def lost)
qed


lemma sample_keystore_seed:
  obtains st :: "nat ks_state" and blob g g' where "locked_with sample_sodium (keystore st) alice"
    and "map_of (secrets (keystore st)) ''seed'' = Some blob"
    and "secret_as_blob sample_sodium g (SeedSecret (replicate 32 7)) alice (hash_config (keystore st)) = Some (Ok blob, g')"
    and "key_cache (keystore st) ''seed'' = Some (SeedSecret (replicate 32 7))" and "secrets (keystore st) = [(''seed'', blob)]"
    and "has_passphrase_manager (keystore st)" and "passphrase_cache st = Some alice" and "hash_config (keystore st) = None"
proof -
  obtain st :: "nat ks_state" where "keystore_new sample_sodium (Some alice) 0 None = Some (Ok (), st)"
    and st: "locked_with sample_sodium (keystore st) alice" "secrets (keystore st) = []"
    "has_passphrase_manager (keystore st)" "passphrase_cache st = Some alice" "hash_config (keystore st) = None"
    by (rule sample_keystore)
  obtain blob g' where blob: "secret_as_blob sample_sodium (outside st) (SeedSecret (replicate 32 7)) alice None = Some (Ok blob, g')"
    by (rule secret_as_blob_hashes [OF sample_sodium_laws sample_hashes, of "SeedSecret (replicate 32 7)"])
      (simp add: wf_secret_def SEED_SIZE_def)
  show thesis
    by (rule that [of "with_secret st ''seed'' (SeedSecret (replicate 32 7)) blob g'" blob "outside st" g'])
      (use st blob in \<open>simp_all add: with_secret_def locked_with_def sealed_check_def\<close>)
qed

text \<open>
  C30: Changing the passphrase re-seals the check and nothing else. After a change that succeeds,
  every secret is still sealed with the old passphrase; a keystore read back from the file and
  opened with the new passphrase returns for a seed, without an error, whatever the rejected
  decryption left in the buffer.
\<close>

theorem change_passphrase_loses_seeds:
  assumes "library_laws N" and "marks_rejection N" and "locked_with N (keystore st) p"
    and "map_of (secrets (keystore st)) i = Some blob"
    and "secret_as_blob N g (SeedSecret buf) p (hash_config (keystore st)) = Some (Ok blob, g')"
    and "rejects N (hash_config (keystore st)) p q" and "hashes N (hash_config (keystore st)) q"
    and "q = DEFAULT_PASSPHRASE \<or> rejects N (hash_config (keystore st)) q DEFAULT_PASSPHRASE"
  shows "\<exists>st' k' st3. change_passphrase N p q st = Some (Ok (), st') \<and> secrets (keystore st') = secrets (keystore st)
    \<and> keystore_new_from_file (Ok (keystore_save (keystore st'))) (hash_config (keystore st)) = Ok k'
    \<and> ks_get N i \<lparr>keystore = k', passphrase_cache = Some q, outside = g''\<rparr> = Some (Ok (SeedSecret (lost_seed N)), st3)"
  by (rule change_passphrase_seeds [OF assms])

theorem change_passphrase_loses_seeds_witness:
  "\<exists>(st :: nat ks_state) st' k' st3. key_cache (keystore st) ''seed'' = Some (SeedSecret (replicate 32 7))
    \<and> change_passphrase sample_sodium alice bob st = Some (Ok (), st')
    \<and> keystore_new_from_file (Ok (keystore_save (keystore st'))) None = Ok k'
    \<and> ks_get sample_sodium ''seed'' \<lparr>keystore = k', passphrase_cache = Some bob, outside = 0\<rparr>
        = Some (Ok (SeedSecret (replicate 32 0)), st3)"
proof -
  obtain st :: "nat ks_state" and blob g g' where st: "locked_with sample_sodium (keystore st) alice"
    "map_of (secrets (keystore st)) ''seed'' = Some blob"
    "secret_as_blob sample_sodium g (SeedSecret (replicate 32 7)) alice (hash_config (keystore st)) = Some (Ok blob, g')"
    "key_cache (keystore st) ''seed'' = Some (SeedSecret (replicate 32 7))" "secrets (keystore st) = [(''seed'', blob)]"
    "has_passphrase_manager (keystore st)" "passphrase_cache st = Some alice" "hash_config (keystore st) = None"
    by (rule sample_keystore_seed)
  have lost: "lost_seed sample_sodium = replicate 32 0"
    by (simp add: lost_seed_def sample_sodium_def SEED_SIZE_def)
  show ?thesis
    using change_passphrase_loses_seeds [OF sample_sodium_laws sample_sodium_marks st(1,2,3) alice_rejects(1) sample_hashes,
        of 0] alice_rejects(4) st(4,8) unfolding lost by auto
qed

text \<open>
  C28: Every encrypting key is the same key. \<open>EncryptingKeyPair::new_from_seed\<close> passes its buffers to
  \<open>kx::seed_keypair\<close> in the wrong order: whatever the seed, the public key is the encoding of 32
  zero bytes, the private key is the public half of the pair of the zero seed, and the seed buffer
  is overwritten with its secret half. In a keystore this destroys the cached source seed: after
  \<open>add_encrypting_key_from_seed\<close> the seed under the source name is that same constant.
\<close>

theorem encrypting_keys_ignore_seed:
  assumes laws: "library_laws N" and check: "sealed_check N (keystore st) p" and hash: "hashes N (hash_config (keystore st)) p"
    and manager: "has_passphrase_manager (keystore st)" "passphrase_cache st = Some p"
    and len: "length s = SEED_SIZE"
    and fresh: "map_of (secrets (keystore st)) dst = None" and src: "map_of (secrets (keystore st)) src = Some blob"
    and cached: "key_cache (keystore st) src = Some (SeedSecret s)"
  shows "\<exists>pub st'. hck0_encode N (replicate 32 0) = Ok pub
    \<and> encrypting_new_from_seed N s =
        Some (Ok \<lparr>kp_public = pub, kp_private = fst (crypto_kx_seed_keypair N (replicate 32 0))\<rparr>,
          snd (crypto_kx_seed_keypair N (replicate 32 0)))
    \<and> add_key_from_seed N src dst Encrypting st = Some (Ok pub, st')
    \<and> key_cache (keystore st') src = Some (SeedSecret (snd (crypto_kx_seed_keypair N (replicate 32 0))))"
proof -
  obtain pub where pub: "hck0_encode N zero_key = Ok pub"
    using laws unfolding library_laws_def KX_PUBLICKEYBYTES_def by (metis length_replicate)
  let ?k = "\<lparr>kp_public = pub, kp_private = fst (crypto_kx_seed_keypair N zero_key)\<rparr>"
  have enc: "encrypting_new_from_seed N s = Some (Ok ?k, snd (crypto_kx_seed_keypair N zero_key))"
    using encrypting_from_any_seed [OF len, of N] pub by simp
  then have pair: "key_pair_from_seed N Encrypting s = Some (Ok ?k, snd (crypto_kx_seed_keypair N zero_key))"
    by (simp add: key_pair_from_seed_def)
  have "length (fst (crypto_kx_seed_keypair N zero_key)) = KX_SECRETKEYBYTES"
    using laws by (simp add: library_laws_def size_defs)
  then have "wf_secret N (key_secret Encrypting ?k)"
    using pub by (auto simp: wf_secret_def key_secret_def wf_encrypting_def KX_PUBLICKEYBYTES_def intro!: exI [of _ zero_key])
  then obtain st' where add: "add_key_from_seed N src dst Encrypting st = Some (Ok (kp_public ?k), st')"
    by (rule add_key_Ok [OF laws check hash manager fresh src cached pair])
  from add_key_cache(2) [OF fresh src cached pair this] show ?thesis
    using pub enc add by auto
qed

theorem encrypting_keys_ignore_seed_witness:
  "\<exists>st st'. key_cache (keystore st) ''seed'' = Some (SeedSecret (replicate 32 7))
    \<and> add_key_from_seed sample_sodium ''seed'' ''key'' Encrypting st = Some (Ok (''HcK'' @ bytes_string (replicate 32 0)), st')
    \<and> key_cache (keystore st') ''seed'' = Some (SeedSecret (replicate 32 0))"
proof -
  obtain st :: "nat ks_state" and blob g g' where st: "locked_with sample_sodium (keystore st) alice"
    "map_of (secrets (keystore st)) ''seed'' = Some blob"
    "secret_as_blob sample_sodium g (SeedSecret (replicate 32 7)) alice (hash_config (keystore st)) = Some (Ok blob, g')"
    "key_cache (keystore st) ''seed'' = Some (SeedSecret (replicate 32 7))" "secrets (keystore st) = [(''seed'', blob)]"
    "has_passphrase_manager (keystore st)" "passphrase_cache st = Some alice" "hash_config (keystore st) = None"
    by (rule sample_keystore_seed)
  have kx: "hck0_encode sample_sodium k = Ok (''HcK'' @ bytes_string k)" "crypto_kx_seed_keypair sample_sodium k = (map NOT k, k)" for k
    by (simp_all add: sample_sodium_def)
  show ?thesis
    using encrypting_keys_ignore_seed [OF sample_sodium_laws _ sample_hashes st(6,7) _ _ st(2,4), of "''key''"] st(1,4,5)
    by (auto simp: SEED_SIZE_def kx locked_with_def)
qed

text \<open>
  C27: What a keystore signs, the core accepts. Adding a signing key from a 32-byte seed of an
  unlocked keystore succeeds, signing any text with it succeeds, and the signature check of
  \<open>dpki/src/utils.rs\<close> that guards zome calls accepts the signature for the public key that
  \<open>add_key_from_seed\<close> returned.
\<close>

theorem keystore_signature_verifies:
  assumes laws: "library_laws N" "signs_and_verifies N"
    and check: "sealed_check N (keystore st) p" and hash: "hashes N (hash_config (keystore st)) p"
    and manager: "has_passphrase_manager (keystore st)" "passphrase_cache st = Some p"
    and len: "length s = SEED_SIZE"
    and fresh: "map_of (secrets (keystore st)) dst = None" and src: "map_of (secrets (keystore st)) src = Some blob"
    and cached: "key_cache (keystore st) src = Some (SeedSecret s)"
  shows "\<exists>pub st' sig. add_key_from_seed N src dst Signing st = Some (Ok pub, st')
    \<and> ks_sign N dst message st' = Some (Ok sig, st') \<and> dpki_verify (hcs0_base64 N) pub message sig = Ok True"
proof -
  obtain k where pair: "signing_new_from_seed N s = Some (Ok k, s)" and wf: "wf_signing N k"
    by (rule signing_pair [OF laws(1) len])
  have kp: "key_pair_from_seed N Signing s = Some (Ok k, s)"
    using pair by (simp add: key_pair_from_seed_def)
  obtain st' where add: "add_key_from_seed N src dst Signing st = Some (Ok (kp_public k), st')"
    by (rule add_key_Ok [OF laws(1) check hash manager fresh src cached kp]) (simp add: wf_secret_def key_secret_def wf)
  note added = add_key_cache [OF fresh src cached kp add]
  have get: "ks_get N dst st' = Some (Ok (SigningKey k), st')"
    using added(3,4) by (auto simp: ks_get_def op_defs key_secret_def)
  show ?thesis
    using signed_verifies [OF laws len pair, of message] add
    by (auto simp: ks_sign_def op_then_def get op_result_def key_sign_def)
qed

theorem keystore_signature_verifies_witness:
  "\<exists>(st :: nat ks_state) pub st' sig. add_key_from_seed sample_sodium ''seed'' ''key'' Signing st = Some (Ok pub, st')
    \<and> ks_sign sample_sodium ''key'' ''hello'' st' = Some (Ok sig, st')
    \<and> dpki_verify (hcs0_base64 sample_sodium) pub ''hello'' sig = Ok True"
proof -
  obtain st :: "nat ks_state" and blob g g' where st: "locked_with sample_sodium (keystore st) alice"
    "map_of (secrets (keystore st)) ''seed'' = Some blob"
    "secret_as_blob sample_sodium g (SeedSecret (replicate 32 7)) alice (hash_config (keystore st)) = Some (Ok blob, g')"
    "key_cache (keystore st) ''seed'' = Some (SeedSecret (replicate 32 7))" "secrets (keystore st) = [(''seed'', blob)]"
    "has_passphrase_manager (keystore st)" "passphrase_cache st = Some alice" "hash_config (keystore st) = None"
    by (rule sample_keystore_seed)
  show ?thesis
    using keystore_signature_verifies [OF sample_sodium_laws sample_sodium_signs _ sample_hashes st(6,7) _ _ st(2,4),
        of "''key''" "''hello''"] st(1,5)
    by (auto simp: SEED_SIZE_def locked_with_def)
qed

end
