(* ===== verification/Conductor_Config.thy ===== *)
theory Conductor_Config
  imports Core_Errors
begin

text \<open>
  The conductor's configuration (\<open>conductor_api/src/config.rs\<close>): its structs, the consistency
  check, and the order in which instances are spawned.

  The topological sort of the \<open>petgraph\<close> crate is a parameter: a function of the number of
  nodes and the list of edges that gives an order of the nodes, or nothing. What the source
  relies on is the predicate \<open>sorts_topologically\<close>, its documented behaviour. \<open>None\<close> around a
  result is a panic.
\<close>

section \<open>The structs\<close>

record AgentConfiguration =
  ac_id :: string
  ac_name :: string
  ac_public_address :: string
  ac_keystore_file :: string
  ac_holo_remote_key :: "bool option"

record DnaConfiguration =
  dc_id :: string
  dc_file :: string
  dc_hash :: "string option"

datatype StorageConfiguration = StorageMemory | StorageFile string | StoragePickle string

record InstanceConfiguration =
  ic_id :: string
  ic_dna :: string
  ic_agent :: string
  ic_storage :: StorageConfiguration

record InstanceReferenceConfiguration =
  irc_id :: string

datatype InterfaceDriver = Websocket u16 | Http u16 | DomainSocket string | CustomDriver string

record InterfaceConfiguration =
  ifc_id :: string
  ifc_driver :: InterfaceDriver
  ifc_admin :: bool
  ifc_instances :: "InstanceReferenceConfiguration list"

record ConductorBridge =
  caller_id :: string
  callee_id :: string
  cb_handle :: string

record UiBundleConfiguration =
  ub_id :: string
  ub_root_dir :: string
  ub_hash :: "string option"

record UiInterfaceConfiguration =
  uic_id :: string
  uic_bundle :: string
  uic_port :: u16
  uic_dna_interface :: "string option"

record LoggerConfiguration =
  logger_type :: string
  logger_rules :: string

record NetworkConfig =
  bootstrap_nodes :: "string list"
  n3h_log_level :: string
  n3h_mode :: string
  n3h_persistence_path :: string
  n3h_ipc_uri :: "string option"
  networking_config_file :: "string option"

record DpkiConfiguration =
  dpki_instance_id :: string
  dpki_init_params :: string

record Configuration =
  cfg_agents :: "AgentConfiguration list"
  cfg_dnas :: "DnaConfiguration list"
  cfg_instances :: "InstanceConfiguration list"
  cfg_interfaces :: "InterfaceConfiguration list"
  cfg_bridges :: "ConductorBridge list"
  cfg_ui_bundles :: "UiBundleConfiguration list"
  cfg_ui_interfaces :: "UiInterfaceConfiguration list"
  cfg_logger :: LoggerConfiguration
  cfg_network :: "NetworkConfig option"
  cfg_persistence_dir :: string
  cfg_signing_service_uri :: "string option"
  cfg_dpki :: "DpkiConfiguration option"
  cfg_expose_trace_signals :: bool

section \<open>Lookups\<close>

definition agent_by_id :: "Configuration \<Rightarrow> string \<Rightarrow> AgentConfiguration option" where
  "agent_by_id c i = find (\<lambda>a. ac_id a = i) (cfg_agents c)"

definition dna_by_id :: "Configuration \<Rightarrow> string \<Rightarrow> DnaConfiguration option" where
  "dna_by_id c i = find (\<lambda>d. dc_id d = i) (cfg_dnas c)"

definition instance_by_id :: "Configuration \<Rightarrow> string \<Rightarrow> InstanceConfiguration option" where
  "instance_by_id c i = find (\<lambda>n. ic_id n = i) (cfg_instances c)"

definition interface_by_id :: "Configuration \<Rightarrow> string \<Rightarrow> InterfaceConfiguration option" where
  "interface_by_id c i = find (\<lambda>n. ifc_id n = i) (cfg_interfaces c)"

definition ui_bundle_by_id :: "Configuration \<Rightarrow> string \<Rightarrow> UiBundleConfiguration option" where
  "ui_bundle_by_id c i = find (\<lambda>b. ub_id b = i) (cfg_ui_bundles c)"

definition instance_ids :: "Configuration \<Rightarrow> string list" where
  "instance_ids c = map ic_id (cfg_instances c)"

definition bridge_dependencies :: "Configuration \<Rightarrow> string \<Rightarrow> ConductorBridge list" where
  "bridge_dependencies c i = filter (\<lambda>b. caller_id b = i) (cfg_bridges c)"

section \<open>The order of instances\<close>

type_synonym toposort = "nat \<Rightarrow> (nat \<times> nat) list \<Rightarrow> nat list option"

definition index_map :: "Configuration \<Rightarrow> string \<Rightarrow> nat option" where
  "index_map c = map_of (rev (zip (instance_ids c) [0..<length (cfg_instances c)]))"

definition reverse_map :: "Configuration \<Rightarrow> nat \<Rightarrow> string option" where
  "reverse_map c = map_of (rev (map (\<lambda>i. (the (index_map c i), i)) (instance_ids c)))"

definition bridge_edge :: "Configuration \<Rightarrow> ConductorBridge \<Rightarrow> (nat \<times> nat) HcResult" where
  "bridge_edge c b =
     (case (index_map c (caller_id b), index_map c (callee_id b)) of
        (Some start, Some end) \<Rightarrow> Ok (start, end)
      | _ \<Rightarrow> Err (ConfigError (''Instance configuration not found, mentioned in bridge configuration: ''
          @ caller_id b @ '' -> '' @ callee_id b)))"

definition bridge_edges :: "Configuration \<Rightarrow> (nat \<times> nat) list HcResult" where
  "bridge_edges c = collect_results (map (bridge_edge c) (cfg_bridges c))"

definition instance_ids_sorted_by_bridge_dependencies :: "toposort \<Rightarrow> Configuration \<Rightarrow> string list HcResult option" where
  "instance_ids_sorted_by_bridge_dependencies ts c =
     (case bridge_edges c of
        Err e \<Rightarrow> Some (Err e)
      | Ok edges \<Rightarrow>
          (case ts (length (cfg_instances c)) edges of
             None \<Rightarrow> Some (Err (ConfigError ''Cyclic dependency in bridge configuration''))
           | Some sorted_nodes \<Rightarrow>
               (let ids = map (reverse_map c) (rev sorted_nodes) in
                if None \<in> set ids then None else Some (Ok (map the ids)))))"

section \<open>Consistency\<close>

fun duplicates :: "string list \<Rightarrow> string list \<Rightarrow> string list" where
  "duplicates seen [] = []"
| "duplicates seen (i # is) = (if i \<in> set seen then i # duplicates seen is else duplicates (i # seen) is)"

definition detect_dupes :: "string \<Rightarrow> string list \<Rightarrow> string + unit" where
  "detect_dupes name items =
     (let dupes = duplicates [] items in
      if dupes \<noteq> [] then Err (''Duplicate '' @ name @ '' IDs detected: '' @ comma_separated dupes) else Ok ())"

definition quoted :: "string \<Rightarrow> string" where
  "quoted s = [CHR 0x22] @ s @ [CHR 0x22]"

definition check_instance :: "Configuration \<Rightarrow> InstanceConfiguration \<Rightarrow> string + unit" where
  "check_instance c i =
     (if agent_by_id c (ic_agent i) = None
      then Err (''Agent configuration '' @ ic_agent i @ '' not found, mentioned in instance '' @ ic_id i)
      else if dna_by_id c (ic_dna i) = None
      then Err (''DNA configuration '' @ quoted (ic_dna i) @ '' not found, mentioned in instance '' @ quoted (ic_id i))
      else Ok ())"

definition check_instance_mention :: "Configuration \<Rightarrow> string \<Rightarrow> string \<Rightarrow> string + unit" where
  "check_instance_mention c place i =
     (if instance_by_id c i = None
      then Err (''Instance configuration '' @ quoted i @ '' not found, mentioned in '' @ place) else Ok ())"

definition check_interface :: "Configuration \<Rightarrow> InterfaceConfiguration \<Rightarrow> string + unit" where
  "check_interface c i = try_each (\<lambda>r. check_instance_mention c ''interface'' (irc_id r)) (ifc_instances i)"

definition check_bridge :: "Configuration \<Rightarrow> ConductorBridge \<Rightarrow> string + unit" where
  "check_bridge c b =
     and_then (check_instance_mention c ''bridge'' (callee_id b)) (\<lambda>_. check_instance_mention c ''bridge'' (caller_id b))"

definition check_ui_interface :: "Configuration \<Rightarrow> UiInterfaceConfiguration \<Rightarrow> string + unit" where
  "check_ui_interface c u =
     (if ui_bundle_by_id c (uic_bundle u) = None
      then Err (''UI bundle configuration '' @ uic_bundle u @ '' not found, mentioned in UI interface '' @ uic_id u)
      else case uic_dna_interface u of
        None \<Rightarrow> Ok ()
      | Some d \<Rightarrow>
          if interface_by_id c d = None
          then Err (''DNA Interface configuration '' @ quoted d @ '' not found, mentioned in UI interface '' @ quoted (uic_id u))
          else Ok ())"

definition check_references :: "Configuration \<Rightarrow> string + unit" where
  "check_references c =
     and_then (detect_dupes ''agent'' (map ac_id (cfg_agents c))) (\<lambda>_.
     and_then (detect_dupes ''dna'' (map dc_id (cfg_dnas c))) (\<lambda>_.
     and_then (detect_dupes ''instance'' (map ic_id (cfg_instances c))) (\<lambda>_.
     and_then (detect_dupes ''interface'' (map ifc_id (cfg_interfaces c))) (\<lambda>_.
     and_then (try_each (check_instance c) (cfg_instances c)) (\<lambda>_.
     and_then (try_each (check_interface c) (cfg_interfaces c)) (\<lambda>_.
     and_then (try_each (check_bridge c) (cfg_bridges c)) (\<lambda>_.
     and_then (try_each (check_ui_interface c) (cfg_ui_interfaces c)) (\<lambda>_.
       case cfg_dpki c of None \<Rightarrow> Ok () | Some d \<Rightarrow> check_instance_mention c ''dpki'' (dpki_instance_id d)))))))))"

definition check_consistency :: "toposort \<Rightarrow> Configuration \<Rightarrow> (string + unit) option" where
  "check_consistency ts c =
     (case check_references c of
        Err e \<Rightarrow> Some (Err e)
      | Ok _ \<Rightarrow> map_option (\<lambda>r. map_err error_display (map_ok (\<lambda>_. ()) r))
          (instance_ids_sorted_by_bridge_dependencies ts c))"

definition save_remove_instance :: "Configuration \<Rightarrow> string \<Rightarrow> Configuration" where
  "save_remove_instance c i =
     c\<lparr>cfg_instances := filter (\<lambda>n. ic_id n \<noteq> i) (cfg_instances c),
       cfg_interfaces := map (\<lambda>f. f\<lparr>ifc_instances := filter (\<lambda>r. irc_id r \<noteq> i) (ifc_instances f)\<rparr>) (cfg_interfaces c)\<rparr>"


section \<open>What a consistent configuration is\<close>

definition bridge_relation :: "Configuration \<Rightarrow> (string \<times> string) set" where
  "bridge_relation c = (\<lambda>b. (caller_id b, callee_id b)) ` set (cfg_bridges c)"

definition references_resolve :: "Configuration \<Rightarrow> bool" where
  "references_resolve c \<longleftrightarrow>
     distinct (map ac_id (cfg_agents c)) \<and> distinct (map dc_id (cfg_dnas c))
     \<and> distinct (instance_ids c) \<and> distinct (map ifc_id (cfg_interfaces c))
     \<and> (\<forall>i\<in>set (cfg_instances c). ic_agent i \<in> ac_id ` set (cfg_agents c) \<and> ic_dna i \<in> dc_id ` set (cfg_dnas c))
     \<and> (\<forall>f\<in>set (cfg_interfaces c). \<forall>r\<in>set (ifc_instances f). irc_id r \<in> set (instance_ids c))
     \<and> (\<forall>b\<in>set (cfg_bridges c). callee_id b \<in> set (instance_ids c) \<and> caller_id b \<in> set (instance_ids c))
     \<and> (\<forall>u\<in>set (cfg_ui_interfaces c). uic_bundle u \<in> ub_id ` set (cfg_ui_bundles c)
          \<and> (\<forall>d. uic_dna_interface u = Some d \<longrightarrow> d \<in> ifc_id ` set (cfg_interfaces c)))
     \<and> (\<forall>d. cfg_dpki c = Some d \<longrightarrow> dpki_instance_id d \<in> set (instance_ids c))"

definition consistent :: "Configuration \<Rightarrow> bool" where
  "consistent c \<longleftrightarrow> references_resolve c \<and> acyclic (bridge_relation c)"

text \<open>What the documentation of \<open>petgraph::algo::toposort\<close> promises.\<close>

definition sorts_topologically :: "toposort \<Rightarrow> bool" where
  "sorts_topologically ts \<longleftrightarrow>
     (\<forall>n es. set es \<subseteq> {..<n} \<times> {..<n} \<longrightarrow>
       (case ts n es of
          None \<Rightarrow> \<not> acyclic (set es)
        | Some order \<Rightarrow> distinct order \<and> set order = {..<n}
            \<and> (\<forall>(a, b)\<in>set es. \<exists>xs ys zs. order = xs @ a # ys @ b # zs)))"

section \<open>The checks decide consistency\<close>

lemma find_by_id_None: "find (\<lambda>x. f x = i) xs = None \<longleftrightarrow> i \<notin> f ` set xs"
  by (auto simp: find_None_iff)


lemma duplicates_empty: "duplicates seen is = [] \<longleftrightarrow> distinct is \<and> set is \<inter> set seen = {}"
  by (induction "is" arbitrary: seen) auto

lemma detect_dupes_Ok [simp]: "detect_dupes name is = Ok () \<longleftrightarrow> distinct is"
  by (simp add: detect_dupes_def duplicates_empty Let_def)

lemma check_instance_mention_Ok [simp]:
  "check_instance_mention c place i = Ok () \<longleftrightarrow> i \<in> set (instance_ids c)"
  by (simp add: check_instance_mention_def instance_by_id_def instance_ids_def find_by_id_None)

lemma check_instance_Ok [simp]:
  "check_instance c i = Ok () \<longleftrightarrow> ic_agent i \<in> ac_id ` set (cfg_agents c) \<and> ic_dna i \<in> dc_id ` set (cfg_dnas c)"
  by (simp add: check_instance_def agent_by_id_def dna_by_id_def find_by_id_None)

lemma check_interface_Ok [simp]:
  "check_interface c f = Ok () \<longleftrightarrow> (\<forall>r\<in>set (ifc_instances f). irc_id r \<in> set (instance_ids c))"
  by (simp add: check_interface_def)

lemma check_bridge_Ok [simp]:
  "check_bridge c b = Ok () \<longleftrightarrow> callee_id b \<in> set (instance_ids c) \<and> caller_id b \<in> set (instance_ids c)"
  by (simp add: check_bridge_def and_then_eq_Ok)

lemma check_ui_interface_Ok [simp]:
  "check_ui_interface c u = Ok () \<longleftrightarrow> uic_bundle u \<in> ub_id ` set (cfg_ui_bundles c)
     \<and> (\<forall>d. uic_dna_interface u = Some d \<longrightarrow> d \<in> ifc_id ` set (cfg_interfaces c))"
  by (simp add: check_ui_interface_def ui_bundle_by_id_def interface_by_id_def find_by_id_None split: option.splits)

lemma check_references_iff: "check_references c = Ok () \<longleftrightarrow> references_resolve c"
  by (simp add: check_references_def references_resolve_def and_then_eq_Ok instance_ids_def split: option.split)

section \<open>Indices of instances\<close>

lemma length_instance_ids [simp]: "length (instance_ids c) = length (cfg_instances c)"
  by (simp add: instance_ids_def)

lemma map_of_rev_distinct: "distinct (map fst ps) \<Longrightarrow> map_of (rev ps) = map_of ps"
  by (intro ext option.expand) (auto simp: map_of_eq_None_iff rev_map [symmetric] map_of_eq_Some_iff intro!: the_equality)

lemma index_map_iff:
  assumes "distinct (instance_ids c)"
  shows "index_map c i = Some k \<longleftrightarrow> k < length (cfg_instances c) \<and> instance_ids c ! k = i"
proof -
  have "index_map c = map_of (zip (instance_ids c) [0..<length (cfg_instances c)])"
    using assms by (simp add: index_map_def map_of_rev_distinct)
  then show ?thesis
    using assms by (auto simp: in_set_zip map_of_eq_Some_iff)
qed

lemma reverse_map_nth:
  assumes "distinct (instance_ids c)" and "k < length (cfg_instances c)"
  shows "reverse_map c k = Some (instance_ids c ! k)"
proof -
  have idx: "index_map c (instance_ids c ! j) = Some j" if "j < length (cfg_instances c)" for j
    using that assms(1) by (simp add: index_map_iff)
  have "map (\<lambda>i. (the (index_map c i), i)) (instance_ids c)
      = zip [0..<length (cfg_instances c)] (instance_ids c)"
    by (rule nth_equalityI) (auto simp: idx)
  then show ?thesis
    using assms by (auto simp: reverse_map_def map_of_rev_distinct in_set_zip intro!: exI [of _ k])
qed

lemma bridge_edges_Ok:
  assumes "references_resolve c"
  obtains es where "bridge_edges c = Ok es" and "set es \<subseteq> {..<length (cfg_instances c)} \<times> {..<length (cfg_instances c)}"
    and "bridge_relation c = (\<lambda>(a, b). (instance_ids c ! a, instance_ids c ! b)) ` set es"
proof -
  let ?idx = "\<lambda>i. the (index_map c i)"
  let ?es = "map (\<lambda>b. (?idx (caller_id b), ?idx (callee_id b))) (cfg_bridges c)"
  have dist: "distinct (instance_ids c)"
    using assms by (simp add: references_resolve_def)
  have known: "index_map c i = Some (?idx i) \<and> ?idx i < length (cfg_instances c) \<and> instance_ids c ! ?idx i = i"
    if i: "i \<in> set (instance_ids c)" for i
  proof -
    obtain k where "k < length (cfg_instances c)" "instance_ids c ! k = i"
      using i by (auto simp: in_set_conv_nth)
    moreover from this have "index_map c i = Some k"
      using dist by (simp add: index_map_iff)
    ultimately show ?thesis
      by simp
  qed
  have mention: "callee_id b \<in> set (instance_ids c)" "caller_id b \<in> set (instance_ids c)" if "b \<in> set (cfg_bridges c)" for b
    using assms that by (auto simp: references_resolve_def)
  have some: "index_map c (caller_id b) \<noteq> None" "index_map c (callee_id b) \<noteq> None" if "b \<in> set (cfg_bridges c)" for b
    using known mention that by (metis option.distinct(1))+
  show thesis
  proof (rule that [of ?es])
    have "bridge_edge c b = Ok (?idx (caller_id b), ?idx (callee_id b))" if "b \<in> set (cfg_bridges c)" for b
      using some [OF that] by (auto simp: bridge_edge_def)
    then have "map (bridge_edge c) (cfg_bridges c) = map Ok ?es"
      by simp
    then show "bridge_edges c = Ok ?es"
      unfolding bridge_edges_def by (simp only: collect_results_Ok)
    show "set ?es \<subseteq> {..<length (cfg_instances c)} \<times> {..<length (cfg_instances c)}"
      using known mention by auto
    show "bridge_relation c = (\<lambda>(a, b). (instance_ids c ! a, instance_ids c ! b)) ` set ?es"
      using known mention by (auto simp: bridge_relation_def image_image intro!: image_cong)
  qed
qed

lemma acyclic_image:
  assumes "finite R" and "R \<subseteq> A \<times> A" and "inj_on f A"
  shows "acyclic ((\<lambda>(a, b). (f a, f b)) ` R) \<longleftrightarrow> acyclic R"
proof -
  let ?S = "map_prod f f ` R"
  have img: "(\<lambda>(a, b). (f a, f b)) ` R = ?S"
    by (auto simp: map_prod_def)
  have "wf ?S" if "wf R"
    using assms that by (intro wf_map_prod_image_Dom_Ran) (auto dest: inj_onD)
  moreover have "wf R" if "wf ?S"
    using wf_inv_image [OF that, of f] by (rule wf_subset) (auto simp: inv_image_def)
  ultimately show ?thesis
    using assms(1) by (auto simp: img wf_iff_acyclic_if_finite)
qed


lemma sorts_topologically_Some:
  assumes "sorts_topologically ts" and "set es \<subseteq> {..<n} \<times> {..<n}" and "ts n es = Some order"
  shows "distinct order" and "set order = {..<n}"
    and "(a, b) \<in> set es \<Longrightarrow> \<exists>xs ys zs. order = xs @ a # ys @ b # zs"
proof -
  have *: "case ts n es of None \<Rightarrow> \<not> acyclic (set es)
      | Some order \<Rightarrow> distinct order \<and> set order = {..<n}
          \<and> (\<forall>(a, b)\<in>set es. \<exists>xs ys zs. order = xs @ a # ys @ b # zs)"
    using assms(1,2) unfolding sorts_topologically_def by blast
  show "distinct order" "set order = {..<n}"
    "(a, b) \<in> set es \<Longrightarrow> \<exists>xs ys zs. order = xs @ a # ys @ b # zs"
    using * assms(3) by (simp, simp, fastforce)
qed

lemma sorts_topologically_None:
  assumes "sorts_topologically ts" and "set es \<subseteq> {..<n} \<times> {..<n}" and "ts n es = None"
  shows "\<not> acyclic (set es)"
proof -
  have "case ts n es of None \<Rightarrow> \<not> acyclic (set es)
      | Some order \<Rightarrow> distinct order \<and> set order = {..<n}
          \<and> (\<forall>(a, b)\<in>set es. \<exists>xs ys zs. order = xs @ a # ys @ b # zs)"
    using assms(1,2) unfolding sorts_topologically_def by blast
  then show ?thesis
    using assms(3) by simp
qed

text \<open>An order that keeps every edge leaves no room for a cycle.\<close>

lemma ordered_acyclic:
  assumes "distinct order" and "\<And>a b. (a, b) \<in> R \<Longrightarrow> \<exists>xs ys zs. order = xs @ a # ys @ b # zs"
  shows "acyclic R"
proof -
  let ?pos = "\<lambda>a. length (takeWhile (\<lambda>x. x \<noteq> a) order)"
  have "R \<subseteq> measure ?pos"
  proof clarify
    fix a b assume "(a, b) \<in> R"
    then obtain xs ys zs where o: "order = xs @ a # ys @ b # zs"
      using assms(2) by blast
    have "?pos a = length xs" "?pos b = Suc (length xs + length ys)"
      using assms(1) unfolding o by (simp_all add: takeWhile_append takeWhile_eq_all_conv [THEN iffD2])
    then show "(a, b) \<in> measure ?pos"
      by simp
  qed
  then show ?thesis
    by (rule acyclic_subset [OF wf_acyclic [OF wf_measure]])
qed

lemma instances_sorted:
  assumes ts: "sorts_topologically ts" and res: "references_resolve c"
  shows "(\<exists>ids. instance_ids_sorted_by_bridge_dependencies ts c = Some (Ok ids) \<and> acyclic (bridge_relation c)
      \<and> distinct ids \<and> set ids = set (instance_ids c)
      \<and> (\<forall>b\<in>set (cfg_bridges c). \<exists>xs ys zs. ids = xs @ callee_id b # ys @ caller_id b # zs))
    \<or> instance_ids_sorted_by_bridge_dependencies ts c
        = Some (Err (ConfigError ''Cyclic dependency in bridge configuration'')) \<and> \<not> acyclic (bridge_relation c)"
proof -
  let ?n = "length (cfg_instances c)" and ?f = "(!) (instance_ids c)"
  have dist: "distinct (instance_ids c)"
    using res by (simp add: references_resolve_def)
  obtain es where es: "bridge_edges c = Ok es" and sub: "set es \<subseteq> {..<?n} \<times> {..<?n}"
    and rel: "bridge_relation c = (\<lambda>(a, b). (?f a, ?f b)) ` set es"
    by (rule bridge_edges_Ok [OF res])
  have inj: "inj_on ?f {..<?n}"
    using dist by (auto simp: inj_on_def nth_eq_iff_index_eq)
  have acyc: "acyclic (bridge_relation c) \<longleftrightarrow> acyclic (set es)"
    unfolding rel by (rule acyclic_image [OF _ sub inj]) simp
  show ?thesis
  proof (cases "ts ?n es")
    case None
    then show ?thesis
      using sorts_topologically_None [OF ts sub None] acyc
      by (simp add: instance_ids_sorted_by_bridge_dependencies_def es)
  next
    case (Some order)
    note order = sorts_topologically_Some [OF ts sub Some]
    let ?ids = "map ?f (rev order)"
    have names: "map (reverse_map c) (rev order) = map Some ?ids"
      using order(2) by (auto simp: reverse_map_nth [OF dist])
    have "instance_ids_sorted_by_bridge_dependencies ts c = Some (Ok ?ids)"
      unfolding instance_ids_sorted_by_bridge_dependencies_def es Let_def sum.case Some option.case names
      by (auto simp: comp_def)
    moreover have "acyclic (set es)"
      by (rule ordered_acyclic [OF order(1) order(3)])
    moreover have "distinct ?ids"
      using order(1,2) inj by (simp add: distinct_map)
    moreover have "set ?ids = set (instance_ids c)"
      using order(2) by (auto simp: set_conv_nth [of "instance_ids c"])
    moreover have "\<exists>xs ys zs. ?ids = xs @ callee_id b # ys @ caller_id b # zs" if "b \<in> set (cfg_bridges c)" for b
    proof -
      have "(caller_id b, callee_id b) \<in> bridge_relation c"
        using that by (auto simp: bridge_relation_def)
      then obtain i j where e: "(i, j) \<in> set es" "?f i = caller_id b" "?f j = callee_id b"
        unfolding rel by auto
      obtain xs ys zs where "order = xs @ i # ys @ j # zs"
        using order(3) [OF e(1)] by blast
      then have "?ids = map ?f (rev zs) @ callee_id b # map ?f (rev ys) @ caller_id b # map ?f (rev xs)"
        using e by simp
      then show ?thesis
        by blast
    qed
    ultimately show ?thesis
      using acyc by blast
  qed
qed


section \<open>A concrete topological sort\<close>

text \<open>
  An instance of the parameter, for evaluating the model: take any node without an incoming edge
  from the nodes that remain, until none is left.
\<close>

function kahn :: "(nat \<times> nat) list \<Rightarrow> nat list \<Rightarrow> nat list option" where
  "kahn es remaining =
     (if remaining = [] then Some []
      else case find (\<lambda>v. \<forall>e\<in>set es. snd e = v \<longrightarrow> fst e \<notin> set remaining) remaining of
        None \<Rightarrow> None
      | Some v \<Rightarrow> map_option ((#) v) (kahn es (remove1 v remaining)))"
  by auto
termination
  by (relation "measure (\<lambda>(es, remaining). length remaining)")
    (auto simp: find_Some_iff length_remove1)

declare kahn.simps [simp del]

definition kahn_toposort :: toposort where
  "kahn_toposort n es = kahn es [0..<n]"

lemma kahn_Some:
  assumes "kahn es remaining = Some order" and "distinct remaining"
  shows "distinct order \<and> set order = set remaining
    \<and> (\<forall>(a, b)\<in>set es. a \<in> set remaining \<longrightarrow> b \<in> set remaining \<longrightarrow> (\<exists>xs ys zs. order = xs @ a # ys @ b # zs))"
  using assms
proof (induction es remaining arbitrary: order rule: kahn.induct)
  case (1 es remaining)
  show ?case
  proof (cases "remaining = []")
    case True
    then show ?thesis
      using "1.prems" by (simp add: kahn.simps)
  next
    case False
    obtain v rest where v: "find (\<lambda>v. \<forall>e\<in>set es. snd e = v \<longrightarrow> fst e \<notin> set remaining) remaining = Some v"
      and rest: "kahn es (remove1 v remaining) = Some rest" and o: "order = v # rest"
      using "1.prems"(1) False by (subst (asm) kahn.simps) (auto split: option.splits)
    have dist: "distinct (remove1 v remaining)"
      using "1.prems"(2) by simp
    note IH = "1.IH" [OF False v rest dist]
    have mem: "v \<in> set remaining" and source: "fst e \<notin> set remaining" if "e \<in> set es" "snd e = v" for e
      using v that by (auto simp: find_Some_iff)
    have inr: "v \<in> set remaining"
      using v by (auto simp: find_Some_iff)
    have "\<exists>xs ys zs. order = xs @ a # ys @ b # zs"
      if e: "(a, b) \<in> set es" and a: "a \<in> set remaining" and b: "b \<in> set remaining" for a b
    proof -
      have bv: "b \<noteq> v"
        using source [OF e] a by auto
      show ?thesis
      proof (cases "a = v")
        case True
        have "b \<in> set rest"
          using IH b bv "1.prems"(2) by auto
        then show ?thesis
          unfolding o True by (metis append_Nil split_list)
      next
        case False
        then obtain xs ys zs where "rest = xs @ a # ys @ b # zs"
          using IH e a b bv "1.prems"(2) by fastforce
        then show ?thesis
          unfolding o by (metis append_Cons)
      qed
    qed
    then show ?thesis
      using IH "1.prems"(2) inr unfolding o by auto
  qed
qed

lemma kahn_None:
  assumes "kahn es remaining = None" shows "\<not> acyclic (set es)"
  using assms
proof (induction es remaining rule: kahn.induct)
  case (1 es remaining)
  have ne: "remaining \<noteq> []"
    using "1.prems" by (auto simp: kahn.simps)
  show ?case
  proof (cases "find (\<lambda>v. \<forall>e\<in>set es. snd e = v \<longrightarrow> fst e \<notin> set remaining) remaining")
    case None
    show ?thesis
    proof
      assume "acyclic (set es)"
      then have "wf (set es)"
        by (simp add: finite_acyclic_wf)
      then obtain z where "z \<in> set remaining" "\<And>y. (y, z) \<in> set es \<Longrightarrow> y \<notin> set remaining"
        using ne by (metis list.set_intros(1) neq_Nil_conv wfE_min)
      then show False
        using None by (auto simp: find_None_iff)
    qed
  next
    case (Some v)
    then have "kahn es (remove1 v remaining) = None"
      using "1.prems" ne by (subst (asm) kahn.simps) simp
    then show ?thesis
      using "1.IH" [OF ne Some] by simp
  qed
qed

lemma kahn_toposort_sorts: "sorts_topologically kahn_toposort"
  unfolding sorts_topologically_def
proof (intro allI impI)
  fix n and es :: "(nat \<times> nat) list"
  assume sub: "set es \<subseteq> {..<n} \<times> {..<n}"
  show "case kahn_toposort n es of
      None \<Rightarrow> \<not> acyclic (set es)
    | Some order \<Rightarrow> distinct order \<and> set order = {..<n}
        \<and> (\<forall>(a, b)\<in>set es. \<exists>xs ys zs. order = xs @ a # ys @ b # zs)"
  proof (cases "kahn es [0..<n]")
    case None
    then show ?thesis
      using kahn_None by (simp add: kahn_toposort_def)
  next
    case (Some order)
    show ?thesis
      using kahn_Some [OF Some] sub by (fastforce simp: kahn_toposort_def Some)
  qed
qed


section \<open>Properties\<close>

lemma check_consistency_total:
  assumes ts: "sorts_topologically ts"
  shows "\<exists>r. check_consistency ts c = Some r \<and> (r = Ok () \<longleftrightarrow> consistent c)"
proof (cases "references_resolve c")
  case True
  then have ok: "check_references c = Ok ()"
    by (simp add: check_references_iff)
  show ?thesis
    using instances_sorted [OF ts True] True by (auto simp: check_consistency_def ok consistent_def)
next
  case False
  then have "check_references c \<noteq> Ok ()"
    by (simp add: check_references_iff)
  then obtain e where "check_references c = Err e"
    by (cases "check_references c") auto
  then show ?thesis
    using False by (simp add: check_consistency_def consistent_def)
qed

lemma check_consistency_Ok:
  assumes "sorts_topologically ts"
  shows "check_consistency ts c = Some (Ok ()) \<longleftrightarrow> consistent c"
  using check_consistency_total [OF assms, of c] by auto

definition sample_instance :: "string \<Rightarrow> InstanceConfiguration" where
  "sample_instance i = \<lparr>ic_id = i, ic_dna = ''dna'', ic_agent = ''agent'', ic_storage = StorageMemory\<rparr>"

definition sample_config :: Configuration where
  "sample_config = \<lparr>
     cfg_agents = [\<lparr>ac_id = ''agent'', ac_name = ''Alice'', ac_public_address = ''HcS'', ac_keystore_file = ''keys'',
       ac_holo_remote_key = None\<rparr>],
     cfg_dnas = [\<lparr>dc_id = ''dna'', dc_file = ''app.dna.json'', dc_hash = None\<rparr>],
     cfg_instances = [sample_instance ''app'', sample_instance ''vault''],
     cfg_interfaces = [\<lparr>ifc_id = ''admin'', ifc_driver = Websocket 3000, ifc_admin = True, ifc_instances = [\<lparr>irc_id = ''app''\<rparr>]\<rparr>],
     cfg_bridges = [\<lparr>caller_id = ''app'', callee_id = ''vault'', cb_handle = ''v''\<rparr>],
     cfg_ui_bundles = [\<lparr>ub_id = ''bundle'', ub_root_dir = ''ui'', ub_hash = None\<rparr>],
     cfg_ui_interfaces = [\<lparr>uic_id = ''ui'', uic_bundle = ''bundle'', uic_port = 4000, uic_dna_interface = Some ''admin''\<rparr>],
     cfg_logger = \<lparr>logger_type = ''simple'', logger_rules = []\<rparr>,
     cfg_network = None, cfg_persistence_dir = ''/conductor'', cfg_signing_service_uri = None, cfg_dpki = None,
     cfg_expose_trace_signals = False\<rparr>"

lemma sample_config_consistent: "consistent sample_config"
proof -
  have "acyclic {(''app'', ''vault'')}"
    by (simp add: acyclic_insert wf_acyclic)
  then show ?thesis
    by (simp add: consistent_def references_resolve_def sample_config_def sample_instance_def instance_ids_def
        bridge_relation_def)
qed

text \<open>
  C31: \<open>check_consistency\<close> of \<open>conductor_api/src/config.rs\<close> never panics, also not in the lookup
  of sorted nodes that it unwraps, and it accepts a configuration exactly when agent, DNA, instance
  and interface ids are unique, every reference of an instance, an interface, a bridge, a UI
  interface and the DPKI section names a configured element, and the bridges form no cycle.
\<close>

theorem check_consistency_decides:
  assumes "sorts_topologically ts"
  shows "\<exists>r. check_consistency ts c = Some r \<and> (r = Ok () \<longleftrightarrow> consistent c)"
  by (rule check_consistency_total [OF assms])

theorem check_consistency_decides_witness: "check_consistency kahn_toposort sample_config = Some (Ok ())"
  using check_consistency_decides [OF kahn_toposort_sorts, of sample_config] sample_config_consistent by auto

text \<open>
  C32: The order in which the conductor spawns the instances of a consistent configuration lists
  each configured instance exactly once, and every callee of a bridge before its caller.
\<close>

theorem spawn_order_respects_bridges:
  assumes ts: "sorts_topologically ts" and ok: "consistent c"
  shows "\<exists>ids. instance_ids_sorted_by_bridge_dependencies ts c = Some (Ok ids)
    \<and> distinct ids \<and> set ids = set (instance_ids c)
    \<and> (\<forall>b\<in>set (cfg_bridges c). \<exists>xs ys zs. ids = xs @ callee_id b # ys @ caller_id b # zs)"
  using instances_sorted [OF ts, of c] ok unfolding consistent_def by blast

theorem spawn_order_respects_bridges_witness:
  "\<exists>ids. instance_ids_sorted_by_bridge_dependencies kahn_toposort sample_config = Some (Ok ids)
    \<and> distinct ids \<and> set ids = {''app'', ''vault''} \<and> (\<exists>xs ys zs. ids = xs @ ''vault'' # ys @ ''app'' # zs)"
  using spawn_order_respects_bridges [OF kahn_toposort_sorts sample_config_consistent]
  by (simp add: sample_config_def sample_instance_def instance_ids_def)

text \<open>
  Removing an instance with \<open>save_remove_instance\<close> leaves a consistent configuration exactly
  when no bridge and no DPKI section mentions it: only the mentions in interfaces are removed with it.
\<close>

theorem save_remove_instance_consistent:
  assumes "consistent c"
  shows "consistent (save_remove_instance c i) \<longleftrightarrow>
    (\<forall>b\<in>set (cfg_bridges c). caller_id b \<noteq> i \<and> callee_id b \<noteq> i)
    \<and> (\<forall>d. cfg_dpki c = Some d \<longrightarrow> dpki_instance_id d \<noteq> i)"
proof -
  have ids: "instance_ids (save_remove_instance c i) = filter (\<lambda>j. j \<noteq> i) (instance_ids c)"
    by (simp add: save_remove_instance_def instance_ids_def filter_map comp_def)
  have names: "map ifc_id (cfg_interfaces (save_remove_instance c i)) = map ifc_id (cfg_interfaces c)"
    by (simp add: save_remove_instance_def)
  have rel: "bridge_relation (save_remove_instance c i) = bridge_relation c"
    by (simp add: bridge_relation_def save_remove_instance_def)
  show ?thesis
    using assms unfolding consistent_def references_resolve_def ids names rel set_map [symmetric]
    by (auto simp: save_remove_instance_def)
qed

end
