(* ===== verification/Conductor_Admin.thy ===== *)
theory Conductor_Admin
  imports Conductor_Config Entries
begin

text \<open>
  The conductor: \<open>conductor_api/src/conductor/base.rs\<close>, the administration of
  \<open>conductor/admin.rs\<close> and \<open>conductor/ui_admin.rs\<close>, the activation of instances in
  \<open>holochain.rs\<close>, \<open>error.rs\<close>, the calls of \<open>dpki_instance.rs\<close> and the static servers of
  \<open>static_file_server.rs\<close>.

  An operation works on the conductor's state and gives \<open>None\<close> when it panics. What it meets
  outside - the file system, the loaders of DNAs and keys that are injected into the conductor,
  the storage and the spawning of an instance, the sockets of interfaces, zome calls into the
  DPKI instance - is the record \<open>conductor_env\<close>. Of an instance the model keeps whether it is
  active and the bridges it was built with; of a loaded keystore the id of its primary key
  bundle. Log output is left out. Paths are Unix paths.
\<close>

section \<open>Errors\<close>

datatype HolochainInstanceError =
    InternalFailure HolochainError
  | InstanceNotActiveYet
  | InstanceAlreadyActive
  | NoSuchInstance

fun instance_error_display :: "HolochainInstanceError \<Rightarrow> string" where
  "instance_error_display (InternalFailure err) = ''Holochain Instance Error: '' @ error_display err"
| "instance_error_display InstanceNotActiveYet = ''Holochain Instance Error: Holochain instance is not active yet.''"
| "instance_error_display InstanceAlreadyActive = ''Holochain Instance Error: Holochain instance is already active.''"
| "instance_error_display NoSuchInstance = ''Holochain Instance Error: Instance does not exist''"

definition from_instance_error :: "HolochainInstanceError \<Rightarrow> HolochainError" where
  "from_instance_error e = ErrorGeneric (instance_error_display e)"

section \<open>State\<close>

record Holochain =
  hc_active :: bool
  hc_bridges :: "(string \<times> string) list"

record StaticServer =
  ss_config :: UiInterfaceConfiguration
  ss_bundle_config :: UiBundleConfiguration
  ss_connected_dna_interface :: "InterfaceConfiguration option"
  ss_running :: bool
  ss_shutdown_signal :: bool

record Conductor =
  cd_instances :: "string \<Rightarrow> Holochain option"
  cd_agent_keys :: "string \<Rightarrow> Base32 option"
  cd_config :: Configuration
  cd_static_servers :: "string \<Rightarrow> StaticServer option"
  cd_interface_threads :: "string set"
  cd_interface_broadcasters :: "string set"
  cd_saved :: "Configuration option"
  cd_multiplexer :: "Configuration option"

text \<open>
  \<open>cd_saved\<close> is the configuration in the file \<open>conductor-config.toml\<close>; \<open>cd_multiplexer\<close> is the
  copy of the configuration that the running signal multiplexer works with.
\<close>

record conductor_env =
  env_toposort :: toposort
  env_ext :: ext
  dna_json :: "Dna \<Rightarrow> string"
  dna_loader :: "string \<Rightarrow> Dna HcResult"
  merge_properties :: "string \<Rightarrow> string \<Rightarrow> string"
  key_loader :: "string \<Rightarrow> Base32 HcResult HcResult"
  create_dir_all :: "string \<Rightarrow> unit HcResult"
  create_file :: "string \<Rightarrow> string + unit"
  config_toml :: "Configuration \<Rightarrow> string HcResult"
  write_file :: "string \<Rightarrow> bool"
  write_dna :: "string \<Rightarrow> unit HcResult"
  open_storage :: "StorageConfiguration \<Rightarrow> unit HcResult"
  load_or_new :: "string \<Rightarrow> Dna \<Rightarrow> string + unit"
  run_interface :: "string \<Rightarrow> bool"
  kill_interface :: "string \<Rightarrow> string + unit"
  stop_server :: "string \<Rightarrow> string + unit"
  ui_dir_copier :: "string \<Rightarrow> string \<Rightarrow> unit HcResult"
  new_keystore :: "unit HcResult"
  new_standalone_keystore :: "Base32 HcResult"
  save_keystore :: "string \<Rightarrow> unit HcResult"
  dpki_keybundle :: "string \<Rightarrow> Base32 HcResult"
  sign_cap_request :: "string \<Rightarrow> bool"
  dpki_call :: "string \<Rightarrow> string \<Rightarrow> string HcResult"
  bool_from_json :: "string \<Rightarrow> bool HcResult"

type_synonym ('e, 'a) cd_op = "(Conductor, 'e, 'a) op"

definition conductor_from_config :: "Configuration \<Rightarrow> Conductor" where
  "conductor_from_config config = \<lparr>cd_instances = Map.empty, cd_agent_keys = Map.empty, cd_config = config,
     cd_static_servers = Map.empty, cd_interface_threads = {}, cd_interface_broadcasters = {}, cd_saved = None,
     cd_multiplexer = None\<rparr>"

definition op_map_err :: "('e \<Rightarrow> 'f) \<Rightarrow> ('s, 'e, 'a) op \<Rightarrow> ('s, 'f, 'a) op" where
  "op_map_err f m st = map_option (\<lambda>(r, st). (map_err f r, st)) (m st)"

definition op_ignore :: "('s, 'e, 'a) op \<Rightarrow> ('s, 'f, unit) op" where
  "op_ignore m st = map_option (\<lambda>(_, st). (Ok (), st)) (m st)"

section \<open>Paths and files\<close>

definition path_join :: "string \<Rightarrow> string \<Rightarrow> string" where
  "path_join p q =
     (if q \<noteq> [] \<and> hd q = CHR ''/'' then q
      else if p = [] \<or> last p = CHR ''/'' then p @ q else p @ ''/'' @ q)"

definition dna_dir_path :: "Conductor \<Rightarrow> string" where
  "dna_dir_path c = path_join (cfg_persistence_dir (cd_config c)) ''dna''"

definition config_path :: "Conductor \<Rightarrow> string" where
  "config_path c = path_join (cfg_persistence_dir (cd_config c)) ''conductor-config.toml''"

definition instance_storage_dir_path :: "Conductor \<Rightarrow> string" where
  "instance_storage_dir_path c = path_join (cfg_persistence_dir (cd_config c)) ''storage''"

text \<open>The file is emptied when it is created, before the configuration is serialised.\<close>

definition save_config :: "conductor_env \<Rightarrow> (HolochainError, unit) cd_op" where
  "save_config E c =
     Some (case create_dir_all E (cfg_persistence_dir (cd_config c)) of
        Err _ \<Rightarrow> (Err (ErrorGeneric (''Could not directory structure '' @ str_debug (cfg_persistence_dir (cd_config c)))), c)
      | Ok _ \<Rightarrow>
          (case create_file E (config_path c) of
             Err _ \<Rightarrow> (Err (ErrorGeneric (''Could not create file at '' @ str_debug (config_path c))), c)
           | Ok _ \<Rightarrow>
               (case config_toml E (cd_config c) of
                  Err e \<Rightarrow> (Err e, c\<lparr>cd_saved := None\<rparr>)
                | Ok _ \<Rightarrow>
                    if write_file E (config_path c) then (Ok (), c\<lparr>cd_saved := Some (cd_config c)\<rparr>)
                    else (Err (ErrorGeneric (''Could not save config to '' @ str_debug (config_path c))), c\<lparr>cd_saved := None\<rparr>))))"

text \<open>The address of a DNA has no dot, so \<open>with_extension\<close> appends.\<close>

definition dna_address :: "conductor_env \<Rightarrow> Dna \<Rightarrow> Address" where
  "dna_address E dna = content_address (env_ext E) (dna_json E dna)"

definition save_dna :: "conductor_env \<Rightarrow> Dna \<Rightarrow> (HolochainError, string) cd_op" where
  "save_dna E dna c =
     (let path = path_join (dna_dir_path c) (dna_address E dna) @ ''.dna.json'' in
      Some (and_then (create_dir_all E (dna_dir_path c)) (\<lambda>_.
        and_then (map_err (\<lambda>e. ConfigError (''Error writing DNA to '' @ path @ '', '' @ e)) (create_file E path)) (\<lambda>_.
        map_ok (\<lambda>_. path) (write_dna E path))), c))"


section \<open>Instances\<close>

definition holochain_start :: "Holochain \<Rightarrow> HolochainInstanceError + Holochain" where
  "holochain_start h = (if hc_active h then Err InstanceAlreadyActive else Ok (h\<lparr>hc_active := True\<rparr>))"

definition holochain_stop :: "Holochain \<Rightarrow> HolochainInstanceError + Holochain" where
  "holochain_stop h = (if \<not> hc_active h then Err InstanceNotActiveYet else Ok (h\<lparr>hc_active := False\<rparr>))"

definition on_instance ::
    "string \<Rightarrow> (Holochain \<Rightarrow> HolochainInstanceError + Holochain) \<Rightarrow> (HolochainInstanceError, unit) cd_op" where
  "on_instance i f c =
     Some (case cd_instances c i of
        None \<Rightarrow> (Err NoSuchInstance, c)
      | Some h \<Rightarrow>
          (case f h of
             Err e \<Rightarrow> (Err e, c)
           | Ok h \<Rightarrow> (Ok (), c\<lparr>cd_instances := (cd_instances c)(i \<mapsto> h)\<rparr>)))"

definition start_instance :: "string \<Rightarrow> (HolochainInstanceError, unit) cd_op" where
  "start_instance i = on_instance i holochain_start"

definition stop_instance :: "string \<Rightarrow> (HolochainInstanceError, unit) cd_op" where
  "stop_instance i = on_instance i holochain_stop"

text \<open>The iteration order of the hash map of instances is an argument.\<close>

fun start_all_instances :: "string list \<Rightarrow> (HolochainInstanceError, unit) cd_op" where
  "start_all_instances [] = op_result (Ok ())"
| "start_all_instances (i # is) = op_then (start_instance i) (\<lambda>_. start_all_instances is)"

definition stop_all_instances :: "Conductor \<Rightarrow> Conductor" where
  "stop_all_instances c = c\<lparr>cd_instances := map_option (\<lambda>h. h\<lparr>hc_active := False\<rparr>) \<circ> cd_instances c\<rparr>"

text \<open>
  A call of a zome function of the DPKI instance with the value that the wrapper makes the JSON
  parameters from; a refused signature panics in the request.
\<close>

definition dpki_zome_call :: "conductor_env \<Rightarrow> Holochain \<Rightarrow> string \<Rightarrow> string \<Rightarrow> string HcResult option" where
  "dpki_zome_call E h fn params =
     (if \<not> sign_cap_request E fn then None
      else Some (if \<not> hc_active h then Err (from_instance_error InstanceNotActiveYet) else dpki_call E fn params))"

section \<open>Keys of agents\<close>

definition get_keystore_for_agent :: "conductor_env \<Rightarrow> string \<Rightarrow> (string, Base32) cd_op" where
  "get_keystore_for_agent E agent_id c =
     Some (case cd_agent_keys c agent_id of
        Some k \<Rightarrow> (Ok k, c)
      | None \<Rightarrow>
          (case agent_by_id (cd_config c) agent_id of
             None \<Rightarrow> (Err (''Agent '' @ [CHR 0x27] @ agent_id @ [CHR 0x27] @ '' not found''), c)
           | Some a \<Rightarrow>
               if ac_holo_remote_key a = Some True then (Err ''agent is holo_remote, no keystore'', c)
               else
                 (case key_loader E (ac_keystore_file a) of
                    Err _ \<Rightarrow> (Err (error_display (ConfigError (''Could not load keystore '' @ quoted (ac_keystore_file a)))), c)
                  | Ok (Err e) \<Rightarrow> (Err (error_display e), c)
                  | Ok (Ok key_id) \<Rightarrow>
                      if ac_public_address a \<noteq> key_id
                      then (Err (''Key from file '' @ [CHR 0x27] @ ac_keystore_file a @ [CHR 0x27] @ '' ('' @ [CHR 0x27] @ key_id
                              @ [CHR 0x27] @ '') does not match public address '' @ ac_public_address a @ '' mentioned in config!''), c)
                      else (Ok key_id, c\<lparr>cd_agent_keys := (cd_agent_keys c)(agent_id \<mapsto> key_id)\<rparr>))))"

definition add_agent_keystore :: "string \<Rightarrow> Base32 \<Rightarrow> Conductor \<Rightarrow> Conductor" where
  "add_agent_keystore agent_id key_id c = c\<lparr>cd_agent_keys := (cd_agent_keys c)(agent_id \<mapsto> key_id)\<rparr>"

definition check_load_key_for_agent :: "conductor_env \<Rightarrow> string \<Rightarrow> (string, unit) cd_op" where
  "check_load_key_for_agent E agent_id c =
     (if Option.bind (agent_by_id (cd_config c) agent_id) ac_holo_remote_key = Some True then Some (Ok (), c)
      else op_then (get_keystore_for_agent E agent_id) (\<lambda>_. op_result (Ok ())) c)"

section \<open>Building an instance\<close>

text \<open>The bridges of a new instance: the callee must be there, or the conductor panics.\<close>

definition build_bridges :: "Configuration \<Rightarrow> Conductor \<Rightarrow> string \<Rightarrow> (string \<times> string) list option" where
  "build_bridges config c i =
     (let bs = bridge_dependencies config i in
      if \<exists>b\<in>set bs. instance_by_id config (callee_id b) = None \<or> cd_instances c (callee_id b) = None then None
      else Some (map (\<lambda>b. (cb_handle b, callee_id b)) bs))"

definition agent_keys_ready :: "conductor_env \<Rightarrow> AgentConfiguration \<Rightarrow> string \<Rightarrow> (string, unit) cd_op" where
  "agent_keys_ready E a agent_id =
     (if ac_holo_remote_key a = Some True then op_result (Ok ())
      else op_then (get_keystore_for_agent E agent_id) (\<lambda>_. op_result (Ok ())))"

definition op_panic :: "('s, 'e, 'a) op" where
  "op_panic st = None"

definition spawn_instance ::
    "conductor_env \<Rightarrow> string \<Rightarrow> Configuration \<Rightarrow> InstanceConfiguration \<Rightarrow> AgentConfiguration \<Rightarrow> (string, Holochain) cd_op" where
  "spawn_instance E i config instance_config agent_config c =
     (if ac_holo_remote_key agent_config = Some True \<and> cfg_signing_service_uri (cd_config c) = None then None
      else
        Option.bind (build_bridges config c (ic_id instance_config)) (\<lambda>bridges.
        Option.bind (dna_by_id config (ic_dna instance_config)) (\<lambda>dna_config.
          Some (and_then (map_err (\<lambda>_. error_display (ConfigError (''Could not load DNA file '' @ quoted (dc_file dna_config))))
              (dna_loader E (dc_file dna_config))) (\<lambda>dna.
            map_ok (\<lambda>_. \<lparr>hc_active = False, hc_bridges = bridges\<rparr>) (load_or_new E i dna)), c))))"

definition instantiate_from_config :: "conductor_env \<Rightarrow> string \<Rightarrow> Configuration \<Rightarrow> (string, Holochain) cd_op" where
  "instantiate_from_config E i config =
     op_then (op_pure (check_consistency (env_toposort E) config)) (\<lambda>_.
       case instance_by_id config i of
         None \<Rightarrow> op_result (Err ''Instance not found in config'')
       | Some instance_config \<Rightarrow>
     (case agent_by_id config (ic_agent instance_config) of
         None \<Rightarrow> op_panic
       | Some agent_config \<Rightarrow>
           op_then (agent_keys_ready E agent_config (ic_agent instance_config)) (\<lambda>_.
           op_then (op_result (map_err (\<lambda>e. ''Error creating context: '' @ error_display e) (open_storage E (ic_storage instance_config)))) (\<lambda>_.
             spawn_instance E i config instance_config agent_config))))"

section \<open>Interfaces and static servers\<close>

text \<open>\<open>make_interface\<close> has no implementation for the last two drivers and panics.\<close>

definition driver_supported :: "InterfaceDriver \<Rightarrow> bool" where
  "driver_supported d = (case d of Websocket _ \<Rightarrow> True | Http _ \<Rightarrow> True | _ \<Rightarrow> False)"

definition spawn_interface_thread :: "conductor_env \<Rightarrow> InterfaceConfiguration \<Rightarrow> Conductor \<Rightarrow> Conductor option" where
  "spawn_interface_thread E f c =
     (if driver_supported (ifc_driver f) \<and> run_interface E (ifc_id f)
      then Some (c\<lparr>cd_interface_broadcasters := insert (ifc_id f) (cd_interface_broadcasters c)\<rparr>) else None)"

text \<open>The instances a handler of the interface serves.\<close>

definition make_interface_handler :: "Conductor \<Rightarrow> InterfaceConfiguration \<Rightarrow> string \<Rightarrow> Holochain option" where
  "make_interface_handler c f = cd_instances c |` set (map irc_id (ifc_instances f))"

definition start_interface :: "conductor_env \<Rightarrow> InterfaceConfiguration \<Rightarrow> (string, unit) cd_op" where
  "start_interface E f c =
     (if ifc_id f \<in> cd_interface_threads c then Some (Err (''Interface '' @ ifc_id f @ '' already started!''), c)
      else map_option (\<lambda>c. (Ok (), c\<lparr>cd_interface_threads := insert (ifc_id f) (cd_interface_threads c)\<rparr>))
        (spawn_interface_thread E f c))"

definition start_interface_by_id :: "conductor_env \<Rightarrow> string \<Rightarrow> (string, unit) cd_op" where
  "start_interface_by_id E i c =
     (case interface_by_id (cd_config c) i of
        None \<Rightarrow> Some (Err (''Interface does not exist: '' @ i), c)
      | Some f \<Rightarrow> start_interface E f c)"

definition stop_interface_by_id :: "conductor_env \<Rightarrow> string \<Rightarrow> (HolochainError, unit) cd_op" where
  "stop_interface_by_id E i c =
     Some (if i \<notin> cd_interface_threads c then (Err (ErrorGeneric (''Interface '' @ i @ '' not found.'')), c)
      else case kill_interface E i of
        Err e \<Rightarrow> (Err (ErrorGeneric (''Error stopping interface: '' @ e)), c)
      | Ok _ \<Rightarrow> (Ok (), c\<lparr>cd_interface_threads := cd_interface_threads c - {i}\<rparr>))"

fun spawn_interfaces :: "conductor_env \<Rightarrow> InterfaceConfiguration list \<Rightarrow> Conductor \<Rightarrow> Conductor option" where
  "spawn_interfaces E [] c = Some c"
| "spawn_interfaces E (f # fs) c = Option.bind (spawn_interface_thread E f c) (spawn_interfaces E fs)"

definition start_all_interfaces :: "conductor_env \<Rightarrow> Conductor \<Rightarrow> Conductor option" where
  "start_all_interfaces E c =
     map_option (\<lambda>c. c\<lparr>cd_interface_threads := set (map ifc_id (cfg_interfaces (cd_config c)))\<rparr>)
       (spawn_interfaces E (cfg_interfaces (cd_config c)) c)"

definition static_server_from_configs ::
    "UiInterfaceConfiguration \<Rightarrow> UiBundleConfiguration \<Rightarrow> InterfaceConfiguration option \<Rightarrow> StaticServer" where
  "static_server_from_configs u b d = \<lparr>ss_config = u, ss_bundle_config = b, ss_connected_dna_interface = d, ss_running = False,
     ss_shutdown_signal = False\<rparr>"

definition static_server_start :: "StaticServer \<Rightarrow> StaticServer" where
  "static_server_start s = s\<lparr>ss_shutdown_signal := True, ss_running := True\<rparr>"

definition static_server_stop :: "conductor_env \<Rightarrow> StaticServer \<Rightarrow> HolochainInstanceError + StaticServer" where
  "static_server_stop E s =
     (if ss_shutdown_signal s
      then map_ok (\<lambda>_. s\<lparr>ss_running := False, ss_shutdown_signal := False\<rparr>)
        (map_err (\<lambda>e. InternalFailure (ErrorGeneric e)) (stop_server E (uic_id (ss_config s))))
      else Err (InternalFailure (ErrorGeneric ''server is already stopped'')))"

definition start_all_static_servers :: "Conductor \<Rightarrow> Conductor" where
  "start_all_static_servers c = c\<lparr>cd_static_servers := map_option static_server_start \<circ> cd_static_servers c\<rparr>"

definition start_ui_interface :: "string \<Rightarrow> (HolochainInstanceError, unit) cd_op" where
  "start_ui_interface i c =
     Some (case cd_static_servers c i of
        None \<Rightarrow> (Err NoSuchInstance, c)
      | Some s \<Rightarrow> (Ok (), c\<lparr>cd_static_servers := (cd_static_servers c)(i \<mapsto> static_server_start s)\<rparr>))"

definition stop_ui_interface :: "conductor_env \<Rightarrow> string \<Rightarrow> (HolochainInstanceError, unit) cd_op" where
  "stop_ui_interface E i c =
     Some (case cd_static_servers c i of
        None \<Rightarrow> (Err NoSuchInstance, c)
      | Some s \<Rightarrow>
          (case static_server_stop E s of
             Err e \<Rightarrow> (Err e, c)
           | Ok s \<Rightarrow> (Ok (), c\<lparr>cd_static_servers := (cd_static_servers c)(i \<mapsto> s)\<rparr>)))"

section \<open>Signals\<close>

datatype Signal = TraceSignal | UserSignal

definition interfaces_with_instance :: "Configuration \<Rightarrow> Signal \<Rightarrow> string \<Rightarrow> InterfaceConfiguration list" where
  "interfaces_with_instance config signal instance_id =
     (case signal of
        TraceSignal \<Rightarrow> if cfg_expose_trace_signals config then filter ifc_admin (cfg_interfaces config) else []
      | UserSignal \<Rightarrow> filter (\<lambda>f. find (\<lambda>r. irc_id r = instance_id) (ifc_instances f) \<noteq> None) (cfg_interfaces config))"

definition multiplex :: "Conductor \<Rightarrow> Signal \<Rightarrow> string \<Rightarrow> string list" where
  "multiplex c signal instance_id =
     (case cd_multiplexer c of
        None \<Rightarrow> []
      | Some config \<Rightarrow> filter (\<lambda>i. i \<in> cd_interface_broadcasters c) (map ifc_id (interfaces_with_instance config signal instance_id)))"

definition start_signal_multiplexer :: "Conductor \<Rightarrow> Conductor" where
  "start_signal_multiplexer c = c\<lparr>cd_multiplexer := Some (cd_config c)\<rparr>"

section \<open>Shutting down and booting\<close>

definition shutdown :: "Conductor \<Rightarrow> Conductor" where
  "shutdown c = (stop_all_instances c)\<lparr>cd_instances := Map.empty, cd_multiplexer := None\<rparr>"

fun boot_instances :: "conductor_env \<Rightarrow> Configuration \<Rightarrow> string list \<Rightarrow> (string, unit) cd_op" where
  "boot_instances E config [] = op_result (Ok ())"
| "boot_instances E config (i # is) =
     op_then (op_map_err (\<lambda>e. ''Error while trying to create instance '' @ quoted i @ '': '' @ e) (instantiate_from_config E i config)) (\<lambda>h.
     op_then (\<lambda>c. Some (Ok (), c\<lparr>cd_instances := (cd_instances c)(i \<mapsto> h)\<rparr>)) (\<lambda>_.
       boot_instances E config is))"

fun boot_ui_interfaces :: "Configuration \<Rightarrow> UiInterfaceConfiguration list \<Rightarrow> (string, unit) cd_op" where
  "boot_ui_interfaces config [] = op_result (Ok ())"
| "boot_ui_interfaces config (u # us) =
     (\<lambda>c. case ui_bundle_by_id config (uic_bundle u) of
        None \<Rightarrow> Some (Err (''UI interface '' @ uic_id u @ '' references bundle with id '' @ uic_bundle u @ '' but no such bundle found''), c)
      | Some bundle \<Rightarrow>
          if \<exists>d. uic_dna_interface u = Some d \<and> interface_by_id config d = None then None
          else boot_ui_interfaces config us
            (c\<lparr>cd_static_servers := (cd_static_servers c)(uic_id u \<mapsto>
               static_server_from_configs u bundle (Option.bind (uic_dna_interface u) (interface_by_id config)))\<rparr>))"

definition dpki_bootstrap :: "conductor_env \<Rightarrow> (HolochainError, unit) cd_op" where
  "dpki_bootstrap E c =
     (case cfg_dpki (cd_config c) of
        None \<Rightarrow> Some (Ok (), c)
      | Some dpki \<Rightarrow>
          (case cd_instances c (dpki_instance_id dpki) of
             None \<Rightarrow> Some (Err (ErrorGeneric ''Expected Some and got None''), c)
           | Some h \<Rightarrow>
               (case dpki_zome_call E h ''is_initialized'' ''{}'' of
                  None \<Rightarrow> None
                | Some (Err e) \<Rightarrow> Some (Err e, c)
                | Some (Ok result) \<Rightarrow>
                    (case bool_from_json E result of
                       Err e \<Rightarrow> Some (Err e, c)
                     | Ok True \<Rightarrow> Some (Ok (), c)
                     | Ok False \<Rightarrow> map_option (\<lambda>r. (map_ok (\<lambda>_. ()) r, c)) (dpki_zome_call E h ''init'' (dpki_init_params dpki))))))"

definition boot_from_config :: "conductor_env \<Rightarrow> (string, unit) cd_op" where
  "boot_from_config E c =
     op_then (op_pure (check_consistency (env_toposort E) (cd_config c))) (\<lambda>_ c.
       let config = cd_config c in
       op_then (op_pure (map_option (map_err error_display) (instance_ids_sorted_by_bridge_dependencies (env_toposort E) config)))
         (\<lambda>is. op_then (boot_instances E config is) (\<lambda>_.
               op_then (boot_ui_interfaces config (cfg_ui_interfaces config)) (\<lambda>_.
               op_map_err error_display (dpki_bootstrap E))))
         (start_signal_multiplexer (shutdown c))) c"


section \<open>Administration\<close>

text \<open>What every change of the configuration ends with.\<close>

definition adopt_config :: "conductor_env \<Rightarrow> Configuration \<Rightarrow> (HolochainError, unit) cd_op" where
  "adopt_config E new_config =
     op_then (op_pure (map_option (map_err ErrorGeneric) (check_consistency (env_toposort E) new_config))) (\<lambda>_ c.
       save_config E (c\<lparr>cd_config := new_config\<rparr>))"

definition install_dna_from_file ::
    "conductor_env \<Rightarrow> string \<Rightarrow> string \<Rightarrow> bool \<Rightarrow> HashString option \<Rightarrow> string option \<Rightarrow> (HolochainError, HashString) cd_op" where
  "install_dna_from_file E path i copy expected_hash properties =
     op_then (op_result (map_err (\<lambda>e. ConfigError (''Could not load DNA file '' @ quoted path @ '', Error: '' @ error_display e))
       (dna_loader E path))) (\<lambda>dna.
     op_then (op_result (case expected_hash of
         Some h \<Rightarrow> if dna_address E dna \<noteq> h then Err (DnaHashMismatch h (dna_address E dna)) else Ok ()
       | None \<Rightarrow> Ok ())) (\<lambda>_.
     op_then (op_result (case properties of
         None \<Rightarrow> Ok dna
       | Some props \<Rightarrow>
           if \<not> copy then Err (ConfigError ''Cannot install DNA with properties unless copy flag is true'')
           else Ok (dna\<lparr>dna_properties := merge_properties E (dna_properties dna) props\<rparr>))) (\<lambda>dna.
     op_then (if copy then save_dna E dna else op_result (Ok path)) (\<lambda>config_path.
     op_then (\<lambda>c. adopt_config E ((cd_config c)\<lparr>cfg_dnas := cfg_dnas (cd_config c)
         @ [\<lparr>dc_id = i, dc_file = config_path, dc_hash = Some (dna_address E dna)\<rparr>]\<rparr>) c) (\<lambda>_.
       op_result (Ok (dna_address E dna)))))))"

fun remove_instances :: "Configuration \<Rightarrow> string list \<Rightarrow> Configuration" where
  "remove_instances config [] = config"
| "remove_instances config (i # is) = remove_instances (save_remove_instance config i) is"

fun stop_instances :: "string list \<Rightarrow> (HolochainError, unit) cd_op" where
  "stop_instances [] = op_result (Ok ())"
| "stop_instances (i # is) = op_then (op_ignore (stop_instance i)) (\<lambda>_. stop_instances is)"

definition uninstall_dna :: "conductor_env \<Rightarrow> string \<Rightarrow> (HolochainError, unit) cd_op" where
  "uninstall_dna E i c =
     (let config = (cd_config c)\<lparr>cfg_dnas := filter (\<lambda>d. dc_id d \<noteq> i) (cfg_dnas (cd_config c))\<rparr>;
          ids = map ic_id (filter (\<lambda>n. ic_dna n = i) (cfg_instances config)) in
      op_then (adopt_config E (remove_instances config ids)) (\<lambda>_. stop_instances ids) c)"

definition add_instance :: "conductor_env \<Rightarrow> string \<Rightarrow> string \<Rightarrow> string \<Rightarrow> (HolochainError, unit) cd_op" where
  "add_instance E i dna_id agent_id c =
     (let storage_path = path_join (instance_storage_dir_path c) i;
          new_config = (cd_config c)\<lparr>cfg_instances := cfg_instances (cd_config c)
            @ [\<lparr>ic_id = i, ic_dna = dna_id, ic_agent = agent_id, ic_storage = StoragePickle storage_path\<rparr>]\<rparr> in
      op_then (op_result (create_dir_all E storage_path)) (\<lambda>_.
      op_then (op_pure (map_option (map_err ErrorGeneric) (check_consistency (env_toposort E) new_config))) (\<lambda>_.
      op_then (op_map_err ErrorGeneric (instantiate_from_config E i new_config)) (\<lambda>h c.
        save_config E (c\<lparr>cd_instances := (cd_instances c)(i \<mapsto> h), cd_config := new_config\<rparr>)))) c)"

definition remove_instance :: "conductor_env \<Rightarrow> string \<Rightarrow> (HolochainError, unit) cd_op" where
  "remove_instance E i c =
     op_then (adopt_config E (save_remove_instance (cd_config c) i)) (\<lambda>_.
     op_then (op_ignore (stop_instance i)) (\<lambda>_ c.
       Some (Ok (), c\<lparr>cd_instances := (cd_instances c)(i := None)\<rparr>))) c"

definition add_interface :: "conductor_env \<Rightarrow> InterfaceConfiguration \<Rightarrow> (HolochainError, unit) cd_op" where
  "add_interface E f c =
     (if list_ex (\<lambda>g. ifc_id g = ifc_id f) (cfg_interfaces (cd_config c))
      then Some (Err (ErrorGeneric (''Interface with ID '' @ [CHR 0x27] @ ifc_id f @ [CHR 0x27] @ '' already exists'')), c)
      else
        op_then (adopt_config E ((cd_config c)\<lparr>cfg_interfaces := cfg_interfaces (cd_config c) @ [f]\<rparr>)) (\<lambda>_.
          op_map_err ErrorGeneric (start_interface_by_id E (ifc_id f))) c)"

definition remove_interface :: "conductor_env \<Rightarrow> string \<Rightarrow> (HolochainError, unit) cd_op" where
  "remove_interface E i c =
     (if \<not> list_ex (\<lambda>f. ifc_id f = i) (cfg_interfaces (cd_config c))
      then Some (Err (ErrorGeneric (''No such interface: '' @ [CHR 0x27] @ i @ [CHR 0x27])), c)
      else
        op_then (adopt_config E ((cd_config c)\<lparr>cfg_interfaces := filter (\<lambda>f. ifc_id f \<noteq> i) (cfg_interfaces (cd_config c))\<rparr>)) (\<lambda>_.
          op_ignore (stop_interface_by_id E i)) c)"

definition restart_interface :: "conductor_env \<Rightarrow> string \<Rightarrow> (HolochainError, unit) cd_op" where
  "restart_interface E i =
     op_then (op_ignore (stop_interface_by_id E i)) (\<lambda>_. op_map_err ErrorGeneric (start_interface_by_id E i))"

definition change_interface ::
    "conductor_env \<Rightarrow> string \<Rightarrow> (InstanceReferenceConfiguration list \<Rightarrow> InstanceReferenceConfiguration list)
     \<Rightarrow> (HolochainError, unit) cd_op" where
  "change_interface E interface_id g c =
     op_then (adopt_config E ((cd_config c)\<lparr>cfg_interfaces :=
         map (\<lambda>f. if ifc_id f = interface_id then f\<lparr>ifc_instances := g (ifc_instances f)\<rparr> else f) (cfg_interfaces (cd_config c))\<rparr>)) (\<lambda>_.
       restart_interface E interface_id) c"

definition add_instance_to_interface :: "conductor_env \<Rightarrow> string \<Rightarrow> string \<Rightarrow> (HolochainError, unit) cd_op" where
  "add_instance_to_interface E interface_id instance_id c =
     (case interface_by_id (cd_config c) interface_id of
        None \<Rightarrow> Some (Err (ErrorGeneric (''Interface with ID '' @ interface_id @ '' not found'')), c)
      | Some f \<Rightarrow>
          if list_ex (\<lambda>r. irc_id r = instance_id) (ifc_instances f)
          then Some (Err (ErrorGeneric (''Instance '' @ [CHR 0x27] @ instance_id @ [CHR 0x27] @ '' already in interface ''
                 @ [CHR 0x27] @ interface_id @ [CHR 0x27])), c)
          else change_interface E interface_id (\<lambda>rs. rs @ [\<lparr>irc_id = instance_id\<rparr>]) c)"

definition remove_instance_from_interface :: "conductor_env \<Rightarrow> string \<Rightarrow> string \<Rightarrow> (HolochainError, unit) cd_op" where
  "remove_instance_from_interface E interface_id instance_id c =
     (case interface_by_id (cd_config c) interface_id of
        None \<Rightarrow> Some (Err (ErrorGeneric (''Interface with ID '' @ interface_id @ '' not found'')), c)
      | Some f \<Rightarrow>
          if \<not> list_ex (\<lambda>r. irc_id r = instance_id) (ifc_instances f)
          then Some (Err (ErrorGeneric (''No Instance '' @ [CHR 0x27] @ instance_id @ [CHR 0x27] @ '' in interface ''
                 @ [CHR 0x27] @ interface_id @ [CHR 0x27])), c)
          else change_interface E interface_id (filter (\<lambda>r. irc_id r \<noteq> instance_id)) c)"


definition dpki_agent_key :: "conductor_env \<Rightarrow> DpkiConfiguration \<Rightarrow> string \<Rightarrow> string \<Rightarrow> (HolochainError, Base32) cd_op" where
  "dpki_agent_key E dpki i name =
     op_then (op_result (new_keystore E)) (\<lambda>_ c.
       case cd_instances c (dpki_instance_id dpki) of
         None \<Rightarrow> Some (Err (ErrorGeneric ''Expected Some and got None''), c)
       | Some h \<Rightarrow>
           op_then (op_pure (dpki_zome_call E h ''create_agent_key'' name)) (\<lambda>_.
           op_then (op_map_err ErrorGeneric (get_keystore_for_agent E (dpki_instance_id dpki))) (\<lambda>_.
             op_result (dpki_keybundle E i))) c)"

definition store_agent_key :: "conductor_env \<Rightarrow> string \<Rightarrow> Base32 \<Rightarrow> (HolochainError, string \<times> Base32) cd_op" where
  "store_agent_key E i public_address c =
     (let keystore_file = path_join (instance_storage_dir_path c) public_address in
      Some (case and_then (create_dir_all E (instance_storage_dir_path c)) (\<lambda>_. save_keystore E keystore_file) of
          Err e \<Rightarrow> (Err e, c)
        | Ok _ \<Rightarrow> (Ok (keystore_file, public_address), add_agent_keystore i public_address c)))"

definition agent_key :: "conductor_env \<Rightarrow> Configuration \<Rightarrow> string \<Rightarrow> string \<Rightarrow> string option \<Rightarrow> (HolochainError, string \<times> Base32) cd_op" where
  "agent_key E config i name holo_remote_key =
     (case holo_remote_key of
        Some public_address \<Rightarrow> op_result (Ok (''::ignored::'', public_address))
      | None \<Rightarrow>
          op_then (case cfg_dpki config of
              Some dpki \<Rightarrow> dpki_agent_key E dpki i name
            | None \<Rightarrow> op_result (new_standalone_keystore E)) (store_agent_key E i))"

definition add_agent :: "conductor_env \<Rightarrow> string \<Rightarrow> string \<Rightarrow> string option \<Rightarrow> (HolochainError, Base32) cd_op" where
  "add_agent E i name holo_remote_key c =
     (if list_ex (\<lambda>a. ac_id a = i) (cfg_agents (cd_config c))
      then Some (Err (ErrorGeneric (''Agent with ID '' @ [CHR 0x27] @ i @ [CHR 0x27] @ '' already exists'')), c)
      else
        (let config = cd_config c in
         op_then (agent_key E config i name holo_remote_key) (\<lambda>(keystore_file, public_address).
         op_then (adopt_config E (config\<lparr>cfg_agents := cfg_agents config
             @ [\<lparr>ac_id = i, ac_name = name, ac_public_address = public_address, ac_keystore_file = keystore_file,
                 ac_holo_remote_key = map_option (\<lambda>_. True) holo_remote_key\<rparr>]\<rparr>)) (\<lambda>_.
           op_result (Ok public_address))) c))"

definition remove_agent :: "conductor_env \<Rightarrow> string \<Rightarrow> (HolochainError, unit) cd_op" where
  "remove_agent E i c =
     (if \<not> list_ex (\<lambda>a. ac_id a = i) (cfg_agents (cd_config c))
      then Some (Err (ErrorGeneric (''Agent with ID '' @ [CHR 0x27] @ i @ [CHR 0x27] @ '' does not exist'')), c)
      else
        (let config = (cd_config c)\<lparr>cfg_agents := filter (\<lambda>a. ac_id a \<noteq> i) (cfg_agents (cd_config c))\<rparr>;
             ids = map ic_id (filter (\<lambda>n. ic_agent n = i) (cfg_instances config)) in
         op_then (adopt_config E (remove_instances config ids)) (\<lambda>_. stop_instances ids) c))"

definition is_bridge :: "string \<Rightarrow> string \<Rightarrow> ConductorBridge \<Rightarrow> bool" where
  "is_bridge caller callee b \<longleftrightarrow> caller_id b = caller \<and> callee_id b = callee"

definition bridge_text :: "string \<Rightarrow> string \<Rightarrow> string" where
  "bridge_text caller callee =
     ''Bridge from instance '' @ [CHR 0x27] @ caller @ [CHR 0x27] @ '' to instance '' @ [CHR 0x27] @ callee @ [CHR 0x27]"

definition add_bridge :: "conductor_env \<Rightarrow> ConductorBridge \<Rightarrow> (HolochainError, unit) cd_op" where
  "add_bridge E b c =
     (if list_ex (is_bridge (caller_id b) (callee_id b)) (cfg_bridges (cd_config c))
      then Some (Err (ErrorGeneric (bridge_text (caller_id b) (callee_id b) @ '' already exists'')), c)
      else adopt_config E ((cd_config c)\<lparr>cfg_bridges := cfg_bridges (cd_config c) @ [b]\<rparr>) c)"

definition remove_bridge :: "conductor_env \<Rightarrow> string \<Rightarrow> string \<Rightarrow> (HolochainError, unit) cd_op" where
  "remove_bridge E caller callee c =
     (if \<not> list_ex (is_bridge caller callee) (cfg_bridges (cd_config c))
      then Some (Err (ErrorGeneric (bridge_text caller callee @ '' does not exist'')), c)
      else adopt_config E ((cd_config c)\<lparr>cfg_bridges := filter (\<lambda>b. \<not> is_bridge caller callee b) (cfg_bridges (cd_config c))\<rparr>) c)"

section \<open>Administration of user interfaces\<close>

definition install_ui_bundle_from_file :: "conductor_env \<Rightarrow> string \<Rightarrow> string \<Rightarrow> bool \<Rightarrow> (HolochainError, unit) cd_op" where
  "install_ui_bundle_from_file E path i copy c =
     (let dest = path_join (path_join (cfg_persistence_dir (cd_config c)) ''static'') i in
      op_then (op_result (if copy
          then map_ok (\<lambda>_. dest) (map_err (\<lambda>e. ErrorGeneric (''Error copying DNA from '' @ path @ '' to '' @ dest @ '': '' @ error_display e))
            (ui_dir_copier E path dest))
          else Ok path)) (\<lambda>root c.
        adopt_config E ((cd_config c)\<lparr>cfg_ui_bundles := cfg_ui_bundles (cd_config c)
          @ [\<lparr>ub_id = i, ub_root_dir = root, ub_hash = None\<rparr>]\<rparr>) c) c)"

definition add_ui_interface :: "conductor_env \<Rightarrow> UiInterfaceConfiguration \<Rightarrow> (HolochainError, unit) cd_op" where
  "add_ui_interface E u c =
     op_then (adopt_config E ((cd_config c)\<lparr>cfg_ui_interfaces := cfg_ui_interfaces (cd_config c) @ [u]\<rparr>)) (\<lambda>_ c.
       map_option (\<lambda>bundle. (Ok (), c\<lparr>cd_static_servers := (cd_static_servers c)(uic_id u \<mapsto> static_server_from_configs u bundle None)\<rparr>))
         (ui_bundle_by_id (cd_config c) (uic_bundle u))) c"

fun stop_ui_interfaces :: "conductor_env \<Rightarrow> string list \<Rightarrow> (HolochainError, unit) cd_op" where
  "stop_ui_interfaces E [] = op_result (Ok ())"
| "stop_ui_interfaces E (i # is) = op_then (op_ignore (stop_ui_interface E i)) (\<lambda>_. stop_ui_interfaces E is)"

definition remove_ui_interface :: "conductor_env \<Rightarrow> string \<Rightarrow> (HolochainError, unit) cd_op" where
  "remove_ui_interface E i c =
     op_then (stop_ui_interfaces E (map uic_id (filter (\<lambda>u. uic_id u = i) (cfg_ui_interfaces (cd_config c))))) (\<lambda>_ c.
     op_then (adopt_config E ((cd_config c)\<lparr>cfg_ui_interfaces := filter (\<lambda>u. uic_id u \<noteq> i) (cfg_ui_interfaces (cd_config c))\<rparr>)) (\<lambda>_ c.
       Some (case cd_static_servers c i of
          None \<Rightarrow> (Err (ErrorGeneric ''Could not remove server''), c)
        | Some _ \<Rightarrow> (Ok (), c\<lparr>cd_static_servers := (cd_static_servers c)(i := None)\<rparr>))) c) c"

fun remove_ui_interfaces :: "conductor_env \<Rightarrow> string list \<Rightarrow> (HolochainError, unit) cd_op" where
  "remove_ui_interfaces E [] = op_result (Ok ())"
| "remove_ui_interfaces E (i # is) = op_then (remove_ui_interface E i) (\<lambda>_. remove_ui_interfaces E is)"

definition uninstall_ui_bundle :: "conductor_env \<Rightarrow> string \<Rightarrow> (HolochainError, unit) cd_op" where
  "uninstall_ui_bundle E i c =
     (let new_config = (cd_config c)\<lparr>cfg_ui_bundles := filter (\<lambda>b. ub_id b \<noteq> i) (cfg_ui_bundles (cd_config c))\<rparr> in
      if length (cfg_ui_bundles new_config) = length (cfg_ui_bundles (cd_config c))
      then Some (Err (ConfigError (''No UI bundles match the given ID '' @ quoted i)), c)
      else
        op_then (remove_ui_interfaces E (map uic_id (filter (\<lambda>u. uic_bundle u = i) (cfg_ui_interfaces new_config)))) (\<lambda>_.
          adopt_config E new_config) c)"

section \<open>The administration interface as a whole\<close>

datatype admin_call =
    InstallDna string string bool "HashString option" "string option"
  | UninstallDna string
  | AddInstance string string string
  | RemoveInstance string
  | StartInstance string
  | StopInstance string
  | AddInterface InterfaceConfiguration
  | RemoveInterface string
  | AddInstanceToInterface string string
  | RemoveInstanceFromInterface string string
  | AddAgent string string "string option"
  | RemoveAgent string
  | AddBridge ConductorBridge
  | RemoveBridge string string
  | InstallUiBundle string string bool
  | UninstallUiBundle string
  | AddUiInterface UiInterfaceConfiguration
  | RemoveUiInterface string
  | StartUiInterface string
  | StopUiInterface string

definition op_discard :: "('s, 'e, 'a) op \<Rightarrow> ('s, 'e, unit) op" where
  "op_discard m = op_then m (\<lambda>_. op_result (Ok ()))"

fun admin_step :: "conductor_env \<Rightarrow> admin_call \<Rightarrow> (HolochainError, unit) cd_op" where
  "admin_step E (InstallDna path i copy h props) = op_discard (install_dna_from_file E path i copy h props)"
| "admin_step E (UninstallDna i) = uninstall_dna E i"
| "admin_step E (AddInstance i d a) = add_instance E i d a"
| "admin_step E (RemoveInstance i) = remove_instance E i"
| "admin_step E (StartInstance i) = op_map_err from_instance_error (start_instance i)"
| "admin_step E (StopInstance i) = op_map_err from_instance_error (stop_instance i)"
| "admin_step E (AddInterface f) = add_interface E f"
| "admin_step E (RemoveInterface i) = remove_interface E i"
| "admin_step E (AddInstanceToInterface f i) = add_instance_to_interface E f i"
| "admin_step E (RemoveInstanceFromInterface f i) = remove_instance_from_interface E f i"
| "admin_step E (AddAgent i n k) = op_discard (add_agent E i n k)"
| "admin_step E (RemoveAgent i) = remove_agent E i"
| "admin_step E (AddBridge b) = add_bridge E b"
| "admin_step E (RemoveBridge a b) = remove_bridge E a b"
| "admin_step E (InstallUiBundle path i copy) = install_ui_bundle_from_file E path i copy"
| "admin_step E (UninstallUiBundle i) = uninstall_ui_bundle E i"
| "admin_step E (AddUiInterface u) = add_ui_interface E u"
| "admin_step E (RemoveUiInterface i) = remove_ui_interface E i"
| "admin_step E (StartUiInterface i) = op_map_err from_instance_error (start_ui_interface i)"
| "admin_step E (StopUiInterface i) = op_map_err from_instance_error (stop_ui_interface E i)"

end
