(* ===== verification/Conductor_Invariant.thy ===== *)
theory Conductor_Invariant
  imports Conductor_Admin
begin

text \<open>
  What the administration of a conductor keeps: the configuration in force is consistent, every
  configured instance is there, and a call that changed the configuration has saved it when it
  succeeds; what booting a conductor leaves behind.
\<close>

section \<open>Operations that leave the configuration alone\<close>

definition same_shape :: "Conductor \<Rightarrow> Conductor \<Rightarrow> bool" where
  "same_shape c c' \<longleftrightarrow> cd_config c' = cd_config c \<and> dom (cd_instances c') = dom (cd_instances c) \<and> cd_saved c' = cd_saved c"

definition calm :: "('e, 'a) cd_op \<Rightarrow> bool" where
  "calm m \<longleftrightarrow> (\<forall>c r c'. m c = Some (r, c') \<longrightarrow> same_shape c c')"

named_theorems calm_intros

lemma calmD: "calm m \<Longrightarrow> m c = Some (r, c') \<Longrightarrow> same_shape c c'"
  by (simp add: calm_def)

lemma same_shape_refl [simp]: "same_shape c c"
  by (simp add: same_shape_def)

lemma same_shape_trans: "same_shape c c' \<Longrightarrow> same_shape c' c'' \<Longrightarrow> same_shape c c''"
  by (simp add: same_shape_def)

lemma calm_result [calm_intros]: "calm (op_result r)"
  by (simp add: calm_def op_result_def)

lemma calm_pure [calm_intros]: "calm (op_pure r)"
  by (auto simp: calm_def op_pure_def)

lemma calm_then [calm_intros]: "calm m \<Longrightarrow> (\<And>a. calm (f a)) \<Longrightarrow> calm (op_then m f)"
  unfolding calm_def op_then_eq_Some by (meson same_shape_trans)

lemma calm_ignore [calm_intros]: "calm m \<Longrightarrow> calm (op_ignore m)"
  by (auto simp: calm_def op_ignore_def)

lemma calm_map_err [calm_intros]: "calm m \<Longrightarrow> calm (op_map_err f m)"
  by (auto simp: calm_def op_map_err_def)

lemma calm_if [calm_intros]: "calm m \<Longrightarrow> calm n \<Longrightarrow> calm (if b then m else n)"
  by simp

lemma calm_on_instance [calm_intros]: "calm (on_instance i f)"
  by (auto simp: calm_def on_instance_def same_shape_def dom_def split: option.splits sum.splits if_splits)

lemma calm_start_instance [calm_intros]: "calm (start_instance i)"
  by (simp add: start_instance_def calm_intros)

lemma calm_stop_instance [calm_intros]: "calm (stop_instance i)"
  by (simp add: stop_instance_def calm_intros)

lemma calm_stop_instances [calm_intros]: "calm (stop_instances is)"
  by (induction "is") (simp_all add: calm_intros)

lemma calm_get_keystore [calm_intros]: "calm (get_keystore_for_agent E a)"
  by (auto simp: calm_def get_keystore_for_agent_def same_shape_def split: option.splits sum.splits if_splits)

lemma calm_agent_keys_ready [calm_intros]: "calm (agent_keys_ready E a i)"
  by (simp add: agent_keys_ready_def calm_intros)

lemma calm_start_interface [calm_intros]: "calm (start_interface E f)"
  by (auto simp: calm_def start_interface_def spawn_interface_thread_def same_shape_def split: if_splits)

lemma calm_start_interface_by_id [calm_intros]: "calm (start_interface_by_id E i)"
  using calm_start_interface [of E] by (auto simp: calm_def start_interface_by_id_def split: option.splits)

lemma calm_stop_interface_by_id [calm_intros]: "calm (stop_interface_by_id E i)"
  by (auto simp: calm_def stop_interface_by_id_def same_shape_def split: if_splits sum.splits)

lemma calm_restart_interface [calm_intros]: "calm (restart_interface E i)"
  unfolding restart_interface_def by (intro calm_intros)

lemma calm_start_ui_interface [calm_intros]: "calm (start_ui_interface i)"
  by (auto simp: calm_def start_ui_interface_def same_shape_def split: option.splits)

lemma calm_stop_ui_interface [calm_intros]: "calm (stop_ui_interface E i)"
  by (auto simp: calm_def stop_ui_interface_def same_shape_def split: option.splits sum.splits)

lemma calm_stop_ui_interfaces [calm_intros]: "calm (stop_ui_interfaces E is)"
  by (induction "is") (simp_all add: calm_intros)

lemma calm_save_dna [calm_intros]: "calm (save_dna E dna)"
  by (auto simp: calm_def save_dna_def Let_def)

lemma calm_panic [calm_intros]: "calm op_panic"
  by (simp add: calm_def op_panic_def)

lemma calm_spawn_instance [calm_intros]: "calm (spawn_instance E i config n a)"
  by (auto simp: calm_def spawn_instance_def bind_eq_Some_conv split: if_splits)

lemma calm_option [calm_intros]: "calm m \<Longrightarrow> (\<And>x. calm (f x)) \<Longrightarrow> calm (case x of None \<Rightarrow> m | Some x \<Rightarrow> f x)"
  by (cases x) simp_all

lemma calm_instantiate [calm_intros]: "calm (instantiate_from_config E i config)"
  unfolding instantiate_from_config_def by (intro calm_intros)

lemma calm_dpki_agent_key [calm_intros]: "calm (dpki_agent_key E d i n)"
proof -
  have "calm (op_then (op_pure (dpki_zome_call E h ''create_agent_key'' n)) (\<lambda>_.
      op_then (op_map_err ErrorGeneric (get_keystore_for_agent E (dpki_instance_id d))) (\<lambda>_. op_result (dpki_keybundle E i))))" for h
    by (intro calm_intros)
  then show ?thesis
    unfolding dpki_agent_key_def by (intro calm_intros) (auto simp: calm_def split: option.splits)
qed

lemma calm_store_agent_key [calm_intros]: "calm (store_agent_key E i k)"
  by (auto simp: calm_def store_agent_key_def add_agent_keystore_def same_shape_def Let_def split: sum.splits)

lemma calm_agent_key [calm_intros]: "calm (agent_key E config i n k)"
  unfolding agent_key_def by (intro calm_intros)


section \<open>The invariant of the administration\<close>

definition conductor_inv :: "Conductor \<Rightarrow> bool" where
  "conductor_inv c \<longleftrightarrow> consistent (cd_config c) \<and> set (instance_ids (cd_config c)) \<subseteq> dom (cd_instances c)"

text \<open>A step keeps the invariant, and when it answers \<open>Ok\<close> the file holds the configuration.\<close>

definition sound_step :: "(HolochainError, 'a) cd_op \<Rightarrow> Conductor \<Rightarrow> bool" where
  "sound_step m c \<longleftrightarrow> (\<forall>r c'. m c = Some (r, c') \<longrightarrow> conductor_inv c' \<and> (is_ok r \<longrightarrow> cd_saved c' = Some (cd_config c')))"

lemma inv_same_shape: "conductor_inv c \<Longrightarrow> same_shape c c' \<Longrightarrow> conductor_inv c'"
  by (simp add: conductor_inv_def same_shape_def)

lemma save_config_cases:
  assumes "save_config E c = Some (r, c')"
  shows "\<exists>s. c' = c\<lparr>cd_saved := s\<rparr> \<and> (is_ok r \<longrightarrow> s = Some (cd_config c))"
proof -
  have self: "\<exists>s. x = x\<lparr>cd_saved := s\<rparr>" for x :: Conductor
    by (rule exI [of _ "cd_saved x"]) simp
  show ?thesis
    using assms by (auto simp: save_config_def self split: sum.splits if_splits)
qed

lemma adopt_config_cases:
  assumes ts: "sorts_topologically (env_toposort E)" and ad: "adopt_config E nc c = Some (r, c')"
  shows "c' = c \<and> \<not> is_ok r
    \<or> consistent nc \<and> (\<exists>s. c' = c\<lparr>cd_config := nc, cd_saved := s\<rparr> \<and> (is_ok r \<longrightarrow> s = Some nc))"
proof -
  obtain u where u: "check_consistency (env_toposort E) nc = Some u" "u = Ok () \<longleftrightarrow> consistent nc"
    using check_consistency_total [OF ts, of nc] by blast
  show ?thesis
  proof (cases u)
    case (Inl e)
    then show ?thesis
      using ad u by (auto simp: adopt_config_def op_then_eq_Some op_pure_def)
  next
    case (Inr x)
    then have "save_config E (c\<lparr>cd_config := nc\<rparr>) = Some (r, c')"
      using ad u by (simp add: adopt_config_def op_then_def op_pure_def)
    from save_config_cases [OF this] show ?thesis
      using u Inr by auto
  qed
qed

lemma adopt_sound:
  assumes "sorts_topologically (env_toposort E)" and "conductor_inv c" and "set (instance_ids nc) \<subseteq> dom (cd_instances c)"
  shows "sound_step (adopt_config E nc) c"
  using adopt_config_cases [OF assms(1)] assms(2,3) unfolding sound_step_def conductor_inv_def by fastforce

lemma sound_inv: "sound_step m c \<Longrightarrow> m c = Some (r, c') \<Longrightarrow> conductor_inv c'"
  by (simp add: sound_step_def)

lemma sound_then:
  assumes "\<And>r c1. m c = Some (r, c1) \<Longrightarrow> conductor_inv c1"
    and "\<And>a c1. m c = Some (Ok a, c1) \<Longrightarrow> sound_step (f a) c1"
  shows "sound_step (op_then m f) c"
  using assms unfolding sound_step_def op_then_eq_Some by (metis is_ok_simps(2))

lemma sound_calm_after:
  assumes "sound_step m c" and "\<And>a. calm (f a)"
  shows "sound_step (op_then m f) c"
proof -
  have "conductor_inv c' \<and> (is_ok r \<longrightarrow> cd_saved c' = Some (cd_config c'))" if "op_then m f c = Some (r, c')" for r c'
  proof -
    from that consider a c1 where "m c = Some (Ok a, c1)" "f a c1 = Some (r, c')" | e where "m c = Some (Err e, c')" "r = Err e"
      unfolding op_then_eq_Some by blast
    then show ?thesis
    proof cases
      case 1
      then have "same_shape c1 c'"
        using assms(2) calmD by blast
      then show ?thesis
        using assms(1) 1(1) inv_same_shape unfolding sound_step_def same_shape_def by (metis is_ok_simps(1))
    next
      case 2
      then show ?thesis
        using assms(1) unfolding sound_step_def by (metis is_ok_simps(2))
    qed
  qed
  then show ?thesis
    by (simp add: sound_step_def)
qed

lemma sound_calm_before:
  assumes "conductor_inv c" and "calm m" and "\<And>a c1. same_shape c c1 \<Longrightarrow> conductor_inv c1 \<Longrightarrow> sound_step (f a) c1"
  shows "sound_step (op_then m f) c"
  using assms by (intro sound_then) (metis calmD inv_same_shape)+

lemma sound_eq: "m c = m' c \<Longrightarrow> sound_step m' c \<Longrightarrow> sound_step m c"
  by (simp add: sound_step_def)

lemma sound_diag: "sound_step (m c) c \<Longrightarrow> sound_step (\<lambda>c. m c c) c"
  by (simp add: sound_step_def)

lemma sound_error: "conductor_inv c \<Longrightarrow> sound_step (\<lambda>c. Some (Err e, c)) c"
  by (simp add: sound_step_def)

lemma instance_ids_update [simp]:
  "instance_ids (config\<lparr>cfg_dnas := ds\<rparr>) = instance_ids config"
  "instance_ids (config\<lparr>cfg_agents := as\<rparr>) = instance_ids config"
  "instance_ids (config\<lparr>cfg_interfaces := fs\<rparr>) = instance_ids config"
  "instance_ids (config\<lparr>cfg_bridges := bs\<rparr>) = instance_ids config"
  "instance_ids (config\<lparr>cfg_ui_bundles := us\<rparr>) = instance_ids config"
  "instance_ids (config\<lparr>cfg_ui_interfaces := vs\<rparr>) = instance_ids config"
  by (simp_all add: instance_ids_def)

lemma instance_ids_remove: "instance_ids (save_remove_instance config i) = filter (\<lambda>j. j \<noteq> i) (instance_ids config)"
  by (simp add: save_remove_instance_def instance_ids_def filter_map comp_def)

lemma instance_ids_removes: "set (instance_ids (remove_instances config is)) \<subseteq> set (instance_ids config)"
  by (induction config "is" rule: remove_instances.induct) (auto simp: instance_ids_remove)

lemma inv_ids: "conductor_inv c \<Longrightarrow> set (instance_ids (cd_config c)) \<subseteq> dom (cd_instances c)"
  by (simp add: conductor_inv_def)


lemma install_dna_sound:
  assumes "sorts_topologically (env_toposort E)" and "conductor_inv c"
  shows "sound_step (install_dna_from_file E path i copy h props) c"
proof -
  have adopt: "sound_step (op_then (\<lambda>c. adopt_config E ((cd_config c)\<lparr>cfg_dnas := cfg_dnas (cd_config c) @ [d]\<rparr>) c) (\<lambda>_. op_result r)) c1"
    if "conductor_inv c1" for d r c1
    by (rule sound_calm_after [OF sound_diag calm_result], rule adopt_sound [OF assms(1) that]) (simp add: inv_ids [OF that])
  have save: "calm (if copy then save_dna E dna else op_result (Ok path))" for dna
    by (intro calm_intros)
  show ?thesis
    unfolding install_dna_from_file_def
    by (rule sound_calm_before [OF assms(2) calm_result], rule sound_calm_before [OF _ calm_result], assumption,
        rule sound_calm_before [OF _ calm_result], assumption, rule sound_calm_before [OF _ save], assumption,
        rule adopt, assumption)
qed

lemma uninstall_sound:
  assumes "sorts_topologically (env_toposort E)" and "conductor_inv c"
    and "instance_ids config = instance_ids (cd_config c)"
  shows "sound_step (op_then (adopt_config E (remove_instances config is)) (\<lambda>_. stop_instances js)) c"
  using assms instance_ids_removes [of config "is"] inv_ids [OF assms(2)]
  by (intro sound_calm_after calm_intros adopt_sound) auto

lemma add_instance_sound:
  assumes ts: "sorts_topologically (env_toposort E)" and inv: "conductor_inv c"
  shows "sound_step (add_instance E i d a) c"
proof -
  define nc where "nc = (cd_config c)\<lparr>cfg_instances := cfg_instances (cd_config c)
    @ [\<lparr>ic_id = i, ic_dna = d, ic_agent = a, ic_storage = StoragePickle (path_join (instance_storage_dir_path c) i)\<rparr>]\<rparr>"
  have ids: "set (instance_ids nc) = insert i (set (instance_ids (cd_config c)))"
    by (simp add: nc_def instance_ids_def)
  have last: "sound_step (op_then (op_map_err ErrorGeneric (instantiate_from_config E i nc)) (\<lambda>h c.
      save_config E (c\<lparr>cd_instances := (cd_instances c)(i \<mapsto> h), cd_config := nc\<rparr>))) c1"
    if "consistent nc" "same_shape c c1" "conductor_inv c1" for c1
  proof (rule sound_calm_before [OF that(3)])
    show "calm (op_map_err ErrorGeneric (instantiate_from_config E i nc))"
      by (intro calm_intros)
  next
    fix h c2 assume c2: "same_shape c1 c2" "conductor_inv c2"
    have "set (instance_ids nc) \<subseteq> insert i (dom (cd_instances c2))"
      using that(2) c2 inv_ids [OF inv] unfolding ids same_shape_def by auto
    then show "sound_step (\<lambda>c. save_config E (c\<lparr>cd_instances := (cd_instances c)(i \<mapsto> h), cd_config := nc\<rparr>)) c2"
      using that(1) by (auto simp: sound_step_def conductor_inv_def dest!: save_config_cases)
  qed
  have "sound_step (op_then (op_pure (map_option (map_err ErrorGeneric) (check_consistency (env_toposort E) nc))) (\<lambda>_.
      op_then (op_map_err ErrorGeneric (instantiate_from_config E i nc)) (\<lambda>h c.
        save_config E (c\<lparr>cd_instances := (cd_instances c)(i \<mapsto> h), cd_config := nc\<rparr>)))) c1"
    if "same_shape c c1" "conductor_inv c1" for c1
  proof (rule sound_then)
    show "conductor_inv c2" if "op_pure (map_option (map_err ErrorGeneric) (check_consistency (env_toposort E) nc)) c1 = Some (r, c2)" for r c2
      using that \<open>conductor_inv c1\<close> by (auto simp: op_pure_def)
    fix u c2 assume "op_pure (map_option (map_err ErrorGeneric) (check_consistency (env_toposort E) nc)) c1 = Some (Ok u, c2)"
    then have "consistent nc" "c2 = c1"
      using check_consistency_Ok [OF ts, of nc] by (auto simp: op_pure_def)
    then show "sound_step (op_then (op_map_err ErrorGeneric (instantiate_from_config E i nc)) (\<lambda>h c.
        save_config E (c\<lparr>cd_instances := (cd_instances c)(i \<mapsto> h), cd_config := nc\<rparr>))) c2"
      using last that by simp
  qed
  then have "sound_step (op_then (op_result (create_dir_all E (path_join (instance_storage_dir_path c) i))) (\<lambda>_.
      op_then (op_pure (map_option (map_err ErrorGeneric) (check_consistency (env_toposort E) nc))) (\<lambda>_.
      op_then (op_map_err ErrorGeneric (instantiate_from_config E i nc)) (\<lambda>h c.
        save_config E (c\<lparr>cd_instances := (cd_instances c)(i \<mapsto> h), cd_config := nc\<rparr>))))) c"
    by (intro sound_calm_before [OF inv calm_result])
  then show ?thesis
    by (rule sound_eq [rotated]) (simp add: add_instance_def nc_def Let_def)
qed

lemma remove_instance_sound:
  assumes ts: "sorts_topologically (env_toposort E)" and inv: "conductor_inv c"
  shows "sound_step (remove_instance E i) c"
proof -
  have ids: "i \<notin> set (instance_ids (save_remove_instance (cd_config c) i))"
    by (simp add: instance_ids_remove)
  have ad: "sound_step (adopt_config E (save_remove_instance (cd_config c) i)) c"
    using inv_ids [OF inv] by (intro adopt_sound ts inv) (auto simp: instance_ids_remove)
  have rest: "sound_step (op_then (op_ignore (stop_instance i)) (\<lambda>_ c. Some (Ok (), c\<lparr>cd_instances := (cd_instances c)(i := None)\<rparr>))) c1"
    if "adopt_config E (save_remove_instance (cd_config c) i) c = Some (Ok u, c1)" for u c1
  proof -
    have c1: "conductor_inv c1" "cd_saved c1 = Some (cd_config c1)" "cd_config c1 = save_remove_instance (cd_config c) i"
      using ad that adopt_config_cases [OF ts that] by (auto simp: sound_step_def)
    have "conductor_inv c' \<and> cd_saved c' = Some (cd_config c')"
      if "same_shape c1 c2" "c' = c2\<lparr>cd_instances := (cd_instances c2)(i := None)\<rparr>" for c2 c'
      using that c1 ids unfolding same_shape_def conductor_inv_def by auto
    then show ?thesis
      by (auto simp: sound_step_def op_then_eq_Some op_ignore_def dest!: calmD [OF calm_stop_instance])
  qed
  show ?thesis
  proof (rule sound_eq [where m' = "op_then (adopt_config E (save_remove_instance (cd_config c) i)) (\<lambda>_.
      op_then (op_ignore (stop_instance i)) (\<lambda>_ c. Some (Ok (), c\<lparr>cd_instances := (cd_instances c)(i := None)\<rparr>)))"])
    show "remove_instance E i c = op_then (adopt_config E (save_remove_instance (cd_config c) i)) (\<lambda>_.
        op_then (op_ignore (stop_instance i)) (\<lambda>_ c. Some (Ok (), c\<lparr>cd_instances := (cd_instances c)(i := None)\<rparr>))) c"
      by (rule remove_instance_def)
  qed (rule sound_then, erule sound_inv [OF ad], erule rest)
qed

lemma adopt_calm_sound:
  assumes "sorts_topologically (env_toposort E)" and "conductor_inv c"
    and "instance_ids nc = instance_ids (cd_config c)" and "\<And>a. calm (f a)"
  shows "sound_step (op_then (adopt_config E nc) f) c"
  using assms by (intro sound_calm_after adopt_sound) (simp_all add: inv_ids)

lemma adopt_only_sound:
  assumes "sorts_topologically (env_toposort E)" and "conductor_inv c" and "instance_ids nc = instance_ids (cd_config c)"
  shows "sound_step (adopt_config E nc) c"
  using assms by (intro adopt_sound) (simp_all add: inv_ids)

lemma change_interface_sound:
  assumes "sorts_topologically (env_toposort E)" and "conductor_inv c"
  shows "sound_step (change_interface E i g) c"
  by (rule sound_eq [OF _ adopt_calm_sound [OF assms _ calm_restart_interface]], rule change_interface_def) simp

lemma interface_steps_sound:
  assumes "sorts_topologically (env_toposort E)" and "conductor_inv c"
  shows "sound_step (add_interface E f) c" and "sound_step (remove_interface E i) c"
    and "sound_step (add_instance_to_interface E i j) c" and "sound_step (remove_instance_from_interface E i j) c"
proof -
  show "sound_step (add_interface E f) c"
    using adopt_calm_sound [OF assms, of "(cd_config c)\<lparr>cfg_interfaces := cfg_interfaces (cd_config c) @ [f]\<rparr>"
        "\<lambda>_. op_map_err ErrorGeneric (start_interface_by_id E (ifc_id f))"] assms(2)
    by (simp add: add_interface_def [abs_def] sound_step_def calm_intros)
  show "sound_step (remove_interface E i) c"
    using adopt_calm_sound [OF assms, of "(cd_config c)\<lparr>cfg_interfaces := filter (\<lambda>f. ifc_id f \<noteq> i) (cfg_interfaces (cd_config c))\<rparr>"
        "\<lambda>_. op_ignore (stop_interface_by_id E i)"] assms(2)
    by (simp add: remove_interface_def [abs_def] sound_step_def calm_intros)
  show "sound_step (add_instance_to_interface E i j) c" "sound_step (remove_instance_from_interface E i j) c"
    using change_interface_sound [OF assms] assms(2)
    by (simp_all add: add_instance_to_interface_def [abs_def] remove_instance_from_interface_def [abs_def] sound_step_def split: option.split)
qed

lemma agent_steps_sound:
  assumes ts: "sorts_topologically (env_toposort E)" and inv: "conductor_inv c"
  shows "sound_step (add_agent E i n k) c" and "sound_step (remove_agent E i) c"
proof -
  have "sound_step (op_then (agent_key E (cd_config c) i n k) (\<lambda>(file, pub).
      op_then (adopt_config E ((cd_config c)\<lparr>cfg_agents := cfg_agents (cd_config c) @ [\<lparr>ac_id = i, ac_name = n, ac_public_address = pub,
        ac_keystore_file = file, ac_holo_remote_key = map_option (\<lambda>_. True) k\<rparr>]\<rparr>)) (\<lambda>_. op_result (Ok pub)))) c"
  proof (rule sound_calm_before [OF inv calm_agent_key])
    fix x c1 assume c1: "same_shape c c1" "conductor_inv c1"
    show "sound_step (case x of (file, pub) \<Rightarrow>
        op_then (adopt_config E ((cd_config c)\<lparr>cfg_agents := cfg_agents (cd_config c) @ [\<lparr>ac_id = i, ac_name = n, ac_public_address = pub,
          ac_keystore_file = file, ac_holo_remote_key = map_option (\<lambda>_. True) k\<rparr>]\<rparr>)) (\<lambda>_. op_result (Ok pub))) c1"
      using c1 by (cases x) (simp add: adopt_calm_sound [OF ts c1(2)] same_shape_def calm_intros)
  qed
  then show "sound_step (add_agent E i n k) c"
    using inv by (simp add: add_agent_def [abs_def] sound_step_def Let_def)
  show "sound_step (remove_agent E i) c"
    using uninstall_sound [OF ts inv, of "(cd_config c)\<lparr>cfg_agents := filter (\<lambda>a. ac_id a \<noteq> i) (cfg_agents (cd_config c))\<rparr>"] inv
    by (simp add: remove_agent_def [abs_def] sound_step_def Let_def)
qed

lemma remove_ui_interface_sound:
  assumes ts: "sorts_topologically (env_toposort E)" and inv: "conductor_inv c"
  shows "sound_step (remove_ui_interface E i) c"
proof -
  have "sound_step (\<lambda>c. op_then (adopt_config E ((cd_config c)\<lparr>cfg_ui_interfaces := filter (\<lambda>u. uic_id u \<noteq> i) (cfg_ui_interfaces (cd_config c))\<rparr>)) (\<lambda>_ c.
      Some (case cd_static_servers c i of
          None \<Rightarrow> (Err (ErrorGeneric ''Could not remove server''), c)
        | Some _ \<Rightarrow> (Ok (), c\<lparr>cd_static_servers := (cd_static_servers c)(i := None)\<rparr>))) c) c1" if "conductor_inv c1" for c1
    by (rule sound_diag, rule adopt_calm_sound [OF ts that])
      (auto simp: calm_def same_shape_def split: option.splits)
  then have "sound_step (op_then (stop_ui_interfaces E (map uic_id (filter (\<lambda>u. uic_id u = i) (cfg_ui_interfaces (cd_config c))))) (\<lambda>_ c.
     op_then (adopt_config E ((cd_config c)\<lparr>cfg_ui_interfaces := filter (\<lambda>u. uic_id u \<noteq> i) (cfg_ui_interfaces (cd_config c))\<rparr>)) (\<lambda>_ c.
       Some (case cd_static_servers c i of
          None \<Rightarrow> (Err (ErrorGeneric ''Could not remove server''), c)
        | Some _ \<Rightarrow> (Ok (), c\<lparr>cd_static_servers := (cd_static_servers c)(i := None)\<rparr>))) c)) c"
    by (rule sound_calm_before [OF inv calm_stop_ui_interfaces])
  then show ?thesis
    by (simp add: remove_ui_interface_def [abs_def] sound_step_def)
qed


lemma sound_guard: "m c = (if P then Some (Err e, c) else m' c) \<Longrightarrow> conductor_inv c \<Longrightarrow> sound_step m' c \<Longrightarrow> sound_step m c"
  by (cases P) (simp_all add: sound_step_def)

lemma adopt_keeps_instances:
  assumes "sorts_topologically (env_toposort E)" and "adopt_config E nc c = Some (r, c')"
  shows "cd_instances c' = cd_instances c"
  using adopt_config_cases [OF assms] by auto

definition keeps_instances :: "('e, 'a) cd_op \<Rightarrow> bool" where
  "keeps_instances m \<longleftrightarrow> (\<forall>c r c'. m c = Some (r, c') \<longrightarrow> dom (cd_instances c') = dom (cd_instances c))"

lemma keeps_then: "keeps_instances m \<Longrightarrow> (\<And>a. keeps_instances (f a)) \<Longrightarrow> keeps_instances (op_then m f)"
  unfolding keeps_instances_def by (simp add: op_then_eq_Some) metis

lemma keeps_diag: "(\<And>c. keeps_instances (m c)) \<Longrightarrow> keeps_instances (\<lambda>c. m c c)"
  by (simp add: keeps_instances_def)

lemma keeps_calm: "calm m \<Longrightarrow> keeps_instances m"
  by (simp add: keeps_instances_def calm_def same_shape_def)

lemma keeps_adopt: "sorts_topologically (env_toposort E) \<Longrightarrow> keeps_instances (adopt_config E nc)"
  unfolding keeps_instances_def using adopt_keeps_instances by metis

lemma remove_ui_interface_frame:
  assumes "sorts_topologically (env_toposort E)"
  shows "keeps_instances (remove_ui_interface E i)"
proof -
  have "keeps_instances (\<lambda>c. Some (case cd_static_servers c i of
          None \<Rightarrow> (Err (ErrorGeneric ''Could not remove server''), c)
        | Some _ \<Rightarrow> (Ok (), c\<lparr>cd_static_servers := (cd_static_servers c)(i := None)\<rparr>)))"
    by (rule keeps_calm) (simp add: calm_def same_shape_def split: option.split)
  then show ?thesis
    unfolding remove_ui_interface_def [abs_def]
    by - (rule keeps_diag, rule keeps_then, rule keeps_calm, rule calm_stop_ui_interfaces,
      rule keeps_diag, rule keeps_then, rule keeps_adopt [OF assms])
qed

lemma remove_ui_interfaces_keep:
  assumes ts: "sorts_topologically (env_toposort E)" and "conductor_inv c" and "remove_ui_interfaces E is c = Some (r, c')"
  shows "conductor_inv c' \<and> dom (cd_instances c') = dom (cd_instances c)"
  using assms(2,3)
proof (induction "is" arbitrary: c)
  case Nil
  then show ?case
    by (simp add: op_result_def)
next
  case (Cons i "is")
  have step: "conductor_inv c1 \<and> dom (cd_instances c1) = dom (cd_instances c)" if "remove_ui_interface E i c = Some (q, c1)" for q c1
    using sound_inv [OF remove_ui_interface_sound [OF ts Cons.prems(1)] that] remove_ui_interface_frame [OF ts] that
    by (simp add: keeps_instances_def)
  from Cons.prems(2) consider u c1 where "remove_ui_interface E i c = Some (Ok u, c1)" "remove_ui_interfaces E is c1 = Some (r, c')"
    | e where "remove_ui_interface E i c = Some (Err e, c')"
    by (auto simp: op_then_eq_Some)
  then show ?case
    by cases (metis Cons.IH step, metis step)
qed

lemma uninstall_ui_bundle_eq:
  "uninstall_ui_bundle E i c =
     (if length (filter (\<lambda>b. ub_id b \<noteq> i) (cfg_ui_bundles (cd_config c))) = length (cfg_ui_bundles (cd_config c))
      then Some (Err (ConfigError (''No UI bundles match the given ID '' @ quoted i)), c)
      else op_then (remove_ui_interfaces E (map uic_id (filter (\<lambda>u. uic_bundle u = i) (cfg_ui_interfaces (cd_config c))))) (\<lambda>_.
        adopt_config E ((cd_config c)\<lparr>cfg_ui_bundles := filter (\<lambda>b. ub_id b \<noteq> i) (cfg_ui_bundles (cd_config c))\<rparr>)) c)"
  by (simp add: uninstall_ui_bundle_def Let_def)

lemma ui_steps_sound:
  assumes ts: "sorts_topologically (env_toposort E)" and inv: "conductor_inv c"
  shows "sound_step (install_ui_bundle_from_file E path i copy) c" and "sound_step (add_ui_interface E u) c"
    and "sound_step (uninstall_ui_bundle E i) c"
proof -
  let ?r = "if copy then map_ok (\<lambda>_. path_join (path_join (cfg_persistence_dir (cd_config c)) ''static'') i)
      (map_err (\<lambda>e. ErrorGeneric (''Error copying DNA from '' @ path @ '' to ''
        @ path_join (path_join (cfg_persistence_dir (cd_config c)) ''static'') i @ '': '' @ error_display e))
        (ui_dir_copier E path (path_join (path_join (cfg_persistence_dir (cd_config c)) ''static'') i))) else Ok path"
  have "sound_step (\<lambda>c. adopt_config E ((cd_config c)\<lparr>cfg_ui_bundles := cfg_ui_bundles (cd_config c)
      @ [\<lparr>ub_id = i, ub_root_dir = root, ub_hash = None\<rparr>]\<rparr>) c) c1" if "conductor_inv c1" for root c1
    by (rule sound_diag, rule adopt_only_sound [OF ts that]) simp
  then have "sound_step (op_then (op_result ?r) (\<lambda>root c. adopt_config E ((cd_config c)\<lparr>cfg_ui_bundles := cfg_ui_bundles (cd_config c)
      @ [\<lparr>ub_id = i, ub_root_dir = root, ub_hash = None\<rparr>]\<rparr>) c)) c"
    by (rule sound_calm_before [OF inv calm_result])
  then show "sound_step (install_ui_bundle_from_file E path i copy) c"
    by (rule sound_eq [rotated]) (simp add: install_ui_bundle_from_file_def Let_def)
  have "calm (\<lambda>c. map_option (\<lambda>bundle. (Ok (), c\<lparr>cd_static_servers := (cd_static_servers c)(uic_id u \<mapsto> static_server_from_configs u bundle None)\<rparr>))
         (ui_bundle_by_id (cd_config c) (uic_bundle u)))"
    by (auto simp: calm_def same_shape_def)
  from adopt_calm_sound [OF ts inv _ this, of "(cd_config c)\<lparr>cfg_ui_interfaces := cfg_ui_interfaces (cd_config c) @ [u]\<rparr>"]
  show "sound_step (add_ui_interface E u) c"
    by (simp add: sound_step_def add_ui_interface_def)
  have "sound_step (op_then (remove_ui_interfaces E is) (\<lambda>_. adopt_config E nc)) c" if "instance_ids nc = instance_ids (cd_config c)" for "is" nc
  proof (rule sound_then)
    show "conductor_inv c1" if "remove_ui_interfaces E is c = Some (r, c1)" for r c1
      using remove_ui_interfaces_keep [OF ts inv that] by simp
    show "sound_step (adopt_config E nc) c1" if "remove_ui_interfaces E is c = Some (Ok a, c1)" for a c1
      using remove_ui_interfaces_keep [OF ts inv that] inv_ids [OF inv] \<open>instance_ids nc = _\<close>
      by (intro adopt_sound ts) simp_all
  qed
  note remove_bundle = this [of "(cd_config c)\<lparr>cfg_ui_bundles := filter (\<lambda>b. ub_id b \<noteq> i) (cfg_ui_bundles (cd_config c))\<rparr>"
      "map uic_id (filter (\<lambda>u. uic_bundle u = i) (cfg_ui_interfaces (cd_config c)))"]
  show "sound_step (uninstall_ui_bundle E i) c"
    by (rule sound_guard [OF _ inv remove_bundle], rule uninstall_ui_bundle_eq) simp
qed

lemma bridge_steps_sound:
  assumes ts: "sorts_topologically (env_toposort E)" and inv: "conductor_inv c"
  shows "sound_step (add_bridge E b) c" and "sound_step (remove_bridge E i j) c"
proof -
  have adopt: "sound_step (adopt_config E ((cd_config c)\<lparr>cfg_bridges := bs\<rparr>)) c" for bs
    by (rule adopt_only_sound [OF ts inv]) simp
  show "sound_step (add_bridge E b) c"
    by (rule sound_guard [OF _ inv adopt], rule add_bridge_def)
  show "sound_step (remove_bridge E i j) c"
    by (rule sound_guard [OF _ inv adopt], rule remove_bridge_def)
qed

lemma uninstall_dna_sound:
  assumes ts: "sorts_topologically (env_toposort E)" and inv: "conductor_inv c"
  shows "sound_step (uninstall_dna E i) c"
  by (rule sound_eq [OF _ uninstall_sound [OF ts inv], rotated], rule instance_ids_update(1))
    (simp add: uninstall_dna_def Let_def)

lemmas admin_sound =
  install_dna_sound uninstall_dna_sound add_instance_sound remove_instance_sound interface_steps_sound agent_steps_sound
  bridge_steps_sound ui_steps_sound remove_ui_interface_sound

fun runs_only :: "admin_call \<Rightarrow> bool" where
  "runs_only (StartInstance _) = True"
| "runs_only (StopInstance _) = True"
| "runs_only (StartUiInterface _) = True"
| "runs_only (StopUiInterface _) = True"
| "runs_only _ = False"

lemma sound_discard: "sound_step m c \<Longrightarrow> sound_step (op_discard m) c"
  unfolding op_discard_def by (rule sound_calm_after) (simp_all add: calm_intros)

lemma calm_runs: "runs_only call \<Longrightarrow> calm (admin_step E call)"
  by (cases call) (simp_all add: calm_intros)

lemma admin_step_sound:
  assumes ts: "sorts_topologically (env_toposort E)" and inv: "conductor_inv c" and "\<not> runs_only call"
  shows "sound_step (admin_step E call) c"
  using assms(3) by (cases call) (simp_all add: sound_discard admin_sound [OF ts inv])

lemma admin_step_inv:
  assumes "sorts_topologically (env_toposort E)" and "conductor_inv c" and "admin_step E call c = Some (r, c')"
  shows "conductor_inv c'"
proof (cases "runs_only call")
  case True
  from inv_same_shape [OF assms(2) calmD [OF calm_runs [OF True] assms(3)]] show ?thesis .
next
  case False
  from sound_inv [OF admin_step_sound [OF assms(1,2) this] assms(3)] show ?thesis .
qed

end
