(* ===== verification/Conductor_Boot.thy ===== *)
theory Conductor_Boot
  imports Conductor_Invariant
begin

text \<open>
  Booting a conductor from its configuration, and the life of a booted conductor under
  administration: which instances there are, when the boot succeeds, and what the sections for the
  DPKI application and for user interfaces do to it.
\<close>

section \<open>One instance\<close>

definition booted_instance :: "Configuration \<Rightarrow> string \<Rightarrow> Holochain" where
  "booted_instance config i =
     \<lparr>hc_active = False, hc_bridges = map (\<lambda>b. (cb_handle b, callee_id b)) (bridge_dependencies config i)\<rparr>"

text \<open>
  What the boot asks of the world outside for one instance: its storage opens, its DNA loads, its
  state loads or starts afresh, and the key of its agent is in the keystore or a remote signing
  service is configured.
\<close>

definition agent_ready :: "conductor_env \<Rightarrow> Configuration \<Rightarrow> AgentConfiguration \<Rightarrow> bool" where
  "agent_ready E config a \<longleftrightarrow>
     (if ac_holo_remote_key a = Some True then cfg_signing_service_uri config \<noteq> None
      else key_loader E (ac_keystore_file a) = Ok (Ok (ac_public_address a)))"

definition instance_ready :: "conductor_env \<Rightarrow> Configuration \<Rightarrow> InstanceConfiguration \<Rightarrow> bool" where
  "instance_ready E config n \<longleftrightarrow>
     open_storage E (ic_storage n) = Ok ()
     \<and> (case agent_by_id config (ic_agent n) of None \<Rightarrow> True | Some a \<Rightarrow> agent_ready E config a)
     \<and> (case dna_by_id config (ic_dna n) of None \<Rightarrow> True
        | Some d \<Rightarrow> (case dna_loader E (dc_file d) of Err _ \<Rightarrow> False | Ok dna \<Rightarrow> load_or_new E (ic_id n) dna = Ok ()))"

definition boot_ready :: "conductor_env \<Rightarrow> Configuration \<Rightarrow> bool" where
  "boot_ready E config \<longleftrightarrow> list_all (instance_ready E config) (cfg_instances config)"

definition same_instances :: "Conductor \<Rightarrow> Conductor \<Rightarrow> bool" where
  "same_instances c c' \<longleftrightarrow> cd_config c' = cd_config c \<and> cd_instances c' = cd_instances c"

lemma same_instances_refl [simp]: "same_instances c c"
  by (simp add: same_instances_def)

lemma instance_by_id_Some: "instance_by_id config i = Some n \<Longrightarrow> n \<in> set (cfg_instances config) \<and> ic_id n = i"
  unfolding instance_by_id_def find_Some_iff by (metis nth_mem)

lemma instance_by_id_exists: "i \<in> set (instance_ids config) \<Longrightarrow> \<exists>n. instance_by_id config i = Some n"
  by (cases "instance_by_id config i") (simp_all add: instance_by_id_def instance_ids_def find_by_id_None)

lemma get_keystore_same: "get_keystore_for_agent E a c = Some (r, c') \<Longrightarrow> same_instances c c'"
  by (auto simp: get_keystore_for_agent_def same_instances_def split: option.splits if_splits sum.splits)

lemma get_keystore_ready:
  assumes "agent_by_id (cd_config c) i = Some a" and "ac_holo_remote_key a \<noteq> Some True"
    and "key_loader E (ac_keystore_file a) = Ok (Ok (ac_public_address a))"
  shows "\<exists>k c'. get_keystore_for_agent E i c = Some (Ok k, c') \<and> same_instances c c'"
  using assms by (cases "cd_agent_keys c i") (simp_all add: get_keystore_for_agent_def same_instances_def)

lemma agent_keys_same: "agent_keys_ready E a i c = Some (r, c') \<Longrightarrow> same_instances c c'"
  by (auto simp: agent_keys_ready_def op_then_eq_Some op_result_def dest: get_keystore_same split: if_splits)

lemma agent_keys_ready_ok:
  assumes "agent_by_id (cd_config c) i = Some a" and "agent_ready E (cd_config c) a"
  shows "\<exists>c'. agent_keys_ready E a i c = Some (Ok (), c') \<and> same_instances c c'"
proof (cases "ac_holo_remote_key a = Some True")
  case True
  then show ?thesis
    by (simp add: agent_keys_ready_def op_result_def)
next
  case False
  with assms obtain k c' where "get_keystore_for_agent E i c = Some (Ok k, c')" "same_instances c c'"
    using get_keystore_ready [of c i a E] by (auto simp: agent_ready_def)
  with False show ?thesis
    by (simp add: agent_keys_ready_def op_then_def op_result_def)
qed

lemma build_bridges_booted:
  "build_bridges config c i = Some bs \<Longrightarrow> \<lparr>hc_active = False, hc_bridges = bs\<rparr> = booted_instance config i"
  by (auto simp: build_bridges_def booted_instance_def Let_def split: if_splits)

lemma spawn_instance_Ok:
  assumes "spawn_instance E i config n a c = Some (r, c')"
  shows "c' = c \<and> (\<forall>h. r = Ok h \<longrightarrow> h = booted_instance config (ic_id n))"
  using assms build_bridges_booted [of config c "ic_id n"]
  by (auto simp: spawn_instance_def bind_eq_Some_conv and_then_eq_Ok map_ok_eq_Ok split: if_splits)

lemma instantiate_Ok:
  assumes "instantiate_from_config E i config c = Some (r, c')"
  shows "same_instances c c' \<and> (\<forall>h. r = Ok h \<longrightarrow> h = booted_instance config i)"
proof (cases "instance_by_id config i")
  case None
  then show ?thesis
    using assms by (auto simp: instantiate_from_config_def op_then_eq_Some op_result_def op_pure_def)
next
  case (Some n)
  then have "ic_id n = i"
    using instance_by_id_Some by blast
  then show ?thesis
    using assms Some
    by (auto simp: instantiate_from_config_def op_then_eq_Some op_result_def op_pure_def op_panic_def split: option.splits
        dest!: agent_keys_same spawn_instance_Ok)
qed


lemma spawn_instance_ready:
  assumes "consistent config" and "n \<in> set (cfg_instances config)" and "instance_ready E config n"
    and "cd_config c = config" and "agent_by_id config (ic_agent n) = Some a"
    and "\<forall>b\<in>set (bridge_dependencies config (ic_id n)). cd_instances c (callee_id b) \<noteq> None"
  shows "spawn_instance E (ic_id n) config n a c = Some (Ok (booted_instance config (ic_id n)), c)"
proof -
  have "\<forall>b\<in>set (bridge_dependencies config (ic_id n)). instance_by_id config (callee_id b) \<noteq> None"
    using assms(1) by (auto simp: consistent_def references_resolve_def bridge_dependencies_def dest!: instance_by_id_exists)
  with assms(6) have "build_bridges config c (ic_id n) = Some (hc_bridges (booted_instance config (ic_id n)))"
    by (auto simp: build_bridges_def booted_instance_def Let_def)
  moreover obtain d where "dna_by_id config (ic_dna n) = Some d"
    using assms(1,2) by (cases "dna_by_id config (ic_dna n)")
      (auto simp: consistent_def references_resolve_def dna_by_id_def find_by_id_None)
  ultimately show ?thesis
    using assms(3-5)
    by (auto simp: spawn_instance_def instance_ready_def agent_ready_def and_then_def booted_instance_def split: sum.splits if_splits)
qed

lemma instantiate_ready:
  assumes ts: "sorts_topologically (env_toposort E)" and ok: "consistent config" and rdy: "boot_ready E config"
    and i: "i \<in> set (instance_ids config)" and c: "cd_config c = config"
    and callees: "\<forall>b\<in>set (bridge_dependencies config i). cd_instances c (callee_id b) \<noteq> None"
  shows "\<exists>c'. instantiate_from_config E i config c = Some (Ok (booted_instance config i), c') \<and> same_instances c c'"
proof -
  obtain n where n: "instance_by_id config i = Some n"
    using instance_by_id_exists [OF i] by blast
  note n' = instance_by_id_Some [OF n]
  then have ready: "instance_ready E config n"
    using rdy by (simp add: boot_ready_def list_all_iff)
  obtain a where a: "agent_by_id config (ic_agent n) = Some a"
    using ok n' by (cases "agent_by_id config (ic_agent n)")
      (auto simp: consistent_def references_resolve_def agent_by_id_def find_by_id_None)
  have "agent_ready E config a"
    using ready a by (simp add: instance_ready_def)
  then obtain c1 where keys: "agent_keys_ready E a (ic_agent n) c = Some (Ok (), c1)" and same: "same_instances c c1"
    using agent_keys_ready_ok [of c "ic_agent n" a E] a c by auto
  have "spawn_instance E (ic_id n) config n a c1 = Some (Ok (booted_instance config (ic_id n)), c1)"
    using same c callees n' ready a by (intro spawn_instance_ready [OF ok]) (simp_all add: same_instances_def)
  moreover have "check_consistency (env_toposort E) config = Some (Ok ())"
    using check_consistency_Ok [OF ts] ok by simp
  moreover have "open_storage E (ic_storage n) = Ok ()"
    using ready by (simp add: instance_ready_def)
  ultimately show ?thesis
    using n n' a keys same by (simp add: instantiate_from_config_def op_defs)
qed

section \<open>All instances\<close>

definition with_booted :: "Configuration \<Rightarrow> string list \<Rightarrow> Conductor \<Rightarrow> string \<Rightarrow> Holochain option" where
  "with_booted config is c i = (if i \<in> set is then Some (booted_instance config i) else cd_instances c i)"

lemma boot_instances_Ok:
  assumes "boot_instances E config is c = Some (Ok (), c')"
  shows "cd_config c' = cd_config c \<and> cd_instances c' = with_booted config is c"
  using assms
proof (induction "is" arbitrary: c)
  case Nil
  then show ?case
    by (auto simp: op_result_def with_booted_def)
next
  case (Cons i "is")
  then obtain h c1 where h: "instantiate_from_config E i config c = Some (Ok h, c1)"
    and rest: "boot_instances E config is (c1\<lparr>cd_instances := (cd_instances c1)(i \<mapsto> h)\<rparr>) = Some (Ok (), c')"
    by (auto simp: op_then_eq_Some op_map_err_def map_err_eq_Ok)
  show ?case
    using Cons.IH [OF rest] instantiate_Ok [OF h] by (auto simp: same_instances_def with_booted_def)
qed

lemma boot_instances_ready:
  assumes ts: "sorts_topologically (env_toposort E)" and ok: "consistent config" and rdy: "boot_ready E config"
    and "set is \<subseteq> set (instance_ids config)" and "cd_config c = config"
    and "\<forall>b\<in>set (cfg_bridges config). caller_id b \<in> set is \<longrightarrow>
           cd_instances c (callee_id b) \<noteq> None \<or> (\<exists>xs ys zs. is = xs @ callee_id b # ys @ caller_id b # zs)"
    and "distinct is"
  shows "\<exists>c'. boot_instances E config is c = Some (Ok (), c')"
  using assms(4-)
proof (induction "is" arbitrary: c)
  case Nil
  then show ?case
    by (simp add: op_result_def)
next
  case (Cons i "is")
  have "\<forall>b\<in>set (bridge_dependencies config i). cd_instances c (callee_id b) \<noteq> None"
  proof
    fix b
    assume b: "b \<in> set (bridge_dependencies config i)"
    have "\<not> (\<exists>xs ys zs. i # is = xs @ callee_id b # ys @ caller_id b # zs)"
      using Cons.prems(4) b by (auto simp: bridge_dependencies_def Cons_eq_append_conv)
    moreover have "b \<in> set (cfg_bridges config)" "caller_id b \<in> set (i # is)"
      using b by (simp_all add: bridge_dependencies_def)
    ultimately show "cd_instances c (callee_id b) \<noteq> None"
      using Cons.prems(3) by blast
  qed
  then obtain c1 where c1: "instantiate_from_config E i config c = Some (Ok (booted_instance config i), c1)" "same_instances c c1"
    using instantiate_ready [OF ts ok rdy, of i c] Cons.prems(1,2) by auto
  let ?c2 = "c1\<lparr>cd_instances := (cd_instances c1)(i \<mapsto> booted_instance config i)\<rparr>"
  have "\<exists>c'. boot_instances E config is ?c2 = Some (Ok (), c')"
  proof (rule Cons.IH)
    show "\<forall>b\<in>set (cfg_bridges config). caller_id b \<in> set is \<longrightarrow>
           cd_instances ?c2 (callee_id b) \<noteq> None \<or> (\<exists>xs ys zs. is = xs @ callee_id b # ys @ caller_id b # zs)"
      using Cons.prems(3) c1(2) by (simp add: same_instances_def Cons_eq_append_conv) blast
  qed (use Cons.prems c1(2) in \<open>simp_all add: same_instances_def\<close>)
  then show ?case
    using c1(1) by (auto simp: op_defs op_map_err_def)
qed

lemma boot_ui_interfaces_ok:
  assumes "\<forall>u\<in>set us. uic_bundle u \<in> ub_id ` set (cfg_ui_bundles config)
          \<and> (\<forall>d. uic_dna_interface u = Some d \<longrightarrow> d \<in> ifc_id ` set (cfg_interfaces config))"
  shows "\<exists>c'. boot_ui_interfaces config us c = Some (Ok (), c') \<and> same_instances c c'"
  using assms
proof (induction us arbitrary: c)
  case Nil
  then show ?case
    by (simp add: op_result_def)
next
  case (Cons u us)
  then obtain b where b: "ui_bundle_by_id config (uic_bundle u) = Some b"
    by (cases "ui_bundle_by_id config (uic_bundle u)") (auto simp: ui_bundle_by_id_def find_by_id_None)
  have "\<not> (\<exists>d. uic_dna_interface u = Some d \<and> interface_by_id config d = None)"
    using Cons.prems by (auto simp: interface_by_id_def find_by_id_None)
  moreover obtain c' where "boot_ui_interfaces config us (c\<lparr>cd_static_servers := (cd_static_servers c)(uic_id u \<mapsto>
      static_server_from_configs u b (Option.bind (uic_dna_interface u) (interface_by_id config)))\<rparr>) = Some (Ok (), c')"
      "cd_config c' = cd_config c" "cd_instances c' = cd_instances c"
    using Cons.IH [of "c\<lparr>cd_static_servers := (cd_static_servers c)(uic_id u \<mapsto>
      static_server_from_configs u b (Option.bind (uic_dna_interface u) (interface_by_id config)))\<rparr>"] Cons.prems
    by (auto simp: same_instances_def)
  ultimately show ?case
    using b by (simp add: same_instances_def)
qed


section \<open>The boot\<close>

lemma boot_before_dpki:
  assumes ts: "sorts_topologically (env_toposort E)" and ok: "consistent (cd_config c)" and rdy: "boot_ready E (cd_config c)"
  shows "\<exists>c1. boot_from_config E c = op_map_err error_display (dpki_bootstrap E) c1
    \<and> cd_config c1 = cd_config c
    \<and> cd_instances c1 = (\<lambda>i. if i \<in> set (instance_ids (cd_config c)) then Some (booted_instance (cd_config c) i) else None)"
proof -
  let ?config = "cd_config c" and ?c0 = "start_signal_multiplexer (shutdown c)"
  have res: "references_resolve ?config"
    using ok by (simp add: consistent_def)
  obtain ids where ids: "instance_ids_sorted_by_bridge_dependencies (env_toposort E) ?config = Some (Ok ids)"
    and dist: "distinct ids" and set: "set ids = set (instance_ids ?config)"
    and order: "\<forall>b\<in>set (cfg_bridges ?config). \<exists>xs ys zs. ids = xs @ callee_id b # ys @ caller_id b # zs"
    using instances_sorted [OF ts res] ok by (auto simp: consistent_def)
  have c0: "cd_config ?c0 = ?config" "cd_instances ?c0 = Map.empty"
    by (simp_all add: start_signal_multiplexer_def shutdown_def stop_all_instances_def)
  obtain c1 where c1: "boot_instances E ?config ids ?c0 = Some (Ok (), c1)"
    using boot_instances_ready [OF ts ok rdy, of ids ?c0] c0 dist set order by auto
  note c1' = boot_instances_Ok [OF c1]
  obtain c2 where c2: "boot_ui_interfaces ?config (cfg_ui_interfaces ?config) c1 = Some (Ok (), c2)" "same_instances c1 c2"
    using boot_ui_interfaces_ok [of "cfg_ui_interfaces ?config" ?config c1] res by (auto simp: references_resolve_def)
  have "check_consistency (env_toposort E) ?config = Some (Ok ())"
    using check_consistency_Ok [OF ts] ok by simp
  then have "boot_from_config E c = op_map_err error_display (dpki_bootstrap E) c2"
    using ids c1 c2(1) by (simp add: boot_from_config_def op_defs Let_def)
  then show ?thesis
    using c1' c2(2) c0 set by (intro exI [of _ c2]) (auto simp: same_instances_def with_booted_def)
qed

lemma boot_Ok:
  assumes ts: "sorts_topologically (env_toposort E)" and "boot_from_config E c = Some (Ok (), c')"
  shows "conductor_inv c' \<and> cd_config c' = cd_config c \<and> cfg_dpki (cd_config c') = None"
proof -
  let ?config = "cd_config c" and ?c0 = "start_signal_multiplexer (shutdown c)"
  have c0: "cd_config ?c0 = ?config" "cd_instances ?c0 = Map.empty"
    by (simp_all add: start_signal_multiplexer_def shutdown_def stop_all_instances_def)
  obtain ids c1 c2 where ok: "check_consistency (env_toposort E) ?config = Some (Ok ())"
    and ids: "instance_ids_sorted_by_bridge_dependencies (env_toposort E) ?config = Some (Ok ids)"
    and c1: "boot_instances E ?config ids ?c0 = Some (Ok (), c1)"
    and c2: "boot_ui_interfaces ?config (cfg_ui_interfaces ?config) c1 = Some (Ok (), c2)"
    and dpki: "dpki_bootstrap E c2 = Some (Ok (), c')"
    using assms(2) by (auto simp: boot_from_config_def op_then_eq_Some op_pure_def Let_def op_map_err_def map_err_eq_Ok)
  have con: "consistent ?config"
    using ok check_consistency_Ok [OF ts] by simp
  then have set: "set ids = set (instance_ids ?config)"
    using instances_sorted [OF ts, of ?config] ids by (auto simp: consistent_def)
  have "same_instances c1 c2"
    using boot_ui_interfaces_ok [of "cfg_ui_interfaces ?config" ?config c1] con c2
    by (auto simp: consistent_def references_resolve_def)
  with boot_instances_Ok [OF c1] c0 set have c2': "cd_config c2 = ?config"
    "\<forall>i\<in>set (instance_ids ?config). cd_instances c2 i = Some (booted_instance ?config i)"
    by (simp_all add: same_instances_def with_booted_def)
  have none: "cfg_dpki ?config = None"
  proof (rule ccontr)
    assume "cfg_dpki ?config \<noteq> None"
    then obtain d where d: "cfg_dpki ?config = Some d"
      by blast
    with con have "dpki_instance_id d \<in> set (instance_ids ?config)"
      by (simp add: consistent_def references_resolve_def)
    with d c2' dpki show False
      by (auto simp: dpki_bootstrap_def dpki_zome_call_def booted_instance_def split: if_splits)
  qed
  then have "c' = c2"
    using dpki c2' by (simp add: dpki_bootstrap_def)
  with c2' con none show ?thesis
    by (auto simp: conductor_inv_def)
qed

section \<open>A conductor under administration\<close>




lemma remove_ui_interface_bundles:
  assumes ts: "sorts_topologically (env_toposort E)" and "remove_ui_interface E i c = Some (r, c')"
  shows "cfg_ui_bundles (cd_config c') = cfg_ui_bundles (cd_config c)"
proof -
  consider c1 where "same_shape c c1" "adopt_config E ((cd_config c1)\<lparr>cfg_ui_interfaces := filter (\<lambda>u. uic_id u \<noteq> i) (cfg_ui_interfaces (cd_config c1))\<rparr>) c1 = Some (r, c')"
    | c1 q c2 where "same_shape c c1" "adopt_config E ((cd_config c1)\<lparr>cfg_ui_interfaces := filter (\<lambda>u. uic_id u \<noteq> i) (cfg_ui_interfaces (cd_config c1))\<rparr>) c1 = Some (q, c2)"
        "cd_config c' = cd_config c2"
    | "same_shape c c'"
    using assms(2) unfolding remove_ui_interface_def
    by (auto simp: op_then_eq_Some dest!: calmD [OF calm_stop_ui_interfaces] split: option.splits)
  then show ?thesis
    by cases (auto simp: same_shape_def dest!: adopt_config_cases [OF ts])
qed

lemma remove_ui_interfaces_bundles:
  assumes "sorts_topologically (env_toposort E)" and "remove_ui_interfaces E is c = Some (r, c')"
  shows "cfg_ui_bundles (cd_config c') = cfg_ui_bundles (cd_config c)"
  using assms(2)
proof (induction "is" arbitrary: c)
  case (Cons i "is")
  from Cons.prems consider u c1 where "remove_ui_interface E i c = Some (Ok u, c1)" "remove_ui_interfaces E is c1 = Some (r, c')"
    | e where "remove_ui_interface E i c = Some (Err e, c')"
    by (auto simp: op_then_eq_Some)
  then show ?case
    by cases (use Cons.IH remove_ui_interface_bundles [OF assms(1)] in \<open>metis\<close>)+
qed (simp add: op_result_def)

lemma uninstall_used_bundle:
  assumes ts: "sorts_topologically (env_toposort E)" and u: "u \<in> set (cfg_ui_interfaces (cd_config c))" "uic_bundle u = i"
    and step: "uninstall_ui_bundle E i c = Some (r, c')"
  shows "\<not> is_ok r \<and> cfg_ui_bundles (cd_config c') = cfg_ui_bundles (cd_config c)"
proof -
  let ?nc = "(cd_config c)\<lparr>cfg_ui_bundles := filter (\<lambda>b. ub_id b \<noteq> i) (cfg_ui_bundles (cd_config c))\<rparr>"
  have "\<not> consistent ?nc"
  proof
    assume "consistent ?nc"
    then have "\<forall>v\<in>set (cfg_ui_interfaces (cd_config c)). uic_bundle v \<in> ub_id ` set (cfg_ui_bundles ?nc)"
      by (simp add: consistent_def references_resolve_def)
    with u show False
      by auto
  qed
  then obtain e where e: "check_consistency (env_toposort E) ?nc = Some (Err e)"
    using check_consistency_total [OF ts, of ?nc] by (metis sumE old.unit.exhaust)
  have bad: "adopt_config E ?nc c1 = Some (Err (ErrorGeneric e), c1)" for c1
    using e by (simp add: adopt_config_def op_defs)
  show ?thesis
    using step unfolding uninstall_ui_bundle_eq
    by (auto simp: op_then_eq_Some bad split: if_splits dest: remove_ui_interfaces_bundles [OF ts])
qed


section \<open>A sample conductor\<close>

definition sample_env :: conductor_env where
  "sample_env = \<lparr>env_toposort = kahn_toposort, env_ext = table_ext [] [], dna_json = (\<lambda>_. ''dna''), dna_loader = (\<lambda>_. Ok default_dna),
     merge_properties = (\<lambda>_ q. q), key_loader = (\<lambda>_. Ok (Ok ''HcS'')), create_dir_all = (\<lambda>_. Ok ()), create_file = (\<lambda>_. Ok ()),
     config_toml = (\<lambda>_. Ok ''toml''), write_file = (\<lambda>_. True), write_dna = (\<lambda>_. Ok ()), open_storage = (\<lambda>_. Ok ()),
     load_or_new = (\<lambda>_ _. Ok ()), run_interface = (\<lambda>_. True), kill_interface = (\<lambda>_. Ok ()), stop_server = (\<lambda>_. Ok ()),
     ui_dir_copier = (\<lambda>_ _. Ok ()), new_keystore = Ok (), new_standalone_keystore = Ok ''HcS'', save_keystore = (\<lambda>_. Ok ()),
     dpki_keybundle = (\<lambda>_. Ok ''HcS''), sign_cap_request = (\<lambda>_. True), dpki_call = (\<lambda>_ _. Ok ''true''),
     bool_from_json = (\<lambda>_. Ok True)\<rparr>"

lemma sample_env_sorts: "sorts_topologically (env_toposort sample_env)"
  by (simp add: sample_env_def kahn_toposort_sorts)

lemma sample_boot_ready:
  "cfg_instances config = cfg_instances sample_config \<Longrightarrow> cfg_agents config = cfg_agents sample_config \<Longrightarrow> boot_ready sample_env config"
  by (simp add: boot_ready_def instance_ready_def agent_ready_def sample_env_def sample_config_def sample_instance_def agent_by_id_def
      split: option.split)

definition sample_conductor :: Conductor where
  "sample_conductor = conductor_from_config sample_config"

lemma sample_saves: "save_config sample_env c = Some (Ok (), c\<lparr>cd_saved := Some (cd_config c)\<rparr>)"
  by (simp add: save_config_def sample_env_def)








text \<open>
  C35: A conductor whose configuration has a DPKI section never boots: the bootstrap of the DPKI
  application calls its instance while every instance is still stopped. When everything else works
  the boot ends with the error that the instance is not active.
\<close>

theorem boot_with_dpki_fails:
  assumes "sorts_topologically (env_toposort E)" and "cfg_dpki (cd_config c) = Some d"
  shows "boot_from_config E c \<noteq> Some (Ok (), c')
    \<and> (consistent (cd_config c) \<and> boot_ready E (cd_config c) \<and> sign_cap_request E ''is_initialized''
        \<longrightarrow> (\<exists>c1. boot_from_config E c = Some (Err (error_display (from_instance_error InstanceNotActiveYet)), c1)))"
proof
  show "boot_from_config E c \<noteq> Some (Ok (), c')"
    using boot_Ok [OF assms(1), of c c'] assms(2) by auto
  have "\<exists>c1. boot_from_config E c = Some (Err (error_display (from_instance_error InstanceNotActiveYet)), c1)"
    if con: "consistent (cd_config c)" and rdy: "boot_ready E (cd_config c)" and sign: "sign_cap_request E ''is_initialized''"
  proof -
    have "dpki_instance_id d \<in> set (instance_ids (cd_config c))"
      using con assms(2) by (simp add: consistent_def references_resolve_def)
    then show ?thesis
      using boot_before_dpki [OF assms(1) con rdy] assms(2) sign
      by (auto simp: op_map_err_def dpki_bootstrap_def dpki_zome_call_def booted_instance_def)
  qed
  then show "consistent (cd_config c) \<and> boot_ready E (cd_config c) \<and> sign_cap_request E ''is_initialized''
        \<longrightarrow> (\<exists>c1. boot_from_config E c = Some (Err (error_display (from_instance_error InstanceNotActiveYet)), c1))"
    by blast
qed

definition sample_dpki_config :: Configuration where
  "sample_dpki_config = sample_config\<lparr>cfg_dpki := Some \<lparr>dpki_instance_id = ''vault'', dpki_init_params = ''''\<rparr>\<rparr>"

lemma sample_dpki_config_consistent: "consistent sample_dpki_config"
  using sample_config_consistent unfolding consistent_def references_resolve_def sample_dpki_config_def
  by (simp add: bridge_relation_def instance_ids_def) (simp add: sample_config_def sample_instance_def)

theorem boot_with_dpki_fails_witness:
  "\<exists>c1. boot_from_config sample_env (conductor_from_config sample_dpki_config)
     = Some (Err (error_display (from_instance_error InstanceNotActiveYet)), c1)"
proof -
  have "boot_ready sample_env sample_dpki_config"
    by (rule sample_boot_ready) (simp_all add: sample_dpki_config_def)
  then show ?thesis
    using boot_with_dpki_fails [OF sample_env_sorts, of "conductor_from_config sample_dpki_config"] sample_dpki_config_consistent
    by (simp add: conductor_from_config_def sample_env_def) (simp add: sample_dpki_config_def)
qed

text \<open>
  Removing a UI bundle that an interface uses never succeeds, although the interfaces are stopped
  and removed on the way: the bundle stays, because the configuration that is checked at the end was
  taken before the interfaces were removed.
\<close>

theorem uninstall_ui_bundle_in_use:
  assumes "sorts_topologically (env_toposort E)" and "u \<in> set (cfg_ui_interfaces (cd_config c))" and "uic_bundle u = i"
    and "uninstall_ui_bundle E i c = Some (r, c')"
  shows "\<not> is_ok r \<and> cfg_ui_bundles (cd_config c') = cfg_ui_bundles (cd_config c)"
  by (rule uninstall_used_bundle [OF assms])

definition sample_ui_conductor :: Conductor where
  "sample_ui_conductor = sample_conductor\<lparr>cd_static_servers := [''ui'' \<mapsto>
     static_server_start (static_server_from_configs (hd (cfg_ui_interfaces sample_config)) (hd (cfg_ui_bundles sample_config)) None)]\<rparr>"

lemma sample_remove_ui:
  "\<exists>c'. remove_ui_interface sample_env ''ui'' sample_ui_conductor = Some (Ok (), c') \<and> cfg_ui_interfaces (cd_config c') = []"
proof -
  let ?nc = "sample_config\<lparr>cfg_ui_interfaces := []\<rparr>"
  have "consistent ?nc"
    using sample_config_consistent unfolding consistent_def references_resolve_def
    by (simp add: bridge_relation_def instance_ids_def)
  then have adopt: "adopt_config sample_env ?nc c = Some (Ok (), c\<lparr>cd_config := ?nc, cd_saved := Some ?nc\<rparr>)" for c
    using check_consistency_Ok [OF sample_env_sorts, of ?nc] by (simp add: adopt_config_def op_defs sample_saves)
  have ui: "filter (\<lambda>u. uic_id u \<noteq> ''ui'') (cfg_ui_interfaces sample_config) = []"
    "map uic_id (filter (\<lambda>u. uic_id u = ''ui'') (cfg_ui_interfaces sample_config)) = [''ui'']"
    by (simp_all add: sample_config_def)
  have stop: "static_server_stop sample_env (static_server_start s) = Ok (s\<lparr>ss_running := False, ss_shutdown_signal := False\<rparr>)" for s
    by (simp add: static_server_stop_def static_server_start_def sample_env_def)
  show ?thesis
    by (simp add: remove_ui_interface_def sample_ui_conductor_def sample_conductor_def conductor_from_config_def ui op_defs
        op_ignore_def stop_ui_interface_def stop adopt)
qed

end
