(* ===== verification/Regex_Match.thy ===== *)
theory Regex_Match
  imports HC_Prelude
begin

text \<open>
  Matching of regular expressions with captures the way the crate \<open>regex\<close> documents it for the
  patterns of this repository: alternatives are tried from left to right, repetitions are greedy, and
  the first way to match the whole text decides the captures. Repetitions are over single characters,
  which is all the patterns use. The soundness and completeness lemmas relate the matcher to the
  language of a pattern.
\<close>

section \<open>Patterns\<close>

type_synonym captures = "string \<Rightarrow> string option"

datatype regex =
    Eps
  | Lit "char \<Rightarrow> bool"
  | Many "char \<Rightarrow> bool"
  | Seq regex regex
  | Alt regex regex
  | Cap string regex

definition Opt :: "regex \<Rightarrow> regex" where
  "Opt r = Alt r Eps"

definition Many1 :: "(char \<Rightarrow> bool) \<Rightarrow> regex" where
  "Many1 p = Seq (Lit p) (Many p)"

fun seqs :: "regex list \<Rightarrow> regex" where
  "seqs [] = Eps"
| "seqs [r] = r"
| "seqs (r # rs) = Seq r (seqs rs)"

fun alts :: "regex list \<Rightarrow> regex" where
  "alts [] = Lit (\<lambda>_. False)"
| "alts [r] = r"
| "alts (r # rs) = Alt r (alts rs)"

text \<open>A text that is compared as it is, and one compared without regard to case.\<close>

definition exactly :: "string \<Rightarrow> regex" where
  "exactly s = seqs (map (\<lambda>c. Lit (\<lambda>x. x = c)) s)"

definition ci :: "char \<Rightarrow> char \<Rightarrow> bool" where
  "ci c x \<longleftrightarrow> x = c \<or> (97 \<le> (of_char c :: nat) \<and> of_char c \<le> (122 :: nat) \<and> of_char x + 32 = (of_char c :: nat))"

definition caseless :: "string \<Rightarrow> regex" where
  "caseless s = seqs (map (\<lambda>c. Lit (ci c)) s)"

definition is_digit :: "char \<Rightarrow> bool" where
  "is_digit x \<longleftrightarrow> 48 \<le> (of_char x :: nat) \<and> of_char x \<le> (57 :: nat)"

definition is_space :: "char \<Rightarrow> bool" where
  "is_space x \<longleftrightarrow> (of_char x :: nat) \<in> {9, 10, 11, 12, 13, 32}"

definition in_range :: "char \<Rightarrow> char \<Rightarrow> char \<Rightarrow> bool" where
  "in_range a b x \<longleftrightarrow> (of_char a :: nat) \<le> of_char x \<and> (of_char x :: nat) \<le> of_char b"

section \<open>Matching\<close>

fun many :: "(char \<Rightarrow> bool) \<Rightarrow> string \<Rightarrow> (string \<Rightarrow> 'r option) \<Rightarrow> 'r option" where
  "many p [] k = k []"
| "many p (x # xs) k = (if p x then (case many p xs k of None \<Rightarrow> k (x # xs) | Some r \<Rightarrow> Some r) else k (x # xs))"

primrec re_match :: "regex \<Rightarrow> string \<Rightarrow> captures \<Rightarrow> (string \<Rightarrow> captures \<Rightarrow> 'r option) \<Rightarrow> 'r option" where
  "re_match Eps s caps k = k s caps"
| "re_match (Lit p) s caps k = (case s of [] \<Rightarrow> None | x # xs \<Rightarrow> if p x then k xs caps else None)"
| "re_match (Many p) s caps k = many p s (\<lambda>s. k s caps)"
| "re_match (Seq r1 r2) s caps k = re_match r1 s caps (\<lambda>s caps. re_match r2 s caps k)"
| "re_match (Alt r1 r2) s caps k = (case re_match r1 s caps k of None \<Rightarrow> re_match r2 s caps k | Some r \<Rightarrow> Some r)"
| "re_match (Cap name r) s caps k =
     re_match r s caps (\<lambda>s' caps. k s' (caps(name \<mapsto> take (length s - length s') s)))"

text \<open>All patterns are anchored at both ends.\<close>

definition re_end :: "string \<Rightarrow> captures \<Rightarrow> captures option" where
  "re_end s caps = (if s = [] then Some caps else None)"

definition re_captures :: "regex \<Rightarrow> string \<Rightarrow> captures option" where
  "re_captures r s = re_match r s Map.empty re_end"

section \<open>The matcher and the language of a pattern\<close>

inductive matches :: "regex \<Rightarrow> string \<Rightarrow> bool" where
  matches_Eps: "matches Eps []"
| matches_Lit: "p x \<Longrightarrow> matches (Lit p) [x]"
| matches_Many: "list_all p xs \<Longrightarrow> matches (Many p) xs"
| matches_Seq: "matches r1 xs \<Longrightarrow> matches r2 ys \<Longrightarrow> matches (Seq r1 r2) (xs @ ys)"
| matches_Alt1: "matches r1 xs \<Longrightarrow> matches (Alt r1 r2) xs"
| matches_Alt2: "matches r2 xs \<Longrightarrow> matches (Alt r1 r2) xs"
| matches_Cap: "matches r xs \<Longrightarrow> matches (Cap name r) xs"

lemma many_Some:
  assumes "many p s k = Some y"
  shows "\<exists>xs s'. s = xs @ s' \<and> list_all p xs \<and> k s' = Some y"
  using assms
proof (induction s)
  case (Cons x s)
  show ?case
  proof (cases "p x \<and> many p s k = Some y")
    case True
    then obtain xs s' where "s = xs @ s'" "list_all p xs" "k s' = Some y"
      using Cons.IH by blast
    with True show ?thesis
      by (intro exI [of _ "x # xs"] exI [of _ s']) simp
  next
    case False
    with Cons.prems have "k (x # s) = Some y"
      by (auto split: if_splits option.splits)
    then show ?thesis
      by (intro exI [of _ "[]"] exI [of _ "x # s"]) simp
  qed
qed simp

lemma many_not_None: "list_all p xs \<Longrightarrow> k s \<noteq> None \<Longrightarrow> many p (xs @ s) k \<noteq> None"
  by (induction xs) (cases s, auto split: option.splits)

lemma re_match_sound:
  "re_match r s caps k = Some y \<Longrightarrow> \<exists>xs s' caps'. s = xs @ s' \<and> matches r xs \<and> k s' caps' = Some y"
proof (induction r arbitrary: s caps k)
  case (Lit p)
  then obtain x xs where "s = [x] @ xs" "p x" "k xs caps = Some y"
    by (cases s) (auto split: if_splits)
  then show ?case
    using matches_Lit by blast
next
  case (Many p)
  then show ?case
    using many_Some [of p s "\<lambda>s. k s caps" y] by (auto intro: matches_Many)
next
  case (Seq r1 r2)
  from Seq.prems obtain xs s1 caps1 where "s = xs @ s1" "matches r1 xs" "re_match r2 s1 caps1 k = Some y"
    using Seq.IH(1) [of s caps "\<lambda>s caps. re_match r2 s caps k"] by auto
  moreover from this(3) obtain ys s2 caps2 where "s1 = ys @ s2" "matches r2 ys" "k s2 caps2 = Some y"
    using Seq.IH(2) by blast
  ultimately show ?case
    by (intro exI [of _ "xs @ ys"] exI [of _ s2] exI [of _ caps2]) (simp add: matches_Seq)
next
  case (Alt r1 r2)
  then show ?case
    by (cases "re_match r1 s caps k") (fastforce intro: matches_Alt1 matches_Alt2)+
next
  case (Cap name r)
  then show ?case
    by (fastforce intro: matches_Cap)
qed (auto intro: matches_Eps)

lemma re_match_complete:
  "matches r xs \<Longrightarrow> (\<And>caps. k s caps \<noteq> None) \<Longrightarrow> re_match r (xs @ s) caps k \<noteq> None"
proof (induction arbitrary: s caps k rule: matches.induct)
  case (matches_Many p xs)
  then show ?case
    using many_not_None [of p xs "\<lambda>s. k s caps" s] by simp
next
  case (matches_Alt1 r1 xs r2)
  then have "re_match r1 (xs @ s) caps k \<noteq> None"
    by blast
  then show ?case
    by auto
qed (auto split: option.splits)

lemma re_captures_iff: "re_captures r s \<noteq> None \<longleftrightarrow> matches r s"
proof
  assume "re_captures r s \<noteq> None"
  then obtain y where "re_match r s Map.empty re_end = Some y"
    by (auto simp: re_captures_def)
  then show "matches r s"
    by (auto dest!: re_match_sound simp: re_end_def split: if_splits)
next
  assume "matches r s"
  then show "re_captures r s \<noteq> None"
    using re_match_complete [of r s re_end "[]" Map.empty] by (simp add: re_captures_def re_end_def)
qed

end
