(* ===== verification/Time_Types.thy ===== *)
theory Time_Types
  imports Core_Errors Regex_Match
begin

text \<open>
  Periods, timeouts and timestamps of \<open>core_types/src/time.rs\<close>: the two regular expressions, the
  readers and printers built on them, and the conversions between the types at their integer widths.
  A text is a list of ASCII characters, with the three forms of the letter mu as their UTF-8 bytes;
  the other letters that Unicode folds to ASCII ones and its other digits and blanks are left out.
  An overflow of checked arithmetic is a panic, the value \<open>None\<close>. \<open>chrono\<close> is a parameter.
\<close>

section \<open>Durations, timeouts and periods\<close>

text \<open>\<open>std::time::Duration\<close>: seconds and less than a thousand million nanoseconds.\<close>

record Duration =
  as_secs :: u64
  subsec_nanos :: u32

definition duration_valid :: "Duration \<Rightarrow> bool" where
  "duration_valid d \<longleftrightarrow> unat (subsec_nanos d) < 1000000000"

type_synonym 'w Timeout = "'w word"

datatype Period = Period (period_duration: Duration)

definition timeout_default :: "'w::len Timeout" where
  "timeout_default = 60000"

definition duration_from_millis :: "u64 \<Rightarrow> Duration" where
  "duration_from_millis ms = \<lparr>as_secs = ms div 1000, subsec_nanos = ucast (ms mod 1000) * 1000000\<rparr>"

definition duration_of_timeout :: "'w::len Timeout \<Rightarrow> Duration" where
  "duration_of_timeout t = duration_from_millis (ucast t)"

text \<open>The width of \<open>usize\<close> is the type parameter.\<close>

definition subsec_millis :: "Duration \<Rightarrow> u32" where
  "subsec_millis d = subsec_nanos d div 1000000"

definition timeout_of_period :: "Period \<Rightarrow> 'w::len Timeout" where
  "timeout_of_period p =
     (let d = period_duration p; secs = ucast (as_secs d) :: 'w word in
      (if (- 1) div 1000 \<le> secs then - 1 else secs * 1000 + ucast (subsec_millis d)))"

section \<open>Printing a period\<close>

definition YR :: nat where "YR = 31557600"
definition WK :: nat where "WK = 604800"
definition DY :: nat where "DY = 86400"
definition HR :: nat where "HR = 3600"
definition MN :: nat where "MN = 60"

definition unit_text :: "nat \<Rightarrow> string \<Rightarrow> string" where
  "unit_text n u = (if n > 0 then show_nat n @ u else [])"

definition pad_left :: "nat \<Rightarrow> string \<Rightarrow> string" where
  "pad_left w s = replicate (w - length s) CHR ''0'' @ s"

definition trim_zeros :: "string \<Rightarrow> string" where
  "trim_zeros s = rev (dropWhile (\<lambda>c. c = CHR ''0'') (rev s))"

text \<open>The last part of the text: \<open>s\<close> seconds, \<open>nsecs\<close> nanoseconds, of \<open>secs\<close> seconds in all.\<close>

definition seconds_text :: "nat \<Rightarrow> nat \<Rightarrow> nat \<Rightarrow> string" where
  "seconds_text secs s nsecs =
     (let is_ns = nsecs mod 1000 > 0;
          is_us = nsecs div 1000 mod 1000 > 0;
          is_ms = nsecs div 1000000 > 0 in
      if is_ms \<and> (s > 0 \<or> is_ns)
      then show_nat s @ ''.'' @ trim_zeros (pad_left 9 (show_nat nsecs)) @ ''s''
      else if nsecs > 0 \<or> s > 0
      then unit_text s ''s'' @
        (if is_ns then show_nat nsecs @ ''ns''
         else if is_us then show_nat (nsecs div 1000) @ ''us''
         else if is_ms then show_nat (nsecs div 1000000) @ ''ms''
         else [])
      else if nsecs = 0 \<and> secs = 0 then ''0s''
      else [])"

definition period_display :: "Period \<Rightarrow> string" where
  "period_display p =
     (let secs = unat (as_secs (period_duration p)); nsecs = unat (subsec_nanos (period_duration p));
          y_secs = secs mod YR; w_secs = y_secs mod WK; d_secs = w_secs mod DY; h_secs = d_secs mod HR in
      unit_text (secs div YR) ''y'' @ unit_text (y_secs div WK) ''w'' @ unit_text (w_secs div DY) ''d''
      @ unit_text (d_secs div HR) ''h'' @ unit_text (h_secs div MN) ''m'' @ seconds_text secs (h_secs mod MN) nsecs)"

definition period_debug :: "Period \<Rightarrow> string" where
  "period_debug p = ''Period('' @ period_display p @ '')''"

section \<open>Reading a period\<close>

definition digits :: "string \<Rightarrow> regex" where
  "digits name = Cap name (Many1 is_digit)"

definition blanks :: regex where
  "blanks = Many is_space"

text \<open>A number with its unit: \<open>(?:\s*(?P<name>\d+)\s*unit)?\<close>\<close>

definition quantity :: "string \<Rightarrow> regex \<Rightarrow> regex" where
  "quantity name u = Opt (Seq blanks (Seq (digits name) (Seq blanks u)))"

definition plural :: "regex \<Rightarrow> regex" where
  "plural r = Seq r (Opt (caseless ''s''))"

definition year_unit :: regex where
  "year_unit = Seq (caseless ''y'') (Opt (Opt (plural (Seq (Opt (caseless ''ea'')) (caseless ''r'')))))"

definition week_unit :: regex where
  "week_unit = Seq (caseless ''w'') (Opt (Opt (plural (Seq (Opt (caseless ''ee'')) (caseless ''k'')))))"

definition day_unit :: regex where
  "day_unit = Seq (caseless ''d'') (Opt (Opt (plural (Seq (Opt (caseless ''a'')) (caseless ''y'')))))"

definition hour_unit :: regex where
  "hour_unit = Seq (caseless ''h'') (Opt (Opt (plural (Seq (Opt (caseless ''ou'')) (caseless ''r'')))))"

definition minute_unit :: regex where
  "minute_unit = Seq (caseless ''m'') (Opt (plural (Seq (caseless ''in'') (Opt (caseless ''ute'')))))"

definition second_unit :: regex where
  "second_unit = Seq (caseless ''s'') (Opt (plural (Seq (caseless ''ec'') (Opt (caseless ''ond'')))))"

definition mu :: regex where
  "mu = alts [exactly [CHR 0xCE, CHR 0xBC], exactly [CHR 0xCE, CHR 0x9C], exactly [CHR 0xC2, CHR 0xB5]]"

definition milli_unit :: regex where
  "milli_unit = Seq (alts [caseless ''m'', caseless ''milli'']) second_unit"

definition micro_unit :: regex where
  "micro_unit = Seq (alts [caseless ''u'', mu, caseless ''micro'']) second_unit"

definition nano_unit :: regex where
  "nano_unit = Seq (alts [caseless ''n'', caseless ''nano'']) second_unit"

definition fraction_part :: regex where
  "fraction_part = Opt (seqs [blanks, Opt (digits ''s_man''), Lit (\<lambda>c. c = CHR ''.'' \<or> c = CHR '',''), digits ''s_fra'', blanks, second_unit])"

definition whole_part :: regex where
  "whole_part = seqs [
     Opt (Seq (Opt (exactly '':'')) (Seq blanks (Seq (digits ''s'') (Seq blanks second_unit)))),
     quantity ''ms'' milli_unit, quantity ''us'' micro_unit, quantity ''ns'' nano_unit]"

definition period_re :: regex where
  "period_re = seqs [quantity ''y'' year_unit, quantity ''w'' week_unit, quantity ''d'' day_unit, quantity ''h'' hour_unit,
     quantity ''m'' minute_unit, Alt fraction_part whole_part, blanks]"

text \<open>\<open>str::parse::<u64>\<close> on a text of digits.\<close>

definition digits_value :: "string \<Rightarrow> nat" where
  "digits_value s = foldl (\<lambda>a c. 10 * a + (of_char c - 48)) 0 s"

definition parse_u64 :: "string \<Rightarrow> string + nat" where
  "parse_u64 s = (if digits_value s < 2 ^ 64 then Ok (digits_value s) else Err ''ParseIntError { kind: Overflow }'')"

text \<open>One summand: read the number, multiply it and add it to the sum so far.\<close>

definition checked :: "nat \<Rightarrow> nat option" where
  "checked n = (if n < 2 ^ 64 then Some n else None)"

definition add_term :: "string \<Rightarrow> string \<Rightarrow> nat \<Rightarrow> string \<Rightarrow> nat \<Rightarrow> nat HcResult option" where
  "add_term what period_str factor s acc =
     (case parse_u64 s of
        Err e \<Rightarrow> Some (Err (ErrorGeneric (''Invalid '' @ what @ '' in period '' @ str_debug period_str @ '': '' @ e)))
      | Ok n \<Rightarrow> Option.bind (checked (factor * n)) (\<lambda>t. map_option Ok (checked (acc + t))))"

fun add_terms :: "string \<Rightarrow> (string \<times> nat \<times> string) list \<Rightarrow> nat \<Rightarrow> nat HcResult option" where
  "add_terms period_str [] acc = Some (Ok acc)"
| "add_terms period_str ((what, factor, s) # ts) acc =
     (case add_term what period_str factor s acc of
        None \<Rightarrow> None
      | Some (Err e) \<Rightarrow> Some (Err e)
      | Some (Ok acc) \<Rightarrow> add_terms period_str ts acc)"

definition cap_or :: "string \<Rightarrow> string option \<Rightarrow> string" where
  "cap_or s c = (case c of None \<Rightarrow> s | Some t \<Rightarrow> t)"

text \<open>\<open>{:0<9.9}\<close>: cut or filled with zeros to nine characters.\<close>

definition fraction_digits :: "string \<Rightarrow> string" where
  "fraction_digits s = take 9 s @ replicate (9 - length s) CHR ''0''"

definition period_from_str :: "string \<Rightarrow> Period HcResult option" where
  "period_from_str period_str =
     (case re_captures period_re period_str of
        None \<Rightarrow> Some (Err (ErrorGeneric (''Failed to find Period specification in '' @ str_debug period_str)))
      | Some cap \<Rightarrow>
          (case add_terms period_str
              [(''year(s)'', YR, cap_or ''0'' (cap ''y'')), (''week(s)'', WK, cap_or ''0'' (cap ''w'')),
               (''days(s)'', DY, cap_or ''0'' (cap ''d'')), (''hour(s)'', HR, cap_or ''0'' (cap ''h'')),
               (''minute(s)'', MN, cap_or ''0'' (cap ''m'')), (''seconds'', 1, cap_or (cap_or ''0'' (cap ''s_man'')) (cap ''s''))] 0 of
             None \<Rightarrow> None
           | Some (Err e) \<Rightarrow> Some (Err e)
           | Some (Ok seconds) \<Rightarrow>
               (case add_terms period_str
                   [(''fractional seconds'', 1, (case cap ''s_fra'' of None \<Rightarrow> ''0'' | Some f \<Rightarrow> fraction_digits f)),
                    (''milliseconds'', 1000000, cap_or ''0'' (cap ''ms'')), (''microseconds'', 1000, cap_or ''0'' (cap ''us'')),
                    (''nanoseconds'', 1, cap_or ''0'' (cap ''ns''))] 0 of
                  None \<Rightarrow> None
                | Some (Err e) \<Rightarrow> Some (Err e)
                | Some (Ok nanos) \<Rightarrow>
                    map_option (\<lambda>secs. Ok (Period \<lparr>as_secs = of_nat secs, subsec_nanos = of_nat (nanos mod 1000000000)\<rparr>))
                      (checked (seconds + nanos div 1000000000)))))"


section \<open>Timestamps\<close>

text \<open>What the code uses of \<open>chrono\<close>; a timestamp outside the range of dates panics.\<close>

record ('dt, 'cd) chrono =
  parse_from_rfc3339 :: "string \<Rightarrow> 'dt option"
  to_rfc3339 :: "'dt \<Rightarrow> string"
  timestamp :: "i64 \<Rightarrow> u32 \<Rightarrow> 'dt option"
  from_std :: "Duration \<Rightarrow> string + 'cd"
  checked_add_signed :: "'dt \<Rightarrow> 'cd \<Rightarrow> 'dt option"
  checked_sub_signed :: "'dt \<Rightarrow> 'cd \<Rightarrow> 'dt option"

definition iso8601_new :: "('dt, 'cd) chrono \<Rightarrow> i64 \<Rightarrow> u32 \<Rightarrow> 'dt option" where
  "iso8601_new C secs nsecs = timestamp C secs nsecs"

definition iso8601_from_u64 :: "('dt, 'cd) chrono \<Rightarrow> u64 \<Rightarrow> 'dt option" where
  "iso8601_from_u64 C secs = iso8601_new C secs 0"

definition iso8601_from_i32 :: "('dt, 'cd) chrono \<Rightarrow> 32 word \<Rightarrow> 'dt option" where
  "iso8601_from_i32 C secs = iso8601_new C (scast secs) 0"

definition iso8601_from_u32 :: "('dt, 'cd) chrono \<Rightarrow> u32 \<Rightarrow> 'dt option" where
  "iso8601_from_u32 C secs = iso8601_new C (ucast secs) 0"

definition iso8601_display :: "('dt, 'cd) chrono \<Rightarrow> 'dt \<Rightarrow> string" where
  "iso8601_display C t = to_rfc3339 C t"

definition iso8601_shift ::
    "('dt, 'cd) chrono \<Rightarrow> ('dt \<Rightarrow> 'cd \<Rightarrow> 'dt option) \<Rightarrow> string \<Rightarrow> 'dt \<Rightarrow> Duration \<Rightarrow> 'dt HcResult" where
  "iso8601_shift C f sign t dur =
     and_then (map_err (\<lambda>e. ErrorGeneric (''Overflow computing chrono::Duration from '' @ period_display (Period dur) @ '': '' @ e))
       (from_std C dur)) (\<lambda>d.
     ok_or (ErrorGeneric (''Overflow computing '' @ iso8601_display C t @ sign @ period_display (Period dur))) (f t d))"

definition iso8601_add :: "('dt, 'cd) chrono \<Rightarrow> 'dt \<Rightarrow> Duration \<Rightarrow> 'dt HcResult" where
  "iso8601_add C = iso8601_shift C (checked_add_signed C) '' + ''"

definition iso8601_sub :: "('dt, 'cd) chrono \<Rightarrow> 'dt \<Rightarrow> Duration \<Rightarrow> 'dt HcResult" where
  "iso8601_sub C = iso8601_shift C (checked_sub_signed C) '' - ''"

definition one_of :: "string \<Rightarrow> regex" where
  "one_of s = Lit (\<lambda>c. c \<in> set s)"

definition between :: "char \<Rightarrow> char \<Rightarrow> regex" where
  "between a b = Lit (in_range a b)"

definition two_digits :: regex where
  "two_digits = Seq (Lit is_digit) (Lit is_digit)"

definition date_part :: regex where
  "date_part = Opt (seqs [Opt (exactly ''-''),
     Opt (Cap ''M'' (Alt (Seq (exactly ''0'') (between CHR ''1'' CHR ''9'')) (Seq (exactly ''1'') (one_of ''012'')))),
     Opt (Seq (Opt (exactly ''-''))
       (Opt (Cap ''D'' (alts [Seq (exactly ''0'') (between CHR ''1'' CHR ''9''), Seq (one_of ''12'') (between CHR ''0'' CHR ''9''),
          Seq (exactly ''3'') (one_of ''01'')]))))])"

definition sixty :: regex where
  "sixty = Seq (between CHR ''0'' CHR ''5'') (between CHR ''0'' CHR ''9'')"

definition time_part :: regex where
  "time_part = Opt (seqs [Alt (one_of ''Tt'') (Many1 is_space),
     Cap ''h'' (Alt (Seq (one_of ''01'') (between CHR ''0'' CHR ''9'')) (Seq (exactly ''2'') (between CHR ''0'' CHR ''3''))),
     Opt (seqs [Opt (exactly '':''), Cap ''m'' sixty,
       Opt (seqs [Opt (exactly '':''), Cap ''s'' (Alt sixty (exactly ''60'')),
         Opt (Seq (one_of ''.,'') (digits ''ss''))])])])"

text \<open>The class of signs \<open>[+-\<close>U+2212\<open>]\<close> is a range: every ASCII character from the plus sign on is in it.\<close>

definition zone_sign :: regex where
  "zone_sign = Alt (between CHR ''+'' CHR 0x7F) (exactly [CHR 0xE2, CHR 0x88, CHR 0x92])"

definition zone_part :: regex where
  "zone_part = Opt (Cap ''Z'' (Alt (one_of ''Zz'')
     (seqs [Cap ''Zsgn'' zone_sign, Cap ''Zhrs'' two_digits, Opt (Seq (Opt (exactly '':'')) (Cap ''Zmin'' two_digits))])))"

definition iso8601_re :: regex where
  "iso8601_re = seqs [blanks, Cap ''neg'' (Opt (exactly ''-'')), Cap ''Y'' (Seq two_digits two_digits), date_part, time_part,
     blanks, zone_part, blanks]"

definition zone_text :: "captures \<Rightarrow> string" where
  "zone_text cap =
     (case cap ''Z'' of
        None \<Rightarrow> ''Z''
      | Some z \<Rightarrow>
          if z = ''Z'' \<or> z = ''z'' then ''Z''
          else (if cap ''Zsgn'' = Some ''+'' then ''+'' else ''-'') @ cap_or [] (cap ''Zhrs'') @ '':'' @ cap_or ''00'' (cap ''Zmin''))"

definition iso8601_timestamp :: "captures \<Rightarrow> string" where
  "iso8601_timestamp cap =
     cap_or [] (cap ''neg'') @ pad_left 4 (cap_or [] (cap ''Y'')) @ ''-'' @ pad_left 2 (cap_or ''1'' (cap ''M'')) @ ''-''
     @ pad_left 2 (cap_or ''1'' (cap ''D'')) @ ''T'' @ pad_left 2 (cap_or ''0'' (cap ''h'')) @ '':''
     @ pad_left 2 (cap_or ''0'' (cap ''m'')) @ '':'' @ pad_left 2 (cap_or ''0'' (cap ''s''))
     @ (case cap ''ss'' of None \<Rightarrow> [] | Some f \<Rightarrow> ''.'' @ f) @ zone_text cap"

definition iso8601_from_str :: "('dt, 'cd) chrono \<Rightarrow> string \<Rightarrow> 'dt HcResult" where
  "iso8601_from_str C s =
     (case parse_from_rfc3339 C s of
        Some t \<Rightarrow> Ok t
      | None \<Rightarrow>
          (case re_captures iso8601_re s of
             None \<Rightarrow> Err (ErrorGeneric (''Failed to find ISO 3339 or RFC 8601 timestamp in '' @ str_debug s))
           | Some cap \<Rightarrow>
               ok_or (ErrorGeneric (''Attempting to convert RFC 3339 timestamp '' @ str_debug (iso8601_timestamp cap)
                 @ '' from ISO 8601 '' @ str_debug s @ '' to a DateTime''))
                 (parse_from_rfc3339 C (iso8601_timestamp cap))))"

section \<open>Numbers and their digits\<close>

lemma is_digit_digit [simp]: "d < 10 \<Longrightarrow> is_digit (digit d)" and of_char_digit: "d < 10 \<Longrightarrow> of_char (digit d) = 48 + d"
  by (simp_all add: is_digit_def digit_def)

lemma show_nat_digits: "list_all is_digit (show_nat n)"
  by (induction n rule: show_nat.induct) (subst show_nat.simps, simp)

lemma show_nat_neq_Nil: "show_nat n \<noteq> []"
  by (subst show_nat.simps) simp

lemma digits_value_append: "digits_value (xs @ [c]) = 10 * digits_value xs + (of_char c - 48)"
  by (simp add: digits_value_def)

lemma digits_value_show: "digits_value (show_nat n) = n"
proof (induction n rule: show_nat.induct)
  case (1 n)
  show ?case
  proof (cases "n < 10")
    case True
    then show ?thesis
      by (subst show_nat.simps) (simp add: digits_value_def of_char_digit)
  next
    case False
    then show ?thesis
      using 1 by (subst show_nat.simps) (simp add: digits_value_append of_char_digit)
  qed
qed

lemma digits_value_zeros: "digits_value (replicate k CHR ''0'' @ s) = digits_value s"
  by (induction k) (simp_all add: digits_value_def)

lemma length_show_nat: "n < 10 ^ Suc k \<Longrightarrow> length (show_nat n) \<le> Suc k"
proof (induction k arbitrary: n)
  case (Suc k)
  then have "n div 10 < 10 ^ Suc k"
    by (simp add: less_mult_imp_div_less)
  then show ?case
    using Suc.IH [of "n div 10"] by (subst show_nat.simps) simp
qed (subst show_nat.simps, simp)

lemma pad_left_value: "digits_value (pad_left w (show_nat n)) = n"
  by (simp add: pad_left_def digits_value_zeros digits_value_show)

lemma fraction_digits_trim:
  assumes "length s = 9"
  shows "fraction_digits (trim_zeros s) = s"
proof -
  have split: "rev (dropWhile P (rev xs)) @ replicate (length (takeWhile P (rev xs))) c = xs"
    if "\<And>x. P x \<longleftrightarrow> x = c" for P and c :: char and xs
  proof -
    have "takeWhile P (rev xs) = replicate (length (takeWhile P (rev xs))) c"
      by (metis replicate_eqI set_takeWhileD that)
    then show ?thesis
      by (metis rev_append rev_replicate rev_rev_ident takeWhile_dropWhile_id)
  qed
  have len: "length (trim_zeros s) + length (takeWhile (\<lambda>c. c = CHR ''0'') (rev s)) = 9"
    using assms by (metis (no_types) add.commute length_append length_rev takeWhile_dropWhile_id trim_zeros_def)
  then have "9 - length (trim_zeros s) = length (takeWhile (\<lambda>c. c = CHR ''0'') (rev s))" "length (trim_zeros s) \<le> 9"
    by simp_all
  then show ?thesis
    using split [of "\<lambda>c. c = CHR ''0''" "CHR ''0''" s] by (simp add: fraction_digits_def) (simp add: trim_zeros_def)
qed


section \<open>Matching numbers and units\<close>

lemma many_stop: "s = [] \<or> \<not> p (hd s) \<Longrightarrow> many p s k = k s"
  by (cases s) simp_all

text \<open>Greedy digits, when what follows cannot start with a digit.\<close>

lemma many_digits:
  assumes "list_all is_digit ds" and "rest = [] \<or> \<not> is_digit (hd rest)" and "\<And>d s. is_digit d \<Longrightarrow> k (d # s) = None"
  shows "many is_digit (ds @ rest) k = k rest"
  using assms(1)
proof (induction ds)
  case Nil
  then show ?case
    using many_stop [of rest is_digit k] assms(2) by simp
next
  case (Cons d ds)
  then show ?case
    using assms(3) by (auto split: option.split)
qed

definition number_then :: "(char \<Rightarrow> bool) \<Rightarrow> string \<Rightarrow> bool" where
  "number_then P s \<longleftrightarrow> (\<exists>ds c rest. s = ds @ c # rest \<and> ds \<noteq> [] \<and> list_all is_digit ds \<and> \<not> is_digit c \<and> P c)"

lemma match_digits:
  assumes "list_all is_digit ds" and "ds \<noteq> []" and "rest = [] \<or> \<not> is_digit (hd rest)"
    and "\<And>d s caps. is_digit d \<Longrightarrow> k (d # s) caps = None"
  shows "re_match (digits name) (ds @ rest) caps k = k rest (caps(name \<mapsto> ds))"
proof -
  obtain d es where ds: "ds = d # es" "is_digit d" "list_all is_digit es"
    using assms(1,2) by (cases ds) auto
  then show ?thesis
    using many_digits [of es rest "\<lambda>s. k s (caps(name \<mapsto> take (Suc (length es + length rest) - length s) (d # es @ rest)))"] assms(3,4)
    by (simp add: digits_def Many1_def)
qed

lemma digit_no_space: "is_digit d \<Longrightarrow> \<not> is_space d"
  by (auto simp: is_digit_def is_space_def)

lemma match_blanks: "s = [] \<or> \<not> is_space (hd s) \<Longrightarrow> re_match blanks s caps k = k s caps"
  by (simp add: blanks_def many_stop)

lemma match_Opt: "re_match (Opt r) s caps k = (case re_match r s caps k of None \<Rightarrow> k s caps | Some y \<Rightarrow> Some y)"
  by (simp add: Opt_def split: option.split)

text \<open>A unit accepts only texts that start with one of its letters.\<close>

definition starts_with :: "regex \<Rightarrow> (char \<Rightarrow> bool) \<Rightarrow> bool" where
  "starts_with u L \<longleftrightarrow> (\<forall>s caps k. (s = [] \<or> \<not> L (hd s)) \<longrightarrow> re_match u s caps (k :: string \<Rightarrow> captures \<Rightarrow> captures option) = None)"

lemma quantity_nil: "starts_with u L \<Longrightarrow> re_match (quantity name u) [] caps k = (k [] caps :: captures option)"
  by (simp add: quantity_def match_Opt blanks_def digits_def Many1_def)

lemma quantity_number:
  assumes "starts_with u L" and "\<And>x. L x \<Longrightarrow> \<not> is_digit x" and "list_all is_digit ds" and "ds \<noteq> []"
    and "\<not> is_digit c" and "\<not> is_space c"
  shows "re_match (quantity name u) (ds @ c # rest) caps k
    = (case re_match u (c # rest) (caps(name \<mapsto> ds)) k of None \<Rightarrow> k (ds @ c # rest) caps | Some y \<Rightarrow> (Some y :: captures option))"
proof -
  have hd: "\<not> is_space (hd (ds @ c # rest))"
    using assms(3,4) digit_no_space by (cases ds) auto
  have "re_match (digits name) (ds @ c # rest) caps (\<lambda>s caps. re_match blanks s caps (\<lambda>s caps. re_match u s caps k))
      = re_match blanks (c # rest) (caps(name \<mapsto> ds)) (\<lambda>s caps. re_match u s caps k)"
  proof (rule match_digits [OF assms(3,4)])
    show "re_match blanks (d # s) caps (\<lambda>s caps. re_match u s caps k) = None" if "is_digit d" for d s caps
      using that assms(2) digit_no_space assms(1) [unfolded starts_with_def, rule_format, of "d # s" caps k]
      by (auto simp: match_blanks)
  qed (use assms(5) in simp)
  then show ?thesis
    using hd assms(6) by (simp add: quantity_def match_Opt match_blanks)
qed

lemma quantity_skip:
  assumes "starts_with u L" and "\<And>x. L x \<Longrightarrow> \<not> is_digit x" and "s = [] \<or> number_then (\<lambda>c. \<not> L c \<and> \<not> is_space c) s"
  shows "re_match (quantity name u) s caps k = (k s caps :: captures option)"
  using assms(3)
proof
  assume "number_then (\<lambda>c. \<not> L c \<and> \<not> is_space c) s"
  then obtain ds c rest where s: "s = ds @ c # rest" "ds \<noteq> []" "list_all is_digit ds" "\<not> is_digit c" "\<not> L c" "\<not> is_space c"
    by (auto simp: number_then_def)
  with assms(1) have "re_match u (c # rest) caps1 k = None" for caps1
    by (simp add: starts_with_def)
  with s show ?thesis
    using quantity_number [OF assms(1,2), of ds c name rest caps k] by simp
qed (simp add: quantity_nil [OF assms(1)])


lemmas unit_defs = year_unit_def week_unit_def day_unit_def hour_unit_def minute_unit_def second_unit_def plural_def
  milli_unit_def micro_unit_def nano_unit_def
  caseless_def exactly_def mu_def ci_def

lemma starts_Seq: "starts_with r1 L \<Longrightarrow> starts_with (Seq r1 r2) L"
  by (simp add: starts_with_def)

lemma starts_Alt: "starts_with r1 L \<Longrightarrow> starts_with r2 L \<Longrightarrow> starts_with (Alt r1 r2) L"
  by (simp add: starts_with_def)

lemma starts_Lit: "(\<And>x. p x \<Longrightarrow> L x) \<Longrightarrow> starts_with (Lit p) L"
  by (auto simp: starts_with_def split: list.split)

lemmas starts_intros = starts_Seq starts_Alt starts_Lit

lemma units_start:
  "starts_with year_unit (ci CHR ''y'')" "starts_with week_unit (ci CHR ''w'')" "starts_with day_unit (ci CHR ''d'')"
  "starts_with hour_unit (ci CHR ''h'')" "starts_with minute_unit (ci CHR ''m'')" "starts_with second_unit (ci CHR ''s'')"
  unfolding year_unit_def week_unit_def day_unit_def hour_unit_def minute_unit_def second_unit_def caseless_def
  by (simp_all add: starts_intros)

lemma small_units_start:
  "starts_with milli_unit (ci CHR ''m'')" "starts_with nano_unit (ci CHR ''n'')"
  "starts_with micro_unit (\<lambda>x. ci CHR ''u'' x \<or> ci CHR ''m'' x \<or> x = CHR 0xCE \<or> x = CHR 0xC2)"
  unfolding milli_unit_def micro_unit_def nano_unit_def caseless_def mu_def exactly_def
  by (simp_all add: starts_intros)

lemma ci_no_digit: "97 \<le> (of_char c :: nat) \<Longrightarrow> ci c x \<Longrightarrow> \<not> is_digit x"
  by (auto simp: ci_def is_digit_def)

text \<open>After its letter a unit ends where a number follows.\<close>

lemma units_end:
  assumes "s = [] \<or> is_digit (hd s)"
  shows "re_match year_unit (CHR ''y'' # s) caps k = k s caps" "re_match week_unit (CHR ''w'' # s) caps k = k s caps"
    "re_match day_unit (CHR ''d'' # s) caps k = k s caps" "re_match hour_unit (CHR ''h'' # s) caps k = k s caps"
    "re_match minute_unit (CHR ''m'' # s) caps k = k s caps" "re_match second_unit (CHR ''s'' # s) caps k = k s caps"
  using assms by (cases s; auto simp: unit_defs Opt_def is_digit_def split: option.splits)+


lemma small_units_end:
  "re_match milli_unit ''ms'' caps k = k [] caps" "re_match micro_unit ''us'' caps k = k [] caps"
  "re_match nano_unit ''ns'' caps k = k [] caps"
  by (auto simp: unit_defs Opt_def split: option.splits)

section \<open>Matching the text of a period\<close>

definition cap_if :: "nat \<Rightarrow> string \<Rightarrow> captures \<Rightarrow> captures" where
  "cap_if n name caps = (if n > 0 then caps(name \<mapsto> show_nat n) else caps)"

lemma quantity_unit_text:
  assumes u: "starts_with u L" "\<And>x. L x \<Longrightarrow> \<not> is_digit x" and c: "\<not> is_digit c" "\<not> is_space c"
    and stop: "re_match u (c # cs @ rest) (caps(name \<mapsto> show_nat n)) k = k rest (caps(name \<mapsto> show_nat n))"
    and zero: "n = 0 \<Longrightarrow> re_match (quantity name u) rest caps k = k rest caps"
    and k: "k rest (cap_if n name caps) = (Some y :: captures option)"
  shows "re_match (quantity name u) (unit_text n (c # cs) @ rest) caps k = Some y"
proof (cases "n = 0")
  case True
  then show ?thesis
    using zero k by (simp add: unit_text_def cap_if_def)
next
  case False
  then show ?thesis
    using quantity_number [OF u show_nat_digits show_nat_neq_Nil c, of name n "cs @ rest" caps k] stop k
    by (simp add: unit_text_def cap_if_def)
qed

definition match_end :: "string \<Rightarrow> captures \<Rightarrow> captures option" where
  "match_end s caps = re_match blanks s caps re_end"

lemma match_end_simps [simp]: "match_end [] caps = Some caps" "\<not> is_space x \<Longrightarrow> match_end (x # s) caps = None"
  by (simp_all add: match_end_def match_blanks re_end_def)

lemma number_then_mono: "number_then P s \<Longrightarrow> (\<And>c. P c \<Longrightarrow> Q c) \<Longrightarrow> number_then Q s"
  unfolding number_then_def by blast

lemma number_then_show: "\<not> is_digit c \<Longrightarrow> P c \<Longrightarrow> number_then P (show_nat n @ c # s)"
  using show_nat_digits show_nat_neq_Nil unfolding number_then_def by blast

lemma number_then_hd: "number_then P s \<Longrightarrow> s \<noteq> [] \<and> is_digit (hd s)"
  by (auto simp: number_then_def hd_append list_all_iff)

lemma fraction_none:
  assumes "number_then (\<lambda>c. c \<noteq> CHR ''.'' \<and> c \<noteq> CHR '','') s"
  shows "re_match fraction_part s caps match_end = None"
proof -
  obtain ds c rest where s: "s = ds @ c # rest" "list_all is_digit ds" "ds \<noteq> []" "\<not> is_digit c" "c \<noteq> CHR ''.''" "c \<noteq> CHR '',''"
    using assms by (auto simp: number_then_def)
  obtain d es where d: "ds = d # es" "is_digit d"
    using s by (cases ds) auto
  then have nd: "d \<noteq> CHR ''.''" "d \<noteq> CHR '',''" "\<not> is_space d"
    using digit_no_space by (auto simp: is_digit_def)
  let ?k = "\<lambda>s caps. re_match (Lit (\<lambda>c. c = CHR ''.'' \<or> c = CHR '','')) s caps
    (\<lambda>s caps. re_match (seqs [digits ''s_fra'', blanks, second_unit]) s caps match_end)"
  have "re_match (digits ''s_man'') s caps ?k = ?k (c # rest) (caps(''s_man'' \<mapsto> ds))"
    unfolding s(1) by (rule match_digits [OF s(2,3)]) (use s in \<open>auto simp: is_digit_def\<close>)
  then show ?thesis
    using s d nd by (simp add: fraction_part_def match_Opt match_blanks)
qed

lemma fraction_match:
  assumes "list_all is_digit ds" "ds \<noteq> []" "list_all is_digit es" "es \<noteq> []"
  shows "re_match fraction_part (ds @ ''.'' @ es @ ''s'') caps match_end = Some (caps(''s_man'' \<mapsto> ds, ''s_fra'' \<mapsto> es))"
proof -
  let ?k2 = "\<lambda>s caps. re_match blanks s caps (\<lambda>s caps. re_match second_unit s caps match_end)"
  let ?k = "\<lambda>s caps. re_match (Lit (\<lambda>c. c = CHR ''.'' \<or> c = CHR '','')) s caps (\<lambda>s caps. re_match (digits ''s_fra'') s caps ?k2)"
  have hd: "\<not> is_space (hd ds)" "is_digit (hd ds)"
    using assms(1,2) digit_no_space by (cases ds; auto)+
  have "?k2 (d # s) caps1 = None" if "is_digit d" for d s caps1
    using that digit_no_space ci_no_digit [of "CHR ''s''"] units_start(6) [unfolded starts_with_def, rule_format, of "d # s" caps1 match_end]
    by (auto simp: match_blanks)
  then have "re_match (digits ''s_fra'') (es @ ''s'') caps1 ?k2 = ?k2 ''s'' (caps1(''s_fra'' \<mapsto> es))" for caps1
    by (intro match_digits [OF assms(3,4)]) (auto simp: is_digit_def)
  also have "?k2 ''s'' caps1 = Some caps1" for caps1
    by (simp add: match_blanks is_space_def units_end)
  finally have k: "?k (''.'' @ es @ ''s'') caps1 = Some (caps1(''s_fra'' \<mapsto> es))" for caps1
    by simp
  have "re_match (digits ''s_man'') (ds @ ''.'' @ es @ ''s'') caps ?k = ?k (''.'' @ es @ ''s'') (caps(''s_man'' \<mapsto> ds))"
    by (rule match_digits [OF assms(1,2)]) (auto simp: is_digit_def)
  then show ?thesis
    using k hd assms(2) by (simp add: fraction_part_def match_Opt match_blanks)
qed


text \<open>The seconds and their parts below the second, after the fraction has been ruled out.\<close>

definition small_part :: regex where
  "small_part = Seq (quantity ''ms'' milli_unit) (Seq (quantity ''us'' micro_unit) (quantity ''ns'' nano_unit))"

lemma ci_digits [simp]: "ci CHR ''m'' x \<Longrightarrow> \<not> is_digit x" "ci CHR ''n'' x \<Longrightarrow> \<not> is_digit x" "ci CHR ''s'' x \<Longrightarrow> \<not> is_digit x"
  "ci CHR ''y'' x \<Longrightarrow> \<not> is_digit x" "ci CHR ''w'' x \<Longrightarrow> \<not> is_digit x" "ci CHR ''d'' x \<Longrightarrow> \<not> is_digit x"
  "ci CHR ''h'' x \<Longrightarrow> \<not> is_digit x" "ci CHR ''u'' x \<or> ci CHR ''m'' x \<or> x = CHR 0xCE \<or> x = CHR 0xC2 \<Longrightarrow> \<not> is_digit x"
  by (auto simp: ci_def is_digit_def)

lemmas unit_chars = is_digit_def is_space_def ci_def

lemma small_part_nil: "re_match small_part [] caps match_end = Some caps"
  by (simp add: small_part_def quantity_nil [OF small_units_start(1)] quantity_nil [OF small_units_start(2)]
      quantity_nil [OF small_units_start(3)])

lemma small_part_ms: "re_match small_part (show_nat n @ ''ms'') caps match_end = Some (caps(''ms'' \<mapsto> show_nat n))"
proof -
  let ?k = "\<lambda>s caps. re_match (Seq (quantity ''us'' micro_unit) (quantity ''ns'' nano_unit)) s caps match_end"
  have "?k [] caps1 = Some caps1" for caps1
    by (simp add: quantity_nil [OF small_units_start(2)] quantity_nil [OF small_units_start(3)])
  then show ?thesis
    using quantity_number [OF small_units_start(1) ci_digits(1) show_nat_digits show_nat_neq_Nil, of "CHR ''m''" "''ms''" n "''s''" caps ?k]
    by (simp add: small_part_def small_units_end unit_chars)
qed

lemma small_part_us: "re_match small_part (show_nat n @ ''us'') caps match_end = Some (caps(''us'' \<mapsto> show_nat n))"
proof -
  have "re_match (quantity ''us'' micro_unit) (show_nat n @ ''us'') caps (\<lambda>s caps. re_match (quantity ''ns'' nano_unit) s caps match_end)
      = Some (caps(''us'' \<mapsto> show_nat n))"
    using quantity_number [OF small_units_start(3) ci_digits(8) show_nat_digits show_nat_neq_Nil, of "CHR ''u''" "''us''" n "''s''" caps
        "\<lambda>s caps. re_match (quantity ''ns'' nano_unit) s caps match_end"]
    by (simp add: small_units_end quantity_nil [OF small_units_start(2)]) (simp add: unit_chars)
  then show ?thesis
    using quantity_skip [OF small_units_start(1) ci_digits(1), of "show_nat n @ ''us''"] number_then_show [of "CHR ''u''"]
    by (simp add: small_part_def unit_chars)
qed

lemma small_part_ns: "re_match small_part (show_nat n @ ''ns'') caps match_end = Some (caps(''ns'' \<mapsto> show_nat n))"
proof -
  have "re_match (quantity ''ns'' nano_unit) (show_nat n @ ''ns'') caps match_end = Some (caps(''ns'' \<mapsto> show_nat n))"
    using quantity_number [OF small_units_start(2) ci_digits(2) show_nat_digits show_nat_neq_Nil, of "CHR ''n''" "''ns''" n "''s''" caps match_end]
    by (simp add: small_units_end unit_chars)
  then show ?thesis
    using quantity_skip [OF small_units_start(1) ci_digits(1), of "show_nat n @ ''ns''"] quantity_skip [OF small_units_start(3) ci_digits(8), of "show_nat n @ ''ns''"]
      number_then_show [of "CHR ''n''"]
    by (simp add: small_part_def unit_chars)
qed

lemma whole_match:
  assumes "rest = [] \<or> number_then (\<lambda>c. c \<in> set ''mun'') rest" and "re_match small_part rest (cap_if n ''s'' caps) match_end = Some y"
  shows "re_match whole_part (unit_text n ''s'' @ rest) caps match_end = Some y"
proof -
  let ?k = "\<lambda>s caps. re_match small_part s caps match_end"
  have mun: "number_then (\<lambda>c. c \<in> set ''mun'') rest \<Longrightarrow> number_then (\<lambda>c. \<not> ci CHR ''s'' c \<and> \<not> is_space c) rest"
    by (erule number_then_mono) (auto simp: unit_chars)
  have "is_digit (hd (show_nat n @ CHR ''s'' # rest))"
    using show_nat_digits [of n] show_nat_neq_Nil [of n] by (cases "show_nat n") auto
  then have hd: "s = [] \<or> is_digit (hd s)" if "s = rest \<or> s = unit_text n ''s'' @ rest" for s
    using that assms(1) number_then_hd by (auto simp: unit_text_def split: if_splits)
  have "re_match (quantity ''s'' second_unit) (unit_text n ''s'' @ rest) caps ?k = Some y"
  proof (rule quantity_unit_text [OF units_start(6) ci_digits(3)])
    show "re_match second_unit (CHR ''s'' # [] @ rest) (caps(''s'' \<mapsto> show_nat n)) ?k = ?k rest (caps(''s'' \<mapsto> show_nat n))"
      using hd by (simp add: units_end)
    show "re_match (quantity ''s'' second_unit) rest caps ?k = ?k rest caps"
      using assms(1) mun by (intro quantity_skip [OF units_start(6)]) auto
  qed (use assms(2) in \<open>simp_all add: unit_chars\<close>)
  then show ?thesis
    using hd [of "unit_text n ''s'' @ rest"]
    by (cases "unit_text n ''s'' @ rest") (auto simp: whole_part_def small_part_def match_Opt quantity_def exactly_def is_digit_def split: option.split)
qed


text \<open>The captures that the text of the seconds leads to.\<close>

definition seconds_caps :: "nat \<Rightarrow> nat \<Rightarrow> nat \<Rightarrow> captures \<Rightarrow> captures" where
  "seconds_caps secs s nsecs caps =
     (if nsecs div 1000000 > 0 \<and> (s > 0 \<or> nsecs mod 1000 > 0)
      then caps(''s_man'' \<mapsto> show_nat s, ''s_fra'' \<mapsto> trim_zeros (pad_left 9 (show_nat nsecs)))
      else if nsecs > 0 \<or> s > 0
      then (if nsecs mod 1000 > 0 then (cap_if s ''s'' caps)(''ns'' \<mapsto> show_nat nsecs)
        else if nsecs div 1000 mod 1000 > 0 then (cap_if s ''s'' caps)(''us'' \<mapsto> show_nat (nsecs div 1000))
        else if nsecs div 1000000 > 0 then (cap_if s ''s'' caps)(''ms'' \<mapsto> show_nat (nsecs div 1000000))
        else cap_if s ''s'' caps)
      else if nsecs = 0 \<and> secs = 0 then caps(''s'' \<mapsto> ''0'') else caps)"

definition final_part :: regex where
  "final_part = Alt fraction_part whole_part"

lemma trim_zeros_digits:
  assumes "n > 0"
  shows "list_all is_digit (trim_zeros (pad_left 9 (show_nat n))) \<and> trim_zeros (pad_left 9 (show_nat n)) \<noteq> []"
proof -
  let ?s = "pad_left 9 (show_nat n)"
  have all: "list_all is_digit ?s"
    using show_nat_digits [of n] by (auto simp: pad_left_def list_all_iff is_digit_def)
  have "\<not> (\<forall>c\<in>set ?s. c = CHR ''0'')"
  proof
    assume "\<forall>c\<in>set ?s. c = CHR ''0''"
    then have "?s = replicate (length ?s) CHR ''0''"
      by (metis replicate_eqI)
    then have "digits_value ?s = digits_value (replicate (length ?s) CHR ''0'' @ [])"
      by simp
    then have "n = 0"
      unfolding digits_value_zeros pad_left_value by (simp add: digits_value_def)
    with assms show False
      by simp
  qed
  then show ?thesis
    using all by (auto simp: trim_zeros_def list_all_iff dest: set_dropWhileD)
qed

lemma final_whole:
  assumes "s @ t \<noteq> []" and "number_then (\<lambda>c. c \<in> set ''smun'') (s @ t)" and "re_match whole_part (s @ t) caps match_end = Some y"
  shows "re_match final_part (s @ t) caps match_end = Some y"
proof -
  have "number_then (\<lambda>c. c \<noteq> CHR ''.'' \<and> c \<noteq> CHR '','') (s @ t)"
    using assms(2) by (rule number_then_mono) auto
  then show ?thesis
    using fraction_none assms(3) by (simp add: final_part_def)
qed

lemma final_seconds_caps:
  assumes "nsecs < 1000000000"
  shows "re_match final_part (seconds_text secs s nsecs) caps match_end = Some (seconds_caps secs s nsecs caps)"
proof -
  have nt: "number_then (\<lambda>c. c \<in> set ''smun'') (unit_text s ''s'' @ show_nat n @ c # ''s'')" if "c \<in> set ''mun''" for c n
    using that number_then_show [of "CHR ''s''" _ s] number_then_show [of c _ n] by (auto simp: unit_text_def is_digit_def)
  have rest: "number_then (\<lambda>c. c \<in> set ''mun'') (show_nat n @ c # ''s'')" if "c \<in> set ''mun''" for c n
    using that number_then_show [of c _ n] by (auto simp: is_digit_def)
  have part: "re_match final_part (unit_text s ''s'' @ show_nat n @ c # ''s'') caps match_end = Some y"
    if "c \<in> set ''mun''" "re_match small_part (show_nat n @ c # ''s'') (cap_if s ''s'' caps) match_end = Some y" for c n y
    using that nt rest by (intro final_whole whole_match) simp_all
  have secs: "re_match final_part (show_nat m @ ''s'') caps match_end = Some (caps(''s'' \<mapsto> show_nat m))" for m
  proof -
    have "re_match (quantity ''s'' second_unit) (show_nat m @ ''s'') caps (\<lambda>s caps. re_match small_part s caps match_end)
        = Some (caps(''s'' \<mapsto> show_nat m))"
      using quantity_number [OF units_start(6) ci_digits(3) show_nat_digits show_nat_neq_Nil, of "CHR ''s''" "''s''" m "[]"]
      by (simp add: units_end small_part_nil unit_chars)
    moreover obtain d ds where "show_nat m = d # ds" "is_digit d"
      using show_nat_digits [of m] show_nat_neq_Nil [of m] by (cases "show_nat m") auto
    ultimately have "re_match whole_part (show_nat m @ ''s'') caps match_end = Some (caps(''s'' \<mapsto> show_nat m))"
      by (auto simp: whole_part_def small_part_def match_Opt quantity_def exactly_def is_digit_def split: option.split)
    then show ?thesis
      using number_then_show [of "CHR ''s''" "\<lambda>c. c \<in> set ''smun''" m "[]"] by (intro final_whole) (simp_all add: is_digit_def)
  qed
  have nil: "re_match final_part [] caps match_end = Some caps"
    by (simp add: final_part_def fraction_part_def match_Opt match_blanks digits_def Many1_def)
  have zero: "show_nat 0 = ''0''"
    by code_simp
  have frac: "re_match final_part (show_nat s @ ''.'' @ trim_zeros (pad_left 9 (show_nat nsecs)) @ ''s'') caps match_end
      = Some (caps(''s_man'' \<mapsto> show_nat s, ''s_fra'' \<mapsto> trim_zeros (pad_left 9 (show_nat nsecs))))" if "nsecs > 0"
    using fraction_match [OF show_nat_digits show_nat_neq_Nil] trim_zeros_digits [OF that] by (simp add: final_part_def)
  consider "nsecs div 1000000 > 0 \<and> (s > 0 \<or> nsecs mod 1000 > 0)"
    | "\<not> (nsecs div 1000000 > 0 \<and> (s > 0 \<or> nsecs mod 1000 > 0))" "nsecs > 0"
    | "nsecs = 0" "s > 0" | "nsecs = 0" "s = 0"
    by fastforce
  then show ?thesis
  proof cases
    case 1
    then have "nsecs > 0"
      by (cases nsecs) simp_all
    with 1 frac show ?thesis
      by (simp add: seconds_text_def seconds_caps_def Let_def)
  next
    case 2
    then show ?thesis
      using part [of "CHR ''n''" nsecs] part [of "CHR ''u''" "nsecs div 1000"] part [of "CHR ''m''" "nsecs div 1000000"]
        small_part_ms small_part_us small_part_ns
      by (auto simp: seconds_text_def seconds_caps_def Let_def)
  next
    case 3
    then show ?thesis
      using secs [of s] by (simp add: seconds_text_def seconds_caps_def Let_def unit_text_def cap_if_def)
  next
    case 4
    then show ?thesis
      using secs [of 0] nil by (simp add: seconds_text_def seconds_caps_def Let_def zero)
  qed
qed


lemma seconds_text_form:
  "seconds_text secs s nsecs = [] \<or> number_then (\<lambda>c. c \<in> set ''.sun'') (seconds_text secs s nsecs)
   \<or> (\<exists>n. seconds_text secs s nsecs = show_nat n @ ''ms'')"
proof -
  have unit: "number_then (\<lambda>c. c \<in> set ''.sun'') (show_nat n @ c # t)" if "c \<in> set ''.sun''" for n c t
    using that number_then_show [of c _ n] by (auto simp: is_digit_def)
  have zero: "number_then (\<lambda>c. c \<in> set ''.sun'') ''0s''"
    unfolding number_then_def by (rule exI [of _ "''0''"]) (simp add: is_digit_def)
  show ?thesis
    using unit [of "CHR ''.''" s] unit [of "CHR ''s''" s] unit [of "CHR ''n''" nsecs] unit [of "CHR ''u''" "nsecs div 1000"] zero
    by (auto simp: seconds_text_def Let_def unit_text_def)
qed

lemma final_after_ms: "re_match final_part ''s'' caps match_end = None"
  by (simp add: final_part_def fraction_part_def whole_part_def quantity_def match_Opt match_blanks digits_def Many1_def
      exactly_def is_space_def is_digit_def)

lemma minute_match:
  assumes "re_match final_part t (cap_if mi ''m'' caps) match_end = Some y"
    and "t = [] \<or> number_then (\<lambda>c. c \<in> set ''.sun'') t \<or> (\<exists>n. t = show_nat n @ ''ms'')"
  shows "re_match (quantity ''m'' minute_unit) (unit_text mi ''m'' @ t) caps (\<lambda>s caps. re_match final_part s caps match_end) = Some y"
proof (rule quantity_unit_text [OF units_start(5) ci_digits(1)])
  let ?k = "\<lambda>s caps. re_match final_part s caps match_end"
  have "t = [] \<or> is_digit (hd t)"
    using assms(2) number_then_hd number_then_hd [OF number_then_show [of "CHR ''m''" "\<lambda>_. True"]] by (auto simp: is_digit_def)
  then show "re_match minute_unit (CHR ''m'' # [] @ t) (caps(''m'' \<mapsto> show_nat mi)) ?k = ?k t (caps(''m'' \<mapsto> show_nat mi))"
    by (simp add: units_end)
  show "re_match (quantity ''m'' minute_unit) t caps ?k = ?k t caps"
  proof (cases "\<exists>n. t = show_nat n @ ''ms''")
    case True
    then obtain n where t: "t = show_nat n @ CHR ''m'' # ''s''"
      by auto
    have "re_match minute_unit ''ms'' caps1 ?k = None" for caps1
      using final_after_ms by (simp add: minute_unit_def caseless_def ci_def match_Opt plural_def)
    then show ?thesis
      unfolding t using quantity_number [OF units_start(5) ci_digits(1) show_nat_digits show_nat_neq_Nil, of "CHR ''m''" "''m''" n "''s''" caps ?k]
      by (simp add: is_digit_def is_space_def)
  next
    case False
    have "number_then (\<lambda>c. c \<in> set ''.sun'') t \<Longrightarrow> number_then (\<lambda>c. \<not> ci CHR ''m'' c \<and> \<not> is_space c) t"
      by (erule number_then_mono) (auto simp: unit_chars)
    with False assms(2) show ?thesis
      by (intro quantity_skip [OF units_start(5) ci_digits(1)]) auto
  qed
qed (use assms(1) in \<open>simp_all add: is_digit_def is_space_def\<close>)

text \<open>The larger units never take each other's letters.\<close>

lemma large_unit_match:
  assumes u: "starts_with u (ci c)" "\<And>x. ci c x \<Longrightarrow> \<not> is_digit x" "\<not> is_digit c" "\<not> is_space c"
    and stop: "\<And>s caps k. s = [] \<or> is_digit (hd s) \<Longrightarrow> re_match u (c # s) caps k = (k s caps :: captures option)"
    and rest: "rest = [] \<or> number_then P rest" and P: "\<And>x. P x \<Longrightarrow> \<not> ci c x \<and> \<not> is_space x"
    and k: "k rest (cap_if n name caps) = (Some y :: captures option)"
  shows "re_match (quantity name u) (unit_text n [c] @ rest) caps k = Some y"
proof (rule quantity_unit_text [OF u])
  show "re_match u (c # [] @ rest) (caps(name \<mapsto> show_nat n)) k = k rest (caps(name \<mapsto> show_nat n))"
    using stop rest number_then_hd by auto
  show "re_match (quantity name u) rest caps k = k rest caps"
    using rest number_then_mono [of P rest "\<lambda>x. \<not> ci c x \<and> \<not> is_space x"] P by (intro quantity_skip [OF u(1,2)]) auto
qed (use k in simp_all)

lemma number_then_unit:
  assumes "rest = [] \<or> number_then P rest" and "\<And>x. P x \<Longrightarrow> Q x" and "Q c" and "\<not> is_digit c"
  shows "unit_text n [c] @ rest = [] \<or> number_then Q (unit_text n [c] @ rest)"
  using assms number_then_show [of c Q n rest] number_then_mono [of P rest Q] by (auto simp: unit_text_def)


lemma period_re_matches:
  assumes "nsecs < 1000000000"
  shows "re_captures period_re (unit_text y ''y'' @ unit_text w ''w'' @ unit_text d ''d'' @ unit_text h ''h'' @ unit_text mi ''m''
      @ seconds_text secs s nsecs)
    = Some (seconds_caps secs s nsecs (cap_if mi ''m'' (cap_if h ''h'' (cap_if d ''d'' (cap_if w ''w'' (cap_if y ''y'' Map.empty))))))"
proof -
  let ?t = "seconds_text secs s nsecs"
  let ?km = "\<lambda>s caps. re_match (quantity ''m'' minute_unit) s caps (\<lambda>s caps. re_match final_part s caps match_end)"
  let ?kh = "\<lambda>s caps. re_match (quantity ''h'' hour_unit) s caps ?km"
  let ?kd = "\<lambda>s caps. re_match (quantity ''d'' day_unit) s caps ?kh"
  let ?kw = "\<lambda>s caps. re_match (quantity ''w'' week_unit) s caps ?kd"
  have t: "?t = [] \<or> number_then (\<lambda>c. c \<in> set ''.sunm'') ?t"
    using seconds_text_form [of secs s nsecs] number_then_mono [of "\<lambda>c. c \<in> set ''.sun''" ?t "\<lambda>c. c \<in> set ''.sunm''"]
      number_then_show [of "CHR ''m''" "\<lambda>c. c \<in> set ''.sunm''"] by (auto simp: is_digit_def)
  have m: "unit_text mi ''m'' @ ?t = [] \<or> number_then (\<lambda>c. c \<in> set ''.sunm'') (unit_text mi ''m'' @ ?t)"
    by (rule number_then_unit [OF t]) (simp_all add: is_digit_def)
  have hh: "unit_text h ''h'' @ unit_text mi ''m'' @ ?t = [] \<or> number_then (\<lambda>c. c \<in> set ''.sunmh'') (unit_text h ''h'' @ unit_text mi ''m'' @ ?t)"
    by (rule number_then_unit [OF m]) (auto simp: is_digit_def)
  have dd: "unit_text d ''d'' @ unit_text h ''h'' @ unit_text mi ''m'' @ ?t = []
      \<or> number_then (\<lambda>c. c \<in> set ''.sunmhd'') (unit_text d ''d'' @ unit_text h ''h'' @ unit_text mi ''m'' @ ?t)"
    by (rule number_then_unit [OF hh]) (auto simp: is_digit_def)
  have ww: "unit_text w ''w'' @ unit_text d ''d'' @ unit_text h ''h'' @ unit_text mi ''m'' @ ?t = []
      \<or> number_then (\<lambda>c. c \<in> set ''.sunmhdw'') (unit_text w ''w'' @ unit_text d ''d'' @ unit_text h ''h'' @ unit_text mi ''m'' @ ?t)"
    by (rule number_then_unit [OF dd]) (auto simp: is_digit_def)
  have min: "?km (unit_text mi ''m'' @ ?t) caps = Some (seconds_caps secs s nsecs (cap_if mi ''m'' caps))" for caps
    by (rule minute_match [OF final_seconds_caps [OF assms] seconds_text_form])
  have hour: "?kh (unit_text h ''h'' @ unit_text mi ''m'' @ ?t) caps
      = Some (seconds_caps secs s nsecs (cap_if mi ''m'' (cap_if h ''h'' caps)))" for caps
    by (rule large_unit_match [OF units_start(4) _ _ _ _ m], erule ci_digits(7), simp add: unit_chars, simp add: unit_chars,
      simp add: units_end, force simp: unit_chars, rule min)
  have day: "?kd (unit_text d ''d'' @ unit_text h ''h'' @ unit_text mi ''m'' @ ?t) caps
      = Some (seconds_caps secs s nsecs (cap_if mi ''m'' (cap_if h ''h'' (cap_if d ''d'' caps))))" for caps
    by (rule large_unit_match [OF units_start(3) _ _ _ _ hh], erule ci_digits(6), simp add: unit_chars, simp add: unit_chars,
      simp add: units_end, force simp: unit_chars, rule hour)
  have week: "?kw (unit_text w ''w'' @ unit_text d ''d'' @ unit_text h ''h'' @ unit_text mi ''m'' @ ?t) caps
      = Some (seconds_caps secs s nsecs (cap_if mi ''m'' (cap_if h ''h'' (cap_if d ''d'' (cap_if w ''w'' caps)))))" for caps
    by (rule large_unit_match [OF units_start(2) _ _ _ _ dd], erule ci_digits(5), simp add: unit_chars, simp add: unit_chars,
      simp add: units_end, force simp: unit_chars, rule day)
  have "re_match (quantity ''y'' year_unit) (unit_text y ''y'' @ unit_text w ''w'' @ unit_text d ''d'' @ unit_text h ''h'' @ unit_text mi ''m'' @ ?t) Map.empty ?kw
      = Some (seconds_caps secs s nsecs (cap_if mi ''m'' (cap_if h ''h'' (cap_if d ''d'' (cap_if w ''w'' (cap_if y ''y'' Map.empty))))))"
    by (rule large_unit_match [OF units_start(1) _ _ _ _ ww], erule ci_digits(4), simp add: unit_chars, simp add: unit_chars,
      simp add: units_end, force simp: unit_chars, rule week)
  then show ?thesis
    by (simp add: re_captures_def period_re_def final_part_def match_end_def [abs_def])
qed


section \<open>Reading back what was printed\<close>

definition term_value :: "string \<times> nat \<times> string \<Rightarrow> nat" where
  "term_value t = fst (snd t) * digits_value (snd (snd t))"

lemma term_value_simp [simp]: "term_value (what, f, s) = f * digits_value s"
  by (simp add: term_value_def)

lemma add_terms_sum:
  assumes "list_all (\<lambda>t. fst (snd t) > 0) ts" and "acc + sum_list (map term_value ts) < 2 ^ 64"
  shows "add_terms p ts acc = Some (Ok (acc + sum_list (map term_value ts)))"
  using assms
proof (induction ts arbitrary: acc)
  case (Cons t ts)
  obtain what f s where t: "t = (what, f, s)"
    by (cases t) auto
  have f: "f > 0" and sum: "acc + (f * digits_value s + sum_list (map term_value ts)) < 2 ^ 64"
    using Cons.prems t by simp_all
  have "digits_value s \<le> f * digits_value s"
    using f by (cases f) simp_all
  with sum have "digits_value s < 2 ^ 64" "f * digits_value s < 2 ^ 64" "acc + f * digits_value s < 2 ^ 64"
    by linarith+
  then have "add_term what p f s acc = Some (Ok (acc + f * digits_value s))"
    by (simp only: add_term_def parse_u64_def checked_def if_True sum.case Option.bind.simps option.map)
  then show ?case
    using Cons.IH [of "acc + f * digits_value s"] Cons.prems(1) sum t by (simp add: add.assoc)
qed simp

lemma cap_if_value: "digits_value (cap_or ''0'' (if n > 0 then Some (show_nat n) else None)) = n"
  by (simp add: cap_or_def digits_value_show) (simp add: digits_value_def)

lemma digits_value_0: "digits_value ''0'' = 0"
  by (simp add: digits_value_def)

lemma seconds_caps_other:
  "name \<notin> {''s'', ''s_man'', ''s_fra'', ''ms'', ''us'', ''ns''} \<Longrightarrow> seconds_caps secs s nsecs caps name = caps name"
  by (simp add: seconds_caps_def cap_if_def)

lemma seconds_caps_values:
  assumes "nsecs < 1000000000" and "\<forall>name\<in>{''s'', ''s_man'', ''s_fra'', ''ms'', ''us'', ''ns''}. caps name = None" and "s \<le> secs"
  defines "cap \<equiv> seconds_caps secs s nsecs caps"
  shows "digits_value (cap_or (cap_or ''0'' (cap ''s_man'')) (cap ''s'')) = s"
    and "digits_value (case cap ''s_fra'' of None \<Rightarrow> ''0'' | Some f \<Rightarrow> fraction_digits f)
      + (1000000 * digits_value (cap_or ''0'' (cap ''ms'')) + (1000 * digits_value (cap_or ''0'' (cap ''us''))
      + digits_value (cap_or ''0'' (cap ''ns'')))) = nsecs"
proof -
  have "length (show_nat nsecs) \<le> 9"
    using length_show_nat [of nsecs 8] assms(1) by simp
  then have frac: "digits_value (fraction_digits (trim_zeros (pad_left 9 (show_nat nsecs)))) = nsecs"
    using fraction_digits_trim [of "pad_left 9 (show_nat nsecs)"] pad_left_value by (simp add: pad_left_def)
  have ms: "1000000 * (nsecs div 1000000) = nsecs" if "nsecs mod 1000 = 0" "nsecs div 1000 mod 1000 = 0"
  proof -
    have "nsecs = 1000 * (nsecs div 1000)" "nsecs div 1000 = 1000 * (nsecs div 1000 div 1000)"
      using that mult_div_mod_eq [of 1000 nsecs] mult_div_mod_eq [of 1000 "nsecs div 1000"] by linarith+
    moreover have "nsecs div 1000 div 1000 = nsecs div 1000000"
      by (simp add: div_mult2_eq [symmetric])
    ultimately show ?thesis
      by linarith
  qed
  have us: "1000 * (nsecs div 1000) = nsecs" if "nsecs mod 1000 = 0"
    using that mult_div_mod_eq [of 1000 nsecs] by linarith
  note defs = cap_def seconds_caps_def cap_if_def cap_or_def digits_value_show digits_value_0
  show "digits_value (cap_or (cap_or ''0'' (cap ''s_man'')) (cap ''s'')) = s"
    using assms(2,3) by (simp add: defs)
  show "digits_value (case cap ''s_fra'' of None \<Rightarrow> ''0'' | Some f \<Rightarrow> fraction_digits f)
      + (1000000 * digits_value (cap_or ''0'' (cap ''ms'')) + (1000 * digits_value (cap_or ''0'' (cap ''us''))
      + digits_value (cap_or ''0'' (cap ''ns'')))) = nsecs"
  proof (cases "nsecs div 1000000 > 0 \<and> (s > 0 \<or> nsecs mod 1000 > 0)")
    case True
    then show ?thesis
      using assms(2) frac by (simp add: defs)
  next
    case False
    then show ?thesis
      using assms(2) ms us frac
      by (cases "nsecs mod 1000 = 0"; cases "nsecs div 1000 mod 1000 = 0"; cases "nsecs = 0") (simp_all add: defs)
  qed
qed


lemma split_seconds:
  "YR * (secs div YR) + (WK * (secs mod YR div WK) + (DY * (secs mod YR mod WK div DY) + (HR * (secs mod YR mod WK mod DY div HR)
     + (MN * (secs mod YR mod WK mod DY mod HR div MN) + secs mod YR mod WK mod DY mod HR mod MN)))) = secs"
  by (simp add: mult_div_mod_eq add.assoc [symmetric])

lemma period_text_read:
  assumes "nsecs < 1000000000" and "secs < 2 ^ 64" and "secs = YR * y + (WK * w + (DY * d + (HR * h + (MN * mi + s))))"
  shows "period_from_str (unit_text y ''y'' @ unit_text w ''w'' @ unit_text d ''d'' @ unit_text h ''h'' @ unit_text mi ''m''
      @ seconds_text secs s nsecs) = Some (Ok (Period \<lparr>as_secs = of_nat secs, subsec_nanos = of_nat nsecs\<rparr>))"
proof -
  let ?t = "unit_text y ''y'' @ unit_text w ''w'' @ unit_text d ''d'' @ unit_text h ''h'' @ unit_text mi ''m'' @ seconds_text secs s nsecs"
  let ?caps = "cap_if mi ''m'' (cap_if h ''h'' (cap_if d ''d'' (cap_if w ''w'' (cap_if y ''y'' Map.empty))))"
  define cap where "cap = seconds_caps secs s nsecs ?caps"
  have caps: "re_captures period_re ?t = Some cap"
    using period_re_matches [OF assms(1)] by (simp add: cap_def)
  have none: "\<forall>name\<in>{''s'', ''s_man'', ''s_fra'', ''ms'', ''us'', ''ns''}. ?caps name = None"
    by (simp add: cap_if_def)
  have large: "digits_value (cap_or ''0'' (cap ''y'')) = y" "digits_value (cap_or ''0'' (cap ''w'')) = w"
    "digits_value (cap_or ''0'' (cap ''d'')) = d" "digits_value (cap_or ''0'' (cap ''h'')) = h" "digits_value (cap_or ''0'' (cap ''m'')) = mi"
    unfolding cap_def by (simp_all add: seconds_caps_other) (simp_all add: cap_if_def cap_or_def digits_value_show digits_value_0)
  have s: "s \<le> secs"
    using assms(3) by simp
  note small = seconds_caps_values [OF assms(1) none s, folded cap_def]
  have seconds: "add_terms ?t
      [(''year(s)'', YR, cap_or ''0'' (cap ''y'')), (''week(s)'', WK, cap_or ''0'' (cap ''w'')),
       (''days(s)'', DY, cap_or ''0'' (cap ''d'')), (''hour(s)'', HR, cap_or ''0'' (cap ''h'')),
       (''minute(s)'', MN, cap_or ''0'' (cap ''m'')), (''seconds'', 1, cap_or (cap_or ''0'' (cap ''s_man'')) (cap ''s''))] 0 = Some (Ok secs)"
    by (subst add_terms_sum) (use assms(2,3) large small(1) in \<open>simp_all add: YR_def WK_def DY_def HR_def MN_def\<close>)
  have nanos: "add_terms ?t
      [(''fractional seconds'', 1, (case cap ''s_fra'' of None \<Rightarrow> ''0'' | Some f \<Rightarrow> fraction_digits f)),
       (''milliseconds'', 1000000, cap_or ''0'' (cap ''ms'')), (''microseconds'', 1000, cap_or ''0'' (cap ''us'')),
       (''nanoseconds'', 1, cap_or ''0'' (cap ''ns''))] 0 = Some (Ok nsecs)"
    by (subst add_terms_sum) (use assms(1) small(2) in simp_all)
  have "checked (secs + nsecs div 1000000000) = Some secs"
    using assms(1,2) by (simp add: checked_def)
  then show ?thesis
    using caps seconds nanos assms(1) by (simp add: period_from_str_def)
qed

text \<open>
  C36: The printed form of a period is read back to exactly this period, at full precision, for every
  duration that fits its type; neither the regular expression, the digit readers nor the checked
  sums of products fail or panic on it.
\<close>

theorem period_roundtrip:
  assumes "duration_valid (period_duration p)"
  shows "period_from_str (period_display p) = Some (Ok p)"
proof -
  let ?d = "period_duration p"
  let ?secs = "unat (as_secs ?d)" and ?nsecs = "unat (subsec_nanos ?d)"
  have "?secs < 2 ^ 64"
    using unsigned_less [of "as_secs ?d", where ?'a = nat] by simp
  from period_text_read [OF _ this split_seconds [symmetric], of ?nsecs] assms show ?thesis
    by (cases p) (simp add: period_display_def Let_def duration_valid_def)
qed

theorem period_roundtrip_witness:
  "period_from_str (period_display (Period \<lparr>as_secs = 31557661, subsec_nanos = 500000000\<rparr>))
     = Some (Ok (Period \<lparr>as_secs = 31557661, subsec_nanos = 500000000\<rparr>))"
  by (rule period_roundtrip) (simp add: duration_valid_def)

text \<open>
  C37: Converting a period to a timeout on a 64-bit machine gives exactly the milliseconds of the
  period, cut, and the greatest timeout when these come near the capacity of the type: the product
  and the sum never wrap. On a 32-bit machine, the WASM target, the seconds are cut to 32 bits before
  the comparison: a period of exactly \<open>2\<^sup>3\<^sup>2\<close> seconds becomes a timeout of no more than its milliseconds.
\<close>

theorem timeout_of_period_bounds:
  assumes "duration_valid (period_duration p)"
  defines "secs \<equiv> unat (as_secs (period_duration p))" and "ms \<equiv> unat (subsec_nanos (period_duration p)) div 1000000"
  shows "unat (timeout_of_period p :: 64 Timeout) = (if secs < (2 ^ 64 - 1) div 1000 then 1000 * secs + ms else 2 ^ 64 - 1)
    \<and> (secs = 2 ^ 32 \<longrightarrow> unat (timeout_of_period p :: 32 Timeout) = ms)"
proof -
  have ms: "ms < 1000"
    using assms(1) by (simp add: ms_def duration_valid_def less_mult_imp_div_less)
  have sub: "unat (subsec_millis (period_duration p)) = ms"
    by (simp add: subsec_millis_def ms_def unat_div)
  let ?w = "as_secs (period_duration p)"
  have lim: "unat ((- 1 :: 64 word) div 1000) = 18446744073709551"
    by (simp add: unat_div)
  have max: "unat (- 1 :: 64 word) = 2 ^ 64 - 1"
    by (simp only: unsigned_minus_1_eq_mask mask_eq_exp_minus_1) simp
  have "unat (timeout_of_period p :: 64 Timeout) = (if secs < (2 ^ 64 - 1) div 1000 then 1000 * secs + ms else 2 ^ 64 - 1)"
  proof (cases "secs < 18446744073709551")
    case True
    then have "\<not> (- 1 :: 64 word) div 1000 \<le> ?w"
      by (simp add: word_le_nat_alt lim secs_def)
    moreover have "unat (ucast (subsec_millis (period_duration p)) :: 64 word) = ms"
      using ms by (simp add: unsigned_ucast_eq take_bit_eq_mod sub)
    moreover have "unat (?w * 1000 :: 64 word) = 1000 * secs"
      using True by (simp add: unat_word_ariths secs_def)
    ultimately show ?thesis
      using True ms by (simp add: timeout_of_period_def Let_def unat_word_ariths)
  next
    case False
    then have "(- 1 :: 64 word) div 1000 \<le> ?w"
      by (simp add: word_le_nat_alt lim secs_def)
    then show ?thesis
      using False max by (simp add: timeout_of_period_def Let_def)
  qed
  moreover have "unat (timeout_of_period p :: 32 Timeout) = ms" if "secs = 2 ^ 32"
  proof -
    have "?w = 4294967296"
      using that unat_eq_nat_uint by (simp add: secs_def word_unat_eq_iff)
    then have "ucast ?w = (0 :: 32 word)"
      by simp
    then show ?thesis
      by (simp add: timeout_of_period_def Let_def sub)
  qed
  ultimately show ?thesis
    by blast
qed

theorem timeout_of_period_bounds_witness:
  "unat (timeout_of_period (Period \<lparr>as_secs = 4294967296, subsec_nanos = 5000000\<rparr>) :: 64 Timeout) = 4294967296005
     \<and> unat (timeout_of_period (Period \<lparr>as_secs = 4294967296, subsec_nanos = 5000000\<rparr>) :: 32 Timeout) = 5"
  using timeout_of_period_bounds [of "Period \<lparr>as_secs = 4294967296, subsec_nanos = 5000000\<rparr>"]
  by (simp add: duration_valid_def)


text \<open>
  The class of zone signs admits letters: a zone written with one of the letters from A to Y is read
  as a negative offset.
\<close>

lemma zone_letter_accepted:
  assumes "in_range CHR ''A'' CHR ''Y'' c"
  shows "map_option iso8601_timestamp (re_captures iso8601_re (''2018-10-11T03:23:38'' @ c # ''05:30''))
    = Some ''2018-10-11T03:23:38-05:30''"
proof -
  have c: "\<not> is_space c" "c \<noteq> CHR ''Z''" "c \<noteq> CHR ''z''" "c \<noteq> CHR ''+''" "c \<noteq> CHR ''.''" "c \<noteq> CHR '',''" "\<not> is_digit c"
    "in_range CHR ''+'' CHR 0x7F c"
    using assms by (auto simp: in_range_def is_space_def is_digit_def)
  have date: "re_match (Cap ''Z'' (Alt (one_of ''Zz'')
      (seqs [Cap ''Zsgn'' zone_sign, Cap ''Zhrs'' two_digits, Opt (Seq (Opt (exactly '':'')) (Cap ''Zmin'' two_digits))])))
      (c # ''05:30'') caps match_end = Some (caps(''Zsgn'' \<mapsto> [c], ''Zhrs'' \<mapsto> ''05'', ''Zmin'' \<mapsto> ''30'', ''Z'' \<mapsto> c # ''05:30''))" for caps
    using c by (simp add: one_of_def zone_sign_def between_def two_digits_def is_digit_def match_Opt exactly_def)
  then have zone: "re_match zone_part (c # ''05:30'') caps match_end
      = Some (caps(''Zsgn'' \<mapsto> [c], ''Zhrs'' \<mapsto> ''05'', ''Zmin'' \<mapsto> ''30'', ''Z'' \<mapsto> c # ''05:30''))" for caps
    by (simp add: zone_part_def match_Opt)
  have "re_captures iso8601_re (''2018-10-11T03:23:38'' @ c # ''05:30'')
      = Some ([''neg'' \<mapsto> [], ''Y'' \<mapsto> ''2018'', ''M'' \<mapsto> ''10'', ''D'' \<mapsto> ''11'', ''h'' \<mapsto> ''03'', ''m'' \<mapsto> ''23'', ''s'' \<mapsto> ''38'',
          ''Zsgn'' \<mapsto> [c], ''Zhrs'' \<mapsto> ''05'', ''Zmin'' \<mapsto> ''30'', ''Z'' \<mapsto> c # ''05:30''])"
    using c zone
    by (simp add: re_captures_def iso8601_re_def date_part_def time_part_def sixty_def two_digits_def exactly_def one_of_def between_def
        in_range_def is_digit_def match_Opt match_blanks is_space_def match_end_def [abs_def, symmetric])
  then show ?thesis
    using c by (simp add: iso8601_timestamp_def zone_text_def cap_or_def pad_left_def)
qed

end
