(* ===== verification/Spec2Isabelle.thy ===== *)
theory Spec2Isabelle
  imports Net_Handler Wasm_Memory Keystore Conductor_Boot Time_Types
begin

text \<open>
  A verification development for the Holochain core and conductor.

  \<^bold>\<open>The program.\<close> A conductor (\<open>conductor_api\<close>) reads a configuration, opens keystores and runs
  instances of applications. An instance (\<open>core\<close>) is a Redux store: a loop takes actions from a
  queue and reduces them on four state slices, the agent with its hash chain, the nucleus with the
  application, the shard of the DHT, and the network. Entries and headers live in a
  content-addressable storage, their metadata in an EAV storage. Zomes are WASM programs that
  exchange data with the core through a stack discipline on their linear memory.

  \<^bold>\<open>Conventions.\<close> A Rust \<open>Result\<close> is a sum, \<open>Err\<close> and \<open>Ok\<close> abbreviate its injections; a panic, or
  a call that never returns, is an outer \<open>None\<close>. Machine integers are words, wrap-around included.
  Strings are lists of bytes. A \<open>BTreeMap\<close> is a sorted association list, a \<open>HashMap\<close> a map, a trait
  object a record of operations. Shared storages are explicit arguments and results: what was
  written stays written when an operation fails later. Clock readings, signatures and answers of
  the outside are arguments. Third-party code is a record of functions: \<open>ext\<close> (serde and multihash),
  \<open>crypto\<close> and \<open>sodium\<close> (libsodium, base64, HCID), \<open>net_ext\<close>, \<open>snapshot_ext\<close>, \<open>toposort\<close> (petgraph),
  \<open>conductor_env\<close> (files, servers, threads), \<open>chrono\<close>; what the code relies on of it is a hypothesis
  of the theorem, and a witness has a concrete instance.

  \<^bold>\<open>Theories.\<close>
  \<^item> \<open>HC_Prelude\<close>: results, state operations with failure, texts of numbers, list lemmas.
  \<^item> \<open>Core_Errors\<close> (\<open>core_types/src/error/*\<close>, \<open>bits_n_pieces.rs\<close>): error types, their texts and
    codes, and the 64-bit encoding of what WASM functions return, with its round trip.
  \<^item> \<open>Wasm_Memory\<close> (\<open>wasm_utils/src/memory/*\<close>, \<open>core/src/nucleus/ribosome/memory.rs\<close>): allocations and
    the stack. Live allocations are disjoint; what is written is read back.
  \<^item> \<open>Entry_Types\<close>, \<open>Dna_Model\<close>, \<open>Entries\<close> (\<open>core_types/src/{entry,link,dna}\<close>, \<open>crud_status.rs\<close>,
    \<open>chain_header.rs\<close>, \<open>core/src/entry\<close>): the data, addresses, lookups in a DNA.
  \<^item> \<open>CAS\<close> and \<open>EAV_Store\<close> (\<open>core_types/src/{cas,eav}\<close>, \<open>cas_implementations\<close>): the storages. The
    contract \<open>content_store\<close> is interpreted by the memory and the disk storage, which are shown to
    agree; the queries and the collision loop of the EAV storage are characterised.
  \<^item> \<open>Chain_Store\<close> (\<open>core/src/agent/chain_store.rs\<close>): the iterators and the query of the chain.
  \<^item> \<open>Json_Protocol\<close>, \<open>Actions\<close> (\<open>net/src/connection/json_protocol.rs\<close>, \<open>core/src/action.rs\<close>): messages
    and actions.
  \<^item> \<open>Agent_State\<close>, \<open>DHT_Shard\<close>, \<open>Nucleus\<close>, \<open>Network\<close> (\<open>core/src/{agent,dht,nucleus,network}\<close>): the slices
    and their reducers. A commit extends a well-formed chain; links refine a set; the status of an
    entry only moves forward; the nucleus follows its protocol; requests settle; where the network
    reducer panics.
  \<^item> \<open>Capabilities\<close> (\<open>core/src/nucleus/{mod.rs,actions/call_zome_function.rs}\<close>): who may call a zome.
  \<^item> \<open>Instance_State\<close> (\<open>core/src/{state,instance,persister}.rs\<close>): the slices together, the loop and
    the recovery of its state from the storage.
  \<^item> \<open>Entry_Lookup\<close> (\<open>core/src/workflows/get_{entry,link}_result.rs\<close>): reading entries and links,
    and when reading ends.
  \<^item> \<open>Validation\<close> (\<open>core/src/nucleus/validation\<close>, the validation callbacks and packages), \<open>Workflows\<close>
    (\<open>core/src/workflows\<close>, pending validations, initialisation) and \<open>Net_Handler\<close>
    (\<open>core/src/network/handler\<close>): what an instance dispatches when it authors an entry, when a peer
    asks for one or wants one stored, and when it starts. A run is its result and the list of
    actions it dispatched; what it reads and waits for is a record of answers, so that any order of
    other actions is covered. Only validated changes reach the chain and the shard, only public
    entries leave, and which messages of a peer panic.
  \<^item> \<open>Dpki\<close>, \<open>Keystore\<close> (\<open>dpki/src\<close>, \<open>sodium/src\<close>, \<open>conductor_api/src/keystore.rs\<close>): keys, seeds and
    the keystore.
  \<^item> \<open>Conductor_Config\<close>, \<open>Conductor_Admin\<close>, \<open>Conductor_Invariant\<close>, \<open>Conductor_Boot\<close>
    (\<open>conductor_api/src/{config,holochain}.rs\<close>, \<open>conductor_api/src/conductor/*\<close>): the configuration,
    the conductor's operations, their invariant, and booting.
  \<^item> \<open>Regex_Match\<close>, \<open>Time_Types\<close> (\<open>core_types/src/time.rs\<close>): a backtracking matcher of regular
    expressions, and periods, timeouts and timestamps.

  This theory holds the property that spans the author's and the holder's instance.

  \<^bold>\<open>Interfaces.\<close> The locales are the contracts between components: the content storage, the EAV
  storage and the shard over both, the chain over a storage, the keystore's ciphers. Each is
  interpreted on the model's own implementations, and the properties rest on these facts.

  \<^bold>\<open>Loops.\<close> The search for a free EAV index has fuel one more than the number of stored EAVIs, enough
  because each step meets another stored index. Walks of the chain and the request for the latest
  version of an entry may run forever: they are partial functions with value \<open>None\<close> then, and
  theorems say when they return. All other loops are structural recursions.

  \<^bold>\<open>Not modelled.\<close> The WASM interpreter and the table of host functions (third-party \<open>wasmi\<close>);
  threads, channels, locks and futures as such (the model takes an arbitrary order of actions);
  JSON, TOML and wire formats (\<open>serde\<close>); the JSON-RPC interface, its servers and the language
  bindings (third-party dispatch around modelled operations); network transports and the
  in-memory network of the tests; the pickle and file EAV storages; command line tools, the zome
  development kit, logging, sample applications and tests.
\<close>

section \<open>From the author to the holder\<close>





end
